(* ===== verification/SG_Prelude.thy ===== *)
theory SG_Prelude
  imports Main "HOL-Library.Sublist" "HOL-Library.Char_ord" "HOL-Library.List_Lexorder"
    "HOL-Library.Product_Lexorder" "HOL-Library.Multiset"
begin

text \<open>
  Shared vocabulary of the development: the exceptions the Python code raises, as a sum type;
  decimal digits and the string operations of the standard library that the sources call;
  stable descending sort (\<open>sorted(..., reverse=True)\<close>); and tables, that is lists of rows with
  a primary key, the shape in which every database table is modelled.

  Strings are UTF-8 byte sequences.  UTF-8 is self-synchronising and order preserving, so
  equality, substring search and comparison of byte sequences agree with Python's operations on
  code points.  \<open>str.casefold\<close> is modelled on the ASCII letters; the identifiers, status words
  and policy terms the sources fold are ASCII or come from scripts without case.
\<close>

section \<open>Exceptions\<close>

datatype error =
    RuntimeConflict string
  | ValueError string
  | ValidationError string
  | KeyError string
  | AttributeError
  | TypeError
  | IntegrityError string
  | MultipleResultsFound
  | ActionPipelineError string "string option"
  | RuntimeError string
  | CanonicalEventHeadConflict string
  | OverflowError
  | PermissionError string
  | DomainError string

type_synonym 'a result = "error + 'a"

named_theorems table_simps \<open>lookup and update laws of tables\<close>
named_theorems guard_simps \<open>what a successful guarded operation has checked\<close>

lemma result_cases_Inr [elim]:
  assumes "(case r of Inl e \<Rightarrow> Inl e | Inr x \<Rightarrow> f x) = Inr y"
  obtains x where "r = Inr x" "f x = Inr y"
  using assms by (cases r) auto

text \<open>A guarded computation succeeds exactly when its guards hold.\<close>

lemma guard_if [guard_simps]: "(if c then Inl e else x) = Inr y \<longleftrightarrow> \<not> c \<and> x = Inr y"
  by auto

lemma guard_option [guard_simps]:
  "(case r of None \<Rightarrow> Inl e | Some x \<Rightarrow> f x) = Inr y \<longleftrightarrow> (\<exists>x. r = Some x \<and> f x = Inr y)"
  by (cases r) auto

lemma guard_sum [guard_simps]:
  "(case r of Inl e \<Rightarrow> Inl e | Inr x \<Rightarrow> f x) = Inr y \<longleftrightarrow> (\<exists>x. r = Inr x \<and> f x = Inr y)"
  by (cases r) auto

section \<open>Loops over lists that may raise\<close>

fun mapE :: "('a \<Rightarrow> 'e + 'b) \<Rightarrow> 'a list \<Rightarrow> 'e + 'b list" where
  "mapE f [] = Inr []"
| "mapE f (x # xs) =
     (case f x of Inl e \<Rightarrow> Inl e
      | Inr y \<Rightarrow> (case mapE f xs of Inl e \<Rightarrow> Inl e | Inr ys \<Rightarrow> Inr (y # ys)))"

text \<open>\<open>next((x for x in xs if p(x)), None)\<close> where evaluating \<open>p\<close> may raise.\<close>

fun findE :: "('a \<Rightarrow> 'e + bool) \<Rightarrow> 'a list \<Rightarrow> 'e + 'a option" where
  "findE p [] = Inr None"
| "findE p (x # xs) =
     (case p x of Inl e \<Rightarrow> Inl e | Inr True \<Rightarrow> Inr (Some x) | Inr False \<Rightarrow> findE p xs)"

text \<open>A sequence of operations on a state, stopped by the first that raises.\<close>

fun foldE :: "('a \<Rightarrow> 's \<Rightarrow> 'e + 's) \<Rightarrow> 'a list \<Rightarrow> 's \<Rightarrow> 'e + 's" where
  "foldE f [] s = Inr s"
| "foldE f (x # xs) s = (case f x s of Inl e \<Rightarrow> Inl e | Inr s' \<Rightarrow> foldE f xs s')"

lemma mapE_cong [fundef_cong]:
  "xs = ys \<Longrightarrow> (\<And>x. x \<in> set ys \<Longrightarrow> f x = g x) \<Longrightarrow> mapE f xs = mapE g ys"
proof (induction xs arbitrary: ys)
  case (Cons x xs)
  then have "f x = g x" "mapE f xs = mapE g xs" by auto
  with Cons.prems(1) show ?case by (auto split: sum.split)
qed simp

lemma mapE_length: "mapE f xs = Inr ys \<Longrightarrow> length ys = length xs"
  by (induction xs arbitrary: ys) (auto split: sum.splits)

lemma mapE_nth:
  "mapE f xs = Inr ys \<Longrightarrow> i < length xs \<Longrightarrow> f (xs ! i) = Inr (ys ! i)"
  by (induction xs arbitrary: ys i) (auto simp: less_Suc_eq_0_disj split: sum.splits)

lemma mapE_list_all2: "mapE f xs = Inr ys \<Longrightarrow> list_all2 (\<lambda>x y. f x = Inr y) xs ys"
  by (auto simp: list_all2_conv_all_nth mapE_length mapE_nth)

lemma mapE_in:
  assumes "mapE f xs = Inr ys" "y \<in> set ys"
  shows "\<exists>x \<in> set xs. f x = Inr y"
proof -
  from assms(2) obtain i where i: "i < length ys" "y = ys ! i" by (auto simp: in_set_conv_nth)
  with assms(1) have "f (xs ! i) = Inr y" by (simp add: mapE_nth mapE_length)
  with i mapE_length [OF assms(1)] show ?thesis by auto
qed

lemma mapE_in_arg:
  assumes "mapE f xs = Inr ys" "x \<in> set xs"
  shows "\<exists>y \<in> set ys. f x = Inr y"
proof -
  from assms(2) obtain i where i: "i < length xs" "x = xs ! i" by (auto simp: in_set_conv_nth)
  with assms(1) have "f x = Inr (ys ! i)" by (simp add: mapE_nth)
  with i mapE_length [OF assms(1)] show ?thesis by auto
qed

lemma mapE_Inr: "(\<And>x. x \<in> set xs \<Longrightarrow> f x = Inr (g x)) \<Longrightarrow> mapE f xs = Inr (map g xs)"
  by (induction xs) auto

lemma findE_Some:
  "findE p xs = Inr (Some x) \<Longrightarrow> x \<in> set xs \<and> p x = Inr True"
  by (induction xs) (auto split: sum.splits bool.splits)

lemma findE_None: "findE p xs = Inr None \<Longrightarrow> x \<in> set xs \<Longrightarrow> p x = Inr False"
  by (induction xs) (auto split: sum.splits bool.splits)

lemma list_all2_right: "list_all2 P xs ys \<Longrightarrow> y \<in> set ys \<Longrightarrow> \<exists>x \<in> set xs. P x y"
  by (induction rule: list_all2_induct) auto

lemma image_disjointI: "(\<And>x. x \<in> A \<Longrightarrow> f x \<notin> B) \<Longrightarrow> B \<inter> f ` A = {}"
  by auto

lemma distinct_append_keys:
  assumes "distinct (map key rows)" "distinct (map key new)" "\<forall>r \<in> set new. key r \<notin> key ` set rows"
  shows "distinct (map key (rows @ new))"
proof -
  have "key ` set rows \<inter> key ` set new = {}" using assms(3) by (intro image_disjointI) blast
  with assms(1,2) show ?thesis by simp
qed

section \<open>Strings\<close>

definition digit_char :: "nat \<Rightarrow> char" where
  "digit_char d = char_of (48 + d)"

definition char_digit :: "char \<Rightarrow> nat option" where
  "char_digit c =
     (let n = of_char c :: nat in if 48 \<le> n \<and> n \<le> 57 then Some (n - 48) else None)"

lemma char_digit_digit_char [simp]: "d < 10 \<Longrightarrow> char_digit (digit_char d) = Some d"
  by (simp add: char_digit_def digit_char_def of_char_of Let_def)

fun show_nat :: "nat \<Rightarrow> string" where
  "show_nat n = (if n < 10 then [digit_char n] else show_nat (n div 10) @ [digit_char (n mod 10)])"

declare show_nat.simps [simp del]

definition show_int :: "int \<Rightarrow> string" where
  "show_int i = (if i < 0 then CHR ''-'' # show_nat (nat (- i)) else show_nat (nat i))"

text \<open>Zero-padded decimal output of a given width (\<open>f"{n:0w}"\<close>), and its reader.\<close>

primrec pad_nat :: "nat \<Rightarrow> nat \<Rightarrow> string" where
  "pad_nat 0 n = []"
| "pad_nat (Suc w) n = pad_nat w (n div 10) @ [digit_char (n mod 10)]"

definition read_step :: "nat option \<Rightarrow> char \<Rightarrow> nat option" where
  "read_step acc c =
     (case acc of None \<Rightarrow> None
      | Some a \<Rightarrow> (case char_digit c of None \<Rightarrow> None | Some d \<Rightarrow> Some (10 * a + d)))"

definition read_nat :: "string \<Rightarrow> nat option" where
  "read_nat s = (if s = [] then None else foldl read_step (Some 0) s)"

lemma pad_nat_numeral:
  "pad_nat (numeral k) n = pad_nat (pred_numeral k) (n div 10) @ [digit_char (n mod 10)]"
  unfolding numeral_eq_Suc [of k] by (rule pad_nat.simps(2))

lemma length_pad_nat [simp]: "length (pad_nat w n) = w"
  by (induction w arbitrary: n) auto

lemma foldl_read_pad: "n < 10 ^ w \<Longrightarrow> foldl read_step (Some 0) (pad_nat w n) = Some n"
proof (induction w arbitrary: n)
  case 0
  then show ?case by simp
next
  case (Suc w)
  then have "n div 10 < 10 ^ w" by (simp add: less_mult_imp_div_less mult.commute)
  then show ?case
    using Suc.IH [of "n div 10"] by (simp add: read_step_def)
qed

lemma read_nat_pad_nat [simp]: "0 < w \<Longrightarrow> n < 10 ^ w \<Longrightarrow> read_nat (pad_nat w n) = Some n"
  using length_pad_nat [of w n]
  by (auto simp: read_nat_def foldl_read_pad simp del: length_pad_nat)

lemma pad_nat_digits: "c \<in> set (pad_nat w n) \<Longrightarrow> \<exists>d. d < 10 \<and> c = digit_char d"
proof (induction w arbitrary: n)
  case (Suc w)
  show ?case
  proof (cases "c \<in> set (pad_nat w (n div 10))")
    case True
    then show ?thesis by (rule Suc.IH)
  next
    case False
    with Suc.prems have "c = digit_char (n mod 10)" by simp
    then show ?thesis by (intro exI [of _ "n mod 10"]) simp
  qed
qed simp

definition ascii_lower :: "char \<Rightarrow> char" where
  "ascii_lower c =
     (let n = of_char c :: nat in if 65 \<le> n \<and> n \<le> 90 then char_of (n + 32) else c)"

definition casefold :: "string \<Rightarrow> string" where
  "casefold s = map ascii_lower s"

lemma ascii_lower_idem [simp]: "ascii_lower (ascii_lower c) = ascii_lower c"
  by (auto simp: ascii_lower_def Let_def of_char_of)

lemma casefold_idem [simp]: "casefold (casefold s) = casefold s"
  by (simp add: casefold_def)

lemma length_casefold [simp]: "length (casefold s) = length s"
  by (simp add: casefold_def)

text \<open>\<open>len(s)\<close> counts characters: the bytes that do not continue a UTF-8 sequence.\<close>

definition py_len :: "string \<Rightarrow> nat" where
  "py_len s = length (filter (\<lambda>c. (of_char c :: nat) div 64 \<noteq> 2) s)"

text \<open>Lower-case hexadecimal digests, the pattern \<open>^[0-9a-f]{64}$\<close> of the pydantic fields.\<close>

definition is_hex :: "char \<Rightarrow> bool" where
  "is_hex c = (let n = of_char c :: nat in (48 \<le> n \<and> n \<le> 57) \<or> (97 \<le> n \<and> n \<le> 102))"

definition is_hex64 :: "string \<Rightarrow> bool" where
  "is_hex64 s = (length s = 64 \<and> list_all is_hex s)"

text \<open>\<open>s.split(c)\<close> for a one-character separator: never empty.\<close>

fun split_on :: "'a \<Rightarrow> 'a list \<Rightarrow> 'a list list" where
  "split_on c [] = [[]]"
| "split_on c (x # xs) =
     (if x = c then [] # split_on c xs
      else (case split_on c xs of [] \<Rightarrow> [[x]] | w # ws \<Rightarrow> (x # w) # ws))"

lemma split_on_nonempty [simp]: "split_on c xs \<noteq> []"
  by (induction xs) (auto split: list.splits)

section \<open>Stable descending sort\<close>

text \<open>\<open>sorted(xs, key=k, reverse=True)\<close> keeps the original order of elements with equal keys.\<close>

definition sort_desc :: "('a \<Rightarrow> 'k::linorder) \<Rightarrow> 'a list \<Rightarrow> 'a list" where
  "sort_desc k xs = rev (sort_key k (rev xs))"

lemma mset_sort_desc [simp]: "mset (sort_desc k xs) = mset xs"
  by (simp add: sort_desc_def)

lemma set_sort_desc [simp]: "set (sort_desc k xs) = set xs"
  by (simp add: sort_desc_def)

lemma length_sort_desc [simp]: "length (sort_desc k xs) = length xs"
  by (simp add: sort_desc_def)

lemma sort_desc_Nil_iff [simp]: "sort_desc k xs = [] \<longleftrightarrow> xs = []"
  by (metis length_0_conv length_sort_desc)

lemma sorted_sort_desc: "sorted (rev (map k (sort_desc k xs)))"
  by (simp add: sort_desc_def rev_map)

lemma sort_desc_hd_max:
  assumes "x \<in> set xs" "sort_desc k xs = y # ys"
  shows "k x \<le> k y"
proof -
  have "sorted (map k (rev ys) @ [k y])"
    using sorted_sort_desc [of k xs] assms(2) by (simp add: rev_map)
  moreover have "x \<in> set (y # ys)"
    using assms by (metis set_sort_desc)
  ultimately show ?thesis by (auto simp: sorted_append)
qed

lemma sort_desc_stable: "filter (\<lambda>x. k x = v) (sort_desc k xs) = filter (\<lambda>x. k x = v) xs"
  by (simp add: sort_desc_def rev_filter [symmetric] sort_key_stable)

section \<open>Ordered de-duplication and sorted sets\<close>

text \<open>\<open>sorted(set(xs))\<close>.\<close>

definition sorted_set :: "'a::linorder list \<Rightarrow> 'a list" where
  "sorted_set xs = sort (remdups xs)"

lemma set_sorted_set [simp]: "set (sorted_set xs) = set xs"
  by (simp add: sorted_set_def)

lemma sorted_sorted_set [simp]: "sorted (sorted_set xs)"
  by (simp add: sorted_set_def)

lemma distinct_sorted_set [simp]: "distinct (sorted_set xs)"
  by (simp add: sorted_set_def)

section \<open>Tables\<close>

definition lookup_by :: "('r \<Rightarrow> 'k) \<Rightarrow> 'k \<Rightarrow> 'r list \<Rightarrow> 'r option" where
  "lookup_by key k rows = find (\<lambda>r. key r = k) rows"

definition update_by :: "('r \<Rightarrow> 'k) \<Rightarrow> 'k \<Rightarrow> ('r \<Rightarrow> 'r) \<Rightarrow> 'r list \<Rightarrow> 'r list" where
  "update_by key k f rows = map (\<lambda>r. if key r = k then f r else r) rows"

definition insert_row :: "('r \<Rightarrow> 'k) \<Rightarrow> 'r \<Rightarrow> 'r list \<Rightarrow> 'r list result" where
  "insert_row key r rows =
     (if key r \<in> key ` set rows then Inl (IntegrityError ''primary key'') else Inr (rows @ [r]))"

lemma lookup_by_Some:
  "lookup_by key k rows = Some r \<Longrightarrow> r \<in> set rows \<and> key r = k"
  unfolding lookup_by_def by (auto simp: find_Some_iff)

lemma lookup_by_None: "lookup_by key k rows = None \<longleftrightarrow> k \<notin> key ` set rows"
  unfolding lookup_by_def by (auto simp: find_None_iff)

lemma lookup_by_append:
  "lookup_by key k (xs @ ys) =
     (case lookup_by key k xs of None \<Rightarrow> lookup_by key k ys | Some r \<Rightarrow> Some r)"
  by (induction xs) (auto simp: lookup_by_def)

lemma lookup_by_update_by [table_simps]:
  assumes "\<And>r. key (f r) = key r"
  shows "lookup_by key k' (update_by key k f rows) =
    (if k = k' then map_option f (lookup_by key k' rows) else lookup_by key k' rows)"
  using assms by (induction rows) (auto simp: lookup_by_def update_by_def)

lemma update_by_keys [table_simps]:
  assumes "\<And>r. key (f r) = key r"
  shows "map key (update_by key k f rows) = map key rows"
  using assms by (simp add: update_by_def)

lemma length_update_by [table_simps]: "length (update_by key k f rows) = length rows"
  by (simp add: update_by_def)

lemma in_update_by:
  "r \<in> set (update_by key k f rows) \<longleftrightarrow>
     (\<exists>r0 \<in> set rows. r = (if key r0 = k then f r0 else r0))"
  unfolding update_by_def by (simp only: set_map image_iff)

lemma insert_row_Inr [guard_simps]:
  "insert_row key r rows = Inr rows' \<longleftrightarrow> key r \<notin> key ` set rows \<and> rows' = rows @ [r]"
  by (auto simp: insert_row_def)

lemma insert_row_distinct:
  "insert_row key r rows = Inr rows' \<Longrightarrow> distinct (map key rows) \<Longrightarrow> distinct (map key rows')"
  by (auto simp: insert_row_Inr)

lemma lookup_by_insert_row [table_simps]:
  assumes "insert_row key r rows = Inr rows'"
  shows "lookup_by key k rows' = (if k = key r then Some r else lookup_by key k rows)"
proof -
  from assms have fresh: "key r \<notin> key ` set rows" and rows': "rows' = rows @ [r]"
    by (simp_all add: insert_row_Inr)
  have single: "lookup_by key k [r] = (if k = key r then Some r else None)"
    by (auto simp: lookup_by_def)
  show ?thesis unfolding rows'
  proof (cases "k = key r")
    case True
    with fresh have "lookup_by key k rows = None" by (simp add: lookup_by_None)
    with single True show "lookup_by key k (rows @ [r]) = (if k = key r then Some r else lookup_by key k rows)"
      by (simp add: lookup_by_append)
  next
    case False
    with single show "lookup_by key k (rows @ [r]) = (if k = key r then Some r else lookup_by key k rows)"
      by (simp add: lookup_by_append split: option.splits)
  qed
qed

lemma lookup_by_distinct:
  assumes "distinct (map key rows)" "r \<in> set rows"
  shows "lookup_by key (key r) rows = Some r"
  using assms by (induction rows) (auto simp: lookup_by_def)

lemma filter_key_one:
  assumes "distinct (map key rows)" "k \<in> key ` set rows"
  shows "length (filter (\<lambda>r. key r = k) rows) = 1"
proof -
  obtain r where r: "r \<in> set rows" "key r = k" using assms(2) by auto
  have "\<forall>x \<in> set rows. key x = k \<longleftrightarrow> x = r" using assms(1) r by (auto simp: distinct_map dest: inj_onD)
  then have "filter (\<lambda>x. key x = k) rows = filter (\<lambda>x. x = r) rows" by (intro filter_cong) auto
  moreover have "distinct rows" using assms(1) by (simp add: distinct_map)
  ultimately show ?thesis using r(1) distinct_length_filter [of rows "\<lambda>x. x = r"] by (simp add: Collect_conv_if)
qed

lemma find_unique_iff:
  assumes "distinct (map key rows)" "\<And>r. P r \<Longrightarrow> key r = k"
  shows "find P rows = Some r \<longleftrightarrow> r \<in> set rows \<and> P r"
proof
  assume "r \<in> set rows \<and> P r"
  then obtain r' where r': "find P rows = Some r'" by (cases "find P rows") (auto simp: find_None_iff)
  then have "r' \<in> set rows" "P r'" by (auto simp: find_Some_iff)
  moreover have "inj_on key (set rows)" using assms(1) by (simp add: distinct_map)
  ultimately have "r' = r" using \<open>r \<in> set rows \<and> P r\<close> assms(2) by (auto dest: inj_onD)
  with r' show "find P rows = Some r" by simp
qed (auto simp: find_Some_iff)

lemma find_eqI_unique:
  assumes "distinct (map key rows)" "distinct (map key rows')"
    "\<And>r. P r \<Longrightarrow> key r = k" "\<And>r. Q r \<Longrightarrow> key r = k"
    "\<And>r. r \<in> set rows \<and> P r \<longleftrightarrow> r \<in> set rows' \<and> Q r"
  shows "find P rows = find Q rows'"
proof (cases "find Q rows'")
  case None
  then have "\<not> (\<exists>r. r \<in> set rows \<and> P r)" using assms(5) by (auto simp: find_None_iff)
  then have "find P rows = None" by (auto simp: find_None_iff)
  with None show ?thesis by simp
next
  case (Some r)
  then have "r \<in> set rows' \<and> Q r" by (simp add: find_unique_iff [OF assms(2,4)])
  with assms(5) Some show ?thesis by (simp add: find_unique_iff [OF assms(1,3)])
qed

text \<open>\<open>SELECT max(f)\<close> and \<open>SELECT min(f)\<close>: \<open>None\<close> over no row.\<close>

definition max_of :: "('r \<Rightarrow> 'v::linorder) \<Rightarrow> 'r list \<Rightarrow> 'v option" where
  "max_of f rows = (case rows of [] \<Rightarrow> None | _ \<Rightarrow> Some (fold max (map f (tl rows)) (f (hd rows))))"

definition min_of :: "('r \<Rightarrow> 'v::linorder) \<Rightarrow> 'r list \<Rightarrow> 'v option" where
  "min_of f rows = (case rows of [] \<Rightarrow> None | _ \<Rightarrow> Some (fold min (map f (tl rows)) (f (hd rows))))"

lemma fold_max_ge: "(x::'v::linorder) \<in> set (a # xs) \<Longrightarrow> x \<le> fold max xs a"
proof (induction xs arbitrary: a x)
  case (Cons b xs)
  have le: "max b a \<le> fold max xs (max b a)" by (rule Cons.IH) simp
  from Cons.prems consider "x = a" | "x = b" | "x \<in> set xs" by auto
  then show ?case
    using le Cons.IH [of x "max b a"] by cases auto
qed simp

lemma fold_max_in: "fold max xs (a::'v::linorder) \<in> set (a # xs)"
  by (induction xs arbitrary: a) (auto, metis max_def)

lemma fold_min_le: "(x::'v::linorder) \<in> set (a # xs) \<Longrightarrow> fold min xs a \<le> x"
proof (induction xs arbitrary: a x)
  case (Cons b xs)
  have le: "fold min xs (min b a) \<le> min b a" by (rule Cons.IH) simp
  from Cons.prems consider "x = a" | "x = b" | "x \<in> set xs" by auto
  then show ?case
    using le Cons.IH [of x "min b a"] by cases auto
qed simp

lemma fold_min_in: "fold min xs (a::'v::linorder) \<in> set (a # xs)"
  by (induction xs arbitrary: a) (auto, metis min_def)

lemma max_of_ge: "max_of f rows = Some m \<Longrightarrow> r \<in> set rows \<Longrightarrow> f r \<le> m"
  by (cases rows) (auto simp: max_of_def intro!: fold_max_ge)

lemma max_of_in: "max_of f rows = Some m \<Longrightarrow> \<exists>r \<in> set rows. f r = m"
proof (cases rows)
  case (Cons r rs)
  moreover assume "max_of f rows = Some m"
  ultimately have "m \<in> set (map f rows)" using fold_max_in [of "map f rs" "f r"]
    by (auto simp: max_of_def)
  then show ?thesis by auto
qed (simp add: max_of_def)

lemma max_of_None [simp]: "max_of f rows = None \<longleftrightarrow> rows = []"
  by (cases rows) (auto simp: max_of_def)

lemma min_of_le: "min_of f rows = Some m \<Longrightarrow> r \<in> set rows \<Longrightarrow> m \<le> f r"
  by (cases rows) (auto simp: min_of_def intro!: fold_min_le)

lemma min_of_in: "min_of f rows = Some m \<Longrightarrow> \<exists>r \<in> set rows. f r = m"
proof (cases rows)
  case (Cons r rs)
  moreover assume "min_of f rows = Some m"
  ultimately have "m \<in> set (map f rows)" using fold_min_in [of "map f rs" "f r"]
    by (auto simp: min_of_def)
  then show ?thesis by auto
qed (simp add: min_of_def)

lemma min_of_None [simp]: "min_of f rows = None \<longleftrightarrow> rows = []"
  by (cases rows) (auto simp: min_of_def)

section \<open>Interfaces shared by the components\<close>

text \<open>
  The contract every ledger operation has with the fence: an operation starts by asserting the
  caller's lease, so it fails exactly as the assertion fails.  The client facts are proved once
  here; each fenced operation of the model interprets the locale.
\<close>

locale fenced_operation =
  fixes guard :: "'db \<Rightarrow> 'lease \<Rightarrow> 'e + 'job"
    and operation :: "'db \<Rightarrow> 'lease \<Rightarrow> 'arg \<Rightarrow> 'e + 'out"
  assumes guarded: "guard db l = Inl e \<Longrightarrow> operation db l a = Inl e"
begin

lemma success_guarded: "operation db l a = Inr r \<Longrightarrow> \<exists>j. guard db l = Inr j"
  using guarded by (cases "guard db l") auto

lemma stale_never_succeeds: "guard db l = Inl e \<Longrightarrow> operation db l a \<noteq> Inr r"
  using guarded by simp

end

text \<open>
  A budget: a counter that a successful step advances by one, only below its limit, and that no
  step lowers.  Any run of steps then stays within the limit, and at most
  \<open>limit - start\<close> steps succeed.
\<close>

locale budget_counter =
  fixes counter :: "'db \<Rightarrow> nat"
    and step :: "'arg \<Rightarrow> 'db \<Rightarrow> 'e + 'db"
    and limit :: nat
  assumes step_below: "step a db = Inr db' \<Longrightarrow> counter db < limit"
    and step_counts: "step a db = Inr db' \<Longrightarrow> counter db' = Suc (counter db)"
begin

lemma run_counts: "foldE step as db = Inr db' \<Longrightarrow> counter db' = counter db + length as"
  by (induction as arbitrary: db) (auto dest: step_counts split: sum.splits)

lemma run_within_limit:
  assumes "foldE step as db = Inr db'" "counter db \<le> limit"
  shows "counter db' \<le> limit"
  using assms
proof (induction as arbitrary: db)
  case (Cons a as)
  then obtain db1 where s: "step a db = Inr db1" and r: "foldE step as db1 = Inr db'"
    by (auto split: sum.splits)
  from s have "counter db1 \<le> limit" using step_below step_counts by fastforce
  with r show ?case by (rule Cons.IH)
qed simp

lemma run_length_bounded:
  assumes "foldE step as db = Inr db'" "counter db \<le> limit"
  shows "length as \<le> limit - counter db"
  using run_counts [OF assms(1)] run_within_limit [OF assms] by simp

lemma exhausted: "limit \<le> counter db \<Longrightarrow> \<exists>e. step a db = Inl e"
  by (metis step_below leD sumE)

end

text \<open>
  A step relation with an invariant.  Every state a sequence of steps reaches has the invariant, and
  a fact that each step keeps in the presence of the invariant stays true along the sequence.
\<close>

locale invariant_steps =
  fixes step :: "'s \<Rightarrow> 's \<Rightarrow> bool"
    and inv :: "'s \<Rightarrow> bool"
  assumes step_inv: "step s s' \<Longrightarrow> inv s \<Longrightarrow> inv s'"
begin

lemma steps_inv: "step\<^sup>*\<^sup>* s s' \<Longrightarrow> inv s \<Longrightarrow> inv s'"
  by (induction rule: rtranclp_induct) (auto dest: step_inv)

lemma steps_keep:
  assumes "step\<^sup>*\<^sup>* s s'" "inv s" "P s" "\<And>t t'. step t t' \<Longrightarrow> inv t \<Longrightarrow> P t \<Longrightarrow> P t'"
  shows "P s'"
  using assms(1)
proof (induction rule: rtranclp_induct)
  case (step t t')
  then show ?case using assms(4) steps_inv [OF step.hyps(1) assms(2)] by blast
qed (rule assms(3))

end

end
