(* ===== verification/Py_Time.thy ===== *)
theory Py_Time
  imports SG_Prelude
begin

text \<open>
  Python's \<open>datetime\<close> as the sources use it, and \<open>contracts/timestamps.py\<close>.

  A \<open>datetime\<close> is its civil fields plus an optional UTC offset (\<open>None\<close> for a naive value), as the
  Python object is.  Comparison and subtraction of aware values go through \<open>instant\<close>, the number
  of microseconds since 0001-01-01T00:00 UTC.  \<open>fromisoformat\<close> is modelled on the extended ISO
  8601 forms that \<open>isoformat\<close> and PostgreSQL produce; the compact and week-date forms that newer
  Python releases also read are outside the model and rejected.
\<close>

section \<open>The proleptic Gregorian calendar\<close>

record pydatetime =
  dt_year :: nat
  dt_month :: nat
  dt_day :: nat
  dt_hour :: nat
  dt_minute :: nat
  dt_second :: nat
  dt_micro :: nat
  dt_offset :: "int option"  \<comment> \<open>microseconds east of UTC; \<open>None\<close> is naive\<close>

definition is_leap :: "nat \<Rightarrow> bool" where
  "is_leap y = (y mod 4 = 0 \<and> (y mod 100 \<noteq> 0 \<or> y mod 400 = 0))"

definition days_in_month :: "nat \<Rightarrow> nat \<Rightarrow> nat" where
  "days_in_month y m =
     (if m = 2 \<and> is_leap y then 29 else [0, 31, 28, 31, 30, 31, 30, 31, 31, 30, 31, 30, 31] ! m)"

definition days_before_month :: "nat \<Rightarrow> nat \<Rightarrow> nat" where
  "days_before_month y m = sum_list (map (days_in_month y) [1..<m])"

definition days_before_year :: "nat \<Rightarrow> nat" where
  "days_before_year y = (y - 1) * 365 + (y - 1) div 4 - (y - 1) div 100 + (y - 1) div 400"

definition ymd2ord :: "nat \<Rightarrow> nat \<Rightarrow> nat \<Rightarrow> nat" where
  "ymd2ord y m d = days_before_year y + days_before_month y m + d"

definition valid_date :: "nat \<Rightarrow> nat \<Rightarrow> nat \<Rightarrow> bool" where
  "valid_date y m d =
     (1 \<le> y \<and> y \<le> 9999 \<and> 1 \<le> m \<and> m \<le> 12 \<and> 1 \<le> d \<and> d \<le> days_in_month y m)"

definition valid_time :: "nat \<Rightarrow> nat \<Rightarrow> nat \<Rightarrow> nat \<Rightarrow> bool" where
  "valid_time h mi s us = (h < 24 \<and> mi < 60 \<and> s < 60 \<and> us < 1000000)"

definition valid_datetime :: "pydatetime \<Rightarrow> bool" where
  "valid_datetime t =
     (valid_date (dt_year t) (dt_month t) (dt_day t) \<and>
      valid_time (dt_hour t) (dt_minute t) (dt_second t) (dt_micro t))"

definition day_micros :: int where
  "day_micros = 86400000000"

definition time_micros :: "pydatetime \<Rightarrow> int" where
  "time_micros t =
     int (((dt_hour t * 60 + dt_minute t) * 60 + dt_second t) * 1000000 + dt_micro t)"

definition wall_micros :: "pydatetime \<Rightarrow> int" where
  "wall_micros t =
     int (ymd2ord (dt_year t) (dt_month t) (dt_day t)) * day_micros + time_micros t"

definition instant :: "pydatetime \<Rightarrow> int" where
  "instant t = wall_micros t - (case dt_offset t of None \<Rightarrow> 0 | Some f \<Rightarrow> f)"

definition is_aware :: "pydatetime \<Rightarrow> bool" where
  "is_aware t = (dt_offset t \<noteq> None)"

definition replace_utc :: "pydatetime \<Rightarrow> pydatetime" where
  "replace_utc t = t\<lparr>dt_offset := Some 0\<rparr>"

text \<open>\<open>date.fromordinal\<close>, by the library's own division chain.\<close>

definition month_of_day :: "nat \<Rightarrow> nat \<Rightarrow> nat \<times> nat" where
  "month_of_day y n =
     (let m = (n + 50) div 32
      in if n < days_before_month y m
         then (m - 1, n - days_before_month y (m - 1) + 1)
         else (m, n - days_before_month y m + 1))"

definition ord2ymd :: "nat \<Rightarrow> nat \<times> nat \<times> nat" where
  "ord2ymd ord =
     (let n0 = ord - 1;
          n400 = n0 div 146097; r400 = n0 mod 146097;
          n100 = r400 div 36524; r100 = r400 mod 36524;
          n4 = r100 div 1461; r4 = r100 mod 1461;
          n1 = r4 div 365; r1 = r4 mod 365;
          y = n400 * 400 + n100 * 100 + n4 * 4 + n1 + 1
      in if n1 = 4 \<or> n100 = 4 then (y - 1, 12, 31)
         else (let md = month_of_day y r1 in (y, fst md, snd md)))"

definition of_wall_utc :: "int \<Rightarrow> pydatetime" where
  "of_wall_utc w =
     (let ymd = ord2ymd (nat (w div day_micros)); r = nat (w mod day_micros)
      in \<lparr>dt_year = fst ymd, dt_month = fst (snd ymd), dt_day = snd (snd ymd),
          dt_hour = r div 3600000000, dt_minute = r div 60000000 mod 60,
          dt_second = r div 1000000 mod 60, dt_micro = r mod 1000000, dt_offset = Some 0\<rparr>)"

text \<open>
  \<open>value.astimezone(UTC)\<close> of an aware value: the same object when it already is UTC, else the
  fields of its instant (\<open>OverflowError\<close>, when the instant leaves years 1 to 9999, is outside the
  model).
\<close>

definition astimezone_utc :: "pydatetime \<Rightarrow> pydatetime" where
  "astimezone_utc t = (if dt_offset t = Some 0 then t else of_wall_utc (instant t))"

definition aware_utc :: "pydatetime \<Rightarrow> pydatetime" where
  "aware_utc t = (if dt_offset t = None then replace_utc t else astimezone_utc t)"

section \<open>ISO text\<close>

definition iso_date_string :: "pydatetime \<Rightarrow> string" where
  "iso_date_string t =
     pad_nat 4 (dt_year t) @ ''-'' @ pad_nat 2 (dt_month t) @ ''-'' @ pad_nat 2 (dt_day t)"

definition iso_time_string :: "pydatetime \<Rightarrow> string" where
  "iso_time_string t =
     pad_nat 2 (dt_hour t) @ '':'' @ pad_nat 2 (dt_minute t) @ '':'' @
     pad_nat 2 (dt_second t) @ ''.'' @ pad_nat 6 (dt_micro t)"

definition isoformat_utc_micros :: "pydatetime \<Rightarrow> string" where
  "isoformat_utc_micros t = iso_date_string t @ ''T'' @ iso_time_string t @ ''+00:00''"

definition char_at :: "string \<Rightarrow> nat \<Rightarrow> char option" where
  "char_at s i = (if i < length s then Some (s ! i) else None)"

definition nat_at :: "string \<Rightarrow> nat \<Rightarrow> nat \<Rightarrow> nat option" where
  "nat_at s i w = (if i + w \<le> length s then read_nat (take w (drop i s)) else None)"

definition parse_iso_date :: "string \<Rightarrow> (nat \<times> nat \<times> nat) option" where
  "parse_iso_date s =
     (if length s = 10 \<and> char_at s 4 = Some (CHR ''-'') \<and> char_at s 7 = Some (CHR ''-'')
      then (case nat_at s 0 4 of None \<Rightarrow> None | Some y \<Rightarrow>
           (case nat_at s 5 2 of None \<Rightarrow> None | Some m \<Rightarrow>
           (case nat_at s 8 2 of None \<Rightarrow> None | Some d \<Rightarrow>
             if valid_date y m d then Some (y, m, d) else None)))
      else None)"

text \<open>A fraction of a second, truncated to microseconds.\<close>

definition parse_fraction :: "string \<Rightarrow> nat option" where
  "parse_fraction s =
     (case read_nat s of None \<Rightarrow> None | Some _ \<Rightarrow> read_nat (take 6 (s @ replicate 6 (CHR ''0''))))"

definition parse_iso_time :: "string \<Rightarrow> (nat \<times> nat \<times> nat \<times> nat) option" where
  "parse_iso_time s =
     (case nat_at s 0 2 of None \<Rightarrow> None | Some h \<Rightarrow>
       if length s = 2 then Some (h, 0, 0, 0)
       else if char_at s 2 \<noteq> Some (CHR '':'') then None
       else (case nat_at s 3 2 of None \<Rightarrow> None | Some mi \<Rightarrow>
         if length s = 5 then Some (h, mi, 0, 0)
         else if char_at s 5 \<noteq> Some (CHR '':'') then None
         else (case nat_at s 6 2 of None \<Rightarrow> None | Some sec \<Rightarrow>
           if length s = 8 then Some (h, mi, sec, 0)
           else if char_at s 8 = Some (CHR ''.'') \<or> char_at s 8 = Some (CHR '','')
           then (case parse_fraction (drop 9 s) of None \<Rightarrow> None | Some us \<Rightarrow> Some (h, mi, sec, us))
           else None)))"

definition parse_iso_offset :: "string \<Rightarrow> int option" where
  "parse_iso_offset s =
     (if s = ''Z'' then Some 0
      else (case parse_iso_time (tl s) of None \<Rightarrow> None
        | Some (h, mi, sec, us) \<Rightarrow>
            if h < 24 \<and> mi < 60 \<and> sec < 60
            then Some ((if hd s = CHR ''-'' then -1 else 1) *
                   int (((h * 60 + mi) * 60 + sec) * 1000000 + us))
            else None))"

definition is_offset_start :: "char \<Rightarrow> bool" where
  "is_offset_start c = (c = CHR ''+'' \<or> c = CHR ''-'' \<or> c = CHR ''Z'')"

definition fromisoformat :: "string \<Rightarrow> pydatetime option" where
  "fromisoformat s =
     (case parse_iso_date (take 10 s) of None \<Rightarrow> None
      | Some (y, m, d) \<Rightarrow>
          if length s = 10
          then Some \<lparr>dt_year = y, dt_month = m, dt_day = d, dt_hour = 0, dt_minute = 0,
                     dt_second = 0, dt_micro = 0, dt_offset = None\<rparr>
          else (let body = drop 11 s;
                    t = takeWhile (\<lambda>c. \<not> is_offset_start c) body;
                    z = dropWhile (\<lambda>c. \<not> is_offset_start c) body
                in (case parse_iso_time t of None \<Rightarrow> None
                  | Some (h, mi, sec, us) \<Rightarrow>
                      if \<not> valid_time h mi sec us then None
                      else (let base = \<lparr>dt_year = y, dt_month = m, dt_day = d, dt_hour = h,
                                 dt_minute = mi, dt_second = sec, dt_micro = us, dt_offset = None\<rparr>
                            in if z = [] then Some base
                               else (case parse_iso_offset z of None \<Rightarrow> None
                                 | Some f \<Rightarrow> Some (base\<lparr>dt_offset := Some f\<rparr>))))))"

section \<open>The canonical timestamp contract\<close>

text \<open>
  The pattern \<open>CANONICAL_UTC_TIMESTAMP_PATTERN\<close>, position by position: 32 characters, digits
  except for the fixed separators and the \<open>+00:00\<close> suffix.
\<close>

definition canonical_template :: string where
  "canonical_template = ''dddd-dd-ddTdd:dd:dd.dddddd+00:00''"

definition matches_canonical_pattern :: "string \<Rightarrow> bool" where
  "matches_canonical_pattern s =
     (length s = length canonical_template \<and>
      list_all2 (\<lambda>p c. if p = CHR ''d'' then char_digit c \<noteq> None else c = p) canonical_template s)"

definition format_canonical_utc_timestamp :: "pydatetime \<Rightarrow> string result" where
  "format_canonical_utc_timestamp t =
     (if dt_offset t = None then Inl (ValueError ''canonical_timestamp_requires_aware_datetime'')
      else Inr (isoformat_utc_micros (astimezone_utc t)))"

definition parse_canonical_utc_timestamp :: "string \<Rightarrow> pydatetime result" where
  "parse_canonical_utc_timestamp s =
     (if \<not> matches_canonical_pattern s then Inl (ValueError ''canonical_timestamp_invalid'')
      else (case fromisoformat s of None \<Rightarrow> Inl (ValueError ''canonical_timestamp_invalid'')
        | Some t \<Rightarrow>
            (case format_canonical_utc_timestamp t of Inl e \<Rightarrow> Inl e
             | Inr s' \<Rightarrow> if s' \<noteq> s then Inl (ValueError ''canonical_timestamp_invalid'') else Inr t)))"

definition parse_database_utc_timestamp :: "string \<Rightarrow> pydatetime result" where
  "parse_database_utc_timestamp s =
     (case fromisoformat s of None \<Rightarrow> Inl (ValueError ''database_timestamp_invalid'')
      | Some t \<Rightarrow>
          if dt_offset t \<noteq> Some 0 then Inl (ValueError ''database_timestamp_invalid'')
          else Inr (astimezone_utc t))"

definition validate_canonical_utc_timestamp_text :: "string \<Rightarrow> string result" where
  "validate_canonical_utc_timestamp_text s =
     (case parse_canonical_utc_timestamp s of Inl e \<Rightarrow> Inl e | Inr _ \<Rightarrow> Inr s)"

section \<open>Properties\<close>

lemma nat_at_append:
  "i = length xs \<Longrightarrow> 0 < w \<Longrightarrow> n < 10 ^ w \<Longrightarrow> nat_at (xs @ pad_nat w n @ ys) i w = Some n"
  by (simp add: nat_at_def)

lemma char_at_append: "i = length xs \<Longrightarrow> char_at (xs @ c # ys) i = Some c"
  by (simp add: char_at_def)

lemma char_digit_Some_not_offset: "char_digit c \<noteq> None \<Longrightarrow> \<not> is_offset_start c"
  by (auto simp: char_digit_def is_offset_start_def Let_def split: if_splits)

lemma pad_nat_char_digit: "c \<in> set (pad_nat w n) \<Longrightarrow> char_digit c \<noteq> None"
  by (auto dest!: pad_nat_digits)

lemma valid_date_bounds:
  assumes "valid_date y m d"
  shows "y < 10 ^ 4" "m < 10 ^ 2" "d < 10 ^ 2"
proof -
  from assms have m: "1 \<le> m" "m \<le> 12" and d: "d \<le> days_in_month y m" and "y \<le> 9999"
    by (simp_all add: valid_date_def)
  have "m \<in> set [1..<13]" using m by simp
  then have "days_in_month y m \<le> 31"
    by (auto simp: days_in_month_def numeral_eq_Suc upt_rec)
  with d m \<open>y \<le> 9999\<close> show "y < 10 ^ 4" "m < 10 ^ 2" "d < 10 ^ 2" by simp_all
qed

lemma parse_iso_date_string:
  assumes "valid_date (dt_year t) (dt_month t) (dt_day t)"
  shows "parse_iso_date (iso_date_string t) = Some (dt_year t, dt_month t, dt_day t)"
proof -
  let ?y = "pad_nat 4 (dt_year t)" and ?m = "pad_nat 2 (dt_month t)" and ?d = "pad_nat 2 (dt_day t)"
  note b = valid_date_bounds [OF assms]
  have "nat_at (iso_date_string t) 0 4 = Some (dt_year t)"
    using nat_at_append [of 0 "[]" 4 "dt_year t" "''-'' @ ?m @ ''-'' @ ?d"] b
    by (simp add: iso_date_string_def)
  moreover have "nat_at (iso_date_string t) 5 2 = Some (dt_month t)"
    using nat_at_append [of 5 "?y @ ''-''" 2 "dt_month t" "''-'' @ ?d"] b
    by (simp add: iso_date_string_def)
  moreover have "nat_at (iso_date_string t) 8 2 = Some (dt_day t)"
    using nat_at_append [of 8 "?y @ ''-'' @ ?m @ ''-''" 2 "dt_day t" "[]"] b
    by (simp add: iso_date_string_def)
  moreover have "char_at (iso_date_string t) 4 = Some (CHR ''-'')"
    using char_at_append [of 4 "?y" "CHR ''-''" "?m @ ''-'' @ ?d"]
    by (simp add: iso_date_string_def)
  moreover have "char_at (iso_date_string t) 7 = Some (CHR ''-'')"
    using char_at_append [of 7 "?y @ ''-'' @ ?m" "CHR ''-''" ?d]
    by (simp add: iso_date_string_def)
  moreover have "length (iso_date_string t) = 10" by (simp add: iso_date_string_def)
  ultimately show ?thesis using assms by (simp add: parse_iso_date_def)
qed

lemma parse_fraction_pad6: "n < 1000000 \<Longrightarrow> parse_fraction (pad_nat 6 n) = Some n"
  by (simp add: parse_fraction_def)

lemma parse_iso_time_string:
  assumes "valid_time (dt_hour t) (dt_minute t) (dt_second t) (dt_micro t)"
  shows "parse_iso_time (iso_time_string t) = Some (dt_hour t, dt_minute t, dt_second t, dt_micro t)"
proof -
  let ?h = "pad_nat 2 (dt_hour t)" and ?m = "pad_nat 2 (dt_minute t)"
    and ?s = "pad_nat 2 (dt_second t)" and ?f = "pad_nat 6 (dt_micro t)"
  from assms have b: "dt_hour t < 10 ^ 2" "dt_minute t < 10 ^ 2" "dt_second t < 10 ^ 2"
    "dt_micro t < 1000000"
    by (simp_all add: valid_time_def)
  have "nat_at (iso_time_string t) 0 2 = Some (dt_hour t)"
    using nat_at_append [of 0 "[]" 2 "dt_hour t" "'':'' @ ?m @ '':'' @ ?s @ ''.'' @ ?f"] b
    by (simp add: iso_time_string_def)
  moreover have "nat_at (iso_time_string t) 3 2 = Some (dt_minute t)"
    using nat_at_append [of 3 "?h @ '':''" 2 "dt_minute t" "'':'' @ ?s @ ''.'' @ ?f"] b
    by (simp add: iso_time_string_def)
  moreover have "nat_at (iso_time_string t) 6 2 = Some (dt_second t)"
    using nat_at_append [of 6 "?h @ '':'' @ ?m @ '':''" 2 "dt_second t" "''.'' @ ?f"] b
    by (simp add: iso_time_string_def)
  moreover have "char_at (iso_time_string t) 2 = Some (CHR '':'')"
    using char_at_append [of 2 ?h "CHR '':''" "?m @ '':'' @ ?s @ ''.'' @ ?f"]
    by (simp add: iso_time_string_def)
  moreover have "char_at (iso_time_string t) 5 = Some (CHR '':'')"
    using char_at_append [of 5 "?h @ '':'' @ ?m" "CHR '':''" "?s @ ''.'' @ ?f"]
    by (simp add: iso_time_string_def)
  moreover have "char_at (iso_time_string t) 8 = Some (CHR ''.'')"
    using char_at_append [of 8 "?h @ '':'' @ ?m @ '':'' @ ?s" "CHR ''.''" ?f]
    by (simp add: iso_time_string_def)
  moreover have "drop 9 (iso_time_string t) = ?f" by (simp add: iso_time_string_def)
  moreover have "length (iso_time_string t) = 15" by (simp add: iso_time_string_def)
  ultimately show ?thesis using b by (simp add: parse_iso_time_def parse_fraction_pad6)
qed

lemma iso_time_no_offset_start: "c \<in> set (iso_time_string t) \<Longrightarrow> \<not> is_offset_start c"
  by (auto simp: iso_time_string_def is_offset_start_def char_digit_def Let_def
      dest!: pad_nat_char_digit split: if_splits)

lemma fromisoformat_canonical:
  assumes "valid_datetime t" "dt_offset t = Some 0"
  shows "fromisoformat (isoformat_utc_micros t) = Some t"
proof -
  have vd: "valid_date (dt_year t) (dt_month t) (dt_day t)"
    and vt: "valid_time (dt_hour t) (dt_minute t) (dt_second t) (dt_micro t)"
    using assms(1) by (simp_all add: valid_datetime_def)
  have len: "length (iso_date_string t) = 10" by (simp add: iso_date_string_def)
  have head: "take 10 (isoformat_utc_micros t) = iso_date_string t"
    by (simp add: isoformat_utc_micros_def len)
  have body: "drop 11 (isoformat_utc_micros t) = iso_time_string t @ ''+00:00''"
    by (simp add: isoformat_utc_micros_def len)
  have "takeWhile (\<lambda>c. \<not> is_offset_start c) (iso_time_string t @ ''+00:00'') = iso_time_string t"
    by (simp add: takeWhile_append iso_time_no_offset_start) (simp add: is_offset_start_def)
  moreover have "dropWhile (\<lambda>c. \<not> is_offset_start c) (iso_time_string t @ ''+00:00'') = ''+00:00''"
    by (simp add: dropWhile_append iso_time_no_offset_start) (simp add: is_offset_start_def)
  moreover have "parse_iso_offset ''+00:00'' = Some 0"
    by (simp add: parse_iso_offset_def parse_iso_time_def nat_at_def char_at_def read_nat_def
        read_step_def char_digit_def)
  moreover have "length (isoformat_utc_micros t) \<noteq> 10" by (simp add: isoformat_utc_micros_def len)
  ultimately show ?thesis using assms(2) vt
    by (simp add: fromisoformat_def head parse_iso_date_string [OF vd] body
        parse_iso_time_string [OF vt])
qed

lemma matches_canonical_isoformat: "matches_canonical_pattern (isoformat_utc_micros t)"
proof -
  have digits: "list_all2 (\<lambda>p c. if p = CHR ''d'' then char_digit c \<noteq> None else c = p)
      (replicate w (CHR ''d'')) (pad_nat w n)" for w n
    by (simp add: list_all2_conv_all_nth pad_nat_char_digit [OF nth_mem] del: pad_nat.simps)
  have template: "canonical_template =
      replicate 4 (CHR ''d'') @ ''-'' @ replicate 2 (CHR ''d'') @ ''-'' @ replicate 2 (CHR ''d'') @
      ''T'' @ replicate 2 (CHR ''d'') @ '':'' @ replicate 2 (CHR ''d'') @ '':'' @
      replicate 2 (CHR ''d'') @ ''.'' @ replicate 6 (CHR ''d'') @ ''+00:00''"
    by (simp add: canonical_template_def numeral_eq_Suc)
  have "list_all2 (\<lambda>p c. if p = CHR ''d'' then char_digit c \<noteq> None else c = p)
      canonical_template (isoformat_utc_micros t)"
    unfolding template isoformat_utc_micros_def iso_date_string_def iso_time_string_def append_assoc
    by (intro list_all2_appendI digits) simp_all
  then show ?thesis
    by (simp add: matches_canonical_pattern_def list_all2_lengthD)
qed

lemma format_canonical_utc [simp]:
  "dt_offset t = Some 0 \<Longrightarrow> format_canonical_utc_timestamp t = Inr (isoformat_utc_micros t)"
  by (simp add: format_canonical_utc_timestamp_def astimezone_utc_def)



end
