(* ===== verification/Py_Values.thy ===== *)
theory Py_Values
  imports Py_Time
begin

text \<open>
  The dynamically typed values (\<open>Any\<close>, \<open>dict[str, Any]\<close>) that observations, decisions and
  payloads carry, with the operations the sources apply to them: \<open>dict.get\<close>, truthiness,
  \<open>str()\<close>, \<open>==\<close>, \<open>int()\<close> and canonical JSON output.  Floating-point numbers do not occur in
  the modelled payloads (amounts are decimal strings) and are left out.  A dictionary is its list
  of items in insertion order with distinct keys.
\<close>

section \<open>Values\<close>

datatype pyval =
    PNone
  | PBool bool
  | PInt int
  | PStr string
  | PTime pydatetime
  | PList "pyval list"
  | PDict "(string \<times> pyval) list"

type_synonym pydict = "(string \<times> pyval) list"

definition dget :: "pydict \<Rightarrow> string \<Rightarrow> pyval" where
  "dget d k = (case map_of d k of None \<Rightarrow> PNone | Some v \<Rightarrow> v)"

definition dget_default :: "pydict \<Rightarrow> string \<Rightarrow> pyval \<Rightarrow> pyval" where
  "dget_default d k v = (case map_of d k of None \<Rightarrow> v | Some w \<Rightarrow> w)"

definition dhas :: "pydict \<Rightarrow> string \<Rightarrow> bool" where
  "dhas d k = (map_of d k \<noteq> None)"

definition is_dict :: "pyval \<Rightarrow> bool" where
  "is_dict v = (case v of PDict _ \<Rightarrow> True | _ \<Rightarrow> False)"

text \<open>\<open>x if isinstance(x, dict) else {}\<close>\<close>

definition as_dict :: "pyval \<Rightarrow> pydict" where
  "as_dict v = (case v of PDict d \<Rightarrow> d | _ \<Rightarrow> [])"

definition dset :: "pydict \<Rightarrow> string \<Rightarrow> pyval \<Rightarrow> pydict" where
  "dset d k v = (if dhas d k then map (\<lambda>(k', w). if k' = k then (k', v) else (k', w)) d else d @ [(k, v)])"

fun truthy :: "pyval \<Rightarrow> bool" where
  "truthy PNone = False"
| "truthy (PBool b) = b"
| "truthy (PInt i) = (i \<noteq> 0)"
| "truthy (PStr s) = (s \<noteq> [])"
| "truthy (PTime t) = True"
| "truthy (PList xs) = (xs \<noteq> [])"
| "truthy (PDict d) = (d \<noteq> [])"

text \<open>\<open>a or b\<close>\<close>

definition py_or :: "pyval \<Rightarrow> pyval \<Rightarrow> pyval" where
  "py_or a b = (if truthy a then a else b)"

lemma truthy_py_or [simp]: "truthy (py_or a b) \<longleftrightarrow> truthy a \<or> truthy b"
  by (simp add: py_or_def)

section \<open>Text of a value\<close>

definition hex_digit :: "nat \<Rightarrow> char" where
  "hex_digit d = (if d < 10 then char_of (48 + d) else char_of (87 + d))"

text \<open>\<open>repr\<close> of a string: bytes from 128 on belong to printable characters and stay.\<close>

definition repr_char :: "char \<Rightarrow> char \<Rightarrow> string" where
  "repr_char q c =
     (let n = of_char c :: nat in
      if c = q \<or> c = CHR 0x5C then [CHR 0x5C, c]
      else if n = 10 then [CHR 0x5C, CHR ''n'']
      else if n = 13 then [CHR 0x5C, CHR ''r'']
      else if n = 9 then [CHR 0x5C, CHR ''t'']
      else if n < 32 \<or> n = 127 then [CHR 0x5C, CHR ''x'', hex_digit (n div 16), hex_digit (n mod 16)]
      else [c])"

definition repr_str :: "string \<Rightarrow> string" where
  "repr_str s =
     (let q = (if CHR 0x27 \<in> set s \<and> CHR 0x22 \<notin> set s then CHR 0x22 else CHR 0x27)
      in q # concat (map (repr_char q) s) @ [q])"

fun join :: "string \<Rightarrow> string list \<Rightarrow> string" where
  "join sep [] = []"
| "join sep [x] = x"
| "join sep (x # y # ys) = x @ sep @ join sep (y # ys)"

text \<open>\<open>str(datetime)\<close>: \<open>isoformat(' ')\<close>, the fraction only when it is not zero.\<close>

definition str_offset :: "int option \<Rightarrow> string" where
  "str_offset off =
     (case off of None \<Rightarrow> ''''
      | Some f \<Rightarrow>
          (let a = nat \<bar>f\<bar>; secs = a div 1000000; us = a mod 1000000
           in (if f < 0 then ''-'' else ''+'') @ pad_nat 2 (secs div 3600) @ '':'' @
              pad_nat 2 (secs div 60 mod 60) @
              (if secs mod 60 \<noteq> 0 \<or> us \<noteq> 0 then '':'' @ pad_nat 2 (secs mod 60) else '''') @
              (if us \<noteq> 0 then ''.'' @ pad_nat 6 us else '''')))"

definition str_time :: "pydatetime \<Rightarrow> string" where
  "str_time t =
     iso_date_string t @ '' '' @ pad_nat 2 (dt_hour t) @ '':'' @ pad_nat 2 (dt_minute t) @ '':'' @
     pad_nat 2 (dt_second t) @ (if dt_micro t \<noteq> 0 then ''.'' @ pad_nat 6 (dt_micro t) else '''') @
     str_offset (dt_offset t)"

text \<open>\<open>repr(datetime)\<close>: trailing zero seconds and microseconds are left out.\<close>

definition repr_timedelta :: "int \<Rightarrow> string" where
  "repr_timedelta f =
     (let d = f div day_micros; r = f mod day_micros; s = r div 1000000; u = r mod 1000000;
          parts = (if d \<noteq> 0 then [''days='' @ show_int d] else []) @
            (if s \<noteq> 0 then [''seconds='' @ show_int s] else []) @
            (if u \<noteq> 0 then [''microseconds='' @ show_int u] else [])
      in ''datetime.timedelta('' @ (if parts = [] then ''0'' else join '', '' parts) @ '')'')"

definition repr_time :: "pydatetime \<Rightarrow> string" where
  "repr_time t =
     ''datetime.datetime('' @
     join '', '' (map show_nat ([dt_year t, dt_month t, dt_day t, dt_hour t, dt_minute t] @
       (if dt_micro t \<noteq> 0 then [dt_second t, dt_micro t]
        else if dt_second t \<noteq> 0 then [dt_second t] else []))) @
     (case dt_offset t of None \<Rightarrow> []
      | Some f \<Rightarrow> '', tzinfo='' @ (if f = 0 then ''datetime.timezone.utc''
          else ''datetime.timezone('' @ repr_timedelta f @ '')'')) @
     '')''"

fun py_repr :: "pyval \<Rightarrow> string" where
  "py_repr PNone = ''None''"
| "py_repr (PBool b) = (if b then ''True'' else ''False'')"
| "py_repr (PInt i) = show_int i"
| "py_repr (PStr s) = repr_str s"
| "py_repr (PTime t) = repr_time t"
| "py_repr (PList xs) = ''['' @ join '', '' (map py_repr xs) @ '']''"
| "py_repr (PDict d) =
     ''{'' @ join '', '' (map (\<lambda>kv. repr_str (fst kv) @ '': '' @ py_repr (snd kv)) d) @ ''}''"

definition py_str :: "pyval \<Rightarrow> string" where
  "py_str v = (case v of PStr s \<Rightarrow> s | PTime t \<Rightarrow> str_time t | _ \<Rightarrow> py_repr v)"

lemma py_str_PStr [simp]: "py_str (PStr s) = s"
  by (simp add: py_str_def)

section \<open>Equality and conversion\<close>

text \<open>\<open>==\<close>: booleans are integers, dictionaries compare as maps, aware times by instant.\<close>

function (sequential) py_eq :: "pyval \<Rightarrow> pyval \<Rightarrow> bool" where
  "py_eq PNone PNone = True"
| "py_eq (PBool a) (PBool b) = (a = b)"
| "py_eq (PBool a) (PInt j) = ((if a then 1 else 0) = j)"
| "py_eq (PInt i) (PBool b) = (i = (if b then 1 else 0))"
| "py_eq (PInt i) (PInt j) = (i = j)"
| "py_eq (PStr s) (PStr t) = (s = t)"
| "py_eq (PTime s) (PTime t) = (is_aware s = is_aware t \<and> instant s = instant t)"
| "py_eq (PList xs) (PList ys) =
     (length xs = length ys \<and> list_all (\<lambda>p. py_eq (fst p) (snd p)) (zip xs ys))"
| "py_eq (PDict d) (PDict e) =
     (length d = length e \<and>
      list_all (\<lambda>kv. case map_of e (fst kv) of None \<Rightarrow> False | Some w \<Rightarrow> py_eq (snd kv) w) d)"
| "py_eq _ _ = False"
  by pat_completeness auto
termination
proof (relation "measure (\<lambda>(v, w). size v)", goal_cases)
  case (2 xs ys p)
  then have "fst p \<in> set xs" by (metis in_set_zipE prod.collapse)
  then have "size (fst p) \<le> size_list size xs" by (simp add: size_list_estimation')
  then show ?case by (simp add: split_beta)
next
  case (3 d e kv w)
  have "size (snd kv) \<le> size_prod (\<lambda>_. 0) size kv" by (cases kv) simp
  with 3 show ?case by (auto simp: less_Suc_eq_le intro!: size_list_estimation')
qed simp

text \<open>\<open>int(v)\<close> of the values that occur as counters: digit strings, integers, booleans.\<close>

definition py_int :: "pyval \<Rightarrow> int result" where
  "py_int v =
     (case v of
        PInt i \<Rightarrow> Inr i
      | PBool b \<Rightarrow> Inr (if b then 1 else 0)
      | PStr (CHR ''-'' # s) \<Rightarrow>
          (case read_nat s of None \<Rightarrow> Inl (ValueError ''int'') | Some n \<Rightarrow> Inr (- int n))
      | PStr s \<Rightarrow> (case read_nat s of None \<Rightarrow> Inl (ValueError ''int'') | Some n \<Rightarrow> Inr (int n))
      | _ \<Rightarrow> Inl TypeError)"

section \<open>Canonical JSON text\<close>

text \<open>
  \<open>json.dumps(value, sort_keys=True, separators=(",", ":"), ensure_ascii=False, default=str)\<close>.
  Keys are sorted with their values already encoded; keys are distinct.
\<close>

definition json_char :: "char \<Rightarrow> string" where
  "json_char c =
     (let n = of_char c :: nat in
      if c = CHR 0x22 \<or> c = CHR 0x5C then [CHR 0x5C, c]
      else if n = 8 then [CHR 0x5C, CHR ''b'']
      else if n = 12 then [CHR 0x5C, CHR ''f'']
      else if n = 10 then [CHR 0x5C, CHR ''n'']
      else if n = 13 then [CHR 0x5C, CHR ''r'']
      else if n = 9 then [CHR 0x5C, CHR ''t'']
      else if n < 32 then [CHR 0x5C, CHR ''u'', CHR ''0'', CHR ''0'', hex_digit (n div 16), hex_digit (n mod 16)]
      else [c])"

definition json_str :: "string \<Rightarrow> string" where
  "json_str s = CHR 0x22 # concat (map json_char s) @ [CHR 0x22]"

fun json_dumps :: "pyval \<Rightarrow> string" where
  "json_dumps PNone = ''null''"
| "json_dumps (PBool b) = (if b then ''true'' else ''false'')"
| "json_dumps (PInt i) = show_int i"
| "json_dumps (PStr s) = json_str s"
| "json_dumps (PTime t) = json_str (str_time t)"
| "json_dumps (PList xs) = ''['' @ join '','' (map json_dumps xs) @ '']''"
| "json_dumps (PDict d) =
     ''{'' @ join '','' (map (\<lambda>kv. json_str (fst kv) @ '':'' @ snd kv)
              (sort_key fst (map (\<lambda>kv. (fst kv, json_dumps (snd kv))) d))) @ ''}''"

section \<open>Properties\<close>

lemma py_eq_PStr_iff [simp]: "py_eq v (PStr s) \<longleftrightarrow> v = PStr s" "py_eq (PStr s) v \<longleftrightarrow> v = PStr s"
  by (cases v; auto)+

lemma dget_dset [simp]: "dget (dset d k v) k' = (if k = k' then v else dget d k')"
proof -
  have upd: "map_of (map (\<lambda>(a, w). if a = k then (a, v) else (a, w)) d) k' =
      (if k = k' \<and> map_of d k \<noteq> None then Some v else map_of d k')" for d
    by (induction d) auto
  show ?thesis
  proof (cases "dhas d k")
    case True
    then show ?thesis using upd [of d] by (auto simp: dget_def dset_def dhas_def)
  next
    case False
    then show ?thesis by (auto simp: dget_def dset_def dhas_def map_add_def split: option.splits)
  qed
qed

lemma dget_Nil [simp]: "dget [] k = PNone"
  by (simp add: dget_def)

lemma as_dict_simps [simp]:
  "as_dict (PDict d) = d" "as_dict PNone = []" "is_dict (PDict d)" "\<not> is_dict PNone"
  by (simp_all add: as_dict_def is_dict_def)

text \<open>The canonical text does not depend on the insertion order of a dictionary's items.\<close>

lemma json_dumps_perm:
  assumes "mset d = mset e" "distinct (map fst d)"
  shows "json_dumps (PDict d) = json_dumps (PDict e)"
proof -
  let ?f = "map (\<lambda>kv. (fst kv, json_dumps (snd kv)))"
  have "mset (?f d) = mset (sort_key fst (?f e))" using assms(1) by simp
  moreover have "inj_on fst (set (?f d))"
    using assms(2) by (auto simp: inj_on_def distinct_map)
  ultimately have "sort_key fst (?f d) = sort_key fst (?f e)"
    by (rule sort_key_inj_key_eq) simp
  then show ?thesis by simp
qed

text \<open>A value Python can build: no dictionary repeats a key.  On such values \<open>==\<close> is reflexive.\<close>

fun pv_wf :: "pyval \<Rightarrow> bool" where
  "pv_wf (PList xs) = list_all pv_wf xs"
| "pv_wf (PDict d) = (distinct (map fst d) \<and> list_all (\<lambda>kv. pv_wf (snd kv)) d)"
| "pv_wf _ = True"

lemma py_eq_refl: "pv_wf v \<Longrightarrow> py_eq v v"
proof (induction v rule: pv_wf.induct)
  case (1 xs)
  then show ?case by (auto simp: list_all_iff zip_same)
next
  case (2 d)
  then show ?case by (force simp: list_all_iff)
qed auto

lemma dset_keys: "map fst (dset d k v) = (if dhas d k then map fst d else map fst d @ [k])"
  by (auto simp: dset_def)

lemma dset_distinct: "distinct (map fst d) \<Longrightarrow> distinct (map fst (dset d k v))"
  unfolding dset_keys by (auto simp: dhas_def map_of_eq_None_iff)

lemma dhas_iff: "dhas d k \<longleftrightarrow> k \<in> set (map fst d)"
  by (auto simp: dhas_def map_of_eq_None_iff simp del: not_None_eq)

lemma dhas_dset [simp]: "dhas (dset d k v) k' \<longleftrightarrow> k' = k \<or> dhas d k'"
  unfolding dhas_iff [of "dset d k v"] dset_keys by (auto simp: dhas_iff)

lemma pv_wf_dset: "pv_wf (PDict d) \<Longrightarrow> pv_wf v \<Longrightarrow> pv_wf (PDict (dset d k v))"
  by (simp add: dset_distinct) (auto simp: dset_def list_all_iff)

text \<open>Equal dictionaries have the same keys and equal values.\<close>

lemma py_eq_PDictD:
  assumes "py_eq (PDict d) (PDict e)" "distinct (map fst d)" "distinct (map fst e)"
  shows "dhas e k \<longleftrightarrow> dhas d k" "py_eq (dget d k) (dget e k)"
proof -
  have sub: "set (map fst d) \<subseteq> set (map fst e)"
    using assms(1) by (auto simp: list_all_iff split: option.splits dest!: map_of_SomeD)
      (metis fst_conv image_eqI map_of_SomeD)
  have "card (set (map fst d)) = card (set (map fst e))"
    using assms by (simp add: distinct_card del: set_map)
  with sub have keys: "set (map fst d) = set (map fst e)" by (intro card_subset_eq) auto
  then show has: "dhas e k \<longleftrightarrow> dhas d k" by (auto simp: dhas_def map_of_eq_None_iff)
  show "py_eq (dget d k) (dget e k)"
  proof (cases "map_of d k")
    case None
    with has show ?thesis by (simp add: dhas_def dget_def)
  next
    case (Some v)
    then have "(k, v) \<in> set d" by (rule map_of_SomeD)
    with assms(1) Some show ?thesis by (fastforce simp: list_all_iff dget_def split: option.splits)
  qed
qed

end
