(* ===== verification/Canonical_Json.thy ===== *)
theory Canonical_Json
  imports Py_Values
begin

text \<open>
  \<open>contracts/canonical_json.py\<close>: the projection of a value onto the frozen canonical-json.v1
  contract, its exact bytes, its SHA-256 digest, and the decimal projection.  The digest function
  is a parameter \<open>H\<close> of every definition that hashes; no property depends on more than is stated
  as a hypothesis about it.
\<close>

section \<open>Decimals\<close>

text \<open>A \<open>decimal.Decimal\<close>: signed coefficient and exponent, or a special value.\<close>

datatype pydecimal = DFin int int | DInf bool | DNaN

definition dec_finite :: "pydecimal \<Rightarrow> bool" where
  "dec_finite d = (case d of DFin _ _ \<Rightarrow> True | _ \<Rightarrow> False)"

definition dec_is_zero :: "pydecimal \<Rightarrow> bool" where
  "dec_is_zero d = (case d of DFin c _ \<Rightarrow> c = 0 | _ \<Rightarrow> False)"

text \<open>Numeric equality, independent of trailing zeros; a NaN equals nothing.\<close>

fun dec_eq :: "pydecimal \<Rightarrow> pydecimal \<Rightarrow> bool" where
  "dec_eq (DFin c e) (DFin c' e') =
     (let m = min e e' in c * 10 ^ nat (e - m) = c' * 10 ^ nat (e' - m))"
| "dec_eq (DInf s) (DInf s') = (s = s')"
| "dec_eq _ _ = False"

text \<open>\<open>format(d, "f")\<close> of a finite decimal: never an exponent.\<close>

definition format_fixed :: "int \<Rightarrow> int \<Rightarrow> string" where
  "format_fixed c e =
     (let ds = show_nat (nat \<bar>c\<bar>); sign = (if c < 0 then ''-'' else '''') in
      if 0 \<le> e then sign @ ds @ replicate (nat e) (CHR ''0'')
      else (let k = nat (- e);
                ds' = replicate (Suc k - length ds) (CHR ''0'') @ ds;
                n = length ds' - k
            in sign @ take n ds' @ ''.'' @ drop n ds'))"

definition canonical_decimal_string :: "pydecimal \<Rightarrow> string result" where
  "canonical_decimal_string d =
     (if \<not> dec_finite d then Inl (ValueError ''non-finite decimal projection'')
      else if dec_is_zero d then Inr ''0''
      else (case d of DFin c e \<Rightarrow> Inr (format_fixed c e) | _ \<Rightarrow> Inr ''''))"

section \<open>Projection, bytes and digest\<close>

text \<open>
  \<open>_project\<close>: strings, integers, booleans, null, lists and string-keyed mappings pass; any other
  value, here a \<open>datetime\<close>, is refused.
\<close>

fun json_project :: "pyval \<Rightarrow> pyval result" where
  "json_project PNone = Inr PNone"
| "json_project (PBool b) = Inr (PBool b)"
| "json_project (PInt i) = Inr (PInt i)"
| "json_project (PStr s) = Inr (PStr s)"
| "json_project (PTime t) = Inl (ValueError ''unsupported canonical value'')"
| "json_project (PList xs) =
     (case mapE json_project xs of Inl e \<Rightarrow> Inl e | Inr ys \<Rightarrow> Inr (PList ys))"
| "json_project (PDict d) =
     (case mapE (\<lambda>kv. case json_project (snd kv) of Inl e \<Rightarrow> Inl e | Inr w \<Rightarrow> Inr (fst kv, w)) d
      of Inl e \<Rightarrow> Inl e | Inr e' \<Rightarrow> Inr (PDict e'))"

definition canonical_json_bytes :: "pyval \<Rightarrow> string result" where
  "canonical_json_bytes v =
     (case json_project v of Inl e \<Rightarrow> Inl e | Inr w \<Rightarrow> Inr (json_dumps w))"

definition canonical_json_hash :: "(string \<Rightarrow> string) \<Rightarrow> pyval \<Rightarrow> string result" where
  "canonical_json_hash H v =
     (case canonical_json_bytes v of Inl e \<Rightarrow> Inl e | Inr b \<Rightarrow> Inr (H b))"

section \<open>Properties\<close>

fun json_ok :: "pyval \<Rightarrow> bool" where
  "json_ok (PTime t) = False"
| "json_ok (PList xs) = list_all json_ok xs"
| "json_ok (PDict d) = list_all (\<lambda>kv. json_ok (snd kv)) d"
| "json_ok _ = True"

lemma json_project_id: "json_ok v \<Longrightarrow> json_project v = Inr v"
proof (induction v rule: json_project.induct)
  case (6 xs)
  then have "mapE json_project xs = Inr (map id xs)"
    by (intro mapE_Inr) (simp add: list_all_iff)
  then show ?case by simp
next
  case (7 d)
  then have "mapE (\<lambda>kv. case json_project (snd kv) of Inl e \<Rightarrow> Inl e | Inr w \<Rightarrow> Inr (fst kv, w)) d =
      Inr (map id d)"
    by (intro mapE_Inr) (auto simp: list_all_iff)
  then show ?case by simp
qed auto

lemma json_project_Inr_ok: "json_project v = Inr w \<Longrightarrow> json_ok v"
proof (induction v arbitrary: w rule: json_project.induct)
  case (6 xs)
  then obtain ys where ys: "mapE json_project xs = Inr ys" by (auto split: sum.splits)
  have "json_ok x" if "x \<in> set xs" for x
    using mapE_in_arg [OF ys that] 6(1) [OF that] by blast
  then show ?case by (simp add: list_all_iff)
next
  case (7 d)
  let ?f = "\<lambda>kv. case json_project (snd kv) of Inl e \<Rightarrow> Inl e | Inr w \<Rightarrow> Inr (fst kv, w)"
  from 7 obtain ys where ys: "mapE ?f d = Inr ys" by (auto split: sum.splits)
  have "json_ok (snd kv)" if "kv \<in> set d" for kv
    using mapE_in_arg [OF ys that] 7(1) [OF that] by (auto split: sum.splits)
  then show ?case by (simp add: list_all_iff)
qed auto

lemma canonical_json_bytes_ok:
  "canonical_json_bytes v = (if json_ok v then Inr (json_dumps v) else canonical_json_bytes v)"
  by (simp add: canonical_json_bytes_def json_project_id)

lemma canonical_json_bytes_Inr_iff:
  "canonical_json_bytes v = Inr b \<longleftrightarrow> json_ok v \<and> b = json_dumps v"
proof
  assume "canonical_json_bytes v = Inr b"
  then obtain w where w: "json_project v = Inr w" "b = json_dumps w"
    by (auto simp: canonical_json_bytes_def split: sum.splits)
  then have ok: "json_ok v" by (blast dest: json_project_Inr_ok)
  with w show "json_ok v \<and> b = json_dumps v" by (simp add: json_project_id)
next
  assume "json_ok v \<and> b = json_dumps v"
  then show "canonical_json_bytes v = Inr b" by (simp add: canonical_json_bytes_def json_project_id)
qed

lemma dec_eq_refl: "dec_eq d d \<longleftrightarrow> d \<noteq> DNaN"
  by (cases d) auto

lemma dec_eq_sym: "dec_eq d e \<longleftrightarrow> dec_eq e d"
  by (cases d; cases e) (auto simp: Let_def min.commute)

lemma canonical_decimal_string_finite:
  "dec_finite d \<Longrightarrow> \<exists>s. canonical_decimal_string d = Inr s"
  by (cases d) (auto simp: canonical_decimal_string_def dec_finite_def)

lemma canonical_decimal_string_error:
  "\<not> dec_finite d \<Longrightarrow> canonical_decimal_string d = Inl (ValueError ''non-finite decimal projection'')"
  by (simp add: canonical_decimal_string_def)

end
