(* ===== verification/Refund_Policy.thy ===== *)
theory Refund_Policy
  imports Canonical_Json
begin

text \<open>
  The duplicate-charge refund policy: \<open>contracts/refund_policy.py\<close> (the facts of a charge, the
  seven checks of a pair, the canonical snapshot and its digest), \<open>services/refunds.py\<close> (loading
  the linked original charge from the billing table, with and without row locks, and binding the
  pair to a proposal).
\<close>

section \<open>Facts and checks\<close>

definition REFUND_APPLICATION_WINDOW_DAYS :: int where
  "REFUND_APPLICATION_WINDOW_DAYS = 30"

type_synonym pydate = "nat \<times> nat \<times> nat"

definition date_isoformat :: "pydate \<Rightarrow> string" where
  "date_isoformat d =
     pad_nat 4 (fst d) @ ''-'' @ pad_nat 2 (fst (snd d)) @ ''-'' @ pad_nat 2 (snd (snd d))"

record refund_charge_facts =
  rc_billing_record_id :: string
  rc_tenant_id :: string
  rc_customer_id :: string
  rc_amount :: pydecimal
  rc_currency :: string
  rc_status :: string
  rc_charged_at :: pydatetime
  rc_service_period_start :: pydate
  rc_service_period_end :: pydate
  rc_version :: int
  rc_duplicate_of :: "string option"

record refund_pair_checks =
  same_scope :: bool
  explicit_relation :: bool
  both_charged :: bool
  same_amount :: bool
  same_currency :: bool
  same_service_period :: bool
  within_application_window :: bool

definition checks_eligible :: "refund_pair_checks \<Rightarrow> bool" where
  "checks_eligible c =
     (same_scope c \<and> explicit_relation c \<and> both_charged c \<and> same_amount c \<and> same_currency c \<and>
      same_service_period c \<and> within_application_window c)"

definition checks_values :: "refund_pair_checks \<Rightarrow> (string \<times> bool) list" where
  "checks_values c =
     [(''same_scope'', same_scope c), (''explicit_relation'', explicit_relation c),
      (''both_charged'', both_charged c), (''same_amount'', same_amount c),
      (''same_currency'', same_currency c), (''same_service_period'', same_service_period c),
      (''within_application_window'', within_application_window c)]"

definition checks_failed :: "refund_pair_checks \<Rightarrow> string list" where
  "checks_failed c = map fst (filter (\<lambda>nv. \<not> snd nv) (checks_values c))"

definition refund_pair_checks_payload :: "refund_pair_checks \<Rightarrow> pydict" where
  "refund_pair_checks_payload c = map (\<lambda>nv. (fst nv, PBool (snd nv))) (checks_values c)"

record refund_pair_evaluation =
  pe_target :: refund_charge_facts
  pe_original :: "refund_charge_facts option"
  pe_checks :: refund_pair_checks
  pe_pair_hash :: "string option"

definition pair_eligible :: "refund_pair_evaluation \<Rightarrow> bool" where
  "pair_eligible ev = (checks_eligible (pe_checks ev) \<and> pe_pair_hash ev \<noteq> None)"

section \<open>The canonical pair snapshot\<close>

definition charge_payload :: "refund_charge_facts \<Rightarrow> pydict result" where
  "charge_payload v =
     (case canonical_decimal_string (rc_amount v) of Inl e \<Rightarrow> Inl e | Inr amount \<Rightarrow>
     (case format_canonical_utc_timestamp (aware_utc (rc_charged_at v)) of Inl e \<Rightarrow> Inl e
      | Inr charged \<Rightarrow> Inr
       [(''amount'', PStr amount),
        (''billing_record_id'', PStr (rc_billing_record_id v)),
        (''charged_at'', PStr charged),
        (''currency'', PStr (rc_currency v)),
        (''customer_id'', PStr (rc_customer_id v)),
        (''service_period_end'', PStr (date_isoformat (rc_service_period_end v))),
        (''service_period_start'', PStr (date_isoformat (rc_service_period_start v))),
        (''status'', PStr (rc_status v)),
        (''tenant_id'', PStr (rc_tenant_id v)),
        (''version'', PInt (rc_version v))]))"

definition opt_str :: "string option \<Rightarrow> pyval" where
  "opt_str x = (case x of None \<Rightarrow> PNone | Some s \<Rightarrow> PStr s)"

definition refund_pair_payload ::
  "refund_charge_facts \<Rightarrow> refund_charge_facts \<Rightarrow> pyval result" where
  "refund_pair_payload target original =
     (case charge_payload original of Inl e \<Rightarrow> Inl e | Inr o' \<Rightarrow>
     (case charge_payload target of Inl e \<Rightarrow> Inl e | Inr t' \<Rightarrow> Inr (PDict
       [(''original'', PDict o'),
        (''policy_version'', PStr ''refund-pair.v1''),
        (''target'', PDict (t' @ [(''duplicate_of'', opt_str (rc_duplicate_of target))])),
        (''window_days'', PInt REFUND_APPLICATION_WINDOW_DAYS)])))"

section \<open>Evaluation\<close>

definition window_micros :: int where
  "window_micros = REFUND_APPLICATION_WINDOW_DAYS * day_micros"

definition evaluate_checks ::
  "refund_charge_facts \<Rightarrow> refund_charge_facts option \<Rightarrow> pydatetime \<Rightarrow> refund_pair_checks" where
  "evaluate_checks target original now =
     (let current = instant (aware_utc now);
          target_charged_at = instant (aware_utc (rc_charged_at target))
      in case original of
        None \<Rightarrow>
          \<lparr>same_scope = False, explicit_relation = False, both_charged = False,
           same_amount = False, same_currency = False, same_service_period = False,
           within_application_window = False\<rparr>
      | Some org \<Rightarrow>
          \<lparr>same_scope = (rc_tenant_id target = rc_tenant_id org \<and>
             rc_customer_id target = rc_customer_id org),
           explicit_relation = (rc_billing_record_id target \<noteq> rc_billing_record_id org \<and>
             rc_duplicate_of target = Some (rc_billing_record_id org)),
           both_charged = (rc_status target = ''charged'' \<and> rc_status org = ''charged''),
           same_amount = dec_eq (rc_amount target) (rc_amount org),
           same_currency = (rc_currency target = rc_currency org),
           same_service_period =
             (rc_service_period_start target = rc_service_period_start org \<and>
              rc_service_period_end target = rc_service_period_end org \<and>
              rc_service_period_start target < rc_service_period_end target),
           within_application_window =
             (instant (aware_utc (rc_charged_at org)) \<le> current \<and>
              target_charged_at \<le> current \<and>
              current - target_charged_at \<le> window_micros)\<rparr>)"

definition evaluate_refund_pair ::
  "(string \<Rightarrow> string) \<Rightarrow> refund_charge_facts \<Rightarrow> refund_charge_facts option \<Rightarrow> pydatetime \<Rightarrow>
   refund_pair_evaluation result" where
  "evaluate_refund_pair H target original now =
     (let checks = evaluate_checks target original now in
      case original of
        None \<Rightarrow> Inr \<lparr>pe_target = target, pe_original = None, pe_checks = checks, pe_pair_hash = None\<rparr>
      | Some org \<Rightarrow>
          (case refund_pair_payload target org of Inl e \<Rightarrow> Inl e | Inr payload \<Rightarrow>
          (case canonical_json_hash H payload of Inl e \<Rightarrow> Inl e | Inr h \<Rightarrow>
             Inr \<lparr>pe_target = target, pe_original = Some org, pe_checks = checks,
                  pe_pair_hash = Some h\<rparr>)))"

section \<open>The billing table\<close>

text \<open>A row of \<open>BillingRecord\<close> carries exactly the facts the policy reads.\<close>

type_synonym billing_table = "refund_charge_facts list"

definition falsy_ref :: "string option \<Rightarrow> bool" where
  "falsy_ref x = (x = None \<or> x = Some [])"

definition evaluate_billing_refund_pair ::
  "(string \<Rightarrow> string) \<Rightarrow> billing_table \<Rightarrow> refund_charge_facts \<Rightarrow> pydatetime \<Rightarrow>
   refund_pair_evaluation result" where
  "evaluate_billing_refund_pair H rows billing now =
     evaluate_refund_pair H billing
       (if falsy_ref (rc_duplicate_of billing) then None
        else find (\<lambda>r. Some (rc_billing_record_id r) = rc_duplicate_of billing \<and>
               rc_tenant_id r = rc_tenant_id billing \<and> rc_customer_id r = rc_customer_id billing) rows)
       now"

definition lock_and_evaluate_billing_refund_pair ::
  "(string \<Rightarrow> string) \<Rightarrow> billing_table \<Rightarrow> string \<Rightarrow> string \<Rightarrow> string \<Rightarrow> pydatetime \<Rightarrow>
   (refund_charge_facts \<times> refund_pair_evaluation) option result" where
  "lock_and_evaluate_billing_refund_pair H rows tenant customer bill now =
     (case find (\<lambda>r. rc_billing_record_id r = bill \<and> rc_tenant_id r = tenant \<and>
             rc_customer_id r = customer) rows of
        None \<Rightarrow> Inr None
      | Some probe \<Rightarrow>
          (let identities = rc_billing_record_id probe #
                 (if falsy_ref (rc_duplicate_of probe) then [] else [the (rc_duplicate_of probe)]);
               locked = sort_key rc_billing_record_id
                 (filter (\<lambda>r. rc_tenant_id r = tenant \<and> rc_customer_id r = customer \<and>
                    rc_billing_record_id r \<in> set identities) rows)
           in (case lookup_by rc_billing_record_id bill (rev locked) of
                 None \<Rightarrow> Inr None
               | Some target \<Rightarrow>
                   (let original = lookup_by rc_billing_record_id
                          (case rc_duplicate_of target of None \<Rightarrow> [] | Some d \<Rightarrow> d) (rev locked)
                    in (case evaluate_refund_pair H target original now of
                          Inl e \<Rightarrow> Inl e
                        | Inr ev \<Rightarrow> Inr (Some (target, ev)))))))"

section \<open>Binding a pair to a proposal\<close>

record refund_binding =
  rb_original_resource_id :: "string option"
  rb_original_version :: "int option"
  rb_pair_hash :: "string option"

definition bind_refund_pair_to_proposal ::
  "refund_binding \<Rightarrow> refund_pair_evaluation \<Rightarrow> refund_binding result" where
  "bind_refund_pair_to_proposal proposal ev =
     (case (pe_original ev, pe_pair_hash ev) of
        (Some org, Some h) \<Rightarrow>
          if \<not> pair_eligible ev \<or> h = [] then Inl (ValueError ''refund_pair_is_not_eligible'')
          else Inr \<lparr>rb_original_resource_id = Some (rc_billing_record_id org),
                    rb_original_version = Some (rc_version org), rb_pair_hash = Some h\<rparr>
      | _ \<Rightarrow> Inl (ValueError ''refund_pair_is_not_eligible''))"

definition refund_pair_matches_proposal :: "refund_pair_evaluation \<Rightarrow> refund_binding \<Rightarrow> bool" where
  "refund_pair_matches_proposal ev proposal =
     (pair_eligible ev \<and>
      (case (pe_original ev, pe_pair_hash ev) of
         (Some org, Some h) \<Rightarrow>
           h \<noteq> [] \<and> rb_original_resource_id proposal = Some (rc_billing_record_id org) \<and>
           rb_original_version proposal = Some (rc_version org) \<and> rb_pair_hash proposal = Some h
       | _ \<Rightarrow> False))"

section \<open>Properties\<close>

lemma aware_utc_offset [simp]: "dt_offset (aware_utc t) = Some 0"
  by (simp add: aware_utc_def replace_utc_def astimezone_utc_def of_wall_utc_def Let_def)

lemma charge_payload_cases:
  "charge_payload v =
     (if dec_finite (rc_amount v) then charge_payload v
      else Inl (ValueError ''non-finite decimal projection''))"
  by (simp add: charge_payload_def canonical_decimal_string_error)

lemma charge_payload_finite:
  assumes "dec_finite (rc_amount v)"
  obtains d where "charge_payload v = Inr d" "list_all (\<lambda>kv. json_ok (snd kv)) d"
    "map fst d = [''amount'', ''billing_record_id'', ''charged_at'', ''currency'', ''customer_id'',
       ''service_period_end'', ''service_period_start'', ''status'', ''tenant_id'', ''version'']"
proof -
  obtain a where a: "canonical_decimal_string (rc_amount v) = Inr a"
    using canonical_decimal_string_finite [OF assms] by blast
  show thesis by (rule that) (simp add: charge_payload_def a, simp_all)
qed

lemma refund_pair_payload_finite:
  assumes "dec_finite (rc_amount t)" "dec_finite (rc_amount o')"
  obtains p where "refund_pair_payload t o' = Inr p" "json_ok p"
proof -
  obtain d where d: "charge_payload t = Inr d" "list_all (\<lambda>kv. json_ok (snd kv)) d"
    using charge_payload_finite [OF assms(1)] by blast
  obtain e where e: "charge_payload o' = Inr e" "list_all (\<lambda>kv. json_ok (snd kv)) e"
    using charge_payload_finite [OF assms(2)] by blast
  have os: "json_ok (opt_str x)" for x by (simp add: opt_str_def split: option.splits)
  show thesis by (rule that) (simp add: refund_pair_payload_def d e, simp add: d e os)
qed

lemma refund_pair_payload_nonfinite:
  assumes "\<not> (dec_finite (rc_amount t) \<and> dec_finite (rc_amount o'))"
  shows "refund_pair_payload t o' = Inl (ValueError ''non-finite decimal projection'')"
proof (cases "dec_finite (rc_amount o')")
  case True
  then obtain e where e: "charge_payload o' = Inr e" by (rule charge_payload_finite)
  from assms True have "charge_payload t = Inl (ValueError ''non-finite decimal projection'')"
    using charge_payload_cases [of t] by simp
  with e show ?thesis by (simp add: refund_pair_payload_def)
next
  case False
  then show ?thesis using charge_payload_cases [of o'] by (simp add: refund_pair_payload_def)
qed

lemma evaluate_refund_pair_Some:
  "evaluate_refund_pair H t (Some org) now = Inr ev \<longleftrightarrow>
     dec_finite (rc_amount t) \<and> dec_finite (rc_amount org) \<and>
     (\<exists>p. refund_pair_payload t org = Inr p \<and>
        ev = \<lparr>pe_target = t, pe_original = Some org,
              pe_checks = evaluate_checks t (Some org) now, pe_pair_hash = Some (H (json_dumps p))\<rparr>)"
proof (cases "dec_finite (rc_amount t) \<and> dec_finite (rc_amount org)")
  case True
  then obtain p where p: "refund_pair_payload t org = Inr p" "json_ok p"
    using refund_pair_payload_finite by blast
  then have "canonical_json_hash H p = Inr (H (json_dumps p))"
    by (simp add: canonical_json_hash_def canonical_json_bytes_def json_project_id)
  with p True show ?thesis by (auto simp: evaluate_refund_pair_def Let_def)
next
  case False
  then show ?thesis
    by (auto simp: evaluate_refund_pair_def Let_def refund_pair_payload_nonfinite)
qed

lemma evaluate_refund_pair_original:
  "evaluate_refund_pair H t org now = Inr ev \<Longrightarrow>
     pe_original ev = org \<and> pe_target ev = t \<and> pe_checks ev = evaluate_checks t org now \<and>
     (pe_pair_hash ev = None \<longleftrightarrow> org = None)"
  by (cases org) (auto simp: evaluate_refund_pair_Some, auto simp: evaluate_refund_pair_def Let_def)

text \<open>The published policy, stated on the charges and the current instant alone.\<close>

definition refundable_duplicate ::
  "refund_charge_facts \<Rightarrow> refund_charge_facts \<Rightarrow> int \<Rightarrow> bool" where
  "refundable_duplicate t org current \<longleftrightarrow>
     (rc_tenant_id t, rc_customer_id t) = (rc_tenant_id org, rc_customer_id org) \<and>
     rc_billing_record_id t \<noteq> rc_billing_record_id org \<and>
     rc_duplicate_of t = Some (rc_billing_record_id org) \<and>
     {rc_status t, rc_status org} = {''charged''} \<and>
     dec_eq (rc_amount t) (rc_amount org) \<and> rc_currency t = rc_currency org \<and>
     (rc_service_period_start t, rc_service_period_end t) =
       (rc_service_period_start org, rc_service_period_end org) \<and>
     rc_service_period_start t < rc_service_period_end t \<and>
     instant (aware_utc (rc_charged_at org)) \<le> current \<and>
     instant (aware_utc (rc_charged_at t)) \<in> {current - 30 * day_micros .. current}"

lemma checks_eligible_iff_refundable:
  "checks_eligible (evaluate_checks t (Some org) now) \<longleftrightarrow>
     refundable_duplicate t org (instant (aware_utc now))"
  by (auto simp: checks_eligible_def evaluate_checks_def refundable_duplicate_def Let_def
      window_micros_def REFUND_APPLICATION_WINDOW_DAYS_def)

lemma checks_eligible_None [simp]: "\<not> checks_eligible (evaluate_checks t None now)"
  by (simp add: checks_eligible_def evaluate_checks_def Let_def)

text \<open>
  C9. A pair evaluates as eligible for a refund exactly when the linked original charge exists and
  the two charges satisfy the published duplicate-charge policy at the current instant; with no
  original charge it is never eligible.
\<close>

theorem evaluate_refund_pair_eligible_iff:
  assumes "evaluate_refund_pair H t org now = Inr ev"
  shows "pair_eligible ev \<longleftrightarrow>
    (\<exists>o'. org = Some o' \<and> refundable_duplicate t o' (instant (aware_utc now)))"
  using evaluate_refund_pair_original [OF assms]
  by (cases org) (auto simp: pair_eligible_def checks_eligible_iff_refundable)

text \<open>The two charges of the worked example: paid twice on one day for the same month.\<close>

definition sample_time :: "nat \<Rightarrow> nat \<Rightarrow> nat \<Rightarrow> pydatetime" where
  "sample_time m d h =
     \<lparr>dt_year = 2026, dt_month = m, dt_day = d, dt_hour = h, dt_minute = 0, dt_second = 0,
      dt_micro = 0, dt_offset = Some 0\<rparr>"

definition sample_charge :: "string \<Rightarrow> nat \<Rightarrow> string option \<Rightarrow> refund_charge_facts" where
  "sample_charge i h d =
     \<lparr>rc_billing_record_id = i, rc_tenant_id = ''t'', rc_customer_id = ''c'',
      rc_amount = DFin 1990 (- 2), rc_currency = ''CNY'', rc_status = ''charged'',
      rc_charged_at = sample_time 7 1 h,
      rc_service_period_start = (2026, 7, 1), rc_service_period_end = (2026, 8, 1),
      rc_version = 1, rc_duplicate_of = d\<rparr>"

lemmas sample_defs = sample_charge_def sample_time_def aware_utc_def astimezone_utc_def
  refundable_duplicate_def instant_def wall_micros_def time_micros_def day_micros_def ymd2ord_def
  days_before_year_def days_before_month_def days_in_month_def is_leap_def dec_finite_def

lemma sample_charge_sel [simp]:
  "rc_billing_record_id (sample_charge i h d) = i" "rc_tenant_id (sample_charge i h d) = ''t''"
  "rc_customer_id (sample_charge i h d) = ''c''" "rc_duplicate_of (sample_charge i h d) = d"
  by (simp_all add: sample_charge_def)

lemma sample_evaluates:
  "\<exists>ev. evaluate_refund_pair H (sample_charge i h d) (Some (sample_charge i' h' d')) now = Inr ev"
proof -
  have fin: "dec_finite (rc_amount (sample_charge i h d))" for i h d
    by (simp add: sample_charge_def dec_finite_def)
  from fin [of i h d] fin [of i' h' d'] obtain p
    where "refund_pair_payload (sample_charge i h d) (sample_charge i' h' d') = Inr p"
    by (rule refund_pair_payload_finite)
  with fin show ?thesis by (auto simp: evaluate_refund_pair_Some)
qed

lemma sample_refundable:
  "refundable_duplicate (sample_charge ''b2'' 9 (Some ''b1'')) (sample_charge ''b1'' 8 None)
     (instant (aware_utc (sample_time 7 20 0)))"
  by (simp add: sample_defs)

theorem evaluate_refund_pair_eligible_iff_witness:
  "\<exists>ev. evaluate_refund_pair (\<lambda>b. ''h'') (sample_charge ''b2'' 9 (Some ''b1''))
          (Some (sample_charge ''b1'' 8 None)) (sample_time 7 20 0) = Inr ev \<and> pair_eligible ev"
proof -
  obtain ev where ev: "evaluate_refund_pair (\<lambda>b. ''h'') (sample_charge ''b2'' 9 (Some ''b1''))
      (Some (sample_charge ''b1'' 8 None)) (sample_time 7 20 0) = Inr ev"
    using sample_evaluates by blast
  then have "pair_eligible ev"
    using evaluate_refund_pair_eligible_iff [OF ev] sample_refundable by blast
  with ev show ?thesis by blast
qed


lemma pair_eligible_refundable:
  "evaluate_refund_pair H t (Some o') now = Inr ev \<Longrightarrow>
     pair_eligible ev \<longleftrightarrow> refundable_duplicate t o' (instant (aware_utc now))"
  using evaluate_refund_pair_original [of H t "Some o'" now ev]
  by (auto simp: pair_eligible_def checks_eligible_iff_refundable)

text \<open>
  The application window closes for good: a pair that is eligible at one moment is eligible at
  every later moment up to and including thirty days after the duplicate charge, and at no moment
  after that.
\<close>

theorem refund_window_closes:
  assumes "evaluate_refund_pair H t (Some o') now = Inr ev" "pair_eligible ev"
    and "evaluate_refund_pair H t (Some o') later = Inr ev'"
    and "instant (aware_utc now) \<le> instant (aware_utc later)"
  shows "pair_eligible ev' \<longleftrightarrow>
    instant (aware_utc later) \<le> instant (aware_utc (rc_charged_at t)) + 30 * day_micros"
  using assms pair_eligible_refundable [OF assms(1)] pair_eligible_refundable [OF assms(3)]
  by (auto simp: refundable_duplicate_def)

theorem refund_window_closes_witness:
  "\<exists>ev ev'. evaluate_refund_pair (\<lambda>b. ''h'') (sample_charge ''b2'' 9 (Some ''b1''))
       (Some (sample_charge ''b1'' 8 None)) (sample_time 7 20 0) = Inr ev \<and> pair_eligible ev \<and>
     evaluate_refund_pair (\<lambda>b. ''h'') (sample_charge ''b2'' 9 (Some ''b1''))
       (Some (sample_charge ''b1'' 8 None)) (sample_time 7 31 10) = Inr ev' \<and> \<not> pair_eligible ev'"
proof -
  let ?t = "sample_charge ''b2'' 9 (Some ''b1'')" and ?o = "sample_charge ''b1'' 8 None"
  obtain ev where ev: "evaluate_refund_pair (\<lambda>b. ''h'') ?t (Some ?o) (sample_time 7 20 0) = Inr ev"
    using sample_evaluates by blast
  obtain ev' where ev': "evaluate_refund_pair (\<lambda>b. ''h'') ?t (Some ?o) (sample_time 7 31 10) = Inr ev'"
    using sample_evaluates by blast
  have el: "pair_eligible ev" using pair_eligible_refundable [OF ev] sample_refundable by blast
  have "\<not> pair_eligible ev'"
    by (subst refund_window_closes [OF ev el ev']) (simp_all add: sample_defs)
  with ev el ev' show ?thesis by blast
qed

section \<open>Locked and unlocked evaluation\<close>

lemma lookup_locked:
  assumes "distinct (map rc_billing_record_id rows)"
  shows "lookup_by rc_billing_record_id k (rev (sort_key rc_billing_record_id (filter P rows))) =
    find (\<lambda>r. rc_billing_record_id r = k \<and> P r) rows"
proof -
  have "distinct (map rc_billing_record_id (rev (sort_key rc_billing_record_id (filter P rows))))"
    using assms by (simp add: distinct_map inj_on_def)
  then show ?thesis unfolding lookup_by_def
    by (rule find_eqI_unique [OF _ assms, where k = k]) auto
qed

text \<open>
  C11. Refinement: re-reading the pair under row locks, in resource-id order, returns exactly what the
  unlocked evaluation of the same billing record returns, for a table with unique identifiers.
\<close>

theorem lock_and_evaluate_refines_evaluate:
  assumes "distinct (map rc_billing_record_id rows)" "bill \<noteq> []"
  shows "lock_and_evaluate_billing_refund_pair H rows tenant customer bill now =
    (case find (\<lambda>r. rc_billing_record_id r = bill \<and> rc_tenant_id r = tenant \<and>
             rc_customer_id r = customer) rows of
       None \<Rightarrow> Inr None
     | Some billing \<Rightarrow>
         (case evaluate_billing_refund_pair H rows billing now of Inl e \<Rightarrow> Inl e
          | Inr ev \<Rightarrow> Inr (Some (billing, ev))))"
proof (cases "find (\<lambda>r. rc_billing_record_id r = bill \<and> rc_tenant_id r = tenant \<and>
             rc_customer_id r = customer) rows")
  case None
  then show ?thesis by (simp add: lock_and_evaluate_billing_refund_pair_def)
next
  case (Some probe)
  then have probe: "rc_billing_record_id probe = bill" "rc_tenant_id probe = tenant"
    "rc_customer_id probe = customer" "probe \<in> set rows"
    by (auto simp: find_Some_iff)
  let ?ids = "rc_billing_record_id probe #
    (if falsy_ref (rc_duplicate_of probe) then [] else [the (rc_duplicate_of probe)])"
  let ?P = "\<lambda>r. rc_tenant_id r = tenant \<and> rc_customer_id r = customer \<and>
    rc_billing_record_id r \<in> set ?ids"
  have target: "find (\<lambda>r. rc_billing_record_id r = bill \<and> ?P r) rows = Some probe"
    by (subst find_unique_iff [OF assms(1), where k = bill]) (use probe in auto)
  have original: "find (\<lambda>r. rc_billing_record_id r =
        (case rc_duplicate_of probe of None \<Rightarrow> [] | Some d \<Rightarrow> d) \<and> ?P r) rows =
      (if falsy_ref (rc_duplicate_of probe) then None
       else find (\<lambda>r. Some (rc_billing_record_id r) = rc_duplicate_of probe \<and>
              rc_tenant_id r = tenant \<and> rc_customer_id r = customer) rows)"
  proof (cases "falsy_ref (rc_duplicate_of probe)")
    case True
    then have "(case rc_duplicate_of probe of None \<Rightarrow> [] | Some d \<Rightarrow> d) = []"
      by (auto simp: falsy_ref_def)
    with True assms(2) probe(1) show ?thesis by (auto simp: find_None_iff)
  next
    case False
    then obtain d where d: "rc_duplicate_of probe = Some d" by (auto simp: falsy_ref_def)
    with False show ?thesis
      by (simp, intro find_eqI_unique [OF assms(1) assms(1), where k = d]) auto
  qed
  show ?thesis
    using Some target original probe(2,3)
    by (simp only: lock_and_evaluate_billing_refund_pair_def evaluate_billing_refund_pair_def
        option.case Let_def lookup_locked [OF assms(1)])
qed

theorem lock_and_evaluate_refines_evaluate_witness:
  "lock_and_evaluate_billing_refund_pair (\<lambda>b. ''h'')
     [sample_charge ''b2'' 9 (Some ''b1''), sample_charge ''b1'' 8 None] ''t'' ''c'' ''b2''
     (sample_time 7 20 0) =
   (case evaluate_billing_refund_pair (\<lambda>b. ''h'')
       [sample_charge ''b2'' 9 (Some ''b1''), sample_charge ''b1'' 8 None]
       (sample_charge ''b2'' 9 (Some ''b1'')) (sample_time 7 20 0) of Inl e \<Rightarrow> Inl e
    | Inr ev \<Rightarrow> Inr (Some (sample_charge ''b2'' 9 (Some ''b1''), ev)))"
  by (subst lock_and_evaluate_refines_evaluate) simp_all

section \<open>The proposal-side binding\<close>

text \<open>
  Binding succeeds exactly for an eligible pair with a digest, and the stored binding is then
  matched by a later evaluation exactly when that evaluation is still eligible and finds the same
  original charge at the same version with the same digest.
\<close>

theorem bind_then_match:
  assumes "bind_refund_pair_to_proposal p ev = Inr p'"
  shows "pair_eligible ev \<and>
    (refund_pair_matches_proposal ev' p' \<longleftrightarrow>
       pair_eligible ev' \<and> pe_pair_hash ev' = pe_pair_hash ev \<and>
       (\<exists>a b. pe_original ev = Some a \<and> pe_original ev' = Some b \<and>
          rc_billing_record_id a = rc_billing_record_id b \<and> rc_version a = rc_version b))"
  using assms
  by (auto simp: bind_refund_pair_to_proposal_def refund_pair_matches_proposal_def
      split: option.splits if_splits)

theorem bind_then_match_witness:
  "\<exists>ev p'. evaluate_refund_pair (\<lambda>b. ''h'') (sample_charge ''b2'' 9 (Some ''b1''))
       (Some (sample_charge ''b1'' 8 None)) (sample_time 7 20 0) = Inr ev \<and>
     bind_refund_pair_to_proposal
       \<lparr>rb_original_resource_id = None, rb_original_version = None, rb_pair_hash = None\<rparr> ev = Inr p' \<and>
     refund_pair_matches_proposal ev p'"
proof -
  obtain ev where ev: "evaluate_refund_pair (\<lambda>b. ''h'') (sample_charge ''b2'' 9 (Some ''b1''))
      (Some (sample_charge ''b1'' 8 None)) (sample_time 7 20 0) = Inr ev"
    using sample_evaluates by blast
  then have el: "pair_eligible ev" using pair_eligible_refundable [OF ev] sample_refundable by blast
  have org: "pe_original ev = Some (sample_charge ''b1'' 8 None)" "pe_pair_hash ev = Some ''h''"
    using ev by (auto simp: evaluate_refund_pair_Some)
  then obtain p' where p': "bind_refund_pair_to_proposal
       \<lparr>rb_original_resource_id = None, rb_original_version = None, rb_pair_hash = None\<rparr> ev = Inr p'"
    using el by (simp add: bind_refund_pair_to_proposal_def)
  from bind_then_match [OF p', of ev] el org have "refund_pair_matches_proposal ev p'" by simp
  with ev p' show ?thesis by blast
qed

end
