(* ===== verification/Approval_Edits.thy ===== *)
theory Approval_Edits
  imports Py_Values
begin

text \<open>
  \<open>services/approval_edits.py\<close>: the one field an approver may change in a pending action, per
  action type, and the check that a stored revision differs from its base by one such edit only.
\<close>

section \<open>White space\<close>

text \<open>
  \<open>str.strip()\<close> removes the characters for which \<open>str.isspace\<close> holds: the ASCII ones as single
  bytes, the others as their UTF-8 encodings.
\<close>

definition whitespace :: "string list" where
  "whitespace =
     [[CHR 0x09], [CHR 0x0A], [CHR 0x0B], [CHR 0x0C], [CHR 0x0D], [CHR 0x1C], [CHR 0x1D],
      [CHR 0x1E], [CHR 0x1F], [CHR 0x20], [CHR 0xC2, CHR 0x85], [CHR 0xC2, CHR 0xA0],
      [CHR 0xE1, CHR 0x9A, CHR 0x80], [CHR 0xE2, CHR 0x80, CHR 0x80],
      [CHR 0xE2, CHR 0x80, CHR 0x81], [CHR 0xE2, CHR 0x80, CHR 0x82],
      [CHR 0xE2, CHR 0x80, CHR 0x83], [CHR 0xE2, CHR 0x80, CHR 0x84],
      [CHR 0xE2, CHR 0x80, CHR 0x85], [CHR 0xE2, CHR 0x80, CHR 0x86],
      [CHR 0xE2, CHR 0x80, CHR 0x87], [CHR 0xE2, CHR 0x80, CHR 0x88],
      [CHR 0xE2, CHR 0x80, CHR 0x89], [CHR 0xE2, CHR 0x80, CHR 0x8A],
      [CHR 0xE2, CHR 0x80, CHR 0xA8], [CHR 0xE2, CHR 0x80, CHR 0xA9],
      [CHR 0xE2, CHR 0x80, CHR 0xAF], [CHR 0xE2, CHR 0x81, CHR 0x9F],
      [CHR 0xE3, CHR 0x80, CHR 0x80]]"

definition begins_with :: "string \<Rightarrow> string \<Rightarrow> bool" where
  "begins_with s w = (w \<noteq> [] \<and> take (length w) s = w)"

function strip_front :: "string list \<Rightarrow> string \<Rightarrow> string" where
  "strip_front ws s =
     (case find (begins_with s) ws of None \<Rightarrow> s | Some w \<Rightarrow> strip_front ws (drop (length w) s))"
  by pat_completeness auto
termination
proof (relation "measure (\<lambda>(ws, s). length s)", goal_cases)
  case (2 ws s w)
  then have "w \<noteq> []" "take (length w) s = w" by (auto simp: find_Some_iff begins_with_def)
  then have "0 < length w" "s \<noteq> []" by auto
  then show ?case by simp
qed simp

declare strip_front.simps [simp del]

definition strip :: "string \<Rightarrow> string" where
  "strip s = rev (strip_front (map rev whitespace) (rev (strip_front whitespace s)))"

section \<open>Edits\<close>

definition MAX_TARGET_CONCURRENCY :: int where
  "MAX_TARGET_CONCURRENCY = 1000000"

definition ApprovalEditNotAllowed :: error where
  "ApprovalEditNotAllowed = ValueError ''approval_edit_not_allowed''"

definition required_text :: "pyval \<Rightarrow> string result" where
  "required_text v =
     (case v of
        PStr s \<Rightarrow> if strip s = [] then Inl ApprovalEditNotAllowed else Inr (strip s)
      | _ \<Rightarrow> Inl ApprovalEditNotAllowed)"

definition required_target_concurrency :: "pyval \<Rightarrow> int result" where
  "required_target_concurrency v =
     (case v of
        PInt i \<Rightarrow> if 1 \<le> i \<and> i \<le> MAX_TARGET_CONCURRENCY then Inr i else Inl ApprovalEditNotAllowed
      | _ \<Rightarrow> Inl ApprovalEditNotAllowed)"

definition apply_approval_edit :: "string \<Rightarrow> pydict \<Rightarrow> pydict \<Rightarrow> pydict result" where
  "apply_approval_edit action_type base edited =
     (if action_type = ''refund'' then
        (if set (map fst edited) \<noteq> {''refund_reason''} then Inl ApprovalEditNotAllowed
         else (case required_text (dget edited ''refund_reason'') of Inl e \<Rightarrow> Inl e
           | Inr reason \<Rightarrow> Inr (dset base ''refund_reason'' (PStr reason))))
      else if action_type = ''entitlement_change'' then
        (if set (map fst edited) \<noteq> {''target_concurrency''} then Inl ApprovalEditNotAllowed
         else (let target = dget base ''target'' in
           if \<not> py_eq (dget base ''change_type'') (PStr ''quota_change'') \<or> \<not> is_dict target \<or>
              set (map fst (as_dict target)) \<noteq> {''concurrency_limit''}
           then Inl ApprovalEditNotAllowed
           else (case required_target_concurrency (dget edited ''target_concurrency'') of
               Inl e \<Rightarrow> Inl e
             | Inr n \<Rightarrow> Inr (dset base ''target'' (PDict [(''concurrency_limit'', PInt n)])))))
      else Inl ApprovalEditNotAllowed)"

definition revision_matches_approval_edit :: "string \<Rightarrow> pydict \<Rightarrow> pydict \<Rightarrow> bool" where
  "revision_matches_approval_edit action_type base revision =
     (let check = (\<lambda>edited.
        case apply_approval_edit action_type base edited of Inl _ \<Rightarrow> False
        | Inr expected \<Rightarrow> py_eq (PDict expected) (PDict revision)) in
      if action_type = ''refund'' then
        check [(''refund_reason'', dget revision ''refund_reason'')]
      else if action_type = ''entitlement_change'' then
        (let target = dget revision ''target'' in
         is_dict target \<and>
         check [(''target_concurrency'', dget (as_dict target) ''concurrency_limit'')])
      else False)"

section \<open>Properties\<close>

lemma strip_front_no_ws: "find (begins_with (strip_front ws s)) ws = None"
proof (induction ws s rule: strip_front.induct)
  case (1 ws s)
  then show ?case by (subst (1) strip_front.simps) (auto split: option.split)
qed

lemma strip_front_id: "find (begins_with s) ws = None \<Longrightarrow> strip_front ws s = s"
  by (subst strip_front.simps) simp

lemma strip_front_suffix: "suffix (strip_front ws s) s"
proof (induction ws s rule: strip_front.induct)
  case (1 ws s)
  show ?case
  proof (cases "find (begins_with s) ws")
    case None
    then show ?thesis by (simp add: strip_front_id)
  next
    case (Some w)
    then have "suffix (strip_front ws s) (drop (length w) s)"
      using 1 by (subst strip_front.simps) simp
    then show ?thesis using suffix_drop suffix_order.trans by blast
  qed
qed

lemma begins_with_prefix: "prefix u t \<Longrightarrow> begins_with u w \<Longrightarrow> begins_with t w"
  unfolding begins_with_def prefix_def by (metis append_take_drop_id length_take min.absorb2
      nat_le_linear take_append take_all append_eq_conv_conj)

lemma strip_idem [simp]: "strip (strip s) = strip s"
proof -
  define t where "t = strip_front whitespace s"
  define u where "u = strip_front (map rev whitespace) (rev t)"
  have "prefix (rev u) t"
    using strip_front_suffix [of "map rev whitespace" "rev t"]
    by (simp add: u_def suffix_to_prefix)
  then have "find (begins_with (rev u)) whitespace = None"
    using strip_front_no_ws [of whitespace s] begins_with_prefix
    by (auto simp: find_None_iff t_def)
  then have "strip_front whitespace (rev u) = rev u" by (rule strip_front_id)
  moreover have "strip_front (map rev whitespace) u = u"
    by (rule strip_front_id) (simp add: u_def strip_front_no_ws)
  ultimately show ?thesis by (simp add: strip_def flip: t_def u_def)
qed

lemma apply_refund:
  "apply_approval_edit ''refund'' base [(''refund_reason'', v)] =
     (case required_text v of Inl e \<Rightarrow> Inl e | Inr r \<Rightarrow> Inr (dset base ''refund_reason'' (PStr r)))"
  by (simp add: apply_approval_edit_def dget_def)

definition quota_base :: "pydict \<Rightarrow> bool" where
  "quota_base base =
     (dget base ''change_type'' = PStr ''quota_change'' \<and> is_dict (dget base ''target'') \<and>
      set (map fst (as_dict (dget base ''target''))) = {''concurrency_limit''})"

lemma apply_entitlement:
  "apply_approval_edit ''entitlement_change'' base [(''target_concurrency'', v)] =
     (if \<not> quota_base base then Inl ApprovalEditNotAllowed
      else (case required_target_concurrency v of Inl e \<Rightarrow> Inl e
        | Inr n \<Rightarrow> Inr (dset base ''target'' (PDict [(''concurrency_limit'', PInt n)]))))"
  by (simp add: apply_approval_edit_def quota_base_def dget_def [of "[_]"] Let_def)

lemma apply_approval_edit_cases:
  assumes "apply_approval_edit a base edited = Inr p"
  obtains (refund) r where "a = ''refund''" "required_text (dget edited ''refund_reason'') = Inr r"
      "p = dset base ''refund_reason'' (PStr r)"
  | (entitlement) n where "a = ''entitlement_change''" "quota_base base"
      "required_target_concurrency (dget edited ''target_concurrency'') = Inr n"
      "p = dset base ''target'' (PDict [(''concurrency_limit'', PInt n)])"
proof (cases "a = ''refund''")
  case True
  with assms obtain r where "required_text (dget edited ''refund_reason'') = Inr r"
      "p = dset base ''refund_reason'' (PStr r)"
    by (auto simp: apply_approval_edit_def split: if_splits sum.splits)
  with True show thesis by (rule that(1))
next
  case False
  with assms obtain n where "a = ''entitlement_change''" "quota_base base"
      "required_target_concurrency (dget edited ''target_concurrency'') = Inr n"
      "p = dset base ''target'' (PDict [(''concurrency_limit'', PInt n)])"
    by (simp add: apply_approval_edit_def quota_base_def Let_def split: if_splits sum.splits)
  then show thesis by (rule that(2))
qed

lemma required_text_Inr: "required_text v = Inr r \<longleftrightarrow> (\<exists>s. v = PStr s \<and> r = strip s \<and> r \<noteq> [])"
  by (auto simp: required_text_def split: pyval.splits)

lemma required_target_concurrency_Inr:
  "required_target_concurrency v = Inr n \<longleftrightarrow> v = PInt n \<and> 1 \<le> n \<and> n \<le> 1000000"
  by (auto simp: required_target_concurrency_def MAX_TARGET_CONCURRENCY_def split: pyval.splits)

lemma revision_matches_cases:
  assumes "revision_matches_approval_edit a base r"
  obtains (refund) s where "a = ''refund''" "strip s = s" "s \<noteq> []"
      "py_eq (PDict (dset base ''refund_reason'' (PStr s))) (PDict r)"
  | (entitlement) n where "a = ''entitlement_change''" "1 \<le> n" "n \<le> 1000000"
      "py_eq (PDict (dset base ''target'' (PDict [(''concurrency_limit'', PInt n)]))) (PDict r)"
proof -
  consider "a = ''refund''" | "a = ''entitlement_change''"
    using assms by (auto simp: revision_matches_approval_edit_def Let_def split: if_splits)
  then show thesis
  proof cases
    case 1
    then obtain t where t: "required_text (dget r ''refund_reason'') = Inr t"
        "py_eq (PDict (dset base ''refund_reason'' (PStr t))) (PDict r)"
      using assms
      by (auto simp: revision_matches_approval_edit_def apply_refund split: sum.splits
          simp del: py_eq.simps)
    from t(1) have "strip t = t" "t \<noteq> []" by (auto simp: required_text_Inr)
    then show thesis by (rule that(1) [OF 1 _ _ t(2)])
  next
    case 2
    then obtain n where n: "required_target_concurrency
          (dget (as_dict (dget r ''target'')) ''concurrency_limit'') = Inr n"
        "py_eq (PDict (dset base ''target'' (PDict [(''concurrency_limit'', PInt n)]))) (PDict r)"
      using assms
      by (auto simp: revision_matches_approval_edit_def apply_entitlement Let_def
          split: sum.splits if_splits simp del: py_eq.simps)
    from n(1) have "1 \<le> n" "n \<le> 1000000" by (simp_all add: required_target_concurrency_Inr)
    then show thesis by (rule that(2) [OF 2 _ _ n(2)])
  qed
qed

text \<open>
  C13. Completeness of the revision check: whatever revision an allowed edit produces, the check that
  later re-validates the stored revision accepts it.
\<close>

theorem apply_then_revision_matches:
  assumes "apply_approval_edit a base edited = Inr p" "pv_wf (PDict base)"
  shows "revision_matches_approval_edit a base p"
  using assms(1)
proof (cases rule: apply_approval_edit_cases)
  case (refund r)
  then obtain s where r: "r = strip s" "r \<noteq> []" by (auto simp: required_text_Inr)
  have "py_eq (PDict p) (PDict p)" using py_eq_refl [OF pv_wf_dset [OF assms(2)]] refund by simp
  moreover have "required_text (PStr r) = Inr r" using r by (simp add: required_text_Inr)
  ultimately show ?thesis using refund
    by (simp add: revision_matches_approval_edit_def apply_refund del: py_eq.simps)
next
  case (entitlement n)
  have "py_eq (PDict p) (PDict p)" using py_eq_refl [OF pv_wf_dset [OF assms(2)]] entitlement by simp
  moreover have "required_target_concurrency (PInt n) = Inr n"
    using entitlement by (simp add: required_target_concurrency_Inr)
  ultimately show ?thesis using entitlement
    by (simp add: revision_matches_approval_edit_def apply_entitlement Let_def
        dget_def [of "[(''concurrency_limit'', PInt n)]"] del: py_eq.simps)
qed

definition sample_base :: pydict where
  "sample_base = [(''change_type'', PStr ''quota_change''),
     (''target'', PDict [(''concurrency_limit'', PInt 20)]), (''reason'', PStr ''growth'')]"

theorem apply_then_revision_matches_witness:
  "revision_matches_approval_edit ''entitlement_change'' sample_base
     (dset sample_base ''target'' (PDict [(''concurrency_limit'', PInt 50)]))"
  by (rule apply_then_revision_matches [where edited = "[(''target_concurrency'', PInt 50)]"])
    (simp_all add: apply_entitlement quota_base_def sample_base_def dget_def
      required_target_concurrency_def MAX_TARGET_CONCURRENCY_def)

definition editable_field :: "string \<Rightarrow> string" where
  "editable_field a = (if a = ''refund'' then ''refund_reason'' else ''target'')"

text \<open>
  C14. Soundness of the revision check: an accepted revision keeps the base's fields and their values
  except for the one editable field of its action type; there, a refund has a stripped non-empty
  reason and an entitlement change a single concurrency limit between 1 and one million.  Any other
  action type is refused.
\<close>

theorem accepted_revision_changes_one_field:
  assumes "revision_matches_approval_edit a base r"
    and "distinct (map fst base)" "distinct (map fst r)"
  shows "(\<forall>k. k \<noteq> editable_field a \<longrightarrow> dhas r k = dhas base k \<and> py_eq (dget base k) (dget r k)) \<and>
    ((a = ''refund'' \<and> (\<exists>s. dget r ''refund_reason'' = PStr s \<and> s \<noteq> [] \<and> strip s = s)) \<or>
     (a = ''entitlement_change'' \<and>
      (\<exists>n \<in> {1 .. 1000000}. py_eq (PDict [(''concurrency_limit'', PInt n)]) (dget r ''target''))))"
  using assms(1)
proof (cases rule: revision_matches_cases)
  case (refund s)
  note D = py_eq_PDictD [OF refund(4) dset_distinct [OF assms(2)] assms(3)]
  have "dget r ''refund_reason'' = PStr s" using D(2) [of "''refund_reason''"] by simp
  moreover have "dhas r k = dhas base k \<and> py_eq (dget base k) (dget r k)"
    if "k \<noteq> ''refund_reason''" for k using D [of k] that by simp
  ultimately show ?thesis using refund(1-3) by (simp add: editable_field_def)
next
  case (entitlement n)
  note D = py_eq_PDictD [OF entitlement(4) dset_distinct [OF assms(2)] assms(3)]
  have "py_eq (PDict [(''concurrency_limit'', PInt n)]) (dget r ''target'')"
    using D(2) [of "''target''"] by simp
  moreover have "dhas r k = dhas base k \<and> py_eq (dget base k) (dget r k)"
    if "k \<noteq> ''target''" for k using D [of k] that by simp
  moreover have "n \<in> {1 .. 1000000}" using entitlement(2,3) by simp
  ultimately show ?thesis using entitlement(1) by (auto simp: editable_field_def simp del: py_eq.simps)
qed

theorem accepted_revision_changes_one_field_witness:
  "py_eq (dget [(''amount'', PStr ''9''), (''refund_reason'', PStr ''x'')] ''amount'')
     (dget [(''refund_reason'', PStr ''dup''), (''amount'', PStr ''9'')] ''amount'')"
proof -
  have st: "strip ''dup'' = ''dup''"
    by (simp add: strip_def strip_front_id whitespace_def begins_with_def)
  have m: "revision_matches_approval_edit ''refund''
      [(''amount'', PStr ''9''), (''refund_reason'', PStr ''x'')]
      [(''refund_reason'', PStr ''dup''), (''amount'', PStr ''9'')]"
    by (simp add: revision_matches_approval_edit_def apply_refund required_text_def st
        dget_def dset_def dhas_def)
  show ?thesis
    using conjunct1 [OF accepted_revision_changes_one_field [OF m], rule_format, of "''amount''"]
    by (simp add: editable_field_def)
qed

end
