(* ===== verification/Action_Specs.thy ===== *)
theory Action_Specs
  imports Py_Values Approval_Edits
begin

text \<open>
  \<open>actions/service.py\<close>: the declarative contract of each high-risk action (evidence obligations,
  proposal field bindings, terminal outcome rules), the registry \<open>ACTION_SPECS\<close> with its five
  indexes, the typed candidate, decision and effect values that travel through the action pipeline,
  and the pipeline itself (\<open>ActionService.propose\<close> and \<open>execute\<close>).  The entitlement target schemas
  of \<open>contracts/action_preconditions.py\<close> are here too.  The pipeline's host and the decision
  handler are protocols in the source; they are parameters here.
\<close>

section \<open>Contract records and their validators\<close>

datatype obligation_kind = KResource | KKnowledge | KUsage
datatype proposal_field_source = FromAdmission | FromObservation | FromRequestReason
datatype terminal_outcome_class = ActionIneligible | ResourceNotAvailable
datatype terminal_outcome_predicate =
    ObservationStatusIn
  | ResourceStatusNotAllowed
  | ObservationFieldFalsy
  | AdmissionNotInObservation
  | AdmissionEqualsObservation
datatype proposal_schema =
    RefundProposalArguments
  | ApiKeyRevocationProposalArguments
  | EntitlementChangeProposalArguments

record evidence_obligation_spec =
  obligation_id :: string
  eo_kind :: obligation_kind
  eo_capabilities :: "string list"
  required_data_fields :: "string list"
  required_truthy_data_fields :: "string list"
  resource_ref_argument :: "string option"
  observed_resource_field :: "string option"
  allowed_resource_statuses :: "string list"
  require_freshness :: bool
  policy_family :: "string option"
  eo_topic :: "string option"
  allowed_document_keys :: "string list"
  allowed_document_types :: "string list"
  allowed_section_terms :: "string list"
  minimum_version :: "string option"

definition opt_truthy :: "string option \<Rightarrow> bool" where
  "opt_truthy x = (case x of None \<Rightarrow> False | Some s \<Rightarrow> s \<noteq> [])"

definition len_between :: "nat \<Rightarrow> nat \<Rightarrow> string \<Rightarrow> bool" where
  "len_between lo hi s = (lo \<le> py_len s \<and> py_len s \<le> hi)"

definition validate_obligation ::
  "evidence_obligation_spec \<Rightarrow> evidence_obligation_spec result" where
  "validate_obligation ob =
     (if \<not> len_between 1 64 (obligation_id ob) \<or> eo_capabilities ob = [] then
        Inl (ValidationError ''field'')
      else if \<exists>f \<in> set (required_truthy_data_fields ob). f \<notin> set (required_data_fields ob) then
        Inl (ValidationError ''truthy resource fields must also be required'')
      else
        (let required = [opt_truthy (policy_family ob), opt_truthy (eo_topic ob),
               allowed_document_keys ob \<noteq> [], allowed_document_types ob \<noteq> [],
               allowed_section_terms ob \<noteq> [], opt_truthy (minimum_version ob)]
         in if eo_kind ob = KKnowledge then
              (if \<not> list_all id required \<or> eo_capabilities ob \<noteq> [''search_knowledge''] then
                 Inl (ValidationError ''knowledge obligation requires a frozen retrieval contract'')
               else Inr ob)
            else if list_ex id required then
              Inl (ValidationError ''only knowledge obligations accept retrieval constraints'')
            else Inr ob))"

record action_error_codes =
  ec_missing :: string
  ec_stale :: string
  ec_conflict :: string
  ec_terminal :: string

record proposal_field_binding =
  target_field :: string
  pf_source :: proposal_field_source
  source_path :: string
  pf_obligation_id :: "string option"

definition validate_observation_binding ::
  "proposal_field_binding \<Rightarrow> proposal_field_binding result" where
  "validate_observation_binding b =
     (if (pf_source b = FromObservation) \<noteq> (pf_obligation_id b \<noteq> None) then
        Inl (ValidationError ''observation proposal fields require one obligation'')
      else Inr b)"

record terminal_outcome_rule =
  outcome_code :: string
  terminal_class :: terminal_outcome_class
  tr_obligation_id :: string
  tr_predicate :: terminal_outcome_predicate
  observation_field :: "string option"
  admission_path :: "string option"
  match_values :: "string list"
  public_observation_fields :: "string list"
  public_admission_paths :: "string list"
  customer_message_key :: string
  recommended_next_step :: string
  require_business_source :: bool

definition TerminalOutcomeMessageKey :: "string list" where
  "TerminalOutcomeMessageKey =
     [''refund_resource_not_available'', ''refund_status_not_actionable'',
      ''refund_duplicate_relation_unconfirmed'', ''api_key_resource_not_available'',
      ''api_key_status_not_actionable'', ''subscription_resource_not_available'',
      ''subscription_status_not_actionable'', ''entitlement_target_unsupported'',
      ''entitlement_target_noop'']"

definition predicate_shape_error :: "terminal_outcome_rule \<Rightarrow> string option" where
  "predicate_shape_error r =
     (case tr_predicate r of
        ObservationStatusIn \<Rightarrow>
          if match_values r = [] \<or> opt_truthy (observation_field r) \<or> opt_truthy (admission_path r)
          then Some ''observation-status rule requires only match_values'' else None
      | ResourceStatusNotAllowed \<Rightarrow>
          if observation_field r \<noteq> Some ''status'' \<or> opt_truthy (admission_path r)
          then Some ''resource-status rule requires the status field'' else None
      | ObservationFieldFalsy \<Rightarrow>
          if \<not> opt_truthy (observation_field r) \<or> opt_truthy (admission_path r)
          then Some ''field-falsy rule requires one observation field'' else None
      | _ \<Rightarrow>
          if \<not> opt_truthy (observation_field r) \<or> \<not> opt_truthy (admission_path r)
          then Some ''admission comparison requires both field paths'' else None)"

definition validate_predicate_shape :: "terminal_outcome_rule \<Rightarrow> terminal_outcome_rule result" where
  "validate_predicate_shape r =
     (if \<not> len_between 1 100 (outcome_code r) \<or> \<not> len_between 1 64 (tr_obligation_id r) \<or>
         customer_message_key r \<notin> set TerminalOutcomeMessageKey \<or>
         \<not> len_between 1 100 (recommended_next_step r)
      then Inl (ValidationError ''field'')
      else (case predicate_shape_error r of
          Some m \<Rightarrow> Inl (ValidationError m)
        | None \<Rightarrow>
            if terminal_class r = ResourceNotAvailable \<and> require_business_source r then
              Inl (ValidationError ''resource-not-available must not invent a business source'')
            else Inr r))"

record action_spec =
  spec_action_type :: string
  issue_type :: string
  admission_required_fields :: "string list"
  spec_obligations :: "evidence_obligation_spec list"
  proposal_action :: string
  proposal_schema_name :: string
  spec_schema :: proposal_schema
  policy_capability :: string
  runtime_effect_capability :: string
  proposal_fields :: "proposal_field_binding list"
  terminal_outcomes :: "terminal_outcome_rule list"
  clarification_fields :: "string list"
  spec_error_codes :: action_error_codes

definition is_resource_obligation :: "evidence_obligation_spec \<Rightarrow> bool" where
  "is_resource_obligation ob = (eo_kind ob = KResource \<and> observed_resource_field ob \<noteq> None)"

definition ActionType :: "string list" where
  "ActionType = [''refund'', ''api_key_revocation'', ''entitlement_change'']"

definition ActionIssueType :: "string list" where
  "ActionIssueType = [''billing_refund'', ''credential_security'', ''entitlement_change'']"

definition ProposalAction :: "string list" where
  "ProposalAction =
     [''refund_proposal'', ''api_key_revocation_proposal'', ''entitlement_change_proposal'']"

definition PolicyCapability :: "string list" where
  "PolicyCapability =
     [''propose_refund'', ''propose_api_key_revocation'', ''propose_entitlement_change'']"

definition RuntimeEffectCapability :: "string list" where
  "RuntimeEffectCapability =
     [''execute_refund'', ''execute_api_key_revocation'', ''execute_entitlement_change'']"

definition validate_unique_obligations :: "action_spec \<Rightarrow> action_spec result" where
  "validate_unique_obligations sp =
     (let ids = map obligation_id (spec_obligations sp);
          targets = map target_field (proposal_fields sp);
          codes = map outcome_code (terminal_outcomes sp);
          resources = filter is_resource_obligation (spec_obligations sp)
      in if length ids \<noteq> card (set ids) then
           Inl (ValidationError ''ActionSpec obligation IDs must be unique'')
         else if length targets \<noteq> card (set targets) then
           Inl (ValidationError ''ActionSpec proposal target fields must be unique'')
         else if \<exists>b \<in> set (proposal_fields sp).
                   pf_obligation_id b \<noteq> None \<and> the (pf_obligation_id b) \<notin> set ids then
           Inl (ValidationError ''proposal field references an unknown obligation'')
         else if \<exists>r \<in> set (terminal_outcomes sp). tr_obligation_id r \<notin> set ids then
           Inl (ValidationError ''terminal outcome references an unknown obligation'')
         else if length codes \<noteq> card (set codes) then
           Inl (ValidationError ''terminal outcome codes must be unique'')
         else if proposal_schema_name sp \<noteq> proposal_action sp then
           Inl (ValidationError ''proposal schema identity must match the proposal action'')
         else (case resources of
             [ob] \<Rightarrow>
               if length (eo_capabilities ob) \<noteq> 1 then
                 Inl (ValidationError ''resource obligation requires exactly one read capability'')
               else if \<not> (\<exists>b \<in> set (proposal_fields sp). pf_source b = FromObservation \<and>
                       pf_obligation_id b = Some (obligation_id ob) \<and>
                       Some (target_field b) = observed_resource_field ob \<and>
                       Some (source_path b) = observed_resource_field ob) then
                 Inl (ValidationError ''resource obligation must bind the proposal resource field'')
               else Inr sp
           | _ \<Rightarrow> Inl (ValidationError ''ActionSpec requires exactly one resource obligation'')))"

text \<open>Constructing a specification validates its parts, its fields, then the whole.\<close>

definition construct_action_spec :: "action_spec \<Rightarrow> action_spec result" where
  "construct_action_spec sp =
     (case mapE validate_obligation (spec_obligations sp) of Inl e \<Rightarrow> Inl e | Inr _ \<Rightarrow>
     (case mapE validate_observation_binding (proposal_fields sp) of Inl e \<Rightarrow> Inl e | Inr _ \<Rightarrow>
     (case mapE validate_predicate_shape (terminal_outcomes sp) of Inl e \<Rightarrow> Inl e | Inr _ \<Rightarrow>
        if spec_action_type sp \<notin> set ActionType \<or> issue_type sp \<notin> set ActionIssueType \<or>
           admission_required_fields sp = [] \<or> spec_obligations sp = [] \<or>
           proposal_action sp \<notin> set ProposalAction \<or>
           proposal_schema_name sp \<notin> set ProposalAction \<or>
           policy_capability sp \<notin> set PolicyCapability \<or>
           runtime_effect_capability sp \<notin> set RuntimeEffectCapability \<or>
           proposal_fields sp = [] \<or> terminal_outcomes sp = [] \<or> clarification_fields sp = []
        then Inl (ValidationError ''field'')
        else validate_unique_obligations sp)))"

text \<open>\<open>next(...)\<close> without a default raises \<open>StopIteration\<close>; validation rules that out.\<close>

definition resource_obligation :: "action_spec \<Rightarrow> evidence_obligation_spec option" where
  "resource_obligation sp = find is_resource_obligation (spec_obligations sp)"

definition resource_field :: "action_spec \<Rightarrow> string option" where
  "resource_field sp =
     (case resource_obligation sp of None \<Rightarrow> None | Some ob \<Rightarrow> observed_resource_field ob)"

definition primary_read_capability :: "action_spec \<Rightarrow> string option" where
  "primary_read_capability sp =
     (case resource_obligation sp of None \<Rightarrow> None
      | Some ob \<Rightarrow> (case eo_capabilities ob of [] \<Rightarrow> None | c # _ \<Rightarrow> Some c))"

section \<open>The registry\<close>

definition COMMON_ERROR_CODES :: action_error_codes where
  "COMMON_ERROR_CODES =
     \<lparr>ec_missing = ''action_evidence_missing'', ec_stale = ''action_evidence_stale'',
      ec_conflict = ''action_evidence_conflict'', ec_terminal = ''action_evidence_invalid''\<rparr>"

definition billing_record_current :: evidence_obligation_spec where
  "billing_record_current = \<lparr>obligation_id = ''billing_record_current'',
      eo_kind = KResource,
      eo_capabilities = [''query_billing_record''],
      required_data_fields = [''billing_record_id'', ''amount'', ''currency'', ''status'',
        ''charged_at'', ''service_period_start'', ''service_period_end'', ''duplicate_of'',
        ''version'', ''original_billing_record_id'', ''original_amount'', ''original_currency'',
        ''original_status'', ''original_charged_at'', ''original_service_period_start'',
        ''original_service_period_end'', ''original_version'', ''duplicate_pair_eligible'',
        ''refund_pair_hash''],
      required_truthy_data_fields = [''duplicate_of'', ''original_billing_record_id'',
        ''duplicate_pair_eligible'', ''refund_pair_hash''],
      resource_ref_argument = Some ''billing_record_id'',
      observed_resource_field = Some ''billing_record_id'',
      allowed_resource_statuses = [''charged''],
      require_freshness = True,
      policy_family = None,
      eo_topic = None,
      allowed_document_keys = [],
      allowed_document_types = [],
      allowed_section_terms = [],
      minimum_version = None\<rparr>"

definition refund_policy_current :: evidence_obligation_spec where
  "refund_policy_current = \<lparr>obligation_id = ''refund_policy_current'',
      eo_kind = KKnowledge,
      eo_capabilities = [''search_knowledge''],
      required_data_fields = [''evidence'', ''index_version''],
      required_truthy_data_fields = [],
      resource_ref_argument = None,
      observed_resource_field = None,
      allowed_resource_statuses = [],
      require_freshness = False,
      policy_family = Some ''billing-refunds'',
      eo_topic = Some ''duplicate-charge-refund'',
      allowed_document_keys = [''billing-refunds-v3''],
      allowed_document_types = [''official_policy''],
      allowed_section_terms = [[CHR 0xE9, CHR 0x80, CHR 0x80, CHR 0xE6, CHR 0xAC, CHR 0xBE],
        [CHR 0xE9, CHR 0x87, CHR 0x8D, CHR 0xE5, CHR 0xA4, CHR 0x8D, CHR 0xE6, CHR 0x89, CHR 0xA3,
        CHR 0xE8, CHR 0xB4, CHR 0xB9], [CHR 0xE5, CHR 0xAE, CHR 0xA1, CHR 0xE6, CHR 0x89,
        CHR 0xB9]],
      minimum_version = Some ''3.1''\<rparr>"

definition refund_resource_not_available_rule :: terminal_outcome_rule where
  "refund_resource_not_available_rule = \<lparr>outcome_code = ''refund_resource_not_available'',
      terminal_class = ResourceNotAvailable,
      tr_obligation_id = ''billing_record_current'',
      tr_predicate = ObservationStatusIn,
      observation_field = None,
      admission_path = None,
      match_values = [''not_found''],
      public_observation_fields = [],
      public_admission_paths = [],
      customer_message_key = ''refund_resource_not_available'',
      recommended_next_step = ''verify_billing_reference'',
      require_business_source = False\<rparr>"

definition refund_status_not_actionable_rule :: terminal_outcome_rule where
  "refund_status_not_actionable_rule = \<lparr>outcome_code = ''refund_status_not_actionable'',
      terminal_class = ActionIneligible,
      tr_obligation_id = ''billing_record_current'',
      tr_predicate = ResourceStatusNotAllowed,
      observation_field = Some ''status'',
      admission_path = None,
      match_values = [],
      public_observation_fields = [''billing_record_id'', ''status''],
      public_admission_paths = [],
      customer_message_key = ''refund_status_not_actionable'',
      recommended_next_step = ''review_existing_refund'',
      require_business_source = True\<rparr>"

definition refund_duplicate_relation_unconfirmed_rule :: terminal_outcome_rule where
  "refund_duplicate_relation_unconfirmed_rule = \<lparr>outcome_code = ''refund_duplicate_relation_unconfirmed'',
      terminal_class = ActionIneligible,
      tr_obligation_id = ''billing_record_current'',
      tr_predicate = ObservationFieldFalsy,
      observation_field = Some ''duplicate_pair_eligible'',
      admission_path = None,
      match_values = [],
      public_observation_fields = [''billing_record_id'', ''status'', ''duplicate_of'',
        ''duplicate_pair_eligible''],
      public_admission_paths = [],
      customer_message_key = ''refund_duplicate_relation_unconfirmed'',
      recommended_next_step = ''verify_duplicate_billing_reference'',
      require_business_source = True\<rparr>"

definition refund_spec :: action_spec where
  "refund_spec = \<lparr>spec_action_type = ''refund'',
      issue_type = ''billing_refund'',
      admission_required_fields = [''billing_record_id''],
      spec_obligations = [billing_record_current, refund_policy_current],
      proposal_action = ''refund_proposal'',
      proposal_schema_name = ''refund_proposal'',
      spec_schema = RefundProposalArguments,
      policy_capability = ''propose_refund'',
      runtime_effect_capability = ''execute_refund'',
      proposal_fields = [\<lparr>target_field = ''billing_record_id'',
        pf_source = FromObservation, source_path = ''billing_record_id'',
        pf_obligation_id = Some ''billing_record_current''\<rparr>,
      \<lparr>target_field = ''refund_reason'', pf_source = FromRequestReason,
        source_path = ''request_reason'', pf_obligation_id = None\<rparr>],
      terminal_outcomes = [refund_resource_not_available_rule,
      refund_status_not_actionable_rule,
      refund_duplicate_relation_unconfirmed_rule],
      clarification_fields = [''billing_record_id''],
      spec_error_codes = COMMON_ERROR_CODES\<rparr>"

definition api_key_metadata_current :: evidence_obligation_spec where
  "api_key_metadata_current = \<lparr>obligation_id = ''api_key_metadata_current'',
      eo_kind = KResource,
      eo_capabilities = [''query_api_key_metadata''],
      required_data_fields = [''api_key_id'', ''fingerprint'', ''status'', ''version'',
        ''last_used_summary''],
      required_truthy_data_fields = [],
      resource_ref_argument = Some ''api_key_ref'',
      observed_resource_field = Some ''api_key_id'',
      allowed_resource_statuses = [''active''],
      require_freshness = True,
      policy_family = None,
      eo_topic = None,
      allowed_document_keys = [],
      allowed_document_types = [],
      allowed_section_terms = [],
      minimum_version = None\<rparr>"

definition api_key_revocation_policy_current :: evidence_obligation_spec where
  "api_key_revocation_policy_current = \<lparr>obligation_id = ''api_key_revocation_policy_current'',
      eo_kind = KKnowledge,
      eo_capabilities = [''search_knowledge''],
      required_data_fields = [''evidence'', ''index_version''],
      required_truthy_data_fields = [],
      resource_ref_argument = None,
      observed_resource_field = None,
      allowed_resource_statuses = [],
      require_freshness = False,
      policy_family = Some ''api-key-security'',
      eo_topic = Some ''api-key-revocation'',
      allowed_document_keys = [''api-key-incident-v1'', ''authentication-security-v3''],
      allowed_document_types = [''security_policy''],
      allowed_section_terms = [[CHR 0xE6, CHR 0x92, CHR 0xA4, CHR 0xE9, CHR 0x94, CHR 0x80],
        [CHR 0xE5, CHR 0xAF, CHR 0x86, CHR 0xE9, CHR 0x92, CHR 0xA5], ''Secret'', [CHR 0xE8,
        CHR 0xBD, CHR 0xAE, CHR 0xE6, CHR 0x8D, CHR 0xA2]],
      minimum_version = Some ''1.0''\<rparr>"

definition api_key_resource_not_available_rule :: terminal_outcome_rule where
  "api_key_resource_not_available_rule = \<lparr>outcome_code = ''api_key_resource_not_available'',
      terminal_class = ResourceNotAvailable,
      tr_obligation_id = ''api_key_metadata_current'',
      tr_predicate = ObservationStatusIn,
      observation_field = None,
      admission_path = None,
      match_values = [''not_found''],
      public_observation_fields = [],
      public_admission_paths = [],
      customer_message_key = ''api_key_resource_not_available'',
      recommended_next_step = ''verify_key_reference'',
      require_business_source = False\<rparr>"

definition api_key_status_not_actionable_rule :: terminal_outcome_rule where
  "api_key_status_not_actionable_rule = \<lparr>outcome_code = ''api_key_status_not_actionable'',
      terminal_class = ActionIneligible,
      tr_obligation_id = ''api_key_metadata_current'',
      tr_predicate = ResourceStatusNotAllowed,
      observation_field = Some ''status'',
      admission_path = None,
      match_values = [],
      public_observation_fields = [''api_key_id'', ''status''],
      public_admission_paths = [],
      customer_message_key = ''api_key_status_not_actionable'',
      recommended_next_step = ''review_key_status'',
      require_business_source = True\<rparr>"

definition api_key_revocation_spec :: action_spec where
  "api_key_revocation_spec = \<lparr>spec_action_type = ''api_key_revocation'',
      issue_type = ''credential_security'',
      admission_required_fields = [''api_key_ref''],
      spec_obligations = [api_key_metadata_current, api_key_revocation_policy_current],
      proposal_action = ''api_key_revocation_proposal'',
      proposal_schema_name = ''api_key_revocation_proposal'',
      spec_schema = ApiKeyRevocationProposalArguments,
      policy_capability = ''propose_api_key_revocation'',
      runtime_effect_capability = ''execute_api_key_revocation'',
      proposal_fields = [\<lparr>target_field = ''api_key_id'', pf_source = FromObservation,
        source_path = ''api_key_id'', pf_obligation_id = Some ''api_key_metadata_current''\<rparr>,
      \<lparr>target_field = ''reason'', pf_source = FromRequestReason,
        source_path = ''request_reason'', pf_obligation_id = None\<rparr>],
      terminal_outcomes = [api_key_resource_not_available_rule,
      api_key_status_not_actionable_rule],
      clarification_fields = [''api_key_ref''],
      spec_error_codes = COMMON_ERROR_CODES\<rparr>"

definition subscription_current :: evidence_obligation_spec where
  "subscription_current = \<lparr>obligation_id = ''subscription_current'',
      eo_kind = KResource,
      eo_capabilities = [''query_subscription''],
      required_data_fields = [''subscription_id'', ''plan'', ''status'', ''rpm_limit'',
        ''concurrency_limit'', ''catalog_eligibility'', ''version''],
      required_truthy_data_fields = [],
      resource_ref_argument = None,
      observed_resource_field = Some ''subscription_id'',
      allowed_resource_statuses = [''active''],
      require_freshness = True,
      policy_family = None,
      eo_topic = None,
      allowed_document_keys = [],
      allowed_document_types = [],
      allowed_section_terms = [],
      minimum_version = None\<rparr>"

definition entitlement_policy_current :: evidence_obligation_spec where
  "entitlement_policy_current = \<lparr>obligation_id = ''entitlement_policy_current'',
      eo_kind = KKnowledge,
      eo_capabilities = [''search_knowledge''],
      required_data_fields = [''evidence'', ''index_version''],
      required_truthy_data_fields = [],
      resource_ref_argument = None,
      observed_resource_field = None,
      allowed_resource_statuses = [],
      require_freshness = False,
      policy_family = Some ''entitlement-changes'',
      eo_topic = Some ''quota-and-plan-change'',
      allowed_document_keys = [''entitlement-changes-v1''],
      allowed_document_types = [''official_policy''],
      allowed_section_terms = [[CHR 0xE9, CHR 0x85, CHR 0x8D, CHR 0xE9, CHR 0xA2, CHR 0x9D],
        [CHR 0xE5, CHR 0xA5, CHR 0x97, CHR 0xE9, CHR 0xA4, CHR 0x90], [CHR 0xE7, CHR 0x9B,
        CHR 0xAE, CHR 0xE6, CHR 0xA0, CHR 0x87], [CHR 0xE5, CHR 0xAE, CHR 0xA1, CHR 0xE6,
        CHR 0x89, CHR 0xB9]],
      minimum_version = Some ''1.0''\<rparr>"

definition subscription_resource_not_available_rule :: terminal_outcome_rule where
  "subscription_resource_not_available_rule = \<lparr>outcome_code = ''subscription_resource_not_available'',
      terminal_class = ResourceNotAvailable,
      tr_obligation_id = ''subscription_current'',
      tr_predicate = ObservationStatusIn,
      observation_field = None,
      admission_path = None,
      match_values = [''not_found''],
      public_observation_fields = [],
      public_admission_paths = [],
      customer_message_key = ''subscription_resource_not_available'',
      recommended_next_step = ''verify_subscription'',
      require_business_source = False\<rparr>"

definition subscription_status_not_actionable_rule :: terminal_outcome_rule where
  "subscription_status_not_actionable_rule = \<lparr>outcome_code = ''subscription_status_not_actionable'',
      terminal_class = ActionIneligible,
      tr_obligation_id = ''subscription_current'',
      tr_predicate = ResourceStatusNotAllowed,
      observation_field = Some ''status'',
      admission_path = None,
      match_values = [],
      public_observation_fields = [''subscription_id'', ''status''],
      public_admission_paths = [],
      customer_message_key = ''subscription_status_not_actionable'',
      recommended_next_step = ''restore_or_review_subscription'',
      require_business_source = True\<rparr>"

definition entitlement_target_unsupported_rule :: terminal_outcome_rule where
  "entitlement_target_unsupported_rule = \<lparr>outcome_code = ''entitlement_target_unsupported'',
      terminal_class = ActionIneligible,
      tr_obligation_id = ''subscription_current'',
      tr_predicate = AdmissionNotInObservation,
      observation_field = Some ''catalog_eligibility'',
      admission_path = Some ''change_type'',
      match_values = [],
      public_observation_fields = [''subscription_id'', ''catalog_eligibility''],
      public_admission_paths = [''change_type''],
      customer_message_key = ''entitlement_target_unsupported'',
      recommended_next_step = ''choose_supported_change_type'',
      require_business_source = True\<rparr>"

definition entitlement_plan_target_noop_rule :: terminal_outcome_rule where
  "entitlement_plan_target_noop_rule = \<lparr>outcome_code = ''entitlement_plan_target_noop'',
      terminal_class = ActionIneligible,
      tr_obligation_id = ''subscription_current'',
      tr_predicate = AdmissionEqualsObservation,
      observation_field = Some ''plan'',
      admission_path = Some ''target.plan'',
      match_values = [],
      public_observation_fields = [''subscription_id'', ''plan''],
      public_admission_paths = [''change_type'', ''target.plan''],
      customer_message_key = ''entitlement_target_noop'',
      recommended_next_step = ''choose_different_target'',
      require_business_source = True\<rparr>"

definition entitlement_rpm_target_noop_rule :: terminal_outcome_rule where
  "entitlement_rpm_target_noop_rule = \<lparr>outcome_code = ''entitlement_rpm_target_noop'',
      terminal_class = ActionIneligible,
      tr_obligation_id = ''subscription_current'',
      tr_predicate = AdmissionEqualsObservation,
      observation_field = Some ''rpm_limit'',
      admission_path = Some ''target.rpm_limit'',
      match_values = [],
      public_observation_fields = [''subscription_id'', ''rpm_limit''],
      public_admission_paths = [''change_type'', ''target.rpm_limit''],
      customer_message_key = ''entitlement_target_noop'',
      recommended_next_step = ''choose_different_target'',
      require_business_source = True\<rparr>"

definition entitlement_concurrency_target_noop_rule :: terminal_outcome_rule where
  "entitlement_concurrency_target_noop_rule = \<lparr>outcome_code = ''entitlement_concurrency_target_noop'',
      terminal_class = ActionIneligible,
      tr_obligation_id = ''subscription_current'',
      tr_predicate = AdmissionEqualsObservation,
      observation_field = Some ''concurrency_limit'',
      admission_path = Some ''target.concurrency_limit'',
      match_values = [],
      public_observation_fields = [''subscription_id'', ''concurrency_limit''],
      public_admission_paths = [''change_type'', ''target.concurrency_limit''],
      customer_message_key = ''entitlement_target_noop'',
      recommended_next_step = ''choose_different_target'',
      require_business_source = True\<rparr>"

definition entitlement_change_spec :: action_spec where
  "entitlement_change_spec = \<lparr>spec_action_type = ''entitlement_change'',
      issue_type = ''entitlement_change'',
      admission_required_fields = [''target''],
      spec_obligations = [subscription_current, entitlement_policy_current],
      proposal_action = ''entitlement_change_proposal'',
      proposal_schema_name = ''entitlement_change_proposal'',
      spec_schema = EntitlementChangeProposalArguments,
      policy_capability = ''propose_entitlement_change'',
      runtime_effect_capability = ''execute_entitlement_change'',
      proposal_fields = [\<lparr>target_field = ''subscription_id'', pf_source = FromObservation,
        source_path = ''subscription_id'', pf_obligation_id = Some ''subscription_current''\<rparr>,
      \<lparr>target_field = ''change_type'', pf_source = FromAdmission,
        source_path = ''change_type'', pf_obligation_id = None\<rparr>,
      \<lparr>target_field = ''target'', pf_source = FromAdmission, source_path = ''target'',
        pf_obligation_id = None\<rparr>,
      \<lparr>target_field = ''reason'', pf_source = FromRequestReason,
        source_path = ''request_reason'', pf_obligation_id = None\<rparr>],
      terminal_outcomes = [subscription_resource_not_available_rule,
      subscription_status_not_actionable_rule,
      entitlement_target_unsupported_rule,
      entitlement_plan_target_noop_rule,
      entitlement_rpm_target_noop_rule,
      entitlement_concurrency_target_noop_rule],
      clarification_fields = [''target''],
      spec_error_codes = COMMON_ERROR_CODES\<rparr>"

definition ACTION_SPECS :: "(string \<times> action_spec) list" where
  "ACTION_SPECS =
     [(''refund'', refund_spec), (''api_key_revocation'', api_key_revocation_spec),
      (''entitlement_change'', entitlement_change_spec)]"

text \<open>A dict comprehension over the registry's values: a later value wins.\<close>

definition index_by :: "(action_spec \<Rightarrow> string) \<Rightarrow> string \<Rightarrow> action_spec option" where
  "index_by key k = lookup_by key k (rev (map snd ACTION_SPECS))"

definition get_action_spec :: "string \<Rightarrow> action_spec result" where
  "get_action_spec a =
     (case map_of ACTION_SPECS a of None \<Rightarrow> Inl (KeyError a) | Some sp \<Rightarrow> Inr sp)"

definition get_action_spec_or_none :: "string \<Rightarrow> action_spec option" where
  "get_action_spec_or_none = index_by spec_action_type"

definition get_action_spec_by_proposal :: "string \<Rightarrow> action_spec option" where
  "get_action_spec_by_proposal = index_by proposal_action"

definition get_action_spec_by_policy_capability :: "string \<Rightarrow> action_spec option" where
  "get_action_spec_by_policy_capability = index_by policy_capability"

definition get_action_spec_by_runtime_effect_capability :: "string \<Rightarrow> action_spec option" where
  "get_action_spec_by_runtime_effect_capability = index_by runtime_effect_capability"

section \<open>Proposal argument schemas\<close>

definition keys_within :: "string list \<Rightarrow> pydict \<Rightarrow> bool" where
  "keys_within allowed d = list_all (\<lambda>k. k \<in> set allowed) (map fst d)"

definition str_field :: "pydict \<Rightarrow> string \<Rightarrow> nat \<Rightarrow> nat \<Rightarrow> bool" where
  "str_field d k lo hi = (case map_of d k of Some (PStr s) \<Rightarrow> len_between lo hi s | _ \<Rightarrow> False)"

definition strict_int_field :: "pydict \<Rightarrow> string \<Rightarrow> int \<Rightarrow> int \<Rightarrow> bool" where
  "strict_int_field d k lo hi =
     (case map_of d k of
        None \<Rightarrow> True | Some PNone \<Rightarrow> True | Some (PInt i) \<Rightarrow> lo \<le> i \<and> i \<le> hi | _ \<Rightarrow> False)"

definition QuotaChangeTarget :: "pydict \<Rightarrow> pydict result" where
  "QuotaChangeTarget d =
     (if \<not> keys_within [''rpm_limit'', ''concurrency_limit''] d \<or>
         \<not> strict_int_field d ''rpm_limit'' 1 10000000 \<or>
         \<not> strict_int_field d ''concurrency_limit'' 1 100000
      then Inl (ValidationError ''field'')
      else (let supplied = filter (\<lambda>kv. snd kv \<noteq> PNone)
                  (map (\<lambda>k. (k, dget d k)) [''rpm_limit'', ''concurrency_limit''])
            in if length supplied \<noteq> 1 then
                 Inl (ValidationError ''quota_change requires exactly one non-null target'')
               else Inr supplied))"

definition PlanChangeTarget :: "pydict \<Rightarrow> pydict result" where
  "PlanChangeTarget d =
     (if \<not> keys_within [''plan''] d \<or> \<not> str_field d ''plan'' 1 64
      then Inl (ValidationError ''field'') else Inr [(''plan'', dget d ''plan'')])"

definition validate_entitlement_target :: "string \<Rightarrow> pyval \<Rightarrow> pydict result" where
  "validate_entitlement_target change_type target =
     (case target of
        PDict d \<Rightarrow> if change_type = ''quota_change'' then QuotaChangeTarget d else PlanChangeTarget d
      | _ \<Rightarrow> Inl (ValidationError ''model_type''))"

definition proposal_schema_validate :: "proposal_schema \<Rightarrow> pydict \<Rightarrow> pydict result" where
  "proposal_schema_validate schema d =
     (case schema of
        RefundProposalArguments \<Rightarrow>
          if keys_within [''billing_record_id'', ''refund_reason''] d \<and>
             str_field d ''billing_record_id'' 1 64 \<and> str_field d ''refund_reason'' 5 2000
          then Inr d else Inl (ValidationError ''field'')
      | ApiKeyRevocationProposalArguments \<Rightarrow>
          if keys_within [''api_key_id'', ''reason''] d \<and>
             str_field d ''api_key_id'' 1 128 \<and> str_field d ''reason'' 5 2000
          then Inr d else Inl (ValidationError ''field'')
      | EntitlementChangeProposalArguments \<Rightarrow>
          if keys_within [''subscription_id'', ''change_type'', ''target'', ''reason''] d \<and>
             str_field d ''subscription_id'' 1 128 \<and>
             dget d ''change_type'' \<in> {PStr ''quota_change'', PStr ''plan_change''} \<and>
             is_dict (dget d ''target'') \<and> as_dict (dget d ''target'') \<noteq> [] \<and>
             str_field d ''reason'' 5 2000
          then (case validate_entitlement_target (py_str (dget d ''change_type'')) (dget d ''target'') of
                  Inl e \<Rightarrow> Inl e
                | Inr t \<Rightarrow> Inr (dset d ''target'' (PDict t)))
          else Inl (ValidationError ''field''))"

section \<open>Candidates, decisions and effects\<close>

record action_candidate =
  ac_action_type :: string
  ac_proposal_action :: string
  ac_policy_capability :: string
  ac_runtime_effect_capability :: string
  ac_resource_type :: string
  ac_resource_id :: string
  ac_resource_version :: int
  ac_trusted_arguments :: pydict
  ac_observation_binding :: "pydict list"
  ac_citation_binding_ids :: "string list"

definition validate_action_contract :: "action_candidate \<Rightarrow> action_candidate result" where
  "validate_action_contract c =
     (if ac_action_type c \<notin> set ActionType \<or> ac_proposal_action c \<notin> set ProposalAction \<or>
         ac_policy_capability c \<notin> set PolicyCapability \<or>
         ac_runtime_effect_capability c \<notin> set RuntimeEffectCapability \<or>
         \<not> len_between 1 128 (ac_resource_type c) \<or> \<not> len_between 1 128 (ac_resource_id c) \<or>
         ac_resource_version c < 0 \<or> ac_observation_binding c = []
      then Inl (ValidationError ''field'')
      else (case get_action_spec_by_proposal (ac_proposal_action c) of
          None \<Rightarrow> Inl (ValidationError ''action candidate does not match the ActionSpec'')
        | Some sp \<Rightarrow>
            if spec_action_type sp \<noteq> ac_action_type c \<or> policy_capability sp \<noteq> ac_policy_capability c \<or>
               runtime_effect_capability sp \<noteq> ac_runtime_effect_capability c \<or>
               resource_field sp \<noteq> Some (ac_resource_type c)
            then Inl (ValidationError ''action candidate does not match the ActionSpec'')
            else (case proposal_schema_validate (spec_schema sp) (ac_trusted_arguments c) of
                Inl e \<Rightarrow> Inl e | Inr _ \<Rightarrow> Inr c)))"

definition or_default :: "string option \<Rightarrow> string \<Rightarrow> string" where
  "or_default x d = (case x of None \<Rightarrow> d | Some s \<Rightarrow> if s = [] then d else s)"

definition build_action_candidate ::
  "string \<Rightarrow> string \<Rightarrow> string option \<Rightarrow> string option \<Rightarrow> int option \<Rightarrow> pydict \<Rightarrow> pydict list \<Rightarrow>
   string list \<Rightarrow> action_candidate result" where
  "build_action_candidate pa atype rtype rid rver args binding citations =
     (case get_action_spec_by_proposal pa of
        None \<Rightarrow> Inl (ValueError ''action candidate identity is unsupported'')
      | Some sp \<Rightarrow>
          if spec_action_type sp \<noteq> atype then
            Inl (ValueError ''action candidate identity is unsupported'')
          else validate_action_contract
            \<lparr>ac_action_type = spec_action_type sp, ac_proposal_action = proposal_action sp,
             ac_policy_capability = policy_capability sp,
             ac_runtime_effect_capability = runtime_effect_capability sp,
             ac_resource_type = or_default rtype (case resource_field sp of None \<Rightarrow> [] | Some f \<Rightarrow> f),
             ac_resource_id = or_default rid [],
             ac_resource_version = (case rver of None \<Rightarrow> -1 | Some v \<Rightarrow> v),
             ac_trusted_arguments = args, ac_observation_binding = binding,
             ac_citation_binding_ids = citations\<rparr>)"

record approval_decision =
  ad_approval_id :: string
  ad_idempotency_key :: string
  ad_action :: string
  ad_command :: pydict

definition ApprovalDecisionAction :: "string list" where
  "ApprovalDecisionAction = [''approve'', ''edit_and_approve'', ''reject'', ''manual_takeover'']"

definition str_get :: "pydict \<Rightarrow> string \<Rightarrow> string" where
  "str_get d k = py_str (dget_default d k (PStr []))"

text \<open>\<open>str(d.get(k) or "")\<close>\<close>

definition str_or_empty :: "pydict \<Rightarrow> string \<Rightarrow> string" where
  "str_or_empty d k = py_str (py_or (dget d k) (PStr []))"

definition validate_command_identity :: "approval_decision \<Rightarrow> approval_decision result" where
  "validate_command_identity d =
     (if \<not> len_between 1 128 (ad_approval_id d) \<or> \<not> len_between 1 256 (ad_idempotency_key d) \<or>
         ad_action d \<notin> set ApprovalDecisionAction
      then Inl (ValidationError ''field'')
      else if str_get (ad_command d) ''action'' \<noteq> ad_action d then
        Inl (ValidationError ''approval decision action changed during normalization'')
      else if str_get (ad_command d) ''approval_id'' \<notin> {[], ad_approval_id d} then
        Inl (ValidationError ''approval decision identity changed during normalization'')
      else if str_get (ad_command d) ''idempotency_key'' \<notin> {[], ad_idempotency_key d} then
        Inl (ValidationError ''approval idempotency identity changed during normalization'')
      else Inr d)"

definition build_approval_decision :: "pydict \<Rightarrow> pydict \<Rightarrow> approval_decision result" where
  "build_approval_decision command proposal_result =
     (let ca = str_or_empty command ''approval_id'';
          pa = str_or_empty proposal_result ''approval_id''
      in if ca \<noteq> [] \<and> pa \<noteq> [] \<and> ca \<noteq> pa then
           Inl (ValueError ''approval decision identity changed during normalization'')
         else
           (let approval_id = py_str (py_or (py_or (dget command ''approval_id'')
                  (dget proposal_result ''approval_id'')) (PStr []));
                idempotency_key = py_str (py_or (py_or (dget command ''idempotency_key'')
                  (dget proposal_result ''idempotency_key''))
                  (PStr (if approval_id \<noteq> [] then ''approval:'' @ approval_id else [])))
            in validate_command_identity
              \<lparr>ad_approval_id = approval_id, ad_idempotency_key = idempotency_key,
               ad_action = str_get command ''action'', ad_command = command\<rparr>))"

record runtime_effect_result =
  re_approval_id :: string
  re_action_type :: string
  re_resource_id :: string
  re_status :: string
  re_business_action_id :: "string option"
  re_reused :: "bool option"
  re_reason :: "string option"
  re_payload :: pydict

definition RuntimeEffectStatus :: "string list" where
  "RuntimeEffectStatus =
     [''succeeded'', ''stale'', ''execution_pending'', ''execution_precondition_failed'',
      ''approved'', ''rejected'', ''manual_takeover'']"

definition validate_effect_identity :: "runtime_effect_result \<Rightarrow> runtime_effect_result result" where
  "validate_effect_identity r =
     (if \<not> len_between 1 128 (re_approval_id r) \<or> re_action_type r \<notin> set ActionType \<or>
         \<not> len_between 1 128 (re_resource_id r) \<or> re_status r \<notin> set RuntimeEffectStatus
      then Inl (ValidationError ''field'')
      else if list_ex (\<lambda>kv. dhas (re_payload r) (fst kv) \<and>
                py_str (dget (re_payload r) (fst kv)) \<noteq> snd kv)
              [(''approval_id'', re_approval_id r), (''action_type'', re_action_type r),
               (''resource_id'', re_resource_id r), (''status'', re_status r)]
      then Inl (ValidationError ''runtime effect identity changed during projection'')
      else Inr r)"

definition build_runtime_effect_result ::
  "action_candidate \<Rightarrow> approval_decision \<Rightarrow> pydict \<Rightarrow> runtime_effect_result result" where
  "build_runtime_effect_result c d payload =
     validate_effect_identity
       \<lparr>re_approval_id = ad_approval_id d, re_action_type = ac_action_type c,
        re_resource_id = ac_resource_id c, re_status = str_get payload ''status'',
        re_business_action_id =
          (if truthy (dget payload ''business_action_id'')
           then Some (py_str (dget payload ''business_action_id'')) else None),
        re_reused =
          (if dhas payload ''reused'' then Some (truthy (dget payload ''reused'')) else None),
        re_reason =
          (if truthy (dget payload ''reason'') then Some (py_str (dget payload ''reason'')) else None),
        re_payload = payload\<rparr>"

section \<open>The pipeline\<close>

text \<open>
  A host operation changes the host's state even when it raises, so it returns the new state beside
  the outcome.  A gateway call answers with an observation envelope (its status and error code)
  or with another value.
\<close>

type_synonym ('h, 'a) io = "'h \<Rightarrow> 'h \<times> 'a result"

datatype 'p action_tool_result = EnvelopeResult string "string option" 'p | OtherResult 'p

record ('h, 'l, 'c, 'x, 'p) action_pipeline_host =
  reserve_action_capability ::
    "string \<Rightarrow> pydict \<Rightarrow> pydict list \<Rightarrow> ('h, ('l \<times> 'c) option) io"
  action_tool_context :: "pydict list \<Rightarrow> 'c option \<Rightarrow> 'l option \<Rightarrow> 'x result"
  call_action :: "string \<Rightarrow> pydict \<Rightarrow> 'x \<Rightarrow> ('h, 'p action_tool_result) io"
  finish_action_capability ::
    "('l \<times> 'c) option \<Rightarrow> string \<Rightarrow> string option \<Rightarrow> pydict option \<Rightarrow>
     ('h, (string \<times> pydict) option) io"
  action_capability_payload :: "'p action_tool_result \<Rightarrow> pydict"
  action_result_payload :: "'p action_tool_result \<Rightarrow> pydict"

record action_proposal_result =
  apr_candidate :: action_candidate
  apr_proposal :: pydict

record action_execution_result =
  aer_decision :: approval_decision
  aer_effect :: runtime_effect_result
  aer_payload :: pydict

text \<open>\<open>except (TypeError, ValueError)\<close>: pydantic's error is a \<open>ValueError\<close>.\<close>

definition caught_error_name :: "error \<Rightarrow> string option" where
  "caught_error_name e =
     (case e of TypeError \<Rightarrow> Some ''TypeError'' | ValueError _ \<Rightarrow> Some ''ValueError''
      | ValidationError _ \<Rightarrow> Some ''ValidationError'' | _ \<Rightarrow> None)"

definition envelope_status :: "'p action_tool_result \<Rightarrow> string option" where
  "envelope_status r = (case r of EnvelopeResult s _ _ \<Rightarrow> Some s | OtherResult _ \<Rightarrow> None)"

definition envelope_error_code :: "'p action_tool_result \<Rightarrow> string option" where
  "envelope_error_code r = (case r of EnvelopeResult _ c _ \<Rightarrow> c | OtherResult _ \<Rightarrow> None)"

definition capability_status :: "'p action_tool_result \<Rightarrow> string" where
  "capability_status r =
     (case envelope_status r of
        None \<Rightarrow> ''succeeded''
      | Some s \<Rightarrow> if s \<in> {''timeout'', ''unavailable''} then ''unknown''
          else if s = ''ok'' then ''succeeded'' else ''failed'')"

text \<open>What the capability is settled with: status, error code and payload.\<close>

definition settlement ::
  "('h, 'l, 'c, 'x, 'p) action_pipeline_host \<Rightarrow> 'p action_tool_result \<Rightarrow>
   string \<times> string option \<times> pydict" where
  "settlement host r =
     (if capability_status r = ''succeeded'' \<and>
         \<not> truthy (dget (action_capability_payload host r) ''proposal_id'')
      then (''failed'', Some ''proposal_not_durable'', [])
      else (capability_status r, envelope_error_code r, action_capability_payload host r))"

definition propose_settle ::
  "('h, 'l, 'c, 'x, 'p) action_pipeline_host \<Rightarrow> (pydict \<Rightarrow> ('h, bool) io) \<Rightarrow> action_candidate \<Rightarrow>
   ('l \<times> 'c) option \<Rightarrow> 'p action_tool_result \<Rightarrow> ('h, action_proposal_result) io" where
  "propose_settle host verify_durable candidate reserved r h =
     (let (status, code, payload) = settlement host r in
      case finish_action_capability host reserved status code
             (if payload = [] then None else Some payload) h of
        (h1, Inl e) \<Rightarrow> (h1, Inl e)
      | (h1, Inr settled) \<Rightarrow>
          (let proposal = (case settled of
                 Some (st, pl) \<Rightarrow> if st = ''succeeded'' then pl else action_result_payload host r
               | None \<Rightarrow> action_result_payload host r)
           in if envelope_status r \<noteq> None \<and> envelope_status r \<noteq> Some ''ok'' then
                (h1, Inl (ActionPipelineError ''tool_failed'' (envelope_error_code r)))
              else if \<not> truthy (dget proposal ''proposal_id'') then
                (h1, Inl (ActionPipelineError ''proposal_not_durable'' (Some ''proposal_not_durable'')))
              else (case verify_durable proposal h1 of
                  (h2, Inl e) \<Rightarrow> (h2, Inl e)
                | (h2, Inr False) \<Rightarrow>
                    (h2, Inl (ActionPipelineError ''proposal_not_durable''
                      (Some ''proposal_not_durable'')))
                | (h2, Inr True) \<Rightarrow>
                    (h2, Inr \<lparr>apr_candidate = candidate, apr_proposal = proposal\<rparr>))))"

definition propose ::
  "('h, 'l, 'c, 'x, 'p) action_pipeline_host \<Rightarrow> (pydict \<Rightarrow> ('h, bool) io) \<Rightarrow> action_candidate \<Rightarrow>
   ('h, action_proposal_result) io" where
  "propose host verify_durable candidate h =
     (let name = ac_policy_capability candidate; args = ac_trusted_arguments candidate;
          binding = ac_observation_binding candidate
      in case reserve_action_capability host name args binding h of
        (h1, Inl e) \<Rightarrow>
          (h1, Inl (if caught_error_name e = None then e else ActionPipelineError ''tool_failed'' None))
      | (h1, Inr reserved) \<Rightarrow>
          (case (case action_tool_context host binding (map_option snd reserved)
                        (map_option fst reserved) of
                   Inl e \<Rightarrow> (h1, Inl e)
                 | Inr ctx \<Rightarrow> call_action host name args ctx h1) of
             (h2, Inl e) \<Rightarrow>
               (case (caught_error_name e, reserved) of
                  (None, _) \<Rightarrow> (h2, Inl e)
                | (Some _, None) \<Rightarrow> (h2, Inl (ActionPipelineError ''tool_failed'' None))
                | (Some n, Some _) \<Rightarrow>
                    (case finish_action_capability host reserved ''failed'' (Some n) None h2 of
                       (h3, Inl e') \<Rightarrow> (h3, Inl e')
                     | (h3, Inr _) \<Rightarrow> (h3, Inl (ActionPipelineError ''tool_failed'' None))))
           | (h2, Inr r) \<Rightarrow> propose_settle host verify_durable candidate reserved r h2))"

definition execute ::
  "(string \<Rightarrow> string \<Rightarrow> pydict \<Rightarrow> string \<Rightarrow> pydict \<Rightarrow> ('h, pydict) io) \<Rightarrow> action_candidate \<Rightarrow>
   approval_decision \<Rightarrow> string \<Rightarrow> pydict \<Rightarrow> ('h, action_execution_result) io" where
  "execute handle candidate decision trace_id publication_state h =
     (case handle (ad_approval_id decision) (ad_idempotency_key decision) (ad_command decision)
             trace_id publication_state h of
        (h1, Inl e) \<Rightarrow> (h1, Inl e)
      | (h1, Inr payload) \<Rightarrow>
          (case build_runtime_effect_result candidate decision payload of
             Inl e \<Rightarrow> (h1, Inl e)
           | Inr effect \<Rightarrow>
               (h1, Inr \<lparr>aer_decision = decision, aer_effect = effect, aer_payload = payload\<rparr>)))"

section \<open>Registry properties\<close>

lemma len_between_Nil [simp]: "\<not> len_between (Suc n) m []" "\<not> len_between 1 m []"
  by (simp_all add: len_between_def py_len_def)

lemma length_eq_card_iff [simp]: "length xs = card (set xs) \<longleftrightarrow> distinct xs"
  by (metis card_distinct distinct_card)

lemmas obligation_defs = billing_record_current_def refund_policy_current_def
  api_key_metadata_current_def api_key_revocation_policy_current_def
  subscription_current_def entitlement_policy_current_def

lemmas rule_defs = refund_resource_not_available_rule_def refund_status_not_actionable_rule_def
  refund_duplicate_relation_unconfirmed_rule_def api_key_resource_not_available_rule_def
  api_key_status_not_actionable_rule_def subscription_resource_not_available_rule_def
  subscription_status_not_actionable_rule_def entitlement_target_unsupported_rule_def
  entitlement_plan_target_noop_rule_def entitlement_rpm_target_noop_rule_def
  entitlement_concurrency_target_noop_rule_def

lemmas spec_defs = refund_spec_def api_key_revocation_spec_def entitlement_change_spec_def

lemma registry_obligations_valid:
  "validate_obligation billing_record_current = Inr billing_record_current"
  "validate_obligation refund_policy_current = Inr refund_policy_current"
  "validate_obligation api_key_metadata_current = Inr api_key_metadata_current"
  "validate_obligation api_key_revocation_policy_current = Inr api_key_revocation_policy_current"
  "validate_obligation subscription_current = Inr subscription_current"
  "validate_obligation entitlement_policy_current = Inr entitlement_policy_current"
  by (simp_all add: validate_obligation_def len_between_def py_len_def opt_truthy_def obligation_defs)

lemma registry_rules_valid:
  "validate_predicate_shape refund_resource_not_available_rule = Inr refund_resource_not_available_rule"
  "validate_predicate_shape refund_status_not_actionable_rule = Inr refund_status_not_actionable_rule"
  "validate_predicate_shape refund_duplicate_relation_unconfirmed_rule =
     Inr refund_duplicate_relation_unconfirmed_rule"
  "validate_predicate_shape api_key_resource_not_available_rule = Inr api_key_resource_not_available_rule"
  "validate_predicate_shape api_key_status_not_actionable_rule = Inr api_key_status_not_actionable_rule"
  "validate_predicate_shape subscription_resource_not_available_rule =
     Inr subscription_resource_not_available_rule"
  "validate_predicate_shape subscription_status_not_actionable_rule =
     Inr subscription_status_not_actionable_rule"
  "validate_predicate_shape entitlement_target_unsupported_rule = Inr entitlement_target_unsupported_rule"
  "validate_predicate_shape entitlement_plan_target_noop_rule = Inr entitlement_plan_target_noop_rule"
  "validate_predicate_shape entitlement_rpm_target_noop_rule = Inr entitlement_rpm_target_noop_rule"
  "validate_predicate_shape entitlement_concurrency_target_noop_rule =
     Inr entitlement_concurrency_target_noop_rule"
  by (simp_all add: validate_predicate_shape_def predicate_shape_error_def len_between_def py_len_def
      opt_truthy_def TerminalOutcomeMessageKey_def rule_defs)

lemmas construct_defs = construct_action_spec_def validate_observation_binding_def
  validate_unique_obligations_def is_resource_obligation_def ActionType_def ActionIssueType_def
  ProposalAction_def PolicyCapability_def RuntimeEffectCapability_def Let_def

lemmas part_validity = construct_action_spec_def registry_obligations_valid registry_rules_valid
  validate_observation_binding_def

lemma registry_specs_construct:
  "construct_action_spec refund_spec = Inr refund_spec"
  "construct_action_spec api_key_revocation_spec = Inr api_key_revocation_spec"
  "construct_action_spec entitlement_change_spec = Inr entitlement_change_spec"
  by (simp add: spec_defs part_validity, simp add: construct_defs obligation_defs rule_defs)+

lemma get_by_proposal_cases:
  assumes "get_action_spec_by_proposal p = Some sp"
  shows "sp \<in> {refund_spec, api_key_revocation_spec, entitlement_change_spec} \<and> proposal_action sp = p"
  using assms lookup_by_Some [of proposal_action p "rev (map snd ACTION_SPECS)" sp]
  by (auto simp: get_action_spec_by_proposal_def index_by_def ACTION_SPECS_def)


lemma construct_action_spec_unique:
  "construct_action_spec sp = Inr sp' \<Longrightarrow> validate_unique_obligations sp = Inr sp'"
  by (auto simp: construct_action_spec_def split: sum.splits if_splits)

lemma find_filter: "find P xs = (case filter P xs of [] \<Rightarrow> None | x # _ \<Rightarrow> Some x)"
  by (induction xs) auto

text \<open>
  A specification that passes validation has exactly one resource obligation, so its derived
  properties are defined: one resource field, one read capability, and a proposal field that copies
  the observed resource identifier.
\<close>

theorem validated_spec_has_resource:
  assumes "construct_action_spec sp = Inr sp'"
  shows "\<exists>ob f c b. sp' = sp \<and> filter is_resource_obligation (spec_obligations sp) = [ob] \<and>
    resource_obligation sp = Some ob \<and> resource_field sp = Some f \<and>
    primary_read_capability sp = Some c \<and> eo_capabilities ob = [c] \<and>
    b \<in> set (proposal_fields sp) \<and> pf_source b = FromObservation \<and>
    pf_obligation_id b = Some (obligation_id ob) \<and> target_field b = f \<and> source_path b = f"
proof -
  obtain ob where one: "filter is_resource_obligation (spec_obligations sp) = [ob]"
    and rest: "sp' = sp" "length (eo_capabilities ob) = 1"
      "\<exists>b \<in> set (proposal_fields sp). pf_source b = FromObservation \<and>
         pf_obligation_id b = Some (obligation_id ob) \<and>
         Some (target_field b) = observed_resource_field ob \<and>
         Some (source_path b) = observed_resource_field ob"
    using construct_action_spec_unique [OF assms]
    by (auto simp: validate_unique_obligations_def Let_def split: if_splits list.splits)
  from rest(2) obtain c where c: "eo_capabilities ob = [c]" by (auto simp: length_Suc_conv)
  have res: "resource_obligation sp = Some ob" by (simp add: resource_obligation_def find_filter one)
  from rest(3) obtain b where b: "b \<in> set (proposal_fields sp)" "pf_source b = FromObservation"
      "pf_obligation_id b = Some (obligation_id ob)"
      "observed_resource_field ob = Some (target_field b)" "source_path b = target_field b"
    by (metis option.inject)
  show ?thesis
    by (rule exI [of _ ob], rule exI [of _ "target_field b"], rule exI [of _ c], rule exI [of _ b])
      (use rest(1) one res c b in
        \<open>simp add: resource_field_def primary_read_capability_def\<close>)
qed

theorem validated_spec_has_resource_witness:
  "\<exists>f c. resource_field refund_spec = Some f \<and> primary_read_capability refund_spec = Some c"
  using validated_spec_has_resource [OF registry_specs_construct(1)] by blast

section \<open>Candidates, decisions and effects\<close>

text \<open>
  A built candidate is bound to the one registry entry of its proposal action: capabilities and
  resource field are the entry's own, the caller's action type is the entry's, the resource
  identifier is not empty, the version is the non-negative one supplied, at least one observation is
  bound, and the trusted arguments are the caller's and satisfy the entry's schema.
\<close>

theorem build_action_candidate_bound:
  assumes "build_action_candidate pa a rt rid rv args binding cites = Inr c"
  shows "\<exists>sp v. get_action_spec_by_proposal pa = Some sp \<and> spec_action_type sp = a \<and>
    ac_action_type c = a \<and> ac_proposal_action c = pa \<and>
    ac_policy_capability c = policy_capability sp \<and>
    ac_runtime_effect_capability c = runtime_effect_capability sp \<and>
    resource_field sp = Some (ac_resource_type c) \<and>
    rid = Some (ac_resource_id c) \<and> ac_resource_id c \<noteq> [] \<and>
    rv = Some (ac_resource_version c) \<and> 0 \<le> ac_resource_version c \<and>
    ac_observation_binding c = binding \<and> binding \<noteq> [] \<and>
    ac_trusted_arguments c = args \<and> proposal_schema_validate (spec_schema sp) args = Inr v"
proof -
  obtain sp where sp: "get_action_spec_by_proposal pa = Some sp" "spec_action_type sp = a"
    using assms by (auto simp: build_action_candidate_def split: option.splits if_splits)
  then have pa: "proposal_action sp = pa" using get_by_proposal_cases by blast
  from assms sp pa show ?thesis
    by (auto simp: build_action_candidate_def validate_action_contract_def or_default_def
        split: if_splits option.splits sum.splits)
qed

definition sample_refund_args :: pydict where
  "sample_refund_args = [(''billing_record_id'', PStr ''b2''), (''refund_reason'', PStr ''charged twice'')]"

lemma get_refund_by_proposal: "get_action_spec_by_proposal ''refund_proposal'' = Some refund_spec"
  by (simp add: get_action_spec_by_proposal_def index_by_def ACTION_SPECS_def lookup_by_def spec_defs)

lemma refund_resource_field: "resource_field refund_spec = Some ''billing_record_id''"
  by (simp add: resource_field_def resource_obligation_def refund_spec_def is_resource_obligation_def
      obligation_defs)

definition sample_candidate :: action_candidate where
  "sample_candidate =
     \<lparr>ac_action_type = ''refund'', ac_proposal_action = ''refund_proposal'',
      ac_policy_capability = ''propose_refund'', ac_runtime_effect_capability = ''execute_refund'',
      ac_resource_type = ''billing_record_id'', ac_resource_id = ''b2'', ac_resource_version = 1,
      ac_trusted_arguments = sample_refund_args,
      ac_observation_binding = [[(''observation_id'', PStr ''o1'')]], ac_citation_binding_ids = []\<rparr>"

lemma sample_candidate_builds:
  "build_action_candidate ''refund_proposal'' ''refund'' None (Some ''b2'') (Some 1)
     sample_refund_args [[(''observation_id'', PStr ''o1'')]] [] = Inr sample_candidate"
proof -
  have f: "spec_action_type refund_spec = ''refund''" "proposal_action refund_spec = ''refund_proposal''"
    "policy_capability refund_spec = ''propose_refund''"
    "runtime_effect_capability refund_spec = ''execute_refund''"
    "spec_schema refund_spec = RefundProposalArguments"
    by (simp_all add: refund_spec_def)
  have s: "proposal_schema_validate RefundProposalArguments sample_refund_args = Inr sample_refund_args"
    by (simp add: proposal_schema_validate_def sample_refund_args_def keys_within_def str_field_def
        len_between_def py_len_def)
  show ?thesis
    by (simp add: build_action_candidate_def get_refund_by_proposal f refund_resource_field or_default_def
        validate_action_contract_def s sample_candidate_def ActionType_def ProposalAction_def
        PolicyCapability_def RuntimeEffectCapability_def len_between_def py_len_def)
qed

theorem build_action_candidate_bound_witness:
  "\<exists>sp. get_action_spec_by_proposal ''refund_proposal'' = Some sp \<and>
     resource_field sp = Some (ac_resource_type sample_candidate)"
  using build_action_candidate_bound [OF sample_candidate_builds] by blast

lemma validate_command_identity_Inr:
  assumes "validate_command_identity d = Inr d'"
  shows "d' = d" "ad_approval_id d \<noteq> []" "ad_idempotency_key d \<noteq> []"
    "ad_action d \<in> set ApprovalDecisionAction" "str_get (ad_command d) ''action'' = ad_action d"
  using assms by (auto simp: validate_command_identity_def split: if_splits)

text \<open>
  A normalised decision keeps the approval identity: whichever of the command and the stored
  proposal names an approval, the decision carries that identifier, so the two can never disagree;
  and it carries the command unchanged with its own action, one of the four allowed.
\<close>

theorem build_approval_decision_identity:
  assumes "build_approval_decision command proposal = Inr d"
  shows "ad_command d = command \<and> ad_action d \<in> set ApprovalDecisionAction \<and>
    str_get command ''action'' = ad_action d \<and> ad_approval_id d \<noteq> [] \<and> ad_idempotency_key d \<noteq> [] \<and>
    str_or_empty command ''approval_id'' \<in> {[], ad_approval_id d} \<and>
    str_or_empty proposal ''approval_id'' \<in> {[], ad_approval_id d}"
proof -
  let ?ca = "str_or_empty command ''approval_id''" and ?pa = "str_or_empty proposal ''approval_id''"
  let ?id = "py_str (py_or (py_or (dget command ''approval_id'') (dget proposal ''approval_id'')) (PStr []))"
  obtain k where agree: "\<not> (?ca \<noteq> [] \<and> ?pa \<noteq> [] \<and> ?ca \<noteq> ?pa)"
    and v: "validate_command_identity \<lparr>ad_approval_id = ?id, ad_idempotency_key = k,
      ad_action = str_get command ''action'', ad_command = command\<rparr> = Inr d"
    using assms by (simp add: build_approval_decision_def Let_def split: if_splits)
  have "?ca \<in> {[], ?id}" by (simp add: str_or_empty_def py_or_def)
  moreover have "?id \<noteq> []" using validate_command_identity_Inr(2) [OF v] by simp
  moreover from this agree have "?pa \<in> {[], ?id}" by (auto simp: str_or_empty_def py_or_def)
  ultimately show ?thesis using validate_command_identity_Inr [OF v] by simp
qed

theorem build_approval_decision_identity_witness:
  "\<exists>d. build_approval_decision [(''action'', PStr ''approve'')] [(''approval_id'', PStr ''ap1'')] = Inr d \<and>
     str_or_empty [(''approval_id'', PStr ''ap1'')] ''approval_id'' \<in> {[], ad_approval_id d}"
proof -
  obtain d where d: "build_approval_decision [(''action'', PStr ''approve'')]
      [(''approval_id'', PStr ''ap1'')] = Inr d"
    by (simp add: build_approval_decision_def validate_command_identity_def Let_def str_or_empty_def
        str_get_def dget_def dget_default_def py_or_def len_between_def py_len_def
        ApprovalDecisionAction_def)
  with build_approval_decision_identity [OF d] show ?thesis by blast
qed

lemma validate_effect_identity_Inr:
  assumes "validate_effect_identity r = Inr r'"
  shows "r' = r" "re_status r \<in> set RuntimeEffectStatus"
    "dhas (re_payload r) ''approval_id'' \<longrightarrow>
       py_str (dget (re_payload r) ''approval_id'') = re_approval_id r"
    "dhas (re_payload r) ''action_type'' \<longrightarrow>
       py_str (dget (re_payload r) ''action_type'') = re_action_type r"
    "dhas (re_payload r) ''resource_id'' \<longrightarrow>
       py_str (dget (re_payload r) ''resource_id'') = re_resource_id r"
  using assms by (simp_all add: validate_effect_identity_def split: if_splits)

lemma build_runtime_effect_result_Inr:
  assumes "build_runtime_effect_result c d p = Inr eff"
  shows "re_approval_id eff = ad_approval_id d \<and> re_action_type eff = ac_action_type c \<and>
    re_resource_id eff = ac_resource_id c \<and> re_status eff \<in> set RuntimeEffectStatus \<and>
    (dhas p ''approval_id'' \<longrightarrow> py_str (dget p ''approval_id'') = ad_approval_id d) \<and>
    (dhas p ''action_type'' \<longrightarrow> py_str (dget p ''action_type'') = ac_action_type c) \<and>
    (dhas p ''resource_id'' \<longrightarrow> py_str (dget p ''resource_id'') = ac_resource_id c)"
  using validate_effect_identity_Inr [OF assms [unfolded build_runtime_effect_result_def]] by simp

text \<open>
  The effect a human decision returns belongs to that decision and that candidate: identifiers
  and status are theirs, and a handler payload that names another approval, action, resource or
  status is refused.
\<close>

theorem execute_effect_identity:
  assumes "execute handle c d tr ps h = (h', Inr r)"
  shows "aer_decision r = d \<and> re_approval_id (aer_effect r) = ad_approval_id d \<and>
    re_action_type (aer_effect r) = ac_action_type c \<and>
    re_resource_id (aer_effect r) = ac_resource_id c \<and>
    re_status (aer_effect r) \<in> set RuntimeEffectStatus \<and>
    handle (ad_approval_id d) (ad_idempotency_key d) (ad_command d) tr ps h = (h', Inr (aer_payload r)) \<and>
    (dhas (aer_payload r) ''approval_id'' \<longrightarrow>
       py_str (dget (aer_payload r) ''approval_id'') = ad_approval_id d) \<and>
    (dhas (aer_payload r) ''action_type'' \<longrightarrow>
       py_str (dget (aer_payload r) ''action_type'') = ac_action_type c) \<and>
    (dhas (aer_payload r) ''resource_id'' \<longrightarrow>
       py_str (dget (aer_payload r) ''resource_id'') = ac_resource_id c)"
proof -
  obtain p eff where p: "handle (ad_approval_id d) (ad_idempotency_key d) (ad_command d) tr ps h = (h', Inr p)"
    and eff: "build_runtime_effect_result c d p = Inr eff"
    and r: "r = \<lparr>aer_decision = d, aer_effect = eff, aer_payload = p\<rparr>"
    using assms by (auto simp: execute_def split: prod.splits sum.splits)
  show ?thesis using build_runtime_effect_result_Inr [OF eff] p by (simp add: r)
qed

definition sample_decision :: approval_decision where
  "sample_decision = \<lparr>ad_approval_id = ''ap1'', ad_idempotency_key = ''approval:ap1'',
     ad_action = ''approve'', ad_command = [(''action'', PStr ''approve'')]\<rparr>"

theorem execute_effect_identity_witness:
  "\<exists>r. execute (\<lambda>a k cmd tr ps h. (Suc h, Inr [(''status'', PStr ''succeeded''), (''approval_id'', PStr a)]))
       sample_candidate sample_decision ''tr'' [] (0::nat) = (1, Inr r) \<and>
     re_resource_id (aer_effect r) = ac_resource_id sample_candidate"
proof -
  obtain r where r: "execute (\<lambda>a k cmd tr ps h. (Suc h, Inr [(''status'', PStr ''succeeded''),
      (''approval_id'', PStr a)])) sample_candidate sample_decision ''tr'' [] (0::nat) = (1, Inr r)"
    by (simp add: execute_def build_runtime_effect_result_def validate_effect_identity_def
        sample_decision_def sample_candidate_def str_get_def dget_default_def dget_def dhas_def
        len_between_def py_len_def ActionType_def RuntimeEffectStatus_def)
  with execute_effect_identity [OF r] show ?thesis by blast
qed

section \<open>The pipeline's promises\<close>

lemma settlement_succeeded_iff:
  "fst (settlement host r) = ''succeeded'' \<longleftrightarrow>
     envelope_status r \<in> {None, Some ''ok''} \<and>
     truthy (dget (action_capability_payload host r) ''proposal_id'')"
  by (auto simp: settlement_def capability_status_def split: option.splits)

lemma propose_settle_Inr:
  assumes "propose_settle host verify c reserved r h = (h', Inr res)"
  shows "apr_candidate res = c" "truthy (dget (apr_proposal res) ''proposal_id'')"
    "envelope_status r \<in> {None, Some ''ok''}"
    "\<exists>h1. verify (apr_proposal res) h1 = (h', Inr True)"
  using assms
  by (auto simp: propose_settle_def Let_def split: prod.splits sum.splits if_splits bool.splits)

lemma propose_Inr:
  assumes "propose host verify c h = (h', Inr res)"
  obtains h1 reserved ctx h2 r
  where "reserve_action_capability host (ac_policy_capability c) (ac_trusted_arguments c)
      (ac_observation_binding c) h = (h1, Inr reserved)"
    "action_tool_context host (ac_observation_binding c) (map_option snd reserved)
      (map_option fst reserved) = Inr ctx"
    "call_action host (ac_policy_capability c) (ac_trusted_arguments c) ctx h1 = (h2, Inr r)"
    "propose_settle host verify c reserved r h2 = (h', Inr res)"
  using assms
  by (auto simp: propose_def Let_def split: prod.splits sum.splits option.splits if_splits)

text \<open>
  A proposal is returned only when it is durable: the capability was reserved and called under
  the candidate's own policy capability, with its trusted arguments; the tool answered without an
  error status; the proposal has an identifier; and the durability check on that very proposal was
  the last thing that ran and answered yes.
\<close>

theorem propose_returns_durable_proposal:
  assumes "propose host verify_durable c h = (h', Inr res)"
  shows "apr_candidate res = c \<and> truthy (dget (apr_proposal res) ''proposal_id'') \<and>
    (\<exists>h1 h2 h3 reserved ctx r.
       reserve_action_capability host (ac_policy_capability c) (ac_trusted_arguments c)
         (ac_observation_binding c) h = (h1, Inr reserved) \<and>
       call_action host (ac_policy_capability c) (ac_trusted_arguments c) ctx h1 = (h2, Inr r) \<and>
       envelope_status r \<in> {None, Some ''ok''} \<and>
       verify_durable (apr_proposal res) h3 = (h', Inr True))"
proof -
  obtain h1 reserved ctx h2 r
    where R: "reserve_action_capability host (ac_policy_capability c) (ac_trusted_arguments c)
        (ac_observation_binding c) h = (h1, Inr reserved)"
      and C: "call_action host (ac_policy_capability c) (ac_trusted_arguments c) ctx h1 = (h2, Inr r)"
      and S: "propose_settle host verify_durable c reserved r h2 = (h', Inr res)"
    using assms by (rule propose_Inr)
  show ?thesis using R C propose_settle_Inr [OF S] by blast
qed

definition sample_host :: "(string list, string, string, unit, pydict) action_pipeline_host" where
  "sample_host =
     \<lparr>reserve_action_capability = (\<lambda>n a b h. (h @ [''reserve''], Inr (Some (''lease'', ''cap'')))),
      action_tool_context = (\<lambda>b c l. Inr ()),
      call_action = (\<lambda>n a x h. (h @ [''call''],
        Inr (EnvelopeResult ''ok'' None [(''proposal_id'', PStr ''p1'')]))),
      finish_action_capability = (\<lambda>lc st code pl h. (h @ [''finish''],
        Inr (case pl of None \<Rightarrow> None | Some d \<Rightarrow> Some (st, d)))),
      action_capability_payload = (\<lambda>r. case r of EnvelopeResult _ _ d \<Rightarrow> d | OtherResult d \<Rightarrow> d),
      action_result_payload = (\<lambda>r. case r of EnvelopeResult _ _ d \<Rightarrow> d | OtherResult d \<Rightarrow> d)\<rparr>"

lemma sample_propose:
  "propose sample_host (\<lambda>p h. (h @ [''verify''], Inr True)) sample_candidate [] =
     ([''reserve'', ''call'', ''finish'', ''verify''],
      Inr \<lparr>apr_candidate = sample_candidate, apr_proposal = [(''proposal_id'', PStr ''p1'')]\<rparr>)"
  by (simp add: propose_def propose_settle_def settlement_def capability_status_def
      envelope_status_def envelope_error_code_def sample_host_def dget_def)

theorem propose_returns_durable_proposal_witness:
  "\<exists>h'. propose sample_host (\<lambda>p h. (h @ [''verify''], Inr True)) sample_candidate [] =
       (h', Inr \<lparr>apr_candidate = sample_candidate, apr_proposal = [(''proposal_id'', PStr ''p1'')]\<rparr>) \<and>
     truthy (dget [(''proposal_id'', PStr ''p1'')] ''proposal_id'')"
  using propose_returns_durable_proposal [OF sample_propose] sample_propose by auto

lemma propose_settle_state:
  assumes "settlement host r = (status, code, payload)"
    and "finish_action_capability host reserved status code
      (if payload = [] then None else Some payload) h = (h3, Inr settled)"
  shows "\<exists>p. fst (propose_settle host verify c reserved r h) \<in> {h3, fst (verify p h3)}"
proof -
  define p where "p = (case settled of
      Some (st, pl) \<Rightarrow> if st = ''succeeded'' then pl else action_result_payload host r
    | None \<Rightarrow> action_result_payload host r)"
  obtain hv ov where v: "verify p h3 = (hv, ov)" by fastforce
  have "fst (propose_settle host verify c reserved r h) \<in> {h3, hv}"
    using assms v by (cases ov) (auto simp: propose_settle_def Let_def p_def split: bool.splits)
  with v show ?thesis by (intro exI [of _ p]) simp
qed



section \<open>Edits against the proposal schema\<close>

text \<open>
  C17. The approval editor and the proposal schema disagree on the range of a concurrency target: the
  editor accepts every limit from 100001 to 1000000 for a quota change, and the schema that
  validates the same field of a proposal refuses each of them.
\<close>

theorem approved_concurrency_edit_outside_schema:
  assumes "quota_base base" "100000 < n" "n \<le> 1000000"
  shows "\<exists>p e. apply_approval_edit ''entitlement_change'' base [(''target_concurrency'', PInt n)] = Inr p \<and>
    validate_entitlement_target ''quota_change'' (dget p ''target'') = Inl e"
proof -
  have "required_target_concurrency (PInt n) = Inr n"
    using assms by (simp add: required_target_concurrency_Inr)
  then show ?thesis using assms
    by (simp add: apply_entitlement validate_entitlement_target_def QuotaChangeTarget_def
        strict_int_field_def keys_within_def)
qed

theorem approved_concurrency_edit_outside_schema_witness:
  "\<exists>p e. apply_approval_edit ''entitlement_change'' sample_base
       [(''target_concurrency'', PInt 500000)] = Inr p \<and>
     validate_entitlement_target ''quota_change'' (dget p ''target'') = Inl e"
  by (rule approved_concurrency_edit_outside_schema) (simp_all add: quota_base_def sample_base_def dget_def)

end
