(* ===== verification/Obligations.thy ===== *)
theory Obligations
  imports Action_Specs
begin

text \<open>
  \<open>agent/obligations.py\<close>: the ledger that decides, from the observations of the current run, whether
  the evidence an action requires is present, fresh, in scope and sourced.  Observations are the
  dictionaries the tool ledger stores.  The digest function is the parameter \<open>H\<close>; pydantic's pattern
  check on digests is explicit, so a digest of another shape raises \<open>ValidationError\<close>.  The admission
  record is \<open>ActionAdmissionV2\<close> of \<open>contracts/action_preconditions.py\<close>.
\<close>

section \<open>Data\<close>

datatype obligation_status =
    Pending | ReadQualified | Satisfied | Stale | Conflicted | Failed | TerminalStatus

datatype ledger_next_state =
    CollectReads | Synthesize | AssembleCandidate | Clarify | SafeStop | ExplainTerminal

datatype admission_status = AdmissionNone | AdmissionMissing | Admitted | AdmissionMismatch

record action_admission_v2 =
  adm_status :: admission_status
  adm_action_type :: "string option"
  adm_missing_fields :: "string list"
  adm_extracted_arguments :: pydict
  adm_tenant_id :: string
  adm_customer_id :: string
  adm_scope_hash :: string
  adm_clarification_question :: "string option"

definition validate_status_shape :: "action_admission_v2 \<Rightarrow> action_admission_v2 result" where
  "validate_status_shape a =
     (if \<not> is_hex64 (adm_scope_hash a) then Inl (ValidationError ''scope_hash'')
      else (case adm_status a of
          AdmissionNone \<Rightarrow>
            if adm_action_type a \<noteq> None \<or> adm_missing_fields a \<noteq> [] then
              Inl (ValidationError ''none admission forbids action fields'') else Inr a
        | AdmissionMissing \<Rightarrow>
            if adm_action_type a = None \<or> adm_missing_fields a = [] then
              Inl (ValidationError ''missing admission requires action and missing fields'') else Inr a
        | Admitted \<Rightarrow>
            if adm_action_type a = None \<or> adm_missing_fields a \<noteq> [] then
              Inl (ValidationError ''admitted admission requires complete action fields'') else Inr a
        | AdmissionMismatch \<Rightarrow>
            if adm_clarification_question a = None then
              Inl (ValidationError ''mismatch admission requires a safe clarification'') else Inr a))"

record context_citation_binding =
  cb_citation_binding_id :: string
  cb_provider_attempt_id :: string
  cb_evidence_id :: string
  cb_document_id :: string
  cb_chunk_id :: string
  cb_content_hash :: string
  cb_locator_hash :: string

record obligation_binding =
  ob_tool_name :: string
  ob_invocation_id :: string
  ob_observation_id :: string
  ob_observation_content_hash :: string
  ob_resource_id :: "string option"
  ob_resource_version :: "string option"
  ob_tenant_id :: string
  ob_customer_id :: string
  ob_scope_hash :: string
  ob_freshness_status :: string
  ob_fresh_until :: "pydatetime option"
  ob_source_ids :: "string list"
  ob_evidence_ids :: "string list"
  ob_citation_binding_ids :: "string list"

text \<open>The three permission fields of an outcome are \<open>Literal[False]\<close> in the source.\<close>

record terminal_business_outcome =
  to_action_type :: string
  to_terminal_class :: terminal_outcome_class
  to_outcome_code :: string
  to_obligation_id :: string
  to_resource_ref :: "string option"
  to_observed_facts :: pydict
  to_binding :: obligation_binding
  to_customer_message_key :: string
  to_recommended_next_step :: string
  to_proposal_allowed :: bool
  to_approval_allowed :: bool
  to_execution_allowed :: bool
  to_outcome_hash :: string

record obligation_entry =
  en_obligation_id :: string
  en_kind :: obligation_kind
  en_status :: obligation_status
  en_capabilities :: "string list"
  en_binding :: "obligation_binding option"
  en_terminal_outcome :: "terminal_business_outcome option"
  en_reason_code :: string

record action_obligation_ledger =
  lg_action_type :: string
  lg_run_id :: string
  lg_tenant_id :: string
  lg_customer_id :: string
  lg_scope_hash :: string
  lg_obligations :: "obligation_entry list"
  lg_unsatisfied_capabilities :: "string list"
  lg_next_state :: ledger_next_state
  lg_reason_code :: string
  lg_terminal_outcome :: "terminal_business_outcome option"

definition all_reads_qualified :: "action_obligation_ledger \<Rightarrow> bool" where
  "all_reads_qualified l = list_all (\<lambda>e. en_status e \<in> {Satisfied, ReadQualified}) (lg_obligations l)"

definition all_obligations_satisfied :: "action_obligation_ledger \<Rightarrow> bool" where
  "all_obligations_satisfied l = list_all (\<lambda>e. en_status e = Satisfied) (lg_obligations l)"

definition qualified_knowledge_evidence_ids :: "action_obligation_ledger \<Rightarrow> string list" where
  "qualified_knowledge_evidence_ids l =
     sorted_set (concat (map (\<lambda>e. case en_binding e of None \<Rightarrow> [] | Some b \<Rightarrow> ob_evidence_ids b)
       (filter (\<lambda>e. en_kind e = KKnowledge \<and> en_status e \<in> {ReadQualified, Satisfied})
         (lg_obligations l))))"

section \<open>Reading an observation\<close>

definition canonical_hash :: "(string \<Rightarrow> string) \<Rightarrow> pydict \<Rightarrow> string" where
  "canonical_hash H payload = H (json_dumps (PDict payload))"

text \<open>The walk along a dotted path: \<open>None\<close> when a step is missing.\<close>

fun nested_parts :: "pyval \<Rightarrow> string list \<Rightarrow> pyval option" where
  "nested_parts v [] = Some v"
| "nested_parts v (p # ps) =
     (case v of
        PDict d \<Rightarrow> (case map_of d p of None \<Rightarrow> None | Some w \<Rightarrow> nested_parts w ps)
      | _ \<Rightarrow> None)"

definition nested_value :: "pydict \<Rightarrow> string \<Rightarrow> pyval option" where
  "nested_value payload path = nested_parts (PDict payload) (split_on (CHR ''.'') path)"

definition replace_Z :: "string \<Rightarrow> string" where
  "replace_Z s = concat (map (\<lambda>c. if c = CHR ''Z'' then ''+00:00'' else [c]) s)"

definition parse_time :: "pyval \<Rightarrow> pydatetime option" where
  "parse_time v =
     (let parsed = (case v of
            PTime t \<Rightarrow> Some t
          | PStr s \<Rightarrow> fromisoformat (replace_Z s)
          | _ \<Rightarrow> None)
      in map_option (\<lambda>t. if dt_offset t = None then replace_utc t else t) parsed)"

text \<open>\<open>re.findall(r"\d+", s)\<close> on ASCII digits.\<close>

fun digit_runs :: "string \<Rightarrow> nat option \<Rightarrow> nat list" where
  "digit_runs [] acc = (case acc of None \<Rightarrow> [] | Some n \<Rightarrow> [n])"
| "digit_runs (c # cs) acc =
     (case char_digit c of
        Some d \<Rightarrow> digit_runs cs (Some (10 * (case acc of None \<Rightarrow> 0 | Some n \<Rightarrow> n) + d))
      | None \<Rightarrow> (case acc of None \<Rightarrow> digit_runs cs None | Some n \<Rightarrow> n # digit_runs cs None))"

definition version_key :: "pyval \<Rightarrow> nat list" where
  "version_key v = (let parts = digit_runs (py_str v) None in if parts = [] then [0] else parts)"

definition observation_scope :: "(string \<Rightarrow> string) \<Rightarrow> pydict \<Rightarrow> string \<times> string \<times> string" where
  "observation_scope H observation =
     (let scope = (case dget observation ''trusted_scope'' of PDict d \<Rightarrow> d | _ \<Rightarrow> observation);
          tenant = str_get scope ''tenant_id''; customer = str_get scope ''customer_id'';
          hash = str_get scope ''scope_hash''
      in (tenant, customer,
          if hash = [] \<and> tenant \<noteq> [] \<and> customer \<noteq> []
          then canonical_hash H [(''customer_id'', PStr customer), (''tenant_id'', PStr tenant)]
          else hash))"

definition source_ids :: "pydict \<Rightarrow> string list" where
  "source_ids observation =
     (case dget_default observation ''source_refs'' (PList []) of
        PList refs \<Rightarrow>
          map (\<lambda>r. py_str (dget (as_dict r) ''source_id''))
            (filter (\<lambda>r. is_dict r \<and> truthy (dget (as_dict r) ''source_id'')) refs)
      | _ \<Rightarrow> [])"

text \<open>\<open>observation.get("data", {}).get(key)\<close>: a value without \<open>get\<close> raises.\<close>

definition data_get :: "pydict \<Rightarrow> string \<Rightarrow> pyval result" where
  "data_get observation k =
     (case dget_default observation ''data'' (PDict []) of
        PDict d \<Rightarrow> Inr (dget d k) | _ \<Rightarrow> Inl AttributeError)"

definition binding_resource_version :: "pydict \<Rightarrow> string option result" where
  "binding_resource_version observation =
     (let top = dget observation ''resource_version'' in
      if top \<noteq> PNone \<and> truthy top then Inr (Some (py_str top))
      else (case data_get observation ''version'' of Inl e \<Rightarrow> Inl e | Inr v \<Rightarrow>
           (case data_get observation ''resource_version'' of Inl e \<Rightarrow> Inl e | Inr w \<Rightarrow>
              if top \<noteq> PNone \<or> v \<noteq> PNone \<or> w \<noteq> PNone
              then Inr (Some (py_str (if truthy v then v else w))) else Inr None)))"

definition base_binding ::
  "(string \<Rightarrow> string) \<Rightarrow> pydict \<Rightarrow> string \<times> string \<times> string \<Rightarrow> string option \<Rightarrow> string list \<Rightarrow>
   string list \<Rightarrow> obligation_binding result" where
  "base_binding H observation scope resource evidence citations =
     (case binding_resource_version observation of Inl e \<Rightarrow> Inl e | Inr version \<Rightarrow>
        (let content_hash = py_str (py_or (py_or (dget observation ''observation_content_hash'')
               (dget observation ''content_hash'')) (PStr (canonical_hash H observation)));
             b = \<lparr>ob_tool_name = str_get observation ''tool_name'',
               ob_invocation_id = py_str (py_or (py_or (dget observation ''invocation_id'')
                 (dget observation ''logical_invocation_id''))
                 (dget_default observation ''tool_call_id'' (PStr []))),
               ob_observation_id = py_str (py_or (py_or (dget observation ''observation_id'')
                 (dget observation ''id'')) (dget_default observation ''tool_call_id'' (PStr []))),
               ob_observation_content_hash = content_hash,
               ob_resource_id = resource, ob_resource_version = version,
               ob_tenant_id = fst scope, ob_customer_id = fst (snd scope),
               ob_scope_hash = snd (snd scope),
               ob_freshness_status =
                 py_str (dget_default observation ''freshness_status'' (PStr ''unknown'')),
               ob_fresh_until = parse_time (dget observation ''fresh_until''),
               ob_source_ids = source_ids observation, ob_evidence_ids = evidence,
               ob_citation_binding_ids = citations\<rparr>
         in if is_hex64 content_hash \<and> is_hex64 (snd (snd scope)) then Inr b
            else Inl (ValidationError ''string_pattern_mismatch'')))"

definition freshness_reason :: "pydict \<Rightarrow> pydatetime \<Rightarrow> string option" where
  "freshness_reason observation now =
     (if dget observation ''freshness_status'' \<noteq> PStr ''fresh'' then
        Some ''observation_freshness_not_fresh''
      else (case parse_time (dget observation ''fresh_until'') of
          None \<Rightarrow> Some ''observation_expired''
        | Some t \<Rightarrow> if instant t < instant now then Some ''observation_expired'' else None))"

text \<open>\<open>datetime.min.replace(tzinfo=UTC)\<close>\<close>

definition min_instant :: int where
  "min_instant = instant \<lparr>dt_year = 1, dt_month = 1, dt_day = 1, dt_hour = 0, dt_minute = 0,
     dt_second = 0, dt_micro = 0, dt_offset = Some 0\<rparr>"

definition recency_key :: "pydict \<Rightarrow> (int \<times> int \<times> string) result" where
  "recency_key item =
     (case py_int (dget_default item ''attempt_index'' (PInt 0)) of Inl e \<Rightarrow> Inl e
      | Inr attempt \<Rightarrow> Inr
          (case parse_time (dget item ''observed_at'') of None \<Rightarrow> min_instant | Some t \<Rightarrow> instant t,
           attempt,
           py_str (py_or (py_or (dget item ''observation_id'') (dget item ''id'')) (PStr []))))"

definition relevant_observations :: "pydict list \<Rightarrow> string \<Rightarrow> string \<Rightarrow> pydict list result" where
  "relevant_observations observations run_id capability =
     (let current = filter (\<lambda>item. dget item ''run_id'' = PStr run_id \<and>
            dget item ''tool_name'' = PStr capability) observations
      in case mapE (\<lambda>item. case recency_key item of Inl e \<Rightarrow> Inl e | Inr k \<Rightarrow> Inr (k, item)) current of
           Inl e \<Rightarrow> Inl e
         | Inr keyed \<Rightarrow> Inr (map snd (sort_desc fst keyed)))"

section \<open>Entries\<close>

definition plain_entry ::
  "evidence_obligation_spec \<Rightarrow> obligation_status \<Rightarrow> string \<Rightarrow> obligation_entry" where
  "plain_entry ob st reason =
     \<lparr>en_obligation_id = obligation_id ob, en_kind = eo_kind ob, en_status = st,
      en_capabilities = eo_capabilities ob, en_binding = None, en_terminal_outcome = None,
      en_reason_code = reason\<rparr>"

definition observed_status :: "pydict \<Rightarrow> string" where
  "observed_status observation = py_str (dget_default observation ''status'' (PStr ''invalid_result''))"

definition failure_entry :: "evidence_obligation_spec \<Rightarrow> pydict \<Rightarrow> obligation_entry" where
  "failure_entry ob observation =
     (let status = observed_status observation;
          reason = (\<lambda>d. py_str (py_or (dget observation ''error_code'') (PStr d)))
      in if status = ''conflict'' then plain_entry ob Conflicted (reason ''observation_conflicted'')
         else if status \<in> {''timeout'', ''unavailable'', ''invalid_result'', ''invalid_input'',
                   ''forbidden_tool''}
         then plain_entry ob Failed (reason ''read_capability_failed'')
         else plain_entry ob Pending (reason ''read_result_not_qualifying''))"

definition admission_scope :: "action_admission_v2 \<Rightarrow> string \<times> string \<times> string" where
  "admission_scope a = (adm_tenant_id a, adm_customer_id a, adm_scope_hash a)"

definition contains :: "string \<Rightarrow> string \<Rightarrow> bool" where
  "contains part s = list_ex (\<lambda>i. take (length part) (drop i s) = part) [0 ..< Suc (length s)]"

definition scope_error_codes :: "string list" where
  "scope_error_codes =
     [''billing_scope_violation'', ''ticket_scope_violation'', ''cross_tenant_argument'',
      ''cross_tenant_observation'', ''observation_scope_mismatch'', ''knowledge_scope_mismatch'']"

definition forbidden_error_codes :: "string list" where
  "forbidden_error_codes = [''forbidden_surface'', ''forbidden_tool'', ''forbidden_tool_surface'']"

fun hard_terminal_entry ::
  "(string \<Rightarrow> string) \<Rightarrow> evidence_obligation_spec \<Rightarrow> action_admission_v2 \<Rightarrow> pydict list \<Rightarrow>
   obligation_entry option" where
  "hard_terminal_entry H ob adm [] = None"
| "hard_terminal_entry H ob adm (observation # rest) =
     (let scope = observation_scope H observation;
          has_scope = (scope \<noteq> ([], [], []));
          status = observed_status observation;
          code = str_or_empty observation ''error_code''
      in if has_scope \<and> scope \<noteq> admission_scope adm then
           Some (plain_entry ob Failed ''observation_scope_mismatch'')
         else if status \<in> {''timeout'', ''unavailable'', ''forbidden_tool''} \<or>
                 code \<in> set scope_error_codes \<or> code \<in> set forbidden_error_codes \<or>
                 contains ''retry_exhausted'' code
         then
           (let failed = failure_entry ob observation in
            if en_status failed = Failed then Some failed
            else Some (plain_entry ob Failed
              (if code \<noteq> [] then code else ''hard_terminal_read_failure'')))
         else hard_terminal_entry H ob adm rest)"

definition observation_data :: "pydict \<Rightarrow> pydict" where
  "observation_data observation = as_dict (dget observation ''data'')"

definition terminal_rule_matches ::
  "terminal_outcome_rule \<Rightarrow> pydict \<Rightarrow> evidence_obligation_spec \<Rightarrow> action_admission_v2 \<Rightarrow> bool result"
where
  "terminal_rule_matches rule observation ob adm =
     (let status = observed_status observation; data = observation_data observation in
      if tr_predicate rule = ObservationStatusIn then Inr (status \<in> set (match_values rule))
      else if status \<noteq> ''ok'' then Inr False
      else if tr_predicate rule = ResourceStatusNotAllowed then
        (let seen = str_get data (or_default (observation_field rule) ''status'') in
         Inr (seen \<noteq> [] \<and> allowed_resource_statuses ob \<noteq> [] \<and>
              seen \<notin> set (allowed_resource_statuses ob)))
      else if tr_predicate rule = ObservationFieldFalsy then
        Inr (case observation_field rule of None \<Rightarrow> False
             | Some f \<Rightarrow> dhas data f \<and> \<not> truthy (dget data f))
      else (case (admission_path rule, observation_field rule) of
          (Some path, Some f) \<Rightarrow>
            (case nested_value (adm_extracted_arguments adm) path of
               None \<Rightarrow> Inr False
             | Some admitted \<Rightarrow>
                 if \<not> dhas data f then Inr False
                 else if tr_predicate rule = AdmissionNotInObservation then
                   (case dget data f of
                      PList items \<Rightarrow>
                        (case admitted of
                           PList _ \<Rightarrow> Inl TypeError
                         | PDict _ \<Rightarrow> Inl TypeError
                         | _ \<Rightarrow> Inr (admitted \<notin> set (map (\<lambda>i. PStr (py_str i)) items)))
                    | _ \<Rightarrow> Inr False)
                 else Inr (py_eq admitted (dget data f)))
        | _ \<Rightarrow> Inr False))"

text \<open>The admitted reference names the observed resource or its fingerprint, ignoring case.\<close>

definition reference_matches ::
  "evidence_obligation_spec \<Rightarrow> action_admission_v2 \<Rightarrow> pydict \<Rightarrow> bool" where
  "reference_matches ob adm data =
     (case resource_ref_argument ob of None \<Rightarrow> True
      | Some arg \<Rightarrow>
          (let admitted = str_get (adm_extracted_arguments adm) arg;
               refs = [str_get data (or_default (observed_resource_field ob) []),
                       str_get data ''fingerprint'']
           in admitted \<noteq> [] \<and> casefold admitted \<in> set (map casefold (filter (\<lambda>s. s \<noteq> []) refs))))"

definition terminal_guard ::
  "(string \<Rightarrow> string) \<Rightarrow> evidence_obligation_spec \<Rightarrow> action_admission_v2 \<Rightarrow> pydict \<Rightarrow> pydatetime \<Rightarrow> bool"
where
  "terminal_guard H ob adm observation now =
     (let status = observed_status observation; data = observation_data observation in
      observation_scope H observation = admission_scope adm \<and>
      (status \<noteq> ''ok'' \<longrightarrow>
         (case resource_ref_argument ob of None \<Rightarrow> True
          | Some arg \<Rightarrow>
              (let admitted = str_get (adm_extracted_arguments adm) arg in
               is_dict (dget observation ''request_binding'') \<and> admitted \<noteq> [] \<and>
               casefold (str_get (as_dict (dget observation ''request_binding'')) ''resource_ref'') =
                 casefold admitted))) \<and>
      (status = ''ok'' \<longrightarrow>
         (require_freshness ob \<longrightarrow> freshness_reason observation now = None) \<and>
         (case observed_resource_field ob of None \<Rightarrow> True | Some f \<Rightarrow> truthy (dget data f)) \<and>
         reference_matches ob adm data))"

definition underscored :: "string \<Rightarrow> string" where
  "underscored path = map (\<lambda>c. if c = CHR ''.'' then CHR ''_'' else c) path"

definition observed_facts :: "terminal_outcome_rule \<Rightarrow> pydict \<Rightarrow> action_admission_v2 \<Rightarrow> pydict" where
  "observed_facts rule data adm =
     fold (\<lambda>path facts. case nested_value (adm_extracted_arguments adm) path of None \<Rightarrow> facts
            | Some v \<Rightarrow> dset facts (''requested_'' @ underscored path) v)
       (public_admission_paths rule)
       (fold (\<lambda>f facts. dset facts f (dget data f))
         (filter (dhas data) (public_observation_fields rule)) [])"

definition terminal_resource_ref ::
  "evidence_obligation_spec \<Rightarrow> action_admission_v2 \<Rightarrow> pydict \<Rightarrow> string option" where
  "terminal_resource_ref ob adm data =
     (let some_text = (\<lambda>s. if s = [] then None else Some s);
          by_arg = (case resource_ref_argument ob of None \<Rightarrow> None
            | Some arg \<Rightarrow> some_text (str_get (adm_extracted_arguments adm) arg))
      in case by_arg of
           Some r \<Rightarrow> Some r
         | None \<Rightarrow> (case observed_resource_field ob of None \<Rightarrow> None
             | Some f \<Rightarrow> some_text (str_or_empty data f)))"

definition opt_pystr :: "string option \<Rightarrow> pyval" where
  "opt_pystr x = (case x of None \<Rightarrow> PNone | Some s \<Rightarrow> PStr s)"

definition terminal_outcome_of ::
  "(string \<Rightarrow> string) \<Rightarrow> action_spec \<Rightarrow> evidence_obligation_spec \<Rightarrow> action_admission_v2 \<Rightarrow> pydict \<Rightarrow>
   terminal_outcome_rule \<Rightarrow> terminal_business_outcome result" where
  "terminal_outcome_of H sp ob adm observation rule =
     (let data = observation_data observation;
          facts = observed_facts rule data adm;
          ref = terminal_resource_ref ob adm data
      in case base_binding H observation (observation_scope H observation) ref [] [] of
        Inl e \<Rightarrow> Inl e
      | Inr b \<Rightarrow>
          (let h = canonical_hash H
             [(''action_type'', PStr (spec_action_type sp)),
              (''binding_hash'', PStr (ob_observation_content_hash b)),
              (''observed_facts'', PDict facts),
              (''obligation_id'', PStr (obligation_id ob)),
              (''outcome_code'', PStr (outcome_code rule)),
              (''resource_ref'', opt_pystr ref),
              (''scope_hash'', PStr (adm_scope_hash adm))]
           in if \<not> is_hex64 h \<or> spec_action_type sp \<notin> set ActionType then
                Inl (ValidationError ''terminal outcome'')
              else Inr \<lparr>to_action_type = spec_action_type sp,
                to_terminal_class = terminal_class rule, to_outcome_code = outcome_code rule,
                to_obligation_id = obligation_id ob, to_resource_ref = ref,
                to_observed_facts = facts, to_binding = b,
                to_customer_message_key = customer_message_key rule,
                to_recommended_next_step = recommended_next_step rule,
                to_proposal_allowed = False, to_approval_allowed = False,
                to_execution_allowed = False, to_outcome_hash = h\<rparr>))"

definition terminal_outcome_entry ::
  "(string \<Rightarrow> string) \<Rightarrow> action_spec \<Rightarrow> evidence_obligation_spec \<Rightarrow> action_admission_v2 \<Rightarrow> pydict \<Rightarrow>
   pydatetime \<Rightarrow> obligation_entry option result" where
  "terminal_outcome_entry H sp ob adm observation now =
     (if \<not> terminal_guard H ob adm observation now then Inr None
      else (case findE (\<lambda>rule. if tr_obligation_id rule \<noteq> obligation_id ob then Inr False
                   else terminal_rule_matches rule observation ob adm) (terminal_outcomes sp) of
          Inl e \<Rightarrow> Inl e
        | Inr None \<Rightarrow> Inr None
        | Inr (Some rule) \<Rightarrow>
            if require_business_source rule \<and> source_ids observation = [] then Inr None
            else (case terminal_outcome_of H sp ob adm observation rule of
                Inl e \<Rightarrow> Inl e
              | Inr outcome \<Rightarrow> Inr (Some
                  ((plain_entry ob TerminalStatus (outcome_code rule))
                    \<lparr>en_binding := Some (to_binding outcome),
                     en_terminal_outcome := Some outcome\<rparr>)))))"

fun first_terminal ::
  "(string \<Rightarrow> string) \<Rightarrow> action_spec \<Rightarrow> evidence_obligation_spec \<Rightarrow> action_admission_v2 \<Rightarrow> pydatetime \<Rightarrow>
   pydict list \<Rightarrow> obligation_entry option result" where
  "first_terminal H sp ob adm now [] = Inr None"
| "first_terminal H sp ob adm now (c # cs) =
     (case terminal_outcome_entry H sp ob adm c now of
        Inl e \<Rightarrow> Inl e
      | Inr (Some entry) \<Rightarrow> Inr (Some entry)
      | Inr None \<Rightarrow> first_terminal H sp ob adm now cs)"

section \<open>Resource obligations\<close>

definition status_allowed :: "evidence_obligation_spec \<Rightarrow> pydict \<Rightarrow> bool" where
  "status_allowed ob data =
     (allowed_resource_statuses ob = [] \<or>
      py_str (dget data ''status'') \<in> set (allowed_resource_statuses ob))"

definition resource_observation_qualifies ::
  "(string \<Rightarrow> string) \<Rightarrow> pydict \<Rightarrow> evidence_obligation_spec \<Rightarrow> action_admission_v2 \<Rightarrow> pydatetime \<Rightarrow> bool"
where
  "resource_observation_qualifies H observation ob adm now =
     (dget observation ''status'' = PStr ''ok'' \<and>
      observation_scope H observation = admission_scope adm \<and>
      (require_freshness ob \<longrightarrow> freshness_reason observation now = None) \<and>
      is_dict (dget observation ''data'') \<and>
      (let data = observation_data observation in
       list_all (\<lambda>f. dget data f \<noteq> PNone) (required_data_fields ob) \<and>
       list_all (\<lambda>f. truthy (dget data f)) (required_truthy_data_fields ob) \<and>
       status_allowed ob data \<and>
       (case observed_resource_field ob of None \<Rightarrow> True | Some f \<Rightarrow> truthy (dget data f)) \<and>
       reference_matches ob adm data) \<and>
      source_ids observation \<noteq> [])"

text \<open>The checks on the selected observation, in the order of the source.\<close>

definition judge_resource ::
  "(string \<Rightarrow> string) \<Rightarrow> evidence_obligation_spec \<Rightarrow> action_admission_v2 \<Rightarrow> pydict \<Rightarrow> pydatetime \<Rightarrow>
   obligation_entry result" where
  "judge_resource H ob adm observation now =
     (let scope = observation_scope H observation; data = observation_data observation;
          resource = map_option (str_or_empty data) (observed_resource_field ob)
      in if dget observation ''status'' \<noteq> PStr ''ok'' then Inr (failure_entry ob observation)
         else if scope \<noteq> admission_scope adm then
           Inr (plain_entry ob Failed ''observation_scope_mismatch'')
         else if require_freshness ob \<and> freshness_reason observation now \<noteq> None then
           Inr (plain_entry ob Stale (the (freshness_reason observation now)))
         else if list_ex (\<lambda>f. dget data f = PNone) (required_data_fields ob) then
           Inr (plain_entry ob Pending ''required_resource_fields_missing'')
         else if list_ex (\<lambda>f. \<not> truthy (dget data f)) (required_truthy_data_fields ob) then
           Inr (plain_entry ob Pending ''required_resource_value_missing'')
         else if \<not> status_allowed ob data then
           Inr (plain_entry ob Conflicted ''resource_status_conflict'')
         else if resource = Some [] then
           Inr (plain_entry ob Pending ''resource_identity_missing'')
         else if \<not> reference_matches ob adm data then
           Inr (plain_entry ob Pending ''resource_identity_mismatch'')
         else if source_ids observation = [] then
           Inr (plain_entry ob Failed ''resource_source_binding_missing'')
         else (case base_binding H observation scope resource [] [] of
             Inl e \<Rightarrow> Inl e
           | Inr b \<Rightarrow> Inr ((plain_entry ob Satisfied ''resource_obligation_satisfied'')
               \<lparr>en_binding := Some b\<rparr>)))"

definition resource_entry ::
  "(string \<Rightarrow> string) \<Rightarrow> action_spec \<Rightarrow> evidence_obligation_spec \<Rightarrow> action_admission_v2 \<Rightarrow>
   pydict list \<Rightarrow> string \<Rightarrow> pydatetime \<Rightarrow> obligation_entry result" where
  "resource_entry H sp ob adm observations run_id now =
     (case mapE (relevant_observations observations run_id) (eo_capabilities ob) of
        Inl e \<Rightarrow> Inl e
      | Inr groups \<Rightarrow>
          (case concat groups of
             [] \<Rightarrow> Inr (plain_entry ob Pending ''required_read_missing'')
           | first # rest \<Rightarrow>
               (case hard_terminal_entry H ob adm (first # rest) of
                  Some entry \<Rightarrow> Inr entry
                | None \<Rightarrow>
                    (case first_terminal H sp ob adm now (first # rest) of
                       Inl e \<Rightarrow> Inl e
                     | Inr (Some entry) \<Rightarrow> Inr entry
                     | Inr None \<Rightarrow>
                         judge_resource H ob adm
                           (case find (\<lambda>o'. resource_observation_qualifies H o' ob adm now)
                                   (first # rest) of
                              Some o' \<Rightarrow> o' | None \<Rightarrow> first) now))))"

section \<open>Knowledge obligations\<close>

definition knowledge_evidence_qualifies ::
  "pydict \<Rightarrow> evidence_obligation_spec \<Rightarrow> string \<Rightarrow> pydatetime \<Rightarrow> bool" where
  "knowledge_evidence_qualifies evidence ob index_version now =
     (str_get evidence ''document_id'' \<in> set (allowed_document_keys ob) \<and>
      str_get evidence ''document_type'' \<in> set (allowed_document_types ob) \<and>
      \<not> version_key (dget evidence ''version'') < version_key (opt_pystr (minimum_version ob)) \<and>
      dget evidence ''supporting_span_eligible'' = PBool True \<and>
      str_get evidence ''supporting_span'' \<noteq> [] \<and> truthy (dget evidence ''content_hash'') \<and>
      (let surface = casefold (str_get evidence ''section_path'' @ [CHR 0x0A] @
             str_get evidence ''supporting_span'')
       in list_ex (\<lambda>term. contains (casefold term) surface) (allowed_section_terms ob)) \<and>
      (case (dget evidence ''source_locator'', dget evidence ''eligibility_envelope'') of
         (PDict locator, PDict eligibility) \<Rightarrow>
           truthy (dget locator ''locator_hash'') \<and>
           dget eligibility ''status'' = PStr ''active'' \<and>
           dget eligibility ''outcome'' = PStr ''eligible'' \<and>
           dget eligibility ''index_version'' = PStr index_version \<and>
           (case parse_time (dget eligibility ''effective_from'') of None \<Rightarrow> False
            | Some t \<Rightarrow> instant t \<le> instant now) \<and>
           (case parse_time (dget eligibility ''effective_until'') of None \<Rightarrow> True
            | Some t \<Rightarrow> instant now < instant t) \<and>
           dget locator ''index_version'' \<in> {PNone, PStr index_version}
       | _ \<Rightarrow> False))"

definition qualified_evidence ::
  "evidence_obligation_spec \<Rightarrow> pydict \<Rightarrow> pydatetime \<Rightarrow> pydict list" where
  "qualified_evidence ob data now =
     (case dget data ''evidence'' of
        PList items \<Rightarrow>
          filter (\<lambda>e. knowledge_evidence_qualifies e ob (str_or_empty data ''index_version'') now)
            (map as_dict (filter is_dict items))
      | _ \<Rightarrow> [])"

definition evidence_readable :: "pydict \<Rightarrow> bool" where
  "evidence_readable data =
     (\<not> truthy (dget data ''refusal_reason'') \<and>
      (case dget data ''evidence'' of PList items \<Rightarrow> items \<noteq> [] | _ \<Rightarrow> False) \<and>
      str_or_empty data ''index_version'' \<noteq> [])"

definition evidence_source :: "pydict \<Rightarrow> string" where
  "evidence_source e = py_str (py_or (dget e ''chunk_id'') (dget e ''evidence_id''))"

definition sources_cover :: "pydict \<Rightarrow> pydict list \<Rightarrow> bool" where
  "sources_cover observation qualified =
     (set (source_ids observation) \<inter> set (map evidence_source qualified) \<noteq> {})"

definition knowledge_observation_qualifies ::
  "(string \<Rightarrow> string) \<Rightarrow> pydict \<Rightarrow> evidence_obligation_spec \<Rightarrow> action_admission_v2 \<Rightarrow> pydatetime \<Rightarrow> bool"
where
  "knowledge_observation_qualifies H observation ob adm now =
     (dget observation ''status'' = PStr ''ok'' \<and>
      observation_scope H observation = admission_scope adm \<and>
      is_dict (dget observation ''data'') \<and>
      (let data = observation_data observation in
       dget data ''conflict'' \<noteq> PBool True \<and> evidence_readable data \<and>
       qualified_evidence ob data now \<noteq> [] \<and>
       sources_cover observation (qualified_evidence ob data now)))"

definition citation_matches :: "context_citation_binding \<Rightarrow> pydict \<Rightarrow> bool" where
  "citation_matches b e =
     (dget e ''evidence_id'' = PStr (cb_evidence_id b) \<and>
      dget e ''document_id'' = PStr (cb_document_id b) \<and>
      dget e ''chunk_id'' = PStr (cb_chunk_id b) \<and>
      dget e ''content_hash'' = PStr (cb_content_hash b) \<and>
      dget (as_dict (dget e ''source_locator'')) ''locator_hash'' = PStr (cb_locator_hash b))"

definition matched_citations ::
  "context_citation_binding list \<Rightarrow> string option \<Rightarrow> pydict list \<Rightarrow> string list" where
  "matched_citations bindings attempt qualified =
     (case attempt of None \<Rightarrow> []
      | Some a \<Rightarrow>
          map cb_citation_binding_id
            (filter (\<lambda>b. cb_provider_attempt_id b = a \<and> list_ex (citation_matches b) qualified)
              bindings))"

definition judge_knowledge ::
  "(string \<Rightarrow> string) \<Rightarrow> evidence_obligation_spec \<Rightarrow> action_admission_v2 \<Rightarrow> pydict \<Rightarrow> pydatetime \<Rightarrow>
   context_citation_binding list \<Rightarrow> string option \<Rightarrow> obligation_entry result" where
  "judge_knowledge H ob adm observation now bindings attempt =
     (let scope = observation_scope H observation; data = observation_data observation;
          qualified = qualified_evidence ob data now
      in if dget observation ''status'' \<noteq> PStr ''ok'' then Inr (failure_entry ob observation)
         else if scope \<noteq> admission_scope adm then
           Inr (plain_entry ob Failed ''knowledge_scope_mismatch'')
         else if dget data ''conflict'' = PBool True then
           Inr (plain_entry ob Conflicted ''knowledge_policy_conflict'')
         else if \<not> evidence_readable data then
           Inr (plain_entry ob Pending ''knowledge_evidence_empty'')
         else if qualified = [] then
           Inr (plain_entry ob Pending ''knowledge_evidence_not_qualified'')
         else if list_ex (\<lambda>e. \<not> dhas e ''evidence_id'') qualified then
           Inl (KeyError ''evidence_id'')
         else if \<not> sources_cover observation qualified then
           Inr (plain_entry ob Failed ''knowledge_source_binding_missing'')
         else
           (let matched = matched_citations bindings attempt qualified in
            case base_binding H observation scope None
                   (map (\<lambda>e. py_str (dget e ''evidence_id'')) qualified) (sorted_set matched) of
              Inl e \<Rightarrow> Inl e
            | Inr b \<Rightarrow> Inr
                ((if matched \<noteq> [] then plain_entry ob Satisfied ''knowledge_obligation_satisfied''
                  else plain_entry ob ReadQualified ''knowledge_read_qualified'')
                 \<lparr>en_binding := Some b\<rparr>)))"

definition knowledge_entry ::
  "(string \<Rightarrow> string) \<Rightarrow> evidence_obligation_spec \<Rightarrow> action_admission_v2 \<Rightarrow> pydict list \<Rightarrow> string \<Rightarrow>
   pydatetime \<Rightarrow> context_citation_binding list \<Rightarrow> string option \<Rightarrow> obligation_entry result" where
  "knowledge_entry H ob adm observations run_id now bindings attempt =
     (case relevant_observations observations run_id ''search_knowledge'' of
        Inl e \<Rightarrow> Inl e
      | Inr [] \<Rightarrow> Inr (plain_entry ob Pending ''knowledge_read_missing'')
      | Inr (first # rest) \<Rightarrow>
          (case hard_terminal_entry H ob adm (first # rest) of
             Some entry \<Rightarrow> Inr entry
           | None \<Rightarrow>
               judge_knowledge H ob adm
                 (case find (\<lambda>o'. knowledge_observation_qualifies H o' ob adm now) (first # rest) of
                    Some o' \<Rightarrow> o' | None \<Rightarrow> first) now bindings attempt))"

section \<open>The ledger\<close>

definition ledger_state :: "obligation_entry list \<Rightarrow> ledger_next_state \<times> string" where
  "ledger_state entries =
     (let statuses = set (map en_status entries);
          outcomes = List.map_filter en_terminal_outcome entries
      in if Failed \<in> statuses then
           (SafeStop, case find (\<lambda>e. en_status e = Failed \<and> en_reason_code e \<noteq> []) entries of
              None \<Rightarrow> ''obligation_hard_failure'' | Some e \<Rightarrow> en_reason_code e)
         else if outcomes \<noteq> [] then (ExplainTerminal, to_outcome_code (hd outcomes))
         else if statuses = {Satisfied} then (AssembleCandidate, ''all_obligations_satisfied'')
         else if statuses \<subseteq> {Satisfied, ReadQualified} then (Synthesize, ''all_reads_qualified'')
         else if Conflicted \<in> statuses then (SafeStop, ''obligation_conflict'')
         else (CollectReads, ''obligations_pending''))"

definition ledger_of ::
  "action_spec \<Rightarrow> action_admission_v2 \<Rightarrow> string \<Rightarrow> obligation_entry list \<Rightarrow> action_obligation_ledger"
where
  "ledger_of sp adm run_id entries =
     (let outcomes = List.map_filter en_terminal_outcome entries in
      \<lparr>lg_action_type = spec_action_type sp, lg_run_id = run_id,
       lg_tenant_id = adm_tenant_id adm, lg_customer_id = adm_customer_id adm,
       lg_scope_hash = adm_scope_hash adm, lg_obligations = entries,
       lg_unsatisfied_capabilities =
         (if outcomes \<noteq> [] then []
          else sorted_set (concat (map en_capabilities
            (filter (\<lambda>e. en_status e \<in> {Pending, Stale}) entries)))),
       lg_next_state = fst (ledger_state entries), lg_reason_code = snd (ledger_state entries),
       lg_terminal_outcome = (case outcomes of [] \<Rightarrow> None | t # _ \<Rightarrow> Some t)\<rparr>)"

definition evaluate_action_obligations ::
  "(string \<Rightarrow> string) \<Rightarrow> action_spec \<Rightarrow> action_admission_v2 \<Rightarrow> pydict list \<Rightarrow> string \<Rightarrow>
   context_citation_binding list \<Rightarrow> string option \<Rightarrow> pydatetime \<Rightarrow> action_obligation_ledger result" where
  "evaluate_action_obligations H sp adm observations run_id bindings attempt now =
     (if adm_status adm \<noteq> Admitted \<or> adm_action_type adm \<noteq> Some (spec_action_type sp) then
        Inl (ValueError ''obligation ledger requires matching admitted action'')
      else
        (let current = (if dt_offset now = None then replace_utc now else now) in
         case mapE (\<lambda>ob.
             if eo_kind ob = KKnowledge
             then knowledge_entry H ob adm observations run_id current bindings attempt
             else resource_entry H sp ob adm observations run_id current) (spec_obligations sp) of
           Inl e \<Rightarrow> Inl e
         | Inr entries \<Rightarrow>
             if \<not> is_hex64 (adm_scope_hash adm) then Inl (ValidationError ''scope_hash'')
             else Inr (ledger_of sp adm run_id entries)))"

section \<open>Selection of observations\<close>

lemma mapE_keyed:
  assumes "mapE (\<lambda>x. case k x of Inl e \<Rightarrow> Inl e | Inr y \<Rightarrow> Inr (y, x)) xs = Inr ys"
  shows "map snd ys = xs" "(y, x) \<in> set ys \<Longrightarrow> k x = Inr y"
  using assms by (induction xs arbitrary: ys) (auto split: sum.splits)

lemma relevant_observations_set:
  assumes "relevant_observations observations run_id cap = Inr cs"
  shows "set cs = {o' \<in> set observations. dget o' ''run_id'' = PStr run_id \<and> dget o' ''tool_name'' = PStr cap}"
proof -
  let ?cur = "filter (\<lambda>item. dget item ''run_id'' = PStr run_id \<and> dget item ''tool_name'' = PStr cap) observations"
  from assms obtain keyed where
      k: "mapE (\<lambda>item. case recency_key item of Inl e \<Rightarrow> Inl e | Inr k \<Rightarrow> Inr (k, item)) ?cur = Inr keyed"
    and cs: "cs = map snd (sort_desc fst keyed)"
    by (auto simp: relevant_observations_def Let_def split: sum.splits)
  have "set cs = snd ` set keyed" by (simp add: cs)
  also have "\<dots> = set ?cur" using mapE_keyed(1) [OF k] by (metis set_map)
  finally show ?thesis by auto
qed

lemma relevant_observations_run:
  "relevant_observations (filter (\<lambda>o'. dget o' ''run_id'' = PStr run_id) observations) run_id cap =
     relevant_observations observations run_id cap"
proof -
  have "filter (\<lambda>item. dget item ''run_id'' = PStr run_id \<and> dget item ''tool_name'' = PStr cap)
      (filter (\<lambda>o'. dget o' ''run_id'' = PStr run_id) observations) =
    filter (\<lambda>item. dget item ''run_id'' = PStr run_id \<and> dget item ''tool_name'' = PStr cap) observations"
    by (simp add: filter_filter conj_commute cong: conj_cong)
  then show ?thesis by (simp add: relevant_observations_def)
qed

lemma relevant_observations_newest:
  assumes "relevant_observations observations run_id cap = Inr (first # rest)" "o' \<in> set (first # rest)"
  shows "\<exists>k k'. recency_key o' = Inr k \<and> recency_key first = Inr k' \<and> k \<le> k'"
proof -
  let ?cur = "filter (\<lambda>item. dget item ''run_id'' = PStr run_id \<and> dget item ''tool_name'' = PStr cap) observations"
  from assms obtain keyed where
      k: "mapE (\<lambda>item. case recency_key item of Inl e \<Rightarrow> Inl e | Inr k \<Rightarrow> Inr (k, item)) ?cur = Inr keyed"
    and cs: "first # rest = map snd (sort_desc fst keyed)"
    by (auto simp: relevant_observations_def Let_def split: sum.splits)
  then obtain kf ks where s: "sort_desc fst keyed = (kf, first) # ks" by (cases "sort_desc fst keyed") auto
  from assms(2) cs obtain ko where o': "(ko, o') \<in> set (sort_desc fst keyed)" by auto
  then have mem: "(ko, o') \<in> set keyed" "(kf, first) \<in> set keyed"
    using s by (metis set_sort_desc, metis list.set_intros(1) set_sort_desc)
  have "fst (ko, o') \<le> fst (kf, first)" by (rule sort_desc_hd_max [OF mem(1) s])
  with mapE_keyed(2) [OF k] mem show ?thesis by auto
qed

section \<open>Shape of the entries\<close>

definition entry_of :: "evidence_obligation_spec \<Rightarrow> obligation_entry \<Rightarrow> bool" where
  "entry_of ob e \<longleftrightarrow>
     en_obligation_id e = obligation_id ob \<and> en_kind e = eo_kind ob \<and>
     en_capabilities e = eo_capabilities ob \<and>
     (en_status e = TerminalStatus \<longleftrightarrow> en_terminal_outcome e \<noteq> None)"

lemma plain_entry_simps [simp]:
  "en_status (plain_entry ob st r) = st" "en_terminal_outcome (plain_entry ob st r) = None"
  "en_binding (plain_entry ob st r) = None" "en_capabilities (plain_entry ob st r) = eo_capabilities ob"
  "en_reason_code (plain_entry ob st r) = r"
  by (simp_all add: plain_entry_def)

lemma entry_of_plain [simp]: "entry_of ob (plain_entry ob st r) \<longleftrightarrow> st \<noteq> TerminalStatus"
  by (simp add: entry_of_def plain_entry_def)

lemma entry_of_binding [simp]: "entry_of ob (e\<lparr>en_binding := b\<rparr>) \<longleftrightarrow> entry_of ob e"
  by (simp add: entry_of_def)

lemma failure_entry_shape:
  "entry_of ob (failure_entry ob o')" "en_status (failure_entry ob o') \<in> {Conflicted, Failed, Pending}"
  by (auto simp: failure_entry_def Let_def)

lemma hard_terminal_Some:
  "hard_terminal_entry H ob adm cs = Some e \<Longrightarrow> entry_of ob e \<and> en_status e = Failed"
proof (induction cs)
  case (Cons o' cs)
  then show ?case using failure_entry_shape(1) [of ob o'] by (auto simp: Let_def split: if_splits)
qed simp

lemma hard_terminal_out_of_scope:
  assumes "o' \<in> set cs" "observation_scope H o' \<noteq> ([], [], [])"
    "observation_scope H o' \<noteq> admission_scope adm"
  shows "hard_terminal_entry H ob adm cs \<noteq> None"
  using assms(1) by (induction cs) (auto simp: Let_def assms(2,3))

definition denies_everything :: "terminal_business_outcome \<Rightarrow> bool" where
  "denies_everything t \<longleftrightarrow>
     \<not> to_proposal_allowed t \<and> \<not> to_approval_allowed t \<and> \<not> to_execution_allowed t"

lemma base_binding_scope:
  "base_binding H o' scope r ev ci = Inr b \<Longrightarrow>
     (ob_tenant_id b, ob_customer_id b, ob_scope_hash b) = scope \<and> ob_source_ids b = source_ids o' \<and>
     is_hex64 (ob_observation_content_hash b) \<and> ob_evidence_ids b = ev \<and> ob_citation_binding_ids b = ci"
  by (auto simp: base_binding_def Let_def split: sum.splits if_splits)

lemma terminal_outcome_of_Inr:
  assumes "terminal_outcome_of H sp ob adm o' rule = Inr t"
  shows "denies_everything t \<and> to_obligation_id t = obligation_id ob \<and>
    to_outcome_code t = outcome_code rule \<and> to_action_type t = spec_action_type sp \<and>
    base_binding H o' (observation_scope H o') (to_resource_ref t) [] [] = Inr (to_binding t)"
  using assms
  by (auto simp: terminal_outcome_of_def Let_def denies_everything_def split: sum.splits if_splits)

lemma terminal_outcome_entry_Some:
  assumes "terminal_outcome_entry H sp ob adm o' now = Inr (Some e)"
  obtains t rule where "entry_of ob e" "en_status e = TerminalStatus" "en_terminal_outcome e = Some t"
    "en_binding e = Some (to_binding t)" "rule \<in> set (terminal_outcomes sp)"
    "terminal_outcome_of H sp ob adm o' rule = Inr t" "terminal_guard H ob adm o' now"
    "require_business_source rule \<longrightarrow> source_ids o' \<noteq> []"
proof -
  from assms obtain rule t where
      f: "findE (\<lambda>rule. if tr_obligation_id rule \<noteq> obligation_id ob then Inr False
                   else terminal_rule_matches rule o' ob adm) (terminal_outcomes sp) = Inr (Some rule)"
    and t: "terminal_outcome_of H sp ob adm o' rule = Inr t" "terminal_guard H ob adm o' now"
      "\<not> (require_business_source rule \<and> source_ids o' = [])"
    and e: "e = (plain_entry ob TerminalStatus (outcome_code rule))
        \<lparr>en_binding := Some (to_binding t), en_terminal_outcome := Some t\<rparr>"
    by (auto simp: terminal_outcome_entry_def split: if_splits sum.splits option.splits)
  show thesis
    by (rule that [of t rule]) (use e t findE_Some [OF f] in \<open>auto simp: entry_of_def plain_entry_def\<close>)
qed

lemma first_terminal_Some:
  "first_terminal H sp ob adm now cs = Inr (Some e) \<Longrightarrow>
     \<exists>c \<in> set cs. terminal_outcome_entry H sp ob adm c now = Inr (Some e)"
  by (induction cs) (auto split: sum.splits option.splits)

lemma judge_resource_shape:
  "judge_resource H ob adm o' now = Inr e \<Longrightarrow> entry_of ob e \<and> en_status e \<noteq> TerminalStatus"
  using failure_entry_shape [of ob o']
  by (auto simp: judge_resource_def Let_def split: if_splits sum.splits)

lemma judge_knowledge_shape:
  "judge_knowledge H ob adm o' now bs a = Inr e \<Longrightarrow> entry_of ob e \<and> en_status e \<noteq> TerminalStatus"
  using failure_entry_shape [of ob o']
  by (auto simp: judge_knowledge_def Let_def split: if_splits sum.splits)

section \<open>What an entry rests on\<close>

definition read_by :: "evidence_obligation_spec \<Rightarrow> string list" where
  "read_by ob = (if eo_kind ob = KKnowledge then [''search_knowledge''] else eo_capabilities ob)"

definition current_reads :: "evidence_obligation_spec \<Rightarrow> string \<Rightarrow> pydict list \<Rightarrow> pydict set" where
  "current_reads ob run_id observations =
     {o' \<in> set observations. dget o' ''run_id'' = PStr run_id \<and>
        dget o' ''tool_name'' \<in> PStr ` set (read_by ob)}"

definition entry_for ::
  "(string \<Rightarrow> string) \<Rightarrow> action_spec \<Rightarrow> action_admission_v2 \<Rightarrow> pydict list \<Rightarrow> string \<Rightarrow>
   context_citation_binding list \<Rightarrow> string option \<Rightarrow> pydatetime \<Rightarrow> evidence_obligation_spec \<Rightarrow>
   obligation_entry result" where
  "entry_for H sp adm observations run_id bindings attempt now ob =
     (if eo_kind ob = KKnowledge
      then knowledge_entry H ob adm observations run_id now bindings attempt
      else resource_entry H sp ob adm observations run_id now)"

lemma group_reads:
  assumes "mapE (relevant_observations observations run_id) (eo_capabilities ob) = Inr groups"
    "eo_kind ob \<noteq> KKnowledge"
  shows "set (concat groups) = current_reads ob run_id observations"
proof -
  have "set (concat groups) = {o' \<in> set observations. dget o' ''run_id'' = PStr run_id \<and>
      dget o' ''tool_name'' \<in> PStr ` set (eo_capabilities ob)}"
  proof (intro equalityI subsetI)
    fix o' assume "o' \<in> set (concat groups)"
    then obtain g where g: "g \<in> set groups" "o' \<in> set g" by auto
    then obtain c where "c \<in> set (eo_capabilities ob)"
        "relevant_observations observations run_id c = Inr g"
      using mapE_in [OF assms(1)] by blast
    with g show "o' \<in> {o' \<in> set observations. dget o' ''run_id'' = PStr run_id \<and>
      dget o' ''tool_name'' \<in> PStr ` set (eo_capabilities ob)}"
      using relevant_observations_set [of observations run_id c g] by auto
  next
    fix o' assume "o' \<in> {o' \<in> set observations. dget o' ''run_id'' = PStr run_id \<and>
      dget o' ''tool_name'' \<in> PStr ` set (eo_capabilities ob)}"
    then obtain c where c: "c \<in> set (eo_capabilities ob)" "o' \<in> set observations"
        "dget o' ''run_id'' = PStr run_id" "dget o' ''tool_name'' = PStr c" by auto
    then obtain g where "g \<in> set groups" "relevant_observations observations run_id c = Inr g"
      using mapE_in_arg [OF assms(1)] by blast
    with c show "o' \<in> set (concat groups)"
      using relevant_observations_set [of observations run_id c g] by auto
  qed
  with assms(2) show ?thesis by (simp add: current_reads_def read_by_def)
qed

lemma find_or_first_in: "(case find P (x # xs) of Some y \<Rightarrow> y | None \<Rightarrow> x) \<in> set (x # xs)"
  by (auto split: option.split simp: find_Some_iff)

text \<open>
  Case analysis of an entry: no read yet, a hard failure, a terminal business outcome derived from a
  current read, or the judgement of one selected current read.
\<close>

lemma entry_for_cases:
  assumes "entry_for H sp adm observations run_id bindings attempt now ob = Inr e"
  obtains (missing) r where "e = plain_entry ob Pending r" "current_reads ob run_id observations = {}"
  | (failed) "entry_of ob e" "en_status e = Failed"
  | (terminal) o' where "o' \<in> current_reads ob run_id observations"
      "terminal_outcome_entry H sp ob adm o' now = Inr (Some e)"
      "\<forall>o'' \<in> current_reads ob run_id observations.
         observation_scope H o'' \<in> {([], [], []), admission_scope adm}"
  | (resource) o' where "o' \<in> current_reads ob run_id observations" "eo_kind ob \<noteq> KKnowledge"
      "judge_resource H ob adm o' now = Inr e"
      "\<forall>o'' \<in> current_reads ob run_id observations.
         observation_scope H o'' \<in> {([], [], []), admission_scope adm}"
  | (knowledge) o' where "o' \<in> current_reads ob run_id observations" "eo_kind ob = KKnowledge"
      "judge_knowledge H ob adm o' now bindings attempt = Inr e"
      "\<forall>o'' \<in> current_reads ob run_id observations.
         observation_scope H o'' \<in> {([], [], []), admission_scope adm}"
proof (cases "eo_kind ob = KKnowledge")
  case True
  then obtain cs where cs: "relevant_observations observations run_id ''search_knowledge'' = Inr cs"
    using assms by (auto simp: entry_for_def knowledge_entry_def split: sum.splits)
  have reads: "set cs = current_reads ob run_id observations"
    using relevant_observations_set [OF cs] True by (auto simp: current_reads_def read_by_def)
  show thesis
  proof (cases cs)
    case Nil
    with assms True cs reads show thesis
      by (intro that(1)) (auto simp: entry_for_def knowledge_entry_def)
  next
    case (Cons first rest)
    show thesis
    proof (cases "hard_terminal_entry H ob adm (first # rest)")
      case (Some e')
      with assms True cs Cons have "e = e'" by (simp add: entry_for_def knowledge_entry_def)
      with Some that(2) hard_terminal_Some show thesis by blast
    next
      case None
      have scoped: "\<forall>o'' \<in> set (first # rest). observation_scope H o'' \<in> {([], [], []), admission_scope adm}"
        using None hard_terminal_out_of_scope by blast
      let ?sel = "case find (\<lambda>o'. knowledge_observation_qualifies H o' ob adm now) (first # rest) of
        Some o' \<Rightarrow> o' | None \<Rightarrow> first"
      have "judge_knowledge H ob adm ?sel now bindings attempt = Inr e"
        using None assms True cs Cons
        by (simp add: entry_for_def knowledge_entry_def del: find.simps hard_terminal_entry.simps)
      moreover have "?sel \<in> set (first # rest)" by (rule find_or_first_in)
      ultimately show thesis
        using scoped reads Cons True that(5) [of ?sel] by (simp del: find.simps list.set)
    qed
  qed
next
  case False
  then obtain groups where gs: "mapE (relevant_observations observations run_id) (eo_capabilities ob) = Inr groups"
    using assms by (auto simp: entry_for_def resource_entry_def split: sum.splits)
  note reads = group_reads [OF gs False]
  show thesis
  proof (cases "concat groups")
    case Nil
    with assms False gs reads show thesis
      by (intro that(1)) (auto simp: entry_for_def resource_entry_def)
  next
    case (Cons first rest)
    show thesis
    proof (cases "hard_terminal_entry H ob adm (first # rest)")
      case (Some e')
      with assms False gs Cons have "e = e'" by (simp add: entry_for_def resource_entry_def)
      with Some that(2) hard_terminal_Some show thesis by blast
    next
      case None
      have scoped: "\<forall>o'' \<in> set (first # rest). observation_scope H o'' \<in> {([], [], []), admission_scope adm}"
        using None hard_terminal_out_of_scope by blast
      let ?sel = "case find (\<lambda>o'. resource_observation_qualifies H o' ob adm now) (first # rest) of
        Some o' \<Rightarrow> o' | None \<Rightarrow> first"
      have sel: "?sel \<in> set (first # rest)" by (rule find_or_first_in)
      from None assms False gs Cons consider
          "first_terminal H sp ob adm now (first # rest) = Inr (Some e)"
        | "judge_resource H ob adm ?sel now = Inr e"
        by (auto simp: entry_for_def resource_entry_def simp del: first_terminal.simps find.simps
            split: sum.splits option.splits)
      then show thesis
      proof cases
        case 1
        then obtain c where "c \<in> set (first # rest)" "terminal_outcome_entry H sp ob adm c now = Inr (Some e)"
          using first_terminal_Some by blast
        with scoped reads Cons show thesis
          using that(3) [of c] by (simp del: list.set)
      next
        case 2
        with scoped reads Cons sel False show thesis
          using that(4) [of ?sel] by (simp del: find.simps list.set)
      qed
    qed
  qed
qed

lemma entry_for_shape:
  assumes "entry_for H sp adm observations run_id bindings attempt now ob = Inr e"
  shows "entry_of ob e"
  using assms
proof (cases rule: entry_for_cases)
  case (terminal o')
  then show ?thesis by (auto elim: terminal_outcome_entry_Some)
qed (use judge_resource_shape judge_knowledge_shape in \<open>auto\<close>)

text \<open>An observation marked fresh whose freshness has not run out.\<close>

definition still_fresh :: "pydict \<Rightarrow> pydatetime \<Rightarrow> bool" where
  "still_fresh o' now \<longleftrightarrow> dget o' ''freshness_status'' = PStr ''fresh'' \<and>
     (\<exists>t. parse_time (dget o' ''fresh_until'') = Some t \<and> instant now \<le> instant t)"

lemma freshness_reason_None: "freshness_reason o' now = None \<longleftrightarrow> still_fresh o' now"
  by (auto simp: freshness_reason_def still_fresh_def split: option.splits)

text \<open>The conditions under which an observation satisfies a resource obligation.\<close>

definition supports_resource ::
  "(string \<Rightarrow> string) \<Rightarrow> evidence_obligation_spec \<Rightarrow> action_admission_v2 \<Rightarrow> pydatetime \<Rightarrow> pydict \<Rightarrow> bool"
where
  "supports_resource H ob adm now o' \<longleftrightarrow>
     dget o' ''status'' = PStr ''ok'' \<and> observation_scope H o' = admission_scope adm \<and>
     (require_freshness ob \<longrightarrow> still_fresh o' now) \<and>
     (\<forall>f \<in> set (required_data_fields ob). dget (observation_data o') f \<noteq> PNone) \<and>
     (\<forall>f \<in> set (required_truthy_data_fields ob). truthy (dget (observation_data o') f)) \<and>
     status_allowed ob (observation_data o') \<and> reference_matches ob adm (observation_data o') \<and>
     source_ids o' \<noteq> []"

definition supports_knowledge ::
  "(string \<Rightarrow> string) \<Rightarrow> evidence_obligation_spec \<Rightarrow> action_admission_v2 \<Rightarrow> pydatetime \<Rightarrow> pydict \<Rightarrow> bool"
where
  "supports_knowledge H ob adm now o' \<longleftrightarrow>
     dget o' ''status'' = PStr ''ok'' \<and> observation_scope H o' = admission_scope adm \<and>
     dget (observation_data o') ''conflict'' \<noteq> PBool True \<and>
     qualified_evidence ob (observation_data o') now \<noteq> [] \<and>
     sources_cover o' (qualified_evidence ob (observation_data o') now)"

definition supported_entry ::
  "(string \<Rightarrow> string) \<Rightarrow> action_admission_v2 \<Rightarrow> pydict list \<Rightarrow> string \<Rightarrow> pydatetime \<Rightarrow>
   evidence_obligation_spec \<Rightarrow> obligation_entry \<Rightarrow> bool" where
  "supported_entry H adm observations run_id now ob e \<longleftrightarrow>
     (\<exists>o' \<in> current_reads ob run_id observations. \<exists>b r ev ci.
        en_binding e = Some b \<and> base_binding H o' (admission_scope adm) r ev ci = Inr b \<and>
        (if eo_kind ob = KKnowledge then supports_knowledge H ob adm now o'
         else supports_resource H ob adm now o'))"

lemma judge_resource_supported:
  assumes "judge_resource H ob adm o' now = Inr e" "en_status e = Satisfied"
  shows "supports_resource H ob adm now o' \<and>
    (\<exists>b r. en_binding e = Some b \<and> base_binding H o' (admission_scope adm) r [] [] = Inr b)"
  using assms failure_entry_shape(2) [of ob o']
  by (auto simp: judge_resource_def Let_def supports_resource_def list_ex_iff freshness_reason_None
      split: if_splits sum.splits)

lemma judge_knowledge_supported:
  assumes "judge_knowledge H ob adm o' now bs a = Inr e" "en_status e \<in> {Satisfied, ReadQualified}"
  shows "supports_knowledge H ob adm now o' \<and>
    (\<exists>b ev ci. en_binding e = Some b \<and> base_binding H o' (admission_scope adm) None ev ci = Inr b) \<and>
    (en_status e = Satisfied \<longleftrightarrow> matched_citations bs a (qualified_evidence ob (observation_data o') now) \<noteq> [])"
  using assms failure_entry_shape(2) [of ob o']
  by (auto simp: judge_knowledge_def Let_def supports_knowledge_def split: if_splits sum.splits) blast+

lemma entry_for_satisfied:
  assumes "entry_for H sp adm observations run_id bindings attempt now ob = Inr e"
    "en_status e = Satisfied"
  shows "supported_entry H adm observations run_id now ob e"
  using assms(1)
proof (cases rule: entry_for_cases)
  case (terminal o')
  then show ?thesis using assms(2) by (auto elim: terminal_outcome_entry_Some)
next
  case (resource o')
  then obtain b r where "en_binding e = Some b" "base_binding H o' (admission_scope adm) r [] [] = Inr b"
      "supports_resource H ob adm now o'"
    using judge_resource_supported [OF resource(3) assms(2)] by blast
  with resource(1,2) show ?thesis unfolding supported_entry_def by (intro bexI exI) simp_all
next
  case (knowledge o')
  then obtain b ev ci where "en_binding e = Some b"
      "base_binding H o' (admission_scope adm) None ev ci = Inr b" "supports_knowledge H ob adm now o'"
    using judge_knowledge_supported [OF knowledge(3)] assms(2) by blast
  with knowledge(1,2) show ?thesis unfolding supported_entry_def by (intro bexI exI) simp_all
qed (use assms(2) in auto)

lemma entry_for_out_of_scope:
  assumes "entry_for H sp adm observations run_id bindings attempt now ob = Inr e"
    "o' \<in> current_reads ob run_id observations" "observation_scope H o' \<noteq> ([], [], [])"
    "observation_scope H o' \<noteq> admission_scope adm"
  shows "en_status e = Failed"
  using assms(1) by (cases rule: entry_for_cases) (use assms(2-4) in auto)

section \<open>Ledger properties\<close>

definition utc_now :: "pydatetime \<Rightarrow> pydatetime" where
  "utc_now now = (if dt_offset now = None then replace_utc now else now)"

lemma evaluate_Inr:
  "evaluate_action_obligations H sp adm observations run_id bindings attempt now = Inr l \<longleftrightarrow>
     adm_status adm = Admitted \<and> adm_action_type adm = Some (spec_action_type sp) \<and>
     is_hex64 (adm_scope_hash adm) \<and>
     (\<exists>entries. mapE (entry_for H sp adm observations run_id bindings attempt (utc_now now))
        (spec_obligations sp) = Inr entries \<and> l = ledger_of sp adm run_id entries)"
  by (auto simp: evaluate_action_obligations_def utc_now_def Let_def entry_for_def [abs_def]
      split: sum.splits if_splits)

lemma ledger_of_simps [simp]:
  "lg_obligations (ledger_of sp adm run_id es) = es"
  "lg_next_state (ledger_of sp adm run_id es) = fst (ledger_state es)"
  "lg_terminal_outcome (ledger_of sp adm run_id es) =
     (case List.map_filter en_terminal_outcome es of [] \<Rightarrow> None | t # _ \<Rightarrow> Some t)"
  by (simp_all add: ledger_of_def Let_def)

lemma map_filter_Nil_iff: "List.map_filter f xs = [] \<longleftrightarrow> (\<forall>x \<in> set xs. f x = None)"
  by (induction xs) (auto simp: List.map_filter_def)

lemma map_filter_in: "y \<in> set (List.map_filter f xs) \<longleftrightarrow> (\<exists>x \<in> set xs. f x = Some y)"
  by (force simp: List.map_filter_def)

lemma ledger_state_assemble:
  assumes "fst (ledger_state es) = AssembleCandidate"
  shows "es \<noteq> []" "e \<in> set es \<Longrightarrow> en_status e = Satisfied" "List.map_filter en_terminal_outcome es = []"
  using assms by (auto simp: ledger_state_def Let_def split: if_splits)

lemma ledger_state_failed:
  "e \<in> set es \<Longrightarrow> en_status e = Failed \<Longrightarrow> fst (ledger_state es) = SafeStop"
  by (force simp: ledger_state_def Let_def)


text \<open>
  Scope isolation: one current read that carries a tenant, customer or scope other than the
  admitted one stops the whole action, whatever the other observations say.
\<close>

theorem out_of_scope_read_stops:
  assumes "evaluate_action_obligations H sp adm observations run_id bindings attempt now = Inr l"
    and "ob \<in> set (spec_obligations sp)" "o' \<in> current_reads ob run_id observations"
    and "observation_scope H o' \<noteq> ([], [], [])" "observation_scope H o' \<noteq> admission_scope adm"
  shows "lg_next_state l = SafeStop"
proof -
  obtain es where es: "mapE (entry_for H sp adm observations run_id bindings attempt (utc_now now))
      (spec_obligations sp) = Inr es" and l: "l = ledger_of sp adm run_id es"
    using assms(1) by (auto simp: evaluate_Inr)
  obtain e where "e \<in> set es" "entry_for H sp adm observations run_id bindings attempt (utc_now now) ob = Inr e"
    using mapE_in_arg [OF es assms(2)] by blast
  with entry_for_out_of_scope [OF _ assms(3-5)] show ?thesis by (simp add: l ledger_state_failed)
qed

lemma entry_for_outcome:
  assumes "entry_for H sp adm observations run_id bindings attempt now ob = Inr e"
    "en_terminal_outcome e = Some t"
  shows "denies_everything t \<and> to_obligation_id t = obligation_id ob \<and>
    (ob_tenant_id (to_binding t), ob_customer_id (to_binding t), ob_scope_hash (to_binding t)) =
      admission_scope adm \<and>
    (\<exists>o' r. o' \<in> current_reads ob run_id observations \<and>
       base_binding H o' (admission_scope adm) r [] [] = Inr (to_binding t))"
proof -
  have "en_status e = TerminalStatus" using entry_for_shape [OF assms(1)] assms(2) by (simp add: entry_of_def)
  from assms(1) this obtain o' where o': "o' \<in> current_reads ob run_id observations"
      "terminal_outcome_entry H sp ob adm o' now = Inr (Some e)"
    by (cases rule: entry_for_cases)
      (auto dest: judge_resource_shape judge_knowledge_shape)
  from o'(2) obtain rule where "terminal_outcome_of H sp ob adm o' rule = Inr t" "terminal_guard H ob adm o' now"
    by (rule terminal_outcome_entry_Some) (use assms(2) in auto)
  then have t: "denies_everything t" "to_obligation_id t = obligation_id ob"
      "base_binding H o' (admission_scope adm) (to_resource_ref t) [] [] = Inr (to_binding t)"
    using terminal_outcome_of_Inr [of H sp ob adm o' rule t] by (auto simp: terminal_guard_def Let_def)
  with base_binding_scope [OF t(3)] o'(1) show ?thesis by blast
qed

text \<open>
  C19. A terminal business outcome closes the action: it allows no proposal, approval or execution,
  it is bound to a current read in the admitted scope, the ledger asks for no further read, and its
  next state is an explanation or a safe stop, never a candidate.
\<close>

theorem terminal_outcome_closes_action:
  assumes "evaluate_action_obligations H sp adm observations run_id bindings attempt now = Inr l"
    and "lg_terminal_outcome l = Some t"
  shows "denies_everything t \<and> lg_unsatisfied_capabilities l = [] \<and>
    lg_next_state l \<in> {ExplainTerminal, SafeStop} \<and>
    (\<exists>ob \<in> set (spec_obligations sp). \<exists>o' \<in> current_reads ob run_id observations. \<exists>r.
       to_obligation_id t = obligation_id ob \<and>
       base_binding H o' (admission_scope adm) r [] [] = Inr (to_binding t))"
proof -
  obtain es where es: "mapE (entry_for H sp adm observations run_id bindings attempt (utc_now now))
      (spec_obligations sp) = Inr es" and l: "l = ledger_of sp adm run_id es"
    using assms(1) by (auto simp: evaluate_Inr)
  then obtain ts where ts: "List.map_filter en_terminal_outcome es = t # ts"
    using assms(2) by (auto split: list.splits)
  then obtain e where "e \<in> set es" and t: "en_terminal_outcome e = Some t"
    using map_filter_in [of t en_terminal_outcome es] by auto
  then obtain ob where ob: "ob \<in> set (spec_obligations sp)"
      "entry_for H sp adm observations run_id bindings attempt (utc_now now) ob = Inr e"
    using mapE_in [OF es] by blast
  have "lg_unsatisfied_capabilities l = []" by (simp add: l ledger_of_def ts)
  moreover have "lg_next_state l \<in> {ExplainTerminal, SafeStop}"
    by (simp add: l ledger_state_def Let_def ts)
  ultimately show ?thesis using entry_for_outcome [OF ob(2) t] ob(1) by blast
qed

text \<open>
  A ledger that asks for more reads names one: in the collecting state the list of unsatisfied
  capabilities is not empty, and it consists exactly of the capabilities of the obligations that are
  still pending or stale.
\<close>

theorem collect_reads_names_reads:
  assumes "evaluate_action_obligations H sp adm observations run_id bindings attempt now = Inr l"
    and "lg_next_state l = CollectReads"
    and "list_all (\<lambda>ob. eo_capabilities ob \<noteq> []) (spec_obligations sp)"
  shows "lg_unsatisfied_capabilities l \<noteq> [] \<and> sorted (lg_unsatisfied_capabilities l) \<and>
    set (lg_unsatisfied_capabilities l) =
      (\<Union>e \<in> {e \<in> set (lg_obligations l). en_status e \<in> {Pending, Stale}}. set (en_capabilities e))"
proof -
  obtain es where es: "mapE (entry_for H sp adm observations run_id bindings attempt (utc_now now))
      (spec_obligations sp) = Inr es" and l: "l = ledger_of sp adm run_id es"
    using assms(1) by (auto simp: evaluate_Inr)
  have st: "fst (ledger_state es) = CollectReads" using assms(2) l by simp
  have shape: "\<exists>ob \<in> set (spec_obligations sp). entry_of ob e" if "e \<in> set es" for e
    using mapE_in [OF es that] entry_for_shape by blast
  have none: "List.map_filter en_terminal_outcome es = []"
    using st by (auto simp: ledger_state_def Let_def split: if_splits)
  then have notterm: "en_status e \<noteq> TerminalStatus" if "e \<in> set es" for e
    using that shape [OF that] by (auto simp: map_filter_Nil_iff entry_of_def)
  have no: "Failed \<notin> set (map en_status es)" "Conflicted \<notin> set (map en_status es)"
    and "\<not> set (map en_status es) \<subseteq> {Satisfied, ReadQualified}"
    using st none by (simp_all add: ledger_state_def Let_def del: set_map split: if_splits)
  then obtain e where e: "e \<in> set es" "en_status e \<notin> {Satisfied, ReadQualified}" by auto
  with no have "en_status e \<noteq> Failed" "en_status e \<noteq> Conflicted" by force+
  then have "en_status e \<in> {Pending, Stale}" using e(2) notterm [OF e(1)] by (cases "en_status e") auto
  moreover have "en_capabilities e \<noteq> []"
    using shape [OF e(1)] assms(3) by (auto simp: entry_of_def list_all_iff)
  ultimately have "set (lg_unsatisfied_capabilities l) \<noteq> {}"
    using e(1) by (auto simp: l ledger_of_def none)
  moreover have "set (lg_unsatisfied_capabilities l) =
      (\<Union>e \<in> {e \<in> set es. en_status e \<in> {Pending, Stale}}. set (en_capabilities e))"
    by (simp add: l ledger_of_def none)
  moreover have "sorted (lg_unsatisfied_capabilities l)" by (simp add: l ledger_of_def none)
  ultimately show ?thesis by (auto simp: l)
qed

text \<open>
  Only the current run counts: dropping every observation of other runs does not change the
  evaluation, error or ledger.
\<close>

theorem other_runs_do_not_count:
  "evaluate_action_obligations H sp adm
     (filter (\<lambda>o'. dget o' ''run_id'' = PStr run_id) observations) run_id bindings attempt now =
   evaluate_action_obligations H sp adm observations run_id bindings attempt now"
proof -
  have "relevant_observations (filter (\<lambda>o'. dget o' ''run_id'' = PStr run_id) observations) run_id =
      relevant_observations observations run_id"
    by (rule ext) (rule relevant_observations_run)
  then have "knowledge_entry H ob adm (filter (\<lambda>o'. dget o' ''run_id'' = PStr run_id) observations) run_id =
        knowledge_entry H ob adm observations run_id"
    and "resource_entry H sp ob adm (filter (\<lambda>o'. dget o' ''run_id'' = PStr run_id) observations) run_id =
        resource_entry H sp ob adm observations run_id" for ob
    by (intro ext, simp add: knowledge_entry_def, intro ext, simp add: resource_entry_def)
  then show ?thesis by (simp only: evaluate_action_obligations_def)
qed

section \<open>A worked example\<close>

text \<open>
  The metadata obligation of the key-revocation action, read once: the observation is fresh, in scope
  and sourced, and refers to the admitted key.
\<close>

definition hex64_a :: string where
  "hex64_a = ''aaaaaaaaaaaaaaaaaaaaaaaaaaaaaaaaaaaaaaaaaaaaaaaaaaaaaaaaaaaaaaaa''"

definition key_spec :: action_spec where
  "key_spec = api_key_revocation_spec\<lparr>spec_obligations := [api_key_metadata_current]\<rparr>"

definition key_admission :: action_admission_v2 where
  "key_admission =
     \<lparr>adm_status = Admitted, adm_action_type = Some ''api_key_revocation'', adm_missing_fields = [],
      adm_extracted_arguments = [(''api_key_ref'', PStr ''KEY-1'')], adm_tenant_id = ''t'',
      adm_customer_id = ''c'', adm_scope_hash = hex64_a, adm_clarification_question = None\<rparr>"

definition key_time :: "nat \<Rightarrow> pydatetime" where
  "key_time h = \<lparr>dt_year = 2026, dt_month = 7, dt_day = 1, dt_hour = h, dt_minute = 0, dt_second = 0,
     dt_micro = 0, dt_offset = Some 0\<rparr>"

definition key_observation :: "string \<Rightarrow> string \<Rightarrow> pydict" where
  "key_observation tenant status =
     [(''run_id'', PStr ''r''), (''tool_name'', PStr ''query_api_key_metadata''),
      (''status'', PStr ''ok''), (''tenant_id'', PStr tenant), (''customer_id'', PStr ''c''),
      (''scope_hash'', PStr hex64_a), (''observation_id'', PStr ''o''),
      (''content_hash'', PStr hex64_a), (''freshness_status'', PStr ''fresh''),
      (''fresh_until'', PTime (key_time 12)),
      (''source_refs'', PList [PDict [(''source_id'', PStr ''s'')]]),
      (''data'', PDict [(''api_key_id'', PStr ''key-1''), (''fingerprint'', PStr ''f''),
         (''status'', PStr status), (''version'', PInt 3), (''last_used_summary'', PStr ''none'')])]"

lemma hex64_a [simp]: "is_hex64 hex64_a" "hex64_a \<noteq> []"
  by (simp_all add: is_hex64_def is_hex_def hex64_a_def)

lemma key_obligation_fields:
  "eo_kind api_key_metadata_current = KResource"
  "eo_capabilities api_key_metadata_current = [''query_api_key_metadata'']"
  "observed_resource_field api_key_metadata_current = Some ''api_key_id''"
  "resource_ref_argument api_key_metadata_current = Some ''api_key_ref''"
  "allowed_resource_statuses api_key_metadata_current = [''active'']"
  "require_freshness api_key_metadata_current"
  "obligation_id api_key_metadata_current = ''api_key_metadata_current''"
  "required_data_fields api_key_metadata_current =
     [''api_key_id'', ''fingerprint'', ''status'', ''version'', ''last_used_summary'']"
  "required_truthy_data_fields api_key_metadata_current = []"
  "spec_obligations key_spec = [api_key_metadata_current]"
  "spec_action_type key_spec = ''api_key_revocation''"
  "terminal_outcomes key_spec = [api_key_resource_not_available_rule, api_key_status_not_actionable_rule]"
  by (simp_all add: api_key_metadata_current_def key_spec_def api_key_revocation_spec_def)

lemma key_observation_fields:
  "dget (key_observation t s) ''run_id'' = PStr ''r''"
  "dget (key_observation t s) ''tool_name'' = PStr ''query_api_key_metadata''"
  "dget (key_observation t s) ''status'' = PStr ''ok''"
  "observed_status (key_observation t s) = ''ok''"
  "observation_scope H (key_observation t s) = (t, ''c'', hex64_a)"
  "source_ids (key_observation t s) = [''s'']"
  "dget (key_observation t s) ''freshness_status'' = PStr ''fresh''"
  "dget (key_observation t s) ''fresh_until'' = PTime (key_time 12)"
  "observation_data (key_observation t s) = [(''api_key_id'', PStr ''key-1''), (''fingerprint'', PStr ''f''),
         (''status'', PStr s), (''version'', PInt 3), (''last_used_summary'', PStr ''none'')]"
  "str_or_empty (key_observation t s) ''error_code'' = []"
  "\<exists>k. recency_key (key_observation t s) = Inr k"
  by (simp_all add: key_observation_def dget_def observed_status_def dget_default_def
      observation_scope_def str_get_def source_ids_def observation_data_def str_or_empty_def py_or_def
      recency_key_def py_int_def Let_def)

lemma key_current_reads:
  "current_reads api_key_metadata_current ''r'' [key_observation t s] = {key_observation t s}"
  by (auto simp: current_reads_def read_by_def key_obligation_fields key_observation_fields)

lemma key_relevant:
  "relevant_observations [key_observation t s] ''r'' ''query_api_key_metadata'' = Inr [key_observation t s]"
  using key_observation_fields(11) [of t s]
  by (auto simp: relevant_observations_def key_observation_fields sort_desc_def)

lemma key_fresh: "freshness_reason (key_observation t s) (key_time 9) = None"
  by (simp add: freshness_reason_def key_observation_fields parse_time_def key_time_def instant_def
      wall_micros_def time_micros_def)

lemma key_binding:
  "\<exists>b. base_binding H (key_observation t s) (t, ''c'', hex64_a) r [] [] = Inr b"
  by (simp add: base_binding_def binding_resource_version_def data_get_def key_observation_def dget_def
      dget_default_def Let_def py_or_def)

lemma key_not_hard:
  "hard_terminal_entry H api_key_metadata_current key_admission [key_observation ''t'' s] = None"
  by (simp add: key_observation_fields admission_scope_def key_admission_def scope_error_codes_def
      forbidden_error_codes_def contains_def)

lemma key_not_terminal:
  "first_terminal H key_spec api_key_metadata_current key_admission now [key_observation ''t'' ''active''] =
     Inr None"
  by (simp add: terminal_outcome_entry_def key_obligation_fields terminal_rule_matches_def
      key_observation_fields rule_defs str_get_def dget_default_def or_default_def Let_def)

lemma key_reference:
  "reference_matches api_key_metadata_current key_admission (observation_data (key_observation t s))"
  by (simp add: reference_matches_def key_obligation_fields key_observation_fields key_admission_def
      str_get_def dget_default_def or_default_def casefold_def ascii_lower_def char_of_def
      bit_Suc_0_iff Let_def del: set_map set_filter)

lemma key_judged:
  "\<exists>e. judge_resource H api_key_metadata_current key_admission (key_observation ''t'' ''active'')
      (key_time 9) = Inr e \<and> en_status e = Satisfied"
proof -
  obtain b where "base_binding H (key_observation ''t'' ''active'') (''t'', ''c'', hex64_a)
      (Some ''key-1'') [] [] = Inr b" using key_binding by blast
  then show ?thesis
    using key_reference [of "''t''" "''active''"]
    by (simp add: judge_resource_def key_obligation_fields key_observation_fields key_fresh
        admission_scope_def key_admission_def dget_def [of "(k, v) # d" for k v d] status_allowed_def
        str_or_empty_def py_or_def Let_def)
qed

lemma key_ledger:
  "\<exists>l. evaluate_action_obligations H key_spec key_admission [key_observation ''t'' ''active''] ''r'' [] None
      (key_time 9) = Inr l \<and> lg_next_state l = AssembleCandidate"
proof -
  let ?o = "key_observation ''t'' ''active''"
  obtain e where e: "judge_resource H api_key_metadata_current key_admission ?o (key_time 9) = Inr e"
      "en_status e = Satisfied" using key_judged by blast
  have sel: "(case find (\<lambda>o'. resource_observation_qualifies H o' api_key_metadata_current key_admission
        (key_time 9)) [?o] of Some o' \<Rightarrow> o' | None \<Rightarrow> ?o) = ?o"
    by simp
  have ent: "entry_for H key_spec key_admission [?o] ''r'' [] None (key_time 9) api_key_metadata_current = Inr e"
    using e(1) key_not_terminal [of H "key_time 9"] key_not_hard [of H "''active''"]
    by (simp add: entry_for_def resource_entry_def key_obligation_fields key_relevant sel
        del: first_terminal.simps hard_terminal_entry.simps)
  have out: "en_terminal_outcome e = None"
    using judge_resource_shape [OF e(1)] by (auto simp: entry_of_def)
  have "utc_now (key_time 9) = key_time 9" by (simp add: utc_now_def key_time_def)
  with ent have ev: "evaluate_action_obligations H key_spec key_admission [?o] ''r'' [] None (key_time 9) =
      Inr (ledger_of key_spec key_admission ''r'' [e])"
    by (simp add: evaluate_Inr key_obligation_fields) (simp add: key_admission_def)
  moreover have "lg_next_state (ledger_of key_spec key_admission ''r'' [e]) = AssembleCandidate"
    by (simp add: ledger_state_def e(2) out List.map_filter_def)
  ultimately show ?thesis by blast
qed


lemma key_evaluate:
  assumes "entry_for H key_spec key_admission observations ''r'' [] None (key_time 9)
      api_key_metadata_current = Inr e"
  shows "evaluate_action_obligations H key_spec key_admission observations ''r'' [] None (key_time 9) =
    Inr (ledger_of key_spec key_admission ''r'' [e])"
proof -
  have "utc_now (key_time 9) = key_time 9" by (simp add: utc_now_def key_time_def)
  with assms show ?thesis
    by (simp add: evaluate_Inr key_obligation_fields) (simp add: key_admission_def)
qed

theorem out_of_scope_read_stops_witness:
  "\<exists>l. evaluate_action_obligations (\<lambda>b. hex64_a) key_spec key_admission
       [key_observation ''other'' ''active''] ''r'' [] None (key_time 9) = Inr l \<and>
     lg_next_state l = SafeStop"
proof -
  let ?o = "key_observation ''other'' ''active''"
  have "hard_terminal_entry (\<lambda>b. hex64_a) api_key_metadata_current key_admission [?o] =
      Some (plain_entry api_key_metadata_current Failed ''observation_scope_mismatch'')"
    by (simp add: key_observation_fields admission_scope_def key_admission_def)
  then have "entry_for (\<lambda>b. hex64_a) key_spec key_admission [?o] ''r'' [] None (key_time 9)
      api_key_metadata_current =
      Inr (plain_entry api_key_metadata_current Failed ''observation_scope_mismatch'')"
    by (simp add: entry_for_def resource_entry_def key_obligation_fields key_relevant
        del: first_terminal.simps hard_terminal_entry.simps)
  note ev = key_evaluate [OF this]
  have "lg_next_state (ledger_of key_spec key_admission ''r''
      [plain_entry api_key_metadata_current Failed ''observation_scope_mismatch'']) = SafeStop"
    by (rule out_of_scope_read_stops [OF ev, of api_key_metadata_current ?o])
      (simp_all add: key_obligation_fields key_current_reads key_observation_fields admission_scope_def
        key_admission_def)
  with ev show ?thesis by blast
qed

lemma key_revoked_terminal:
  "\<exists>t e. terminal_outcome_entry (\<lambda>b. hex64_a) key_spec api_key_metadata_current key_admission
      (key_observation ''t'' ''revoked'') (key_time 9) = Inr (Some e) \<and> en_terminal_outcome e = Some t"
proof -
  let ?o = "key_observation ''t'' ''revoked''"
  let ?adm = "key_admission" and ?ob = "api_key_metadata_current"
  have guard: "terminal_guard (\<lambda>b. hex64_a) ?ob ?adm ?o (key_time 9)"
    using key_reference [of "''t''" "''revoked''"]
    by (simp add: terminal_guard_def key_obligation_fields key_observation_fields key_fresh Let_def
        admission_scope_def dget_def) (simp add: key_admission_def)
  have find: "findE (\<lambda>rule. if tr_obligation_id rule \<noteq> obligation_id ?ob then Inr False
        else terminal_rule_matches rule ?o ?ob ?adm) (terminal_outcomes key_spec) =
      Inr (Some api_key_status_not_actionable_rule)"
    by (simp add: key_obligation_fields terminal_rule_matches_def key_observation_fields rule_defs
        str_get_def dget_default_def or_default_def Let_def)
  obtain b where "base_binding (\<lambda>b. hex64_a) ?o (''t'', ''c'', hex64_a)
      (terminal_resource_ref ?ob ?adm (observation_data ?o)) [] [] = Inr b"
    using key_binding by blast
  then obtain t where t: "terminal_outcome_of (\<lambda>b. hex64_a) key_spec ?ob ?adm ?o
      api_key_status_not_actionable_rule = Inr t"
    by (simp add: terminal_outcome_of_def key_observation_fields key_obligation_fields canonical_hash_def
        ActionType_def Let_def)
  have "source_ids ?o \<noteq> []" by (simp add: key_observation_fields)
  with guard find t show ?thesis by (auto simp: terminal_outcome_entry_def)
qed

theorem terminal_outcome_closes_action_witness:
  "\<exists>l t. evaluate_action_obligations (\<lambda>b. hex64_a) key_spec key_admission
       [key_observation ''t'' ''revoked''] ''r'' [] None (key_time 9) = Inr l \<and>
     lg_terminal_outcome l = Some t \<and> denies_everything t"
proof -
  let ?o = "key_observation ''t'' ''revoked''"
  obtain t e where te: "terminal_outcome_entry (\<lambda>b. hex64_a) key_spec api_key_metadata_current
      key_admission ?o (key_time 9) = Inr (Some e)" "en_terminal_outcome e = Some t"
    using key_revoked_terminal by blast
  have "entry_for (\<lambda>b. hex64_a) key_spec key_admission [?o] ''r'' [] None (key_time 9)
      api_key_metadata_current = Inr e"
    using te(1) key_not_hard [of "\<lambda>b. hex64_a" "''revoked''"]
    by (simp add: entry_for_def resource_entry_def key_obligation_fields key_relevant
        del: hard_terminal_entry.simps)
  note ev = key_evaluate [OF this]
  have t: "lg_terminal_outcome (ledger_of key_spec key_admission ''r'' [e]) = Some t"
    using te(2) by (simp add: List.map_filter_def)
  from terminal_outcome_closes_action [OF ev t] ev t show ?thesis by blast
qed

theorem collect_reads_names_reads_witness:
  "\<exists>l. evaluate_action_obligations (\<lambda>b. hex64_a) key_spec key_admission [] ''r'' [] None (key_time 9) = Inr l \<and>
     lg_unsatisfied_capabilities l \<noteq> []"
proof -
  have "entry_for (\<lambda>b. hex64_a) key_spec key_admission [] ''r'' [] None (key_time 9)
      api_key_metadata_current =
      Inr (plain_entry api_key_metadata_current Pending ''required_read_missing'')"
    by (simp add: entry_for_def resource_entry_def key_obligation_fields relevant_observations_def
        sort_desc_def)
  note ev = key_evaluate [OF this]
  have "lg_next_state (ledger_of key_spec key_admission ''r''
      [plain_entry api_key_metadata_current Pending ''required_read_missing'']) = CollectReads"
    by (simp add: ledger_state_def List.map_filter_def)
  from collect_reads_names_reads [OF ev this] ev show ?thesis by (auto simp: key_obligation_fields)
qed

end
