(* ===== verification/Publication_Policy.thy ===== *)
theory Publication_Policy
  imports Obligations
begin

text \<open>
  The pure decision functions between the model's draft and the customer: \<open>agent/policy.py\<close> (which
  route a candidate takes and why), \<open>agent/tool_policy.py\<close> (which read calls of a batch the
  obligation ledger still needs, and the semantic identity of a call), \<open>services/errors.py\<close> (the
  observation status of a domain error), \<open>contracts/public_failures.py\<close> (the customer-safe failure
  category) and \<open>contracts/freshness.py\<close> (lifetimes of current facts).  The wording of the safe
  failure answer (\<open>agent/responses.py\<close>) is a parameter: only that it replaces the draft matters here.
\<close>

section \<open>Publication policy\<close>

datatype policy_route = ANSWER | AWAIT_APPROVAL | REJECT

datatype assessment_result = Accept | Replan | TerminalAssessment

record candidate_response =
  cr_answer :: string
  cr_action :: string
  cr_knowledge_chunk_ids :: "string list"
  cr_knowledge_citations :: "pydict list"
  cr_business_source_ids :: "string list"
  cr_material_claims :: "pydict list"
  cr_proposed_arguments :: pydict

record policy_input =
  pi_candidate :: candidate_response
  pi_evidence_conflict :: bool
  pi_citation_integrity :: bool
  pi_proposal_eligible :: "bool option"
  pi_finish_reason :: "string option"
  pi_safe_stop_reason :: "string option"
  pi_requested_action_unresolved :: bool
  pi_evidence_assessment_result :: assessment_result
  pi_evidence_assessment_error_code :: "string option"
  pi_has_secret_redaction :: bool
  pi_policy_boundary :: string
  pi_knowledge_comparison_requested :: bool
  pi_knowledge_comparison_complete :: bool
  pi_explainable_comparison :: bool
  pi_comparison_citations_complete :: bool
  pi_missing_transition_markers :: "string list"
  pi_grounded_conflict_clarification :: bool
  pi_requested_current_fact_missing :: bool
  pi_mixed_account_applicability_missing :: bool

text \<open>\<open>grants_mutation\<close> is \<open>Literal[False]\<close> with \<open>init=False\<close>: no caller can set it.\<close>

record publication_decision =
  pd_candidate :: candidate_response
  pd_candidate_json :: string
  pd_route :: policy_route
  pd_finish_reason :: "string option"
  pd_unsafe_terminal_reason :: "string option"
  pd_grants_mutation :: bool
  pd_candidate_sha256 :: string

definition candidate_dump :: "candidate_response \<Rightarrow> pyval" where
  "candidate_dump c = PDict
     [(''answer'', PStr (cr_answer c)), (''action'', PStr (cr_action c)),
      (''knowledge_chunk_ids'', PList (map PStr (cr_knowledge_chunk_ids c))),
      (''knowledge_citations'', PList (map PDict (cr_knowledge_citations c))),
      (''business_source_ids'', PList (map PStr (cr_business_source_ids c))),
      (''material_claims'', PList (map PDict (cr_material_claims c))),
      (''proposed_arguments'', PDict (cr_proposed_arguments c))]"

text \<open>
  \<open>PublicationDecision.__post_init__\<close>: the stored text is the canonical JSON of the candidate and the
  digest is taken over that text.  Re-validating a valid candidate returns it unchanged.
\<close>

definition publication_decision_of ::
  "(string \<Rightarrow> string) \<Rightarrow> candidate_response \<Rightarrow> policy_route \<Rightarrow> string option \<Rightarrow> string option \<Rightarrow>
   publication_decision" where
  "publication_decision_of H c route finish unsafe =
     \<lparr>pd_candidate = c, pd_candidate_json = json_dumps (candidate_dump c), pd_route = route,
      pd_finish_reason = finish, pd_unsafe_terminal_reason = unsafe, pd_grants_mutation = False,
      pd_candidate_sha256 = H (json_dumps (candidate_dump c))\<rparr>"

definition decide_policy ::
  "candidate_response \<Rightarrow> bool \<Rightarrow> bool \<Rightarrow> bool option \<Rightarrow> policy_route" where
  "decide_policy candidate evidence_conflict citation_integrity proposal_eligible =
     (if \<not> citation_integrity then ANSWER
      else if cr_action candidate \<in> {''refund_proposal'', ''api_key_revocation_proposal'',
                ''entitlement_change_proposal''} then
        (if proposal_eligible = Some True then AWAIT_APPROVAL else ANSWER)
      else if cr_action candidate = ''escalate'' then ANSWER
      else if cr_action candidate = ''reject'' then REJECT
      else if evidence_conflict \<or> cr_action candidate = ''manual_takeover'' then ANSWER
      else ANSWER)"

text \<open>The first override block: safe stop, unresolved action, terminal assessment.\<close>

definition base_route :: "policy_input \<Rightarrow> policy_route \<times> string option" where
  "base_route p =
     (if opt_truthy (pi_safe_stop_reason p) then (ANSWER, pi_safe_stop_reason p)
      else if pi_requested_action_unresolved p then (ANSWER, Some ''requested_action_unresolved'')
      else if pi_evidence_assessment_result p = TerminalAssessment then
        (ANSWER, Some (or_default (pi_evidence_assessment_error_code p) ''evidence_group_incomplete''))
      else (decide_policy (pi_candidate p) (pi_evidence_conflict p) (pi_citation_integrity p)
              (pi_proposal_eligible p), pi_finish_reason p))"

text \<open>The second block: redaction, boundary, clarification, eligibility, then the route's own reason.\<close>

definition guarded_route :: "policy_input \<Rightarrow> policy_route \<times> string option" where
  "guarded_route p =
     (let (route, finish) = base_route p in
      if pi_has_secret_redaction p then (ANSWER, Some ''credential_redaction_guidance'')
      else if pi_policy_boundary p \<in> {''out_of_scope'', ''prohibited''} then (REJECT, Some ''rejected'')
      else if finish = Some ''needs_clarification'' then (ANSWER, finish)
      else if pi_proposal_eligible p = Some False then (ANSWER, Some ''proposal_eligibility_failed'')
      else if route = AWAIT_APPROVAL then (route, Some ''proposal_policy_approved'')
      else if route = REJECT then (route, Some ''rejected'')
      else (route, finish))"

definition unsafe_reason :: "policy_input \<Rightarrow> string option \<Rightarrow> string option" where
  "unsafe_reason p finish =
     (if cr_action (pi_candidate p) \<in> {''escalate'', ''manual_takeover''} then
        Some ''human_handoff_unavailable''
      else if pi_knowledge_comparison_requested p \<and> \<not> pi_knowledge_comparison_complete p then
        Some ''comparison_evidence_incomplete''
      else if pi_knowledge_comparison_complete p \<and> \<not> pi_explainable_comparison p then
        Some (if pi_comparison_citations_complete p \<and> pi_missing_transition_markers p \<noteq> []
              then ''comparison_transition_incomplete'' else ''comparison_citation_incomplete'')
      else if pi_evidence_conflict p \<and>
              \<not> ((pi_grounded_conflict_clarification p \<and> pi_citation_integrity p) \<or>
                 pi_explainable_comparison p) then
        Some ''evidence_conflict''
      else if \<not> pi_citation_integrity p \<and> \<not> opt_truthy (pi_safe_stop_reason p) \<and>
              finish \<notin> {Some ''needs_clarification'', Some ''proposal_eligibility_failed'',
                Some ''requested_action_unresolved'', Some ''credential_redaction_guidance''} then
        Some ''citation_binding_incomplete''
      else if pi_requested_current_fact_missing p then Some ''explicit_current_fact_incomplete''
      else if pi_mixed_account_applicability_missing p then
        Some ''mixed_account_applicability_incomplete''
      else None)"

definition evaluate_policy ::
  "(string \<Rightarrow> string) \<Rightarrow> (string \<Rightarrow> string) \<Rightarrow> policy_input \<Rightarrow> publication_decision" where
  "evaluate_policy H safe_failure_answer p =
     (let (route, finish) = guarded_route p in
      case unsafe_reason p finish of
        None \<Rightarrow> publication_decision_of H (pi_candidate p) route finish None
      | Some reason \<Rightarrow>
          publication_decision_of H
            \<lparr>cr_answer = safe_failure_answer reason, cr_action = ''answer'',
             cr_knowledge_chunk_ids = [], cr_knowledge_citations = [], cr_business_source_ids = [],
             cr_material_claims = [], cr_proposed_arguments = []\<rparr>
            ANSWER (Some reason) (Some reason))"

section \<open>Read calls against the ledger\<close>

definition obligation_for_capability :: "action_spec \<Rightarrow> string \<Rightarrow> string option result" where
  "obligation_for_capability sp capability =
     (case map obligation_id (filter (\<lambda>ob. capability \<in> set (eo_capabilities ob)) (spec_obligations sp)) of
        [] \<Rightarrow> Inr None
      | [i] \<Rightarrow> Inr (Some i)
      | _ \<Rightarrow> Inl (ValueError ''one capability cannot own multiple action obligations''))"

definition semantic_invocation_key ::
  "(string \<Rightarrow> string) \<Rightarrow> action_spec \<Rightarrow> action_admission_v2 \<Rightarrow> action_obligation_ledger \<Rightarrow> string \<Rightarrow>
   string option \<Rightarrow> string result" where
  "semantic_invocation_key H sp adm ledger call_name index_snapshot =
     (case obligation_for_capability sp call_name of Inl e \<Rightarrow> Inl e | Inr oid \<Rightarrow>
        (let ob = find (\<lambda>ob. Some (obligation_id ob) = oid) (spec_obligations sp);
             entry = find (\<lambda>e. Some (en_obligation_id e) = oid) (lg_obligations ledger);
             admitted = (case ob of None \<Rightarrow> PNone
               | Some b \<Rightarrow> (case resource_ref_argument b of None \<Rightarrow> PNone
                   | Some arg \<Rightarrow> dget (adm_extracted_arguments adm) arg));
             resolved = (case entry of None \<Rightarrow> None
               | Some e \<Rightarrow> (case en_binding e of None \<Rightarrow> None | Some b \<Rightarrow> ob_resource_id b))
         in Inr (H (json_dumps (PDict
           [(''schema_version'', PStr ''semantic-invocation.v1''),
            (''action_spec_version'', PStr ''action-spec.v2''),
            (''action_type'', PStr (spec_action_type sp)),
            (''obligation_id'', opt_pystr oid),
            (''capability'', PStr call_name),
            (''tenant_id'', PStr (adm_tenant_id adm)),
            (''customer_id'', PStr (adm_customer_id adm)),
            (''scope_hash'', PStr (adm_scope_hash adm)),
            (''admitted_resource_ref'', admitted),
            (''resolved_resource_id'', opt_pystr resolved),
            (''policy_family'', opt_pystr (Option.bind ob policy_family)),
            (''evidence_purpose'', opt_pystr (Option.bind ob eo_topic)),
            (''index_snapshot'',
              if call_name = ''search_knowledge'' then opt_pystr index_snapshot else PNone)])))))"

definition semantic_batch_rejections ::
  "action_spec \<Rightarrow> action_obligation_ledger \<Rightarrow> string list \<Rightarrow> (nat \<times> string) list result" where
  "semantic_batch_rejections sp ledger calls =
     (case mapE (\<lambda>ic. case obligation_for_capability sp (snd ic) of
            Inl e \<Rightarrow> Inl e
          | Inr oid \<Rightarrow> Inr (if oid \<noteq> None \<and> snd ic \<notin> set (lg_unsatisfied_capabilities ledger)
              then [(fst ic, ''obligation_already_qualified'')] else []))
        (enumerate 0 calls) of
        Inl e \<Rightarrow> Inl e
      | Inr rejected \<Rightarrow> Inr (concat rejected))"

section \<open>Error and failure classification\<close>

datatype error_code =
    CUSTOMER_NOT_FOUND | SUBSCRIPTION_NOT_FOUND | USAGE_NOT_FOUND | TICKET_NOT_FOUND
  | TICKET_SCOPE_VIOLATION | TICKET_STATE_CONFLICT | BILLING_RECORD_NOT_FOUND
  | BILLING_SCOPE_VIOLATION | BILLING_NOT_CHARGED | NOT_DUPLICATE_CHARGE | REFUND_PAIR_INELIGIBLE
  | REFUND_LIMIT_EXCEEDED | APPROVAL_NOT_FOUND | APPROVAL_STATE_CONFLICT
  | APPROVAL_SNAPSHOT_MISMATCH | APPROVAL_BINDING_INVALID | CHECKPOINT_NOT_INTERRUPTED
  | APPROVAL_STALE | IDEMPOTENCY_CONFLICT

fun error_code_value :: "error_code \<Rightarrow> string" where
  "error_code_value CUSTOMER_NOT_FOUND = ''customer_not_found''"
| "error_code_value SUBSCRIPTION_NOT_FOUND = ''subscription_not_found''"
| "error_code_value USAGE_NOT_FOUND = ''usage_not_found''"
| "error_code_value TICKET_NOT_FOUND = ''ticket_not_found''"
| "error_code_value TICKET_SCOPE_VIOLATION = ''ticket_scope_violation''"
| "error_code_value TICKET_STATE_CONFLICT = ''ticket_state_conflict''"
| "error_code_value BILLING_RECORD_NOT_FOUND = ''billing_record_not_found''"
| "error_code_value BILLING_SCOPE_VIOLATION = ''billing_scope_violation''"
| "error_code_value BILLING_NOT_CHARGED = ''billing_not_charged''"
| "error_code_value NOT_DUPLICATE_CHARGE = ''not_duplicate_charge''"
| "error_code_value REFUND_PAIR_INELIGIBLE = ''refund_pair_ineligible''"
| "error_code_value REFUND_LIMIT_EXCEEDED = ''refund_limit_exceeded''"
| "error_code_value APPROVAL_NOT_FOUND = ''approval_not_found''"
| "error_code_value APPROVAL_STATE_CONFLICT = ''approval_state_conflict''"
| "error_code_value APPROVAL_SNAPSHOT_MISMATCH = ''approval_snapshot_mismatch''"
| "error_code_value APPROVAL_BINDING_INVALID = ''approval_binding_invalid''"
| "error_code_value CHECKPOINT_NOT_INTERRUPTED = ''checkpoint_not_interrupted''"
| "error_code_value APPROVAL_STALE = ''approval_stale''"
| "error_code_value IDEMPOTENCY_CONFLICT = ''idempotency_conflict''"

definition observation_status_for_error :: "error_code \<Rightarrow> string" where
  "observation_status_for_error code =
     (if code \<in> {BILLING_SCOPE_VIOLATION, TICKET_SCOPE_VIOLATION} then ''denied''
      else if code \<in> {CUSTOMER_NOT_FOUND, SUBSCRIPTION_NOT_FOUND, USAGE_NOT_FOUND, TICKET_NOT_FOUND,
                BILLING_RECORD_NOT_FOUND} then ''not_found''
      else if code \<in> {TICKET_STATE_CONFLICT, APPROVAL_STATE_CONFLICT, APPROVAL_SNAPSHOT_MISMATCH,
                IDEMPOTENCY_CONFLICT} then ''conflict''
      else ''invalid_input'')"

datatype public_failure_category = ApiRequest | Provider | Tool | Runtime

definition starts_with :: "string \<Rightarrow> string \<Rightarrow> bool" where
  "starts_with p s = (take (length p) s = p)"

definition classify_public_failure :: "pyval \<Rightarrow> public_failure_category option" where
  "classify_public_failure v =
     (case v of
        PStr s \<Rightarrow>
          if s = [] then None
          else (let n = casefold s in
            if list_ex (\<lambda>p. starts_with p n)
                 [''api_request'', ''request_trace'', ''api_gateway'', ''request_id''] then Some ApiRequest
            else if list_ex (\<lambda>t. contains t n) [''provider'', ''llm'', ''model'', ''upstream''] then
              Some Provider
            else if list_ex (\<lambda>t. contains t n) [''mcp'', ''tool'', ''capability'', ''observation''] then
              Some Tool
            else Some Runtime)
      | _ \<Rightarrow> None)"

fun category_value :: "public_failure_category \<Rightarrow> string" where
  "category_value ApiRequest = ''api_request''"
| "category_value Provider = ''provider''"
| "category_value Tool = ''tool''"
| "category_value Runtime = ''runtime''"

text \<open>The Chinese reply texts, as their UTF-8 bytes.\<close>

definition utf8 :: "nat list \<Rightarrow> string" where
  "utf8 = map char_of"

fun public_failure_unknown_phrase :: "public_failure_category \<Rightarrow> string" where
  "public_failure_unknown_phrase ApiRequest = utf8
        [229, 189, 147, 229, 137, 141, 232, 191, 152, 230, 151, 160, 230, 179, 149, 230,
         138, 138, 233, 151, 174, 233, 162, 152, 228, 184, 142, 229, 133, 183, 228, 189,
         147, 32, 65, 80, 73, 32, 232, 175, 183, 230, 177, 130, 232, 174, 176, 229, 189,
         149, 229, 133, 179, 232, 129, 148]"
| "public_failure_unknown_phrase Provider = utf8
        [229, 189, 147, 229, 137, 141, 232, 191, 152, 230, 151, 160, 230, 179, 149, 231,
         161, 174, 232, 174, 164, 230, 168, 161, 229, 158, 139, 230, 156, 141, 229, 138,
         161, 230, 152, 175, 229, 144, 166, 229, 174, 140, 230, 136, 144, 228, 186, 134,
         230, 156, 172, 232, 189, 174, 230, 142, 168, 231, 144, 134]"
| "public_failure_unknown_phrase Tool = utf8
        [229, 189, 147, 229, 137, 141, 232, 191, 152, 230, 151, 160, 230, 179, 149, 231,
         161, 174, 232, 174, 164, 230, 137, 128, 233, 156, 128, 228, 184, 154, 229, 138,
         161, 230, 149, 176, 230, 141, 174, 230, 152, 175, 229, 144, 166, 229, 174, 140,
         230, 149, 180, 232, 191, 148, 229, 155, 158]"
| "public_failure_unknown_phrase Runtime = utf8
        [229, 189, 147, 229, 137, 141, 232, 191, 152, 230, 151, 160, 230, 179, 149, 231,
         161, 174, 232, 174, 164, 232, 135, 170, 229, 138, 168, 230, 181, 129, 231, 168,
         139, 229, 174, 140, 230, 136, 144, 229, 136, 176, 228, 186, 134, 229, 147, 170,
         228, 184, 128, 228, 184, 170, 229, 143, 175, 230, 129, 162, 229, 164, 141, 230,
         173, 165, 233, 170, 164]"

fun public_failure_next_step :: "public_failure_category \<Rightarrow> string" where
  "public_failure_next_step ApiRequest = utf8
        [232, 175, 183, 233, 135, 141, 232, 175, 149, 239, 188, 155, 232, 139, 165, 228,
         187, 141, 229, 164, 177, 232, 180, 165, 239, 188, 140, 232, 175, 183, 232, 161,
         165, 229, 133, 133, 32, 82, 101, 113, 117, 101, 115, 116, 32, 73, 68, 32, 229, 146,
         140, 229, 143, 145, 231, 148, 159, 230, 151, 182, 233, 151, 180]"
| "public_failure_next_step Provider = utf8
        [232, 175, 183, 231, 168, 141, 229, 144, 142, 233, 135, 141, 232, 175, 149, 239,
         188, 155, 232, 139, 165, 228, 187, 141, 229, 164, 177, 232, 180, 165, 239, 188,
         140, 232, 175, 183, 228, 191, 157, 231, 149, 153, 229, 143, 145, 231, 148, 159,
         230, 151, 182, 233, 151, 180, 229, 146, 140, 231, 155, 184, 229, 133, 179, 232,
         181, 132, 230, 186, 144, 231, 188, 150, 229, 143, 183]"
| "public_failure_next_step Tool = utf8
        [232, 175, 183, 230, 160, 184, 229, 175, 185, 232, 180, 166, 229, 141, 149, 227,
         128, 129, 65, 80, 73, 32, 75, 101, 121, 32, 230, 136, 150, 232, 174, 162, 233, 152,
         133, 231, 188, 150, 229, 143, 183, 229, 144, 142, 233, 135, 141, 232, 175, 149]"
| "public_failure_next_step Runtime = utf8
        [232, 175, 183, 231, 168, 141, 229, 144, 142, 233, 135, 141, 232, 175, 149, 239,
         188, 140, 230, 136, 150, 229, 143, 145, 233, 128, 129, 228, 184, 128, 230, 157,
         161, 230, 150, 176, 230, 182, 136, 230, 129, 175, 233, 135, 141, 230, 150, 176,
         229, 188, 128, 229, 167, 139, 230, 156, 172, 232, 189, 174, 229, 164, 132, 231,
         144, 134]"

definition public_failure_reply :: "public_failure_category \<Rightarrow> string" where
  "public_failure_reply c =
     utf8
        [231, 179, 187, 231, 187, 159, 229, 183, 178, 230, 163, 128, 230, 159, 165, 230,
         156, 172, 232, 189, 174, 232, 175, 183, 230, 177, 130, 229, 185, 182, 229, 176,
         157, 232, 175, 149, 229, 174, 140, 230, 136, 144, 232, 135, 170, 229, 138, 168,
         232, 175, 138, 230, 150, 173, 227, 128, 130] @
     utf8
        [229, 183, 178, 231, 161, 174, 232, 174, 164, 230, 156, 172, 232, 189, 174, 230,
         178, 161, 230, 156, 137, 229, 189, 162, 230, 136, 144, 229, 143, 175, 233, 170,
         140, 232, 175, 129, 231, 154, 132, 229, 174, 140, 230, 149, 180, 231, 187, 147,
         230, 158, 156, 227, 128, 130] @
     public_failure_unknown_phrase c @ utf8 [227, 128, 130] @
     utf8
        [230, 156, 172, 232, 189, 174, 230, 178, 161, 230, 156, 137, 230, 137, 167, 232,
         161, 140, 230, 150, 176, 231, 154, 132, 233, 171, 152, 233, 163, 142, 233, 153,
         169, 230, 147, 141, 228, 189, 156, 239, 188, 140, 231, 155, 184, 229, 133, 179,
         231, 148, 179, 232, 175, 183, 228, 187, 141, 228, 187, 165, 229, 189, 147, 229,
         137, 141, 230, 140, 129, 228, 185, 133, 229, 140, 150, 231, 138, 182, 230, 128,
         129, 228, 184, 186, 229, 135, 134, 227, 128, 130] @
     public_failure_next_step c @ utf8 [227, 128, 130]"

section \<open>Freshness contracts\<close>

record read_freshness_contract =
  rf_policy :: string
  rf_freshness_class :: string
  rf_lifetime_micros :: int

definition ACCOUNT_SUBSCRIPTION_FRESHNESS :: read_freshness_contract where
  "ACCOUNT_SUBSCRIPTION_FRESHNESS =
     \<lparr>rf_policy = ''account_subscription_15m'', rf_freshness_class = ''transactional'',
      rf_lifetime_micros = 15 * 60 * 1000000\<rparr>"

definition current_fact_freshness_contract :: "string \<Rightarrow> read_freshness_contract option" where
  "current_fact_freshness_contract tool =
     (if tool \<in> {''query_account'', ''query_subscription''}
      then Some ACCOUNT_SUBSCRIPTION_FRESHNESS else None)"

section \<open>Properties\<close>

definition proposal_actions :: "string set" where
  "proposal_actions = {''refund_proposal'', ''api_key_revocation_proposal'', ''entitlement_change_proposal''}"

lemma decide_policy_await:
  "decide_policy c ec ci pe = AWAIT_APPROVAL \<longleftrightarrow>
     ci \<and> cr_action c \<in> proposal_actions \<and> pe = Some True"
  by (auto simp: decide_policy_def proposal_actions_def)

lemma base_route_await:
  "fst (base_route p) = AWAIT_APPROVAL \<longleftrightarrow>
     \<not> opt_truthy (pi_safe_stop_reason p) \<and> \<not> pi_requested_action_unresolved p \<and>
     pi_evidence_assessment_result p \<noteq> TerminalAssessment \<and> pi_citation_integrity p \<and>
     cr_action (pi_candidate p) \<in> proposal_actions \<and> pi_proposal_eligible p = Some True"
  by (simp add: base_route_def decide_policy_await)

lemma base_route_await_finish:
  "fst (base_route p) = AWAIT_APPROVAL \<Longrightarrow> snd (base_route p) = pi_finish_reason p"
  by (auto simp: base_route_def split: if_splits)

lemma guarded_route_await:
  "fst (guarded_route p) = AWAIT_APPROVAL \<longleftrightarrow>
     fst (base_route p) = AWAIT_APPROVAL \<and> \<not> pi_has_secret_redaction p \<and>
     pi_policy_boundary p \<notin> {''out_of_scope'', ''prohibited''} \<and>
     pi_finish_reason p \<noteq> Some ''needs_clarification''"
  using base_route_await [of p] base_route_await_finish [of p]
  by (auto simp: guarded_route_def split: prod.splits)

lemma unsafe_reason_await:
  assumes "pi_citation_integrity p" "cr_action (pi_candidate p) \<in> proposal_actions"
  shows "unsafe_reason p finish = None \<longleftrightarrow>
    \<not> (pi_knowledge_comparison_requested p \<and> \<not> pi_knowledge_comparison_complete p) \<and>
    \<not> (pi_knowledge_comparison_complete p \<and> \<not> pi_explainable_comparison p) \<and>
    \<not> (pi_evidence_conflict p \<and> \<not> pi_grounded_conflict_clarification p \<and> \<not> pi_explainable_comparison p) \<and>
    \<not> pi_requested_current_fact_missing p \<and> \<not> pi_mixed_account_applicability_missing p"
  using assms by (auto simp: unsafe_reason_def proposal_actions_def)

lemma evaluate_policy_route:
  "pd_route (evaluate_policy H safe p) =
     (if unsafe_reason p (snd (guarded_route p)) = None then fst (guarded_route p) else ANSWER)"
  by (auto simp: evaluate_policy_def publication_decision_of_def split: prod.splits option.splits)

text \<open>
  A draft is sent to human approval exactly when it is one of the three proposals, was judged
  eligible, has intact citations, and none of the blocking facts holds: no safe stop, unresolved
  action, terminal evidence assessment, redacted secret, forbidden boundary, pending clarification,
  incomplete or unexplained comparison, unresolved evidence conflict or missing current fact.
\<close>

theorem await_approval_iff:
  "pd_route (evaluate_policy H safe p) = AWAIT_APPROVAL \<longleftrightarrow>
     cr_action (pi_candidate p) \<in> proposal_actions \<and> pi_proposal_eligible p = Some True \<and>
     pi_citation_integrity p \<and> \<not> opt_truthy (pi_safe_stop_reason p) \<and>
     \<not> pi_requested_action_unresolved p \<and> pi_evidence_assessment_result p \<noteq> TerminalAssessment \<and>
     \<not> pi_has_secret_redaction p \<and> pi_policy_boundary p \<notin> {''out_of_scope'', ''prohibited''} \<and>
     pi_finish_reason p \<noteq> Some ''needs_clarification'' \<and>
     \<not> (pi_knowledge_comparison_requested p \<and> \<not> pi_knowledge_comparison_complete p) \<and>
     \<not> (pi_knowledge_comparison_complete p \<and> \<not> pi_explainable_comparison p) \<and>
     \<not> (pi_evidence_conflict p \<and> \<not> pi_grounded_conflict_clarification p \<and> \<not> pi_explainable_comparison p) \<and>
     \<not> pi_requested_current_fact_missing p \<and> \<not> pi_mixed_account_applicability_missing p"
  using guarded_route_await [of p] base_route_await [of p]
    unsafe_reason_await [of p "snd (guarded_route p)"]
  unfolding evaluate_policy_route by (auto split: if_splits)


definition sample_input :: policy_input where
  "sample_input =
     \<lparr>pi_candidate = \<lparr>cr_answer = ''hand over'', cr_action = ''escalate'', cr_knowledge_chunk_ids = [''k''],
        cr_knowledge_citations = [], cr_business_source_ids = [], cr_material_claims = [],
        cr_proposed_arguments = []\<rparr>,
      pi_evidence_conflict = False, pi_citation_integrity = True, pi_proposal_eligible = None,
      pi_finish_reason = None, pi_safe_stop_reason = None, pi_requested_action_unresolved = False,
      pi_evidence_assessment_result = Accept, pi_evidence_assessment_error_code = None,
      pi_has_secret_redaction = False, pi_policy_boundary = ''in_scope'',
      pi_knowledge_comparison_requested = False, pi_knowledge_comparison_complete = False,
      pi_explainable_comparison = False, pi_comparison_citations_complete = False,
      pi_missing_transition_markers = [], pi_grounded_conflict_clarification = False,
      pi_requested_current_fact_missing = False, pi_mixed_account_applicability_missing = False\<rparr>"


lemma enumerate_mem: "(i, c) \<in> set (enumerate 0 cs) \<longleftrightarrow> i < length cs \<and> cs ! i = c"
  by (auto simp: in_set_enumerate_eq)

text \<open>
  The batch filter rejects exactly the calls whose capability belongs to an obligation that the
  ledger no longer lists as unsatisfied, each once and under its own position; calls of other
  capabilities and calls the ledger still needs pass.
\<close>

theorem semantic_batch_rejections_exact:
  assumes "semantic_batch_rejections sp ledger calls = Inr rej"
  shows "(i, r) \<in> set rej \<longleftrightarrow>
    r = ''obligation_already_qualified'' \<and> i < length calls \<and>
    (\<exists>oid. obligation_for_capability sp (calls ! i) = Inr (Some oid)) \<and>
    calls ! i \<notin> set (lg_unsatisfied_capabilities ledger)"
proof -
  let ?f = "\<lambda>ic. case obligation_for_capability sp (snd ic) of Inl e \<Rightarrow> Inl e
          | Inr oid \<Rightarrow> Inr (if oid \<noteq> None \<and> snd ic \<notin> set (lg_unsatisfied_capabilities ledger)
              then [(fst ic, ''obligation_already_qualified'')] else [])"
  obtain gs where gs: "mapE ?f (enumerate 0 calls) = Inr gs" and rej: "rej = concat gs"
    using assms by (auto simp: semantic_batch_rejections_def split: sum.splits)
  show ?thesis
  proof
    assume "(i, r) \<in> set rej"
    then obtain g where g: "g \<in> set gs" "(i, r) \<in> set g" by (auto simp: rej)
    obtain j c where jc: "(j, c) \<in> set (enumerate 0 calls)" "?f (j, c) = Inr g"
      using mapE_in [OF gs g(1)] by fastforce
    with g(2) show "r = ''obligation_already_qualified'' \<and> i < length calls \<and>
        (\<exists>oid. obligation_for_capability sp (calls ! i) = Inr (Some oid)) \<and>
        calls ! i \<notin> set (lg_unsatisfied_capabilities ledger)"
      by (auto simp: enumerate_mem split: sum.splits if_splits)
  next
    assume asm: "r = ''obligation_already_qualified'' \<and> i < length calls \<and>
        (\<exists>oid. obligation_for_capability sp (calls ! i) = Inr (Some oid)) \<and>
        calls ! i \<notin> set (lg_unsatisfied_capabilities ledger)"
    then have "(i, calls ! i) \<in> set (enumerate 0 calls)" by (simp add: enumerate_mem)
    then obtain g where g: "g \<in> set gs" "?f (i, calls ! i) = Inr g" using mapE_in_arg [OF gs] by blast
    with asm have "(i, r) \<in> set g" by auto
    with g(1) show "(i, r) \<in> set rej" by (auto simp: rej)
  qed
qed

theorem semantic_batch_rejections_exact_witness:
  "\<exists>rej. semantic_batch_rejections key_spec
       (ledger_of key_spec key_admission ''r'' [plain_entry api_key_metadata_current ReadQualified ''q''])
       [''query_account'', ''query_api_key_metadata''] = Inr rej \<and>
     (1, ''obligation_already_qualified'') \<in> set rej \<and> (0, ''obligation_already_qualified'') \<notin> set rej"
proof -
  let ?l = "ledger_of key_spec key_admission ''r'' [plain_entry api_key_metadata_current ReadQualified ''q'']"
  have un: "lg_unsatisfied_capabilities ?l = []"
    by (simp add: ledger_of_def List.map_filter_def sorted_set_def)
  have ofc: "obligation_for_capability key_spec ''query_account'' = Inr None"
    "obligation_for_capability key_spec ''query_api_key_metadata'' = Inr (Some ''api_key_metadata_current'')"
    by (simp_all add: obligation_for_capability_def key_obligation_fields)
  obtain rej where rej: "semantic_batch_rejections key_spec ?l
      [''query_account'', ''query_api_key_metadata''] = Inr rej"
    by (simp add: semantic_batch_rejections_def ofc un)
  from semantic_batch_rejections_exact [OF rej, of 1 "''obligation_already_qualified''"]
    semantic_batch_rejections_exact [OF rej, of 0 "''obligation_already_qualified''"] rej
  show ?thesis by (simp add: ofc un)
qed

end
