(* ===== verification/Runtime_Store.thy ===== *)
theory Runtime_Store
  imports Canonical_Json
begin

text \<open>
  The durable state of the runtime: one record per table row (\<open>db/entities/agent.py\<close>,
  \<open>conversation.py\<close>, \<open>action.py\<close>, \<open>audit.py\<close>) with the columns the modelled services read or write,
  and the database as the record of its tables.  A table is a list of rows in insertion order with a
  primary key.  A service call is one transaction: it returns the new database, or the exception,
  in which case the transaction rolls back.  Times are microseconds of UTC; fresh identifiers
  (\<open>new_id\<close>) are arguments.  Status columns keep the strings of the source.
\<close>

section \<open>Rows\<close>

record runtime_job =
  job_id :: string
  job_tenant_id :: string
  job_ticket_id :: string
  job_run_id :: string
  job_dispatch_sequence :: nat
  job_kind :: string
  job_approval_id :: "string option"
  job_status :: string
  job_status_version :: nat
  job_attempt :: nat
  job_lease_owner :: "string option"
  job_fencing_token :: nat
  job_lease_expires_at :: "int option"
  job_heartbeat_at :: "int option"
  job_available_at :: int
  job_created_at :: int
  job_outcome :: "string option"
  job_last_error :: "string option"

record agent_run =
  run_id :: string
  run_tenant_id :: string
  run_ticket_id :: string
  run_customer_id :: string
  run_message_id :: string
  run_turn_id :: "string option"
  run_status :: string
  run_status_version :: nat
  run_next_run_sequence :: nat
  run_active_job_id :: "string option"
  run_active_fencing_token :: "nat option"
  run_canonical_checkpoint_ns :: "string option"
  run_canonical_checkpoint_id :: "string option"
  run_canonical_checkpoint_hash :: "string option"
  run_canonical_checkpoint_version :: int
  run_agent_finish_reason :: "string option"
  run_checkpoint_stage :: string
  run_checkpoint_id :: "string option"
  run_step_index :: nat
  run_tool_rounds :: nat
  run_tool_attempts :: nat
  run_llm_calls :: nat
  run_model :: string
  run_provider_mode :: string
  run_tool_call_mode :: string
  run_context_version :: string
  run_error_code :: "string option"
  run_completed_at :: "int option"

record support_ticket =
  tk_id :: string
  tk_tenant_id :: string
  tk_customer_id :: string
  tk_status :: string
  tk_lifecycle :: string
  tk_automation_mode :: string
  tk_title :: "string option"
  tk_version :: nat
  tk_next_event_sequence :: nat
  tk_next_message_sequence :: nat
  tk_next_dispatch_sequence :: nat
  tk_final_response :: "string option"
  tk_last_message_at :: "int option"

record ticket_message =
  msg_id :: string
  msg_tenant_id :: string
  msg_ticket_id :: string
  msg_turn_id :: "string option"
  msg_run_id :: "string option"
  msg_approval_id :: "string option"
  msg_conversation_sequence :: "nat option"
  msg_kind :: string
  msg_publication_key :: "string option"
  msg_role :: string
  msg_content :: string
  msg_source_refs :: pyval

record conversation_turn =
  tn_id :: string
  tn_tenant_id :: string
  tn_ticket_id :: string
  tn_customer_message_id :: string
  tn_run_id :: "string option"
  tn_ordinal :: nat
  tn_activity_state :: string
  tn_result_state :: "string option"
  tn_automation_mode :: string
  tn_model :: "string option"
  tn_provider_mode :: "string option"
  tn_tool_call_mode :: "string option"
  tn_context_version :: "string option"
  tn_completed_at :: "int option"

record approval_request =
  ap_id :: string
  ap_tenant_id :: string
  ap_ticket_id :: string
  ap_customer_id :: string
  ap_proposal_id :: "string option"
  ap_run_id :: "string option"
  ap_action_type :: string
  ap_resource_type :: string
  ap_resource_id :: string
  ap_status :: string
  ap_status_version :: nat
  ap_decided_at :: "int option"
  ap_action_payload :: pydict
  ap_action_hash :: string
  ap_business_version :: int
  ap_idempotency_key :: string
  ap_selected_revision_id :: "string option"
  ap_selected_revision_number :: "int option"
  ap_marker_id :: "string option"
  ap_checkpoint_id :: "string option"
  ap_canonical_checkpoint_ns :: "string option"
  ap_canonical_checkpoint_hash :: "string option"
  ap_checkpoint_version :: int
  ap_expected_ticket_head_event_id :: "string option"
  ap_expected_ticket_sequence :: "nat option"
  ap_expected_ticket_event_hash :: "string option"
  ap_consumed_at :: "pydatetime option"

record proposal_record =
  pr_id :: string
  pr_tenant_id :: string
  pr_run_id :: string
  pr_action_type :: string
  pr_resource_id :: string
  pr_resource_version :: int
  pr_status :: string
  pr_status_version :: nat
  pr_action_payload :: pydict
  pr_observation_binding :: "pydict list"
  pr_action_hash :: string
  pr_refund_original_resource_id :: "string option"
  pr_refund_original_version :: "int option"
  pr_refund_pair_hash :: "string option"

record checkpoint_commit_marker =
  mk_id :: string
  mk_tenant_id :: string
  mk_job_id :: string
  mk_status :: string
  mk_status_version :: nat
  mk_final_checkpoint_id :: "string option"
  mk_final_checkpoint_hash :: "string option"
  mk_final_checkpoint_version :: "int option"

record outbox_event =
  ox_id :: string
  ox_delivery_id :: string
  ox_tenant_id :: string
  ox_job_id :: string
  ox_run_id :: string
  ox_delivery_generation :: nat
  ox_event_type :: string
  ox_payload :: pydict
  ox_redis_message_id :: "string option"
  ox_available_at :: int
  ox_published_at :: "int option"
  ox_last_delivery_at :: "int option"
  ox_publish_attempts :: nat
  ox_superseded_at :: "int option"
  ox_superseded_by_delivery_id :: "string option"
  ox_delivery_state_version :: nat
  ox_created_at :: int

record inbox_delivery =
  ib_id :: string
  ib_tenant_id :: string
  ib_job_id :: string
  ib_delivery_id :: string
  ib_redis_message_id :: string
  ib_consumer_group :: string
  ib_status :: string
  ib_outcome :: "string option"
  ib_created_at :: int

record queue_delivery_audit =
  qa_id :: string
  qa_tenant_id :: "string option"
  qa_job_id :: "string option"
  qa_delivery_id :: "string option"
  qa_redis_message_id :: string
  qa_consumer_group :: string
  qa_outcome :: string
  qa_payload_hash :: string
  qa_details :: pydict

record agent_event =
  ev_id :: string
  ev_tenant_id :: string
  ev_run_id :: string
  ev_ticket_id :: string
  ev_customer_id :: string
  ev_ticket_sequence :: nat
  ev_run_sequence :: nat
  ev_step_index :: nat
  ev_tool_round :: nat
  ev_event_type :: string
  ev_status :: string
  ev_visibility :: string
  ev_tool_call_id :: "string option"
  ev_payload :: pyval
  ev_payload_hash :: string
  ev_previous_event_id :: "string option"
  ev_parent_event_hash :: string
  ev_event_hash :: string
  ev_event_schema_version :: string
  ev_canonicalization_version :: string
  ev_event_hash_schema_version :: string
  ev_correlation_id :: string
  ev_causation_id :: "string option"
  ev_idempotency_id :: "string option"
  ev_job_id :: "string option"
  ev_delivery_generation :: "nat option"
  ev_fencing_token :: "nat option"
  ev_created_at :: pydatetime

record idempotency_request =
  idm_id :: string
  idm_tenant_id :: string
  idm_principal_id :: string
  idm_route :: string
  idm_key :: string
  idm_request_hash :: string
  idm_resource_ids :: pydict
  idm_response_snapshot :: pydict
  idm_expires_at :: "int option"
  idm_completed_at :: "int option"
  idm_retention_class :: string

record agent_call_attempt =
  at_id :: string
  at_tenant_id :: string
  at_run_id :: string
  at_job_id :: string
  at_fencing_token :: nat
  at_call_kind :: string
  at_ordinal :: nat
  at_logical_invocation_id :: "string option"
  at_transport_ordinal :: "nat option"
  at_status :: string
  at_prompt_tokens :: int
  at_completion_tokens :: int
  at_latency_ms :: "int option"
  at_error_code :: "string option"
  at_runtime_provenance :: pydict

record tool_transport_attempt =
  tt_id :: string
  tt_tenant_id :: string
  tt_run_id :: string
  tt_job_id :: string
  tt_invocation_id :: string
  tt_agent_call_attempt_id :: string
  tt_fencing_token :: nat
  tt_transport_ordinal :: nat
  tt_status :: string
  tt_error_code :: "string option"
  tt_completed_at :: "int option"

record turn_group =
  tg_id :: string
  tg_tenant_id :: string
  tg_run_id :: string
  tg_job_id :: string
  tg_segment_id :: string
  tg_fencing_token :: nat
  tg_decision_ordinal :: nat
  tg_tool_round :: nat
  tg_expected_invocations :: nat
  tg_decision_hash :: string
  tg_context_hash :: string
  tg_tool_schema_hash :: string
  tg_status :: string
  tg_closed_at :: "int option"

record tool_invocation =
  iv_id :: string
  iv_tenant_id :: string
  iv_run_id :: string
  iv_job_id :: string
  iv_turn_group_id :: string
  iv_segment_id :: string
  iv_fencing_token :: nat
  iv_provider_tool_call_id :: string
  iv_logical_invocation_id :: string
  iv_ordinal :: nat
  iv_tool_name :: string
  iv_arguments_hash :: string
  iv_requested_cost :: nat
  iv_lifecycle :: string
  iv_outcome :: "string option"
  iv_terminal_at :: "int option"

record tool_observation =
  obs_id :: string
  obs_tenant_id :: string
  obs_run_id :: string
  obs_job_id :: string
  obs_invocation_id :: string
  obs_segment_id :: string
  obs_fencing_token :: nat
  obs_status :: string
  obs_attempt_index :: nat
  obs_content_hash :: string
  obs_payload :: pydict

record policy_capability_invocation =
  ci_id :: string
  ci_tenant_id :: string
  ci_run_id :: string
  ci_job_id :: string
  ci_segment_id :: string
  ci_fencing_token :: nat
  ci_capability_name :: string
  ci_sequence :: nat
  ci_causal_decision_hash :: string
  ci_observation_binding_hash :: string
  ci_effect_identity :: string
  ci_status :: string
  ci_error_code :: "string option"
  ci_completed_at :: "int option"

record policy_capability_attempt =
  ca_id :: string
  ca_tenant_id :: string
  ca_run_id :: string
  ca_job_id :: string
  ca_invocation_id :: string
  ca_fencing_token :: nat
  ca_ordinal :: nat
  ca_status :: string
  ca_error_code :: "string option"
  ca_completed_at :: "int option"

record policy_capability_result =
  cpr_id :: string
  cpr_tenant_id :: string
  cpr_run_id :: string
  cpr_job_id :: string
  cpr_invocation_id :: string
  cpr_effect_identity :: string
  cpr_status :: string
  cpr_payload_hash :: string
  cpr_payload :: pydict
  cpr_reconciled_at :: "int option"

section \<open>The database\<close>

record db =
  jobs :: "runtime_job list"
  runs :: "agent_run list"
  tickets :: "support_ticket list"
  messages :: "ticket_message list"
  turns :: "conversation_turn list"
  approvals :: "approval_request list"
  proposals :: "proposal_record list"
  markers :: "checkpoint_commit_marker list"
  outbox :: "outbox_event list"
  inbox :: "inbox_delivery list"
  queue_audits :: "queue_delivery_audit list"
  events :: "agent_event list"
  idempotency :: "idempotency_request list"
  attempts :: "agent_call_attempt list"
  transports :: "tool_transport_attempt list"
  turn_groups :: "turn_group list"
  invocations :: "tool_invocation list"
  observations :: "tool_observation list"
  cap_invocations :: "policy_capability_invocation list"
  cap_attempts :: "policy_capability_attempt list"
  cap_results :: "policy_capability_result list"

definition empty_db :: db where
  "empty_db =
     \<lparr>jobs = [], runs = [], tickets = [], messages = [], turns = [], approvals = [], proposals = [],
      markers = [], outbox = [], inbox = [], queue_audits = [], events = [], idempotency = [], attempts = [], transports = [],
      turn_groups = [], invocations = [], observations = [], cap_invocations = [],
      cap_attempts = [], cap_results = []\<rparr>"

text \<open>Primary-key updates (\<open>row.field = value\<close> on a loaded row).\<close>

definition upd_job :: "string \<Rightarrow> (runtime_job \<Rightarrow> runtime_job) \<Rightarrow> db \<Rightarrow> db" where
  "upd_job k f d = d\<lparr>jobs := update_by job_id k f (jobs d)\<rparr>"

definition upd_run :: "string \<Rightarrow> (agent_run \<Rightarrow> agent_run) \<Rightarrow> db \<Rightarrow> db" where
  "upd_run k f d = d\<lparr>runs := update_by run_id k f (runs d)\<rparr>"

definition upd_ticket :: "string \<Rightarrow> (support_ticket \<Rightarrow> support_ticket) \<Rightarrow> db \<Rightarrow> db" where
  "upd_ticket k f d = d\<lparr>tickets := update_by tk_id k f (tickets d)\<rparr>"

definition upd_turn :: "string \<Rightarrow> (conversation_turn \<Rightarrow> conversation_turn) \<Rightarrow> db \<Rightarrow> db" where
  "upd_turn k f d = d\<lparr>turns := update_by tn_id k f (turns d)\<rparr>"

definition upd_approval :: "string \<Rightarrow> (approval_request \<Rightarrow> approval_request) \<Rightarrow> db \<Rightarrow> db" where
  "upd_approval k f d = d\<lparr>approvals := update_by ap_id k f (approvals d)\<rparr>"

definition upd_invocation :: "string \<Rightarrow> (tool_invocation \<Rightarrow> tool_invocation) \<Rightarrow> db \<Rightarrow> db" where
  "upd_invocation k f d = d\<lparr>invocations := update_by iv_id k f (invocations d)\<rparr>"

lemmas upd_defs = upd_job_def upd_run_def upd_ticket_def upd_turn_def upd_approval_def upd_invocation_def

text \<open>\<open>SELECT ... LIMIT 1\<close> and \<open>session.scalar\<close> on a filter: the first row, or none.\<close>

definition select_first :: "('r \<Rightarrow> bool) \<Rightarrow> 'r list \<Rightarrow> 'r option" where
  "select_first P rows = find P rows"

lemma select_first_Some: "select_first P rows = Some r \<Longrightarrow> r \<in> set rows \<and> P r"
  by (auto simp: select_first_def find_Some_iff)

lemma select_first_None: "select_first P rows = None \<longleftrightarrow> (\<forall>r \<in> set rows. \<not> P r)"
  by (auto simp: select_first_def find_None_iff)

text \<open>Every table has distinct primary keys.\<close>

definition keys_ok :: "db \<Rightarrow> bool" where
  "keys_ok d \<longleftrightarrow> distinct (map job_id (jobs d)) \<and> distinct (map run_id (runs d)) \<and>
     distinct (map tk_id (tickets d))"

section \<open>A concrete store for the evaluated examples\<close>

definition sample_ticket :: support_ticket where
  "sample_ticket =
     \<lparr>tk_id = ''t1'', tk_tenant_id = ''acme'', tk_customer_id = ''c1'', tk_status = ''queued'',
      tk_lifecycle = ''active'', tk_automation_mode = ''agent'', tk_title = None, tk_version = 1,
      tk_next_event_sequence = 0, tk_next_message_sequence = 1, tk_next_dispatch_sequence = 1,
      tk_final_response = None, tk_last_message_at = None\<rparr>"

definition sample_run :: agent_run where
  "sample_run =
     \<lparr>run_id = ''r1'', run_tenant_id = ''acme'', run_ticket_id = ''t1'', run_customer_id = ''c1'',
      run_message_id = ''m1'', run_turn_id = Some ''u1'', run_status = ''queued'', run_status_version = 1,
      run_next_run_sequence = 0, run_active_job_id = None, run_active_fencing_token = None,
      run_canonical_checkpoint_ns = None, run_canonical_checkpoint_id = None,
      run_canonical_checkpoint_hash = None, run_canonical_checkpoint_version = 0,
      run_agent_finish_reason = None, run_checkpoint_stage = ''request_created'',
      run_checkpoint_id = None, run_step_index = 0, run_tool_rounds = 0, run_tool_attempts = 0,
      run_llm_calls = 0, run_model = ''m'', run_provider_mode = ''fake'', run_tool_call_mode = ''native'',
      run_context_version = ''v1'', run_error_code = None, run_completed_at = None\<rparr>"

definition sample_job :: runtime_job where
  "sample_job =
     \<lparr>job_id = ''j1'', job_tenant_id = ''acme'', job_ticket_id = ''t1'', job_run_id = ''r1'',
      job_dispatch_sequence = 1, job_kind = ''agent_start'', job_approval_id = None,
      job_status = ''queued'', job_status_version = 1, job_attempt = 0, job_lease_owner = None,
      job_fencing_token = 0, job_lease_expires_at = None, job_heartbeat_at = None,
      job_available_at = 0, job_created_at = 0, job_outcome = None, job_last_error = None\<rparr>"

definition sample_message :: ticket_message where
  "sample_message =
     \<lparr>msg_id = ''m1'', msg_tenant_id = ''acme'', msg_ticket_id = ''t1'', msg_turn_id = Some ''u1'',
      msg_run_id = Some ''r1'', msg_approval_id = None, msg_conversation_sequence = Some 1,
      msg_kind = ''customer'', msg_publication_key = None, msg_role = ''user'', msg_content = ''hi'',
      msg_source_refs = PList []\<rparr>"

definition sample_turn :: conversation_turn where
  "sample_turn =
     \<lparr>tn_id = ''u1'', tn_tenant_id = ''acme'', tn_ticket_id = ''t1'', tn_customer_message_id = ''m1'',
      tn_run_id = Some ''r1'', tn_ordinal = 1, tn_activity_state = ''queued'', tn_result_state = None,
      tn_automation_mode = ''agent'',
      tn_model = Some ''m'', tn_provider_mode = Some ''fake'', tn_tool_call_mode = Some ''native'',
      tn_context_version = Some ''v1'', tn_completed_at = None\<rparr>"

definition sample_db :: db where
  "sample_db = empty_db\<lparr>jobs := [sample_job], runs := [sample_run], tickets := [sample_ticket],
     messages := [sample_message], turns := [sample_turn]\<rparr>"

lemmas sample_defs = sample_db_def sample_ticket_def sample_run_def sample_job_def sample_message_def
  sample_turn_def empty_db_def

end
