(* ===== verification/Event_Chain.thy ===== *)
theory Event_Chain
  imports Runtime_Store
begin

text \<open>
  \<open>agent/persistence.py\<close>: the append-only event log of a ticket.  Each event stores the digest of its
  own canonical envelope chained to its parent's digest; \<open>verify_ticket_event_chain\<close> recomputes the
  chain.  The digest is the parameter \<open>H\<close>; the free-text redaction of \<open>policies/pii.py\<close> is the
  parameter \<open>redact\<close>; the runtime provenance, the clock and fresh identifiers are arguments.
\<close>

section \<open>Payload sanitising\<close>

definition is_continuation :: "char \<Rightarrow> bool" where
  "is_continuation c = ((of_char c :: nat) div 64 = 2)"

text \<open>\<open>s[:n]\<close> on characters.\<close>

fun take_chars :: "nat \<Rightarrow> string \<Rightarrow> string" where
  "take_chars n [] = []"
| "take_chars n (c # cs) =
     (if is_continuation c then c # take_chars n cs
      else (case n of 0 \<Rightarrow> [] | Suc m \<Rightarrow> c # take_chars m cs))"

definition is_alpha :: "char \<Rightarrow> bool" where
  "is_alpha c = (let n = of_char c :: nat in (65 \<le> n \<and> n \<le> 90) \<or> (97 \<le> n \<and> n \<le> 122))"

definition is_alnum :: "char \<Rightarrow> bool" where
  "is_alnum c = (is_alpha c \<or> char_digit c \<noteq> None)"

text \<open>\<open>^[A-Za-z][A-Za-z0-9]*_[A-Za-z0-9_.:/-]{1,511}$\<close>\<close>

definition typed_identifier :: "string \<Rightarrow> bool" where
  "typed_identifier s =
     (let pre = takeWhile (\<lambda>c. c \<noteq> CHR ''_'') s; rest = drop (Suc (length pre)) s in
      pre \<noteq> [] \<and> is_alpha (hd pre) \<and> list_all is_alnum pre \<and> length pre < length s \<and>
      1 \<le> length rest \<and> length rest \<le> 511 \<and>
      list_all (\<lambda>c. is_alnum c \<or> c \<in> set ''_.:/-'') rest)"

text \<open>\<open>^[0-9a-f]{32,128}$\<close>\<close>

definition typed_digest :: "string \<Rightarrow> bool" where
  "typed_digest s = (32 \<le> length s \<and> length s \<le> 128 \<and> list_all is_hex s)"

definition ends_with :: "string \<Rightarrow> string \<Rightarrow> bool" where
  "ends_with t s = (length t \<le> length s \<and> drop (length s - length t) s = t)"

definition trusted_structural_string :: "string option \<Rightarrow> string \<Rightarrow> bool" where
  "trusted_structural_string key v =
     (case key of None \<Rightarrow> False
      | Some k \<Rightarrow>
          (let n = casefold k in
           if n = ''id'' \<or> ends_with ''_id'' n \<or> ends_with ''_ids'' n then typed_identifier v
           else if ends_with ''_hash'' n then typed_digest v
           else False))"

definition private_keys :: "string list" where
  "private_keys =
     [''prompt'', ''system_prompt'', ''chain_of_thought'', ''reasoning_content'', ''api_key'']"

function safe_payload :: "(string \<Rightarrow> string) \<Rightarrow> string option \<Rightarrow> pyval \<Rightarrow> pyval" where
  "safe_payload redact key (PStr s) =
     PStr (take_chars 4000 (if trusted_structural_string key s then s else redact s))"
| "safe_payload redact key (PDict d) =
     PDict (map (\<lambda>kv. (fst kv, safe_payload redact (Some (fst kv)) (snd kv)))
       (filter (\<lambda>kv. casefold (fst kv) \<notin> set private_keys) d))"
| "safe_payload redact key (PList xs) = PList (map (safe_payload redact key) (take 50 xs))"
| "safe_payload redact key PNone = PNone"
| "safe_payload redact key (PBool b) = PBool b"
| "safe_payload redact key (PInt i) = PInt i"
| "safe_payload redact key (PTime t) = PStr (take_chars 1000 (str_time t))"
  by pat_completeness auto
termination
proof (relation "measure (\<lambda>(r, k, v). size v)", goal_cases)
  case (2 redact key d kv)
  then have "kv \<in> set d" by simp
  moreover have "size (snd kv) \<le> size_prod (\<lambda>_. 0) size kv" by (cases kv) simp
  ultimately show ?case by (auto simp: less_Suc_eq_le intro!: size_list_estimation')
next
  case (3 redact key xs x)
  then have "x \<in> set xs" by (rule in_set_takeD)
  then show ?case by (auto simp: less_Suc_eq_le intro!: size_list_estimation')
qed simp

section \<open>Digests\<close>

definition GENESIS_EVENT_HASH :: string where
  "GENESIS_EVENT_HASH = replicate 64 (CHR ''0'')"

definition EVENT_SCHEMA_VERSION :: string where "EVENT_SCHEMA_VERSION = ''support-ticket-event.v1''"
definition CANONICALIZATION_VERSION :: string where "CANONICALIZATION_VERSION = ''json-sort-keys.v1''"
definition EVENT_HASH_SCHEMA_VERSION :: string where "EVENT_HASH_SCHEMA_VERSION = ''event-hash.v1''"

definition canonical_created_at :: "pydatetime \<Rightarrow> string" where
  "canonical_created_at t = isoformat_utc_micros (aware_utc t)"

definition payload_hash :: "(string \<Rightarrow> string) \<Rightarrow> pyval \<Rightarrow> string" where
  "payload_hash H payload = H (json_dumps payload)"

definition opt_str_val :: "string option \<Rightarrow> pyval" where
  "opt_str_val x = (case x of None \<Rightarrow> PNone | Some s \<Rightarrow> PStr s)"

definition opt_nat_val :: "nat option \<Rightarrow> pyval" where
  "opt_nat_val x = (case x of None \<Rightarrow> PNone | Some n \<Rightarrow> PInt (int n))"

definition event_envelope :: "agent_event \<Rightarrow> pyval" where
  "event_envelope e = PDict
     [(''aggregate_type'', PStr ''SupportTicket''), (''aggregate_id'', PStr (ev_ticket_id e)),
      (''tenant_id'', PStr (ev_tenant_id e)), (''customer_id'', PStr (ev_customer_id e)),
      (''event_id'', PStr (ev_id e)), (''ticket_sequence'', PInt (int (ev_ticket_sequence e))),
      (''run_id'', PStr (ev_run_id e)), (''run_sequence'', PInt (int (ev_run_sequence e))),
      (''job_id'', opt_str_val (ev_job_id e)),
      (''delivery_generation'', opt_nat_val (ev_delivery_generation e)),
      (''fencing_token'', opt_nat_val (ev_fencing_token e)),
      (''step_index'', PInt (int (ev_step_index e))), (''tool_round'', PInt (int (ev_tool_round e))),
      (''event_type'', PStr (ev_event_type e)), (''status'', PStr (ev_status e)),
      (''visibility'', PStr (ev_visibility e)), (''tool_call_id'', opt_str_val (ev_tool_call_id e)),
      (''payload_hash'', PStr (ev_payload_hash e)),
      (''previous_event_id'', opt_str_val (ev_previous_event_id e)),
      (''correlation_id'', PStr (ev_correlation_id e)),
      (''causation_id'', opt_str_val (ev_causation_id e)),
      (''idempotency_id'', opt_str_val (ev_idempotency_id e)),
      (''created_at'', PStr (canonical_created_at (ev_created_at e))),
      (''event_schema_version'', PStr (ev_event_schema_version e)),
      (''canonicalization_version'', PStr (ev_canonicalization_version e))]"

definition hashed_text :: "agent_event \<Rightarrow> string \<Rightarrow> string" where
  "hashed_text e previous = ev_event_hash_schema_version e @ json_dumps (event_envelope e) @ previous"

definition event_hash :: "(string \<Rightarrow> string) \<Rightarrow> agent_event \<Rightarrow> string \<Rightarrow> string" where
  "event_hash H e previous = H (hashed_text e previous)"

section \<open>Verification\<close>

definition link_ok ::
  "(string \<Rightarrow> string) \<Rightarrow> nat \<Rightarrow> string \<Rightarrow> (string \<times> string) option \<Rightarrow> agent_event \<Rightarrow> bool" where
  "link_ok H seq parent_hash parent e =
     (ev_ticket_sequence e = seq \<and> ev_parent_event_hash e = parent_hash \<and>
      ev_previous_event_id e =
        (case parent of None \<Rightarrow> None
         | Some (pid, prun) \<Rightarrow> if prun = ev_run_id e then Some pid else None) \<and>
      ev_payload_hash e = payload_hash H (ev_payload e) \<and>
      ev_event_schema_version e = EVENT_SCHEMA_VERSION \<and>
      ev_canonicalization_version e = CANONICALIZATION_VERSION \<and>
      ev_event_hash_schema_version e = EVENT_HASH_SCHEMA_VERSION \<and>
      ev_correlation_id e = ev_run_id e \<and>
      ev_event_hash e = event_hash H e parent_hash)"

fun verify_links ::
  "(string \<Rightarrow> string) \<Rightarrow> nat \<Rightarrow> string \<Rightarrow> (string \<times> string) option \<Rightarrow> agent_event list \<Rightarrow> string result" where
  "verify_links H seq parent_hash parent [] = Inr parent_hash"
| "verify_links H seq parent_hash parent (e # es) =
     (if link_ok H seq parent_hash parent e
      then verify_links H (Suc seq) (ev_event_hash e) (Some (ev_id e, ev_run_id e)) es
      else Inl (RuntimeError ''ticket_event_chain_invalid''))"

definition ticket_events :: "db \<Rightarrow> string \<Rightarrow> agent_event list" where
  "ticket_events d tid = sort_key ev_ticket_sequence (filter (\<lambda>e. ev_ticket_id e = tid) (events d))"

definition verify_ticket_event_chain :: "(string \<Rightarrow> string) \<Rightarrow> db \<Rightarrow> string \<Rightarrow> string result" where
  "verify_ticket_event_chain H d tid =
     (case ticket_events d tid of
        [] \<Rightarrow> Inl (RuntimeError ''ticket_event_chain_empty'')
      | es \<Rightarrow> verify_links H 1 GENESIS_EVENT_HASH None es)"

section \<open>The event store\<close>

text \<open>An expected head value: the default \<open>...\<close> means that the caller does not check it.\<close>

datatype 'a expectation = Unchecked | Expect 'a

record worker_context =
  wc_tenant_id :: string
  wc_ticket_id :: string
  wc_run_id :: string
  wc_job_id :: string
  wc_delivery_generation :: nat
  wc_fencing_token :: nat

record event_request =
  rq_event_type :: string
  rq_payload :: pyval
  rq_visibility :: string
  rq_status :: string
  rq_tool_call_id :: "string option"
  rq_step_index :: "nat option"
  rq_tool_round :: "nat option"
  rq_idempotency_id :: "string option"
  rq_expected_head_id :: "string option expectation"
  rq_expected_sequence :: "nat option"
  rq_expected_hash :: "string option expectation"

definition head_event :: "db \<Rightarrow> string \<Rightarrow> agent_event option" where
  "head_event d tid = (case rev (ticket_events d tid) of [] \<Rightarrow> None | e # _ \<Rightarrow> Some e)"

definition head_conflict ::
  "support_ticket \<Rightarrow> agent_event option \<Rightarrow> event_request \<Rightarrow> string option" where
  "head_conflict tk parent rq =
     (let actual_sequence = (case parent of None \<Rightarrow> 0 | Some p \<Rightarrow> ev_ticket_sequence p) in
      if tk_next_event_sequence tk \<noteq> actual_sequence then
        Some ''ticket_event_sequence_counter_conflict''
      else if (case rq_expected_head_id rq of Unchecked \<Rightarrow> False
               | Expect i \<Rightarrow> map_option ev_id parent \<noteq> i) then Some ''ticket_event_head_id_conflict''
      else if (case rq_expected_sequence rq of None \<Rightarrow> False | Some n \<Rightarrow> actual_sequence \<noteq> n) then
        Some ''ticket_event_head_sequence_conflict''
      else if (case rq_expected_hash rq of Unchecked \<Rightarrow> False
               | Expect h \<Rightarrow> map_option ev_event_hash parent \<noteq> h) then
        Some ''ticket_event_head_hash_conflict''
      else None)"

definition new_event ::
  "(string \<Rightarrow> string) \<Rightarrow> (string \<Rightarrow> string) \<Rightarrow> agent_run \<Rightarrow> support_ticket \<Rightarrow> agent_event option \<Rightarrow>
   worker_context option \<Rightarrow> event_request \<Rightarrow> string \<Rightarrow> pydatetime \<Rightarrow> agent_event" where
  "new_event H redact r tk parent worker rq eid clock =
     (let payload = safe_payload redact None (rq_payload rq);
          parent_hash = (case parent of None \<Rightarrow> GENESIS_EVENT_HASH | Some p \<Rightarrow> ev_event_hash p);
          e = \<lparr>ev_id = eid, ev_tenant_id = run_tenant_id r, ev_run_id = run_id r,
            ev_ticket_id = run_ticket_id r, ev_customer_id = run_customer_id r,
            ev_ticket_sequence = Suc (tk_next_event_sequence tk),
            ev_run_sequence = Suc (run_next_run_sequence r),
            ev_step_index = (case rq_step_index rq of None \<Rightarrow> run_step_index r | Some n \<Rightarrow> n),
            ev_tool_round = (case rq_tool_round rq of None \<Rightarrow> run_tool_rounds r | Some n \<Rightarrow> n),
            ev_event_type = rq_event_type rq, ev_status = rq_status rq,
            ev_visibility = rq_visibility rq, ev_tool_call_id = rq_tool_call_id rq,
            ev_payload = payload, ev_payload_hash = payload_hash H payload,
            ev_previous_event_id = (case parent of None \<Rightarrow> None
              | Some p \<Rightarrow> if ev_run_id p = run_id r then Some (ev_id p) else None),
            ev_parent_event_hash = parent_hash, ev_event_hash = [],
            ev_event_schema_version = EVENT_SCHEMA_VERSION,
            ev_canonicalization_version = CANONICALIZATION_VERSION,
            ev_event_hash_schema_version = EVENT_HASH_SCHEMA_VERSION,
            ev_correlation_id = run_id r, ev_causation_id = map_option ev_id parent,
            ev_idempotency_id = rq_idempotency_id rq,
            ev_job_id = map_option wc_job_id worker,
            ev_delivery_generation = map_option wc_delivery_generation worker,
            ev_fencing_token = map_option wc_fencing_token worker, ev_created_at = clock\<rparr>
      in e\<lparr>ev_event_hash := event_hash H e parent_hash\<rparr>)"

definition append_event ::
  "(string \<Rightarrow> string) \<Rightarrow> (string \<Rightarrow> string) \<Rightarrow> worker_context option \<Rightarrow> string \<Rightarrow> pydatetime \<Rightarrow> db \<Rightarrow>
   string \<Rightarrow> event_request \<Rightarrow> (agent_event \<times> db) result" where
  "append_event H redact worker eid clock d rid rq =
     (case lookup_by run_id rid (runs d) of
        None \<Rightarrow> Inl (RuntimeError ''event owner disappeared'')
      | Some r \<Rightarrow>
        (case lookup_by tk_id (run_ticket_id r) (tickets d) of
           None \<Rightarrow> Inl (RuntimeError ''event owner disappeared'')
         | Some tk \<Rightarrow>
           (let parent = head_event d (run_ticket_id r);
                run_parent = max_of ev_run_sequence (filter (\<lambda>e. ev_run_id e = rid) (events d))
            in case head_conflict tk parent rq of
                 Some m \<Rightarrow> Inl (CanonicalEventHeadConflict m)
               | None \<Rightarrow>
                 if run_next_run_sequence r \<noteq> (case run_parent of None \<Rightarrow> 0 | Some n \<Rightarrow> n) then
                   Inl (CanonicalEventHeadConflict ''run_event_sequence_counter_conflict'')
                 else if (case worker of None \<Rightarrow> False
                          | Some w \<Rightarrow> wc_tenant_id w \<noteq> run_tenant_id r \<or>
                              wc_ticket_id w \<noteq> run_ticket_id r \<or> wc_run_id w \<noteq> run_id r) then
                   Inl (RuntimeError ''worker event context does not match event aggregate'')
                 else
                   (let e = new_event H redact r tk parent worker rq eid clock in
                    case insert_row ev_id e (events d) of
                      Inl err \<Rightarrow> Inl err
                    | Inr evs \<Rightarrow> Inr (e,
                        upd_run rid (\<lambda>r. r\<lparr>run_next_run_sequence := Suc (run_next_run_sequence r),
                            run_step_index := max (run_step_index r) (ev_step_index e)\<rparr>)
                          (upd_ticket (tk_id tk)
                            (\<lambda>t. t\<lparr>tk_next_event_sequence := Suc (tk_next_event_sequence t)\<rparr>)
                            (d\<lparr>events := evs\<rparr>)))))))"

definition assert_ticket_head ::
  "db \<Rightarrow> agent_run \<Rightarrow> string option \<Rightarrow> nat \<Rightarrow> string option \<Rightarrow> agent_event option result" where
  "assert_ticket_head d r expected_id expected_sequence expected_hash =
     (case lookup_by tk_id (run_ticket_id r) (tickets d) of
        None \<Rightarrow> Inl (RuntimeError ''event owner disappeared'')
      | Some tk \<Rightarrow>
          (let parent = head_event d (run_ticket_id r);
               actual_sequence = (case parent of None \<Rightarrow> 0 | Some p \<Rightarrow> ev_ticket_sequence p)
           in if tk_next_event_sequence tk \<noteq> actual_sequence \<or> map_option ev_id parent \<noteq> expected_id \<or>
                 actual_sequence \<noteq> expected_sequence \<or>
                 map_option ev_event_hash parent \<noteq> expected_hash
              then Inl (CanonicalEventHeadConflict ''ticket_event_head_conflict'')
              else Inr parent))"

text \<open>\<open>AgentRunStore.create\<close>; the provenance dictionary is an argument.\<close>

definition run_started :: "string \<Rightarrow> string \<Rightarrow> pydict \<Rightarrow> event_request" where
  "run_started provider_mode tool_call_mode provenance =
     \<lparr>rq_event_type = ''run_started'',
      rq_payload = PDict [(''provider_mode'', PStr provider_mode), (''tool_call_mode'', PStr tool_call_mode),
        (''prompt_version'', dget provenance ''prompt_version''),
        (''schema_version'', dget provenance ''schema_version''),
        (''runtime_manifest_hash'', dget provenance ''runtime_manifest_hash''),
        (''code_commit'', dget provenance ''code_commit'')],
      rq_visibility = ''customer'', rq_status = ''completed'', rq_tool_call_id = None,
      rq_step_index = None, rq_tool_round = None, rq_idempotency_id = None,
      rq_expected_head_id = Unchecked, rq_expected_sequence = None, rq_expected_hash = Unchecked\<rparr>"

record run_request =
  rr_ticket_id :: string
  rr_customer_id :: string
  rr_message_id :: string
  rr_model :: string
  rr_provider_mode :: string
  rr_tool_call_mode :: string
  rr_context_version :: string

definition create_run ::
  "(string \<Rightarrow> string) \<Rightarrow> (string \<Rightarrow> string) \<Rightarrow> worker_context option \<Rightarrow> pydict \<Rightarrow> string \<Rightarrow> string \<Rightarrow>
   pydatetime \<Rightarrow> db \<Rightarrow> run_request \<Rightarrow> (agent_run \<times> db) result" where
  "create_run H redact worker provenance rid eid clock d q =
     (case (select_first (\<lambda>m. msg_id m = rr_message_id q \<and> msg_ticket_id m = rr_ticket_id q) (messages d),
            select_first (\<lambda>t. tk_id t = rr_ticket_id q \<and> tk_customer_id t = rr_customer_id q) (tickets d)) of
        (Some m, Some t) \<Rightarrow>
          if msg_tenant_id m \<noteq> tk_tenant_id t then
            Inl (ValueError ''Agent Run must bind an existing message from the same ticket'')
          else (case select_first (\<lambda>r. run_message_id r = rr_message_id q) (runs d) of
              Some existing \<Rightarrow> Inr (existing, d)
            | None \<Rightarrow>
                (let r = \<lparr>run_id = rid, run_tenant_id = tk_tenant_id t,
                       run_ticket_id = rr_ticket_id q, run_customer_id = rr_customer_id q,
                       run_message_id = rr_message_id q, run_turn_id = None, run_status = ''running'',
                       run_status_version = 1, run_next_run_sequence = 0, run_active_job_id = None,
                       run_active_fencing_token = None, run_canonical_checkpoint_ns = None,
                       run_canonical_checkpoint_id = None, run_canonical_checkpoint_hash = None,
                       run_canonical_checkpoint_version = 0, run_agent_finish_reason = None,
                       run_checkpoint_stage = ''request_created'', run_checkpoint_id = None,
                       run_step_index = 0, run_tool_rounds = 0, run_tool_attempts = 0,
                       run_llm_calls = 0, run_model = rr_model q,
                       run_provider_mode = rr_provider_mode q,
                       run_tool_call_mode = rr_tool_call_mode q,
                       run_context_version = rr_context_version q, run_error_code = None,
                       run_completed_at = None\<rparr>
                 in case insert_row run_id r (runs d) of
                      Inl e \<Rightarrow> Inl e
                    | Inr rs \<Rightarrow>
                        (case append_event H redact worker eid clock (d\<lparr>runs := rs\<rparr>) rid
                                (run_started (rr_provider_mode q) (rr_tool_call_mode q) provenance) of
                           Inl e \<Rightarrow> Inl e
                         | Inr (_, d') \<Rightarrow>
                             Inr (the (lookup_by run_id rid (runs d')), d'))))
      | _ \<Rightarrow> Inl (ValueError ''Agent Run must bind an existing message from the same ticket''))"

record run_transition =
  rt_status :: string
  rt_checkpoint_stage :: string
  rt_checkpoint_id :: "string option"
  rt_agent_finish_reason :: "string option"
  rt_error_code :: "string option"
  rt_tool_rounds :: "nat option"
  rt_tool_attempts :: "nat option"
  rt_llm_calls :: "nat option"

definition raise_to :: "nat option \<Rightarrow> nat \<Rightarrow> nat" where
  "raise_to x n = (case x of None \<Rightarrow> n | Some m \<Rightarrow> max n m)"

definition transition_run :: "int \<Rightarrow> run_transition \<Rightarrow> agent_run \<Rightarrow> agent_run" where
  "transition_run now t r =
     r\<lparr>run_status := rt_status t, run_checkpoint_stage := rt_checkpoint_stage t,
       run_checkpoint_id := rt_checkpoint_id t, run_agent_finish_reason := rt_agent_finish_reason t,
       run_error_code := rt_error_code t,
       run_tool_rounds := raise_to (rt_tool_rounds t) (run_tool_rounds r),
       run_tool_attempts := raise_to (rt_tool_attempts t) (run_tool_attempts r),
       run_llm_calls := raise_to (rt_llm_calls t) (run_llm_calls r),
       run_completed_at := (if rt_status t \<in> {''completed'', ''failed''} then Some now
         else run_completed_at r)\<rparr>"

section \<open>Appending keeps the chain\<close>

lemma hashed_text_event_hash [simp]: "hashed_text (e\<lparr>ev_event_hash := x\<rparr>) p = hashed_text e p"
  by (simp add: hashed_text_def event_envelope_def)

lemma event_hash_event_hash [simp]: "event_hash H (e\<lparr>ev_event_hash := x\<rparr>) p = event_hash H e p"
  by (simp add: event_hash_def)

definition chain_end ::
  "(string \<times> string) option \<Rightarrow> agent_event list \<Rightarrow> (string \<times> string) option" where
  "chain_end parent es =
     (if es = [] then parent else Some (ev_id (last es), ev_run_id (last es)))"

lemma chain_end_Nil: "chain_end parent [] = parent"
  by (simp add: chain_end_def)

lemma chain_end_Cons: "chain_end parent (e # es) = chain_end (Some (ev_id e, ev_run_id e)) es"
  by (simp add: chain_end_def)

lemma verify_links_snoc:
  "verify_links H seq ph parent (es @ [e]) =
     (case verify_links H seq ph parent es of Inl x \<Rightarrow> Inl x
      | Inr h \<Rightarrow> if link_ok H (seq + length es) h (chain_end parent es) e then Inr (ev_event_hash e)
               else Inl (RuntimeError ''ticket_event_chain_invalid''))"
  by (induction es arbitrary: seq ph parent) (auto simp: chain_end_Cons chain_end_Nil split: sum.split)

lemma verify_links_last:
  "verify_links H seq ph parent es = Inr h \<Longrightarrow> es \<noteq> [] \<Longrightarrow>
     h = ev_event_hash (last es) \<and> ev_ticket_sequence (last es) = seq + length es - 1"
proof (induction es rule: rev_induct)
  case (snoc e es)
  then show ?case by (auto simp: verify_links_snoc link_ok_def split: sum.splits if_splits)
qed simp

text \<open>Sorting a list whose new last element is the largest leaves it last.\<close>

lemma sort_key_snoc:
  assumes "\<And>x. x \<in> set xs \<Longrightarrow> f x \<le> f e"
  shows "sort_key f (xs @ [e]) = sort_key f xs @ [e]"
proof (rule properties_for_sort_key)
  show "sorted (map f (sort_key f xs @ [e]))" using assms by (auto simp: sorted_append)
  fix k assume "k \<in> set (sort_key f xs @ [e])"
  show "filter (\<lambda>x. f k = f x) (sort_key f xs @ [e]) = filter (\<lambda>x. f k = f x) (xs @ [e])"
    using sort_key_stable [of f "f k" xs] by (simp add: eq_commute)
qed simp

lemma ticket_events_set: "set (ticket_events d tid) = {e \<in> set (events d). ev_ticket_id e = tid}"
  by (auto simp: ticket_events_def)

lemma head_event_last:
  "head_event d tid = (if ticket_events d tid = [] then None else Some (last (ticket_events d tid)))"
  by (cases "ticket_events d tid" rule: rev_cases) (auto simp: head_event_def)

lemma head_event_max: "head_event d tid = Some p \<Longrightarrow> e \<in> set (ticket_events d tid) \<Longrightarrow>
    ev_ticket_sequence e \<le> ev_ticket_sequence p"
proof -
  assume p: "head_event d tid = Some p" and e: "e \<in> set (ticket_events d tid)"
  then obtain es where es: "ticket_events d tid = es @ [p]"
    by (cases "ticket_events d tid" rule: rev_cases) (auto simp: head_event_def)
  have "sorted (map ev_ticket_sequence (ticket_events d tid))" by (simp add: ticket_events_def)
  with es e show ?thesis by (auto simp: sorted_append)
qed

lemma append_event_Inr:
  assumes "append_event H redact worker eid clock d rid rq = Inr (e, d')"
  obtains r tk where "lookup_by run_id rid (runs d) = Some r"
    "lookup_by tk_id (run_ticket_id r) (tickets d) = Some tk"
    "head_conflict tk (head_event d (run_ticket_id r)) rq = None"
    "e = new_event H redact r tk (head_event d (run_ticket_id r)) worker rq eid clock"
    "ev_id e \<notin> ev_id ` set (events d)" "events d' = events d @ [e]"
  using assms
  by (auto simp: append_event_def Let_def upd_defs insert_row_Inr
      split: option.splits if_splits sum.splits)

lemma head_conflict_sequence:
  "head_conflict tk parent rq = None \<Longrightarrow>
     tk_next_event_sequence tk = (case parent of None \<Rightarrow> 0 | Some p \<Rightarrow> ev_ticket_sequence p)"
  by (auto simp: head_conflict_def Let_def split: if_splits)

lemma new_event_fields:
  "ev_ticket_id (new_event H redact r tk parent w rq eid clock) = run_ticket_id r"
  "ev_run_id (new_event H redact r tk parent w rq eid clock) = run_id r"
  "ev_id (new_event H redact r tk parent w rq eid clock) = eid"
  "ev_ticket_sequence (new_event H redact r tk parent w rq eid clock) = Suc (tk_next_event_sequence tk)"
  by (simp_all add: new_event_def Let_def)

lemma new_event_link:
  assumes "head_conflict tk parent rq = None"
  shows "link_ok H (case parent of None \<Rightarrow> 1 | Some p \<Rightarrow> Suc (ev_ticket_sequence p))
    (case parent of None \<Rightarrow> GENESIS_EVENT_HASH | Some p \<Rightarrow> ev_event_hash p)
    (case parent of None \<Rightarrow> None | Some p \<Rightarrow> Some (ev_id p, ev_run_id p))
    (new_event H redact r tk parent w rq eid clock)"
  using head_conflict_sequence [OF assms]
  by (cases parent)
    (auto simp: link_ok_def new_event_def Let_def event_hash_def hashed_text_def event_envelope_def)

lemma append_event_ticket_events:
  assumes "append_event H redact worker eid clock d rid rq = Inr (e, d')"
  shows "ticket_events d' tid =
    (if tid = ev_ticket_id e then ticket_events d tid @ [e] else ticket_events d tid)"
proof -
  from assms obtain r tk where hc: "head_conflict tk (head_event d (run_ticket_id r)) rq = None"
    and e: "e = new_event H redact r tk (head_event d (run_ticket_id r)) worker rq eid clock"
    and ev: "events d' = events d @ [e]" by (rule append_event_Inr)
  have tid: "ev_ticket_id e = run_ticket_id r" by (simp add: e new_event_fields)
  have "ev_ticket_sequence x \<le> ev_ticket_sequence e" if "x \<in> set (ticket_events d (ev_ticket_id e))" for x
  proof -
    from that have "ticket_events d (ev_ticket_id e) \<noteq> []" by auto
    then obtain p where p: "head_event d (ev_ticket_id e) = Some p" by (simp add: head_event_last)
    then have "ev_ticket_sequence e = Suc (ev_ticket_sequence p)"
      using head_conflict_sequence [OF hc] tid by (simp add: e new_event_fields)
    with head_event_max [OF p that] show ?thesis by simp
  qed
  then show ?thesis
    using sort_key_snoc [of "filter (\<lambda>x. ev_ticket_id x = ev_ticket_id e) (events d)" ev_ticket_sequence e]
    by (auto simp: ticket_events_def ev)
qed

text \<open>A ticket's log is intact when it is empty or verifies.\<close>

definition chain_intact :: "(string \<Rightarrow> string) \<Rightarrow> db \<Rightarrow> string \<Rightarrow> bool" where
  "chain_intact H d tid =
     (ticket_events d tid = [] \<or> (\<exists>h. verify_ticket_event_chain H d tid = Inr h))"

lemma verify_ticket_event_chain_links:
  "verify_ticket_event_chain H d tid = Inr h \<longleftrightarrow> ticket_events d tid \<noteq> [] \<and>
     verify_links H 1 GENESIS_EVENT_HASH None (ticket_events d tid) = Inr h"
  by (auto simp: verify_ticket_event_chain_def split: list.splits)

text \<open>C23. appending an event to an intact ticket log gives a log that verifies, with the new event's
  digest as its head, extends the ticket's events by exactly that event, and leaves every other
  ticket's log as it was.\<close>

theorem append_event_extends_chain:
  assumes "append_event H redact worker eid clock d rid rq = Inr (e, d')"
    and "chain_intact H d (ev_ticket_id e)"
  shows "verify_ticket_event_chain H d' (ev_ticket_id e) = Inr (ev_event_hash e) \<and>
    ticket_events d' (ev_ticket_id e) = ticket_events d (ev_ticket_id e) @ [e] \<and>
    (\<forall>tid. tid \<noteq> ev_ticket_id e \<longrightarrow>
       verify_ticket_event_chain H d' tid = verify_ticket_event_chain H d tid)"
proof -
  from assms(1) obtain r tk where hc: "head_conflict tk (head_event d (run_ticket_id r)) rq = None"
    and e: "e = new_event H redact r tk (head_event d (run_ticket_id r)) worker rq eid clock"
    by (rule append_event_Inr)
  let ?es = "ticket_events d (ev_ticket_id e)"
  have tid: "run_ticket_id r = ev_ticket_id e" by (simp add: e new_event_fields)
  have new: "ticket_events d' (ev_ticket_id e) = ?es @ [e]"
    using append_event_ticket_events [OF assms(1)] by simp
  obtain h where h: "verify_links H 1 GENESIS_EVENT_HASH None ?es = Inr h"
    using assms(2) by (auto simp: chain_intact_def verify_ticket_event_chain_links)
  note link = new_event_link [OF hc, of H redact r worker eid clock, folded e, unfolded tid]
  have "link_ok H (1 + length ?es) h (chain_end None ?es) e"
  proof (cases "?es = []")
    case True
    with link h show ?thesis by (simp add: head_event_last chain_end_def)
  next
    case False
    with link verify_links_last [OF h] show ?thesis by (simp add: head_event_last chain_end_def)
  qed
  with h new have "verify_ticket_event_chain H d' (ev_ticket_id e) = Inr (ev_event_hash e)"
    by (simp add: verify_ticket_event_chain_links verify_links_snoc)
  moreover have "verify_ticket_event_chain H d' tid = verify_ticket_event_chain H d tid"
    if "tid \<noteq> ev_ticket_id e" for tid
    using append_event_ticket_events [OF assms(1)] that by (simp add: verify_ticket_event_chain_def)
  ultimately show ?thesis using new by blast
qed

section \<open>Tamper evidence\<close>

definition chain_texts :: "agent_event list \<Rightarrow> string set" where
  "chain_texts es = (\<lambda>e. hashed_text e (ev_parent_event_hash e)) ` set es"

lemma link_ok_hash:
  "link_ok H seq ph parent e \<Longrightarrow>
     ev_event_hash e = H (hashed_text e ph) \<and> ev_parent_event_hash e = ph \<and>
     ev_event_hash_schema_version e = EVENT_HASH_SCHEMA_VERSION"
  by (simp add: link_ok_def event_hash_def)

lemma hashed_text_split:
  assumes "hashed_text e p = hashed_text f q" "length p = length q"
    "ev_event_hash_schema_version e = ev_event_hash_schema_version f"
  shows "json_dumps (event_envelope e) = json_dumps (event_envelope f) \<and> p = q"
  using assms by (simp add: hashed_text_def)

lemma chains_same_head:
  assumes "verify_links H 1 GENESIS_EVENT_HASH None es = Inr h"
    and "verify_links H 1 GENESIS_EVENT_HASH None fs = Inr h"
    and "inj_on H T" "chain_texts es \<union> chain_texts fs \<subseteq> T"
    and "\<forall>x \<in> T. length (H x) = 64 \<and> H x \<noteq> GENESIS_EVENT_HASH"
  shows "map (\<lambda>e. json_dumps (event_envelope e)) es = map (\<lambda>e. json_dumps (event_envelope e)) fs"
  using assms
proof (induction es arbitrary: h fs rule: rev_induct)
  case Nil
  show ?case
  proof (cases fs rule: rev_cases)
    case (snoc fs' f)
    with Nil have f: "ev_event_hash f = GENESIS_EVENT_HASH" "\<exists>s p q. link_ok H s p q f"
      by (auto simp: verify_links_snoc split: sum.splits if_splits)
    then have "H (hashed_text f (ev_parent_event_hash f)) = GENESIS_EVENT_HASH"
      using link_ok_hash by metis
    moreover have "hashed_text f (ev_parent_event_hash f) \<in> T"
      using Nil.prems(4) snoc by (auto simp: chain_texts_def)
    ultimately show ?thesis using Nil.prems(5) by auto
  qed simp
next
  case (snoc e es)
  obtain hp where hp: "verify_links H 1 GENESIS_EVENT_HASH None es = Inr hp"
    and le: "link_ok H (1 + length es) hp (chain_end None es) e" and he: "h = ev_event_hash e"
    using snoc.prems(1) by (auto simp: verify_links_snoc split: sum.splits if_splits)
  have te: "hashed_text e hp \<in> T" using snoc.prems(4) link_ok_hash [OF le] by (auto simp: chain_texts_def)
  have "fs \<noteq> []" using snoc.prems(2,5) te he link_ok_hash [OF le] by auto
  then obtain fs' f where fs: "fs = fs' @ [f]" by (cases fs rule: rev_cases) auto
  obtain hq where hq: "verify_links H 1 GENESIS_EVENT_HASH None fs' = Inr hq"
    and lf: "link_ok H (1 + length fs') hq (chain_end None fs') f" and hf: "h = ev_event_hash f"
    using snoc.prems(2) fs by (auto simp: verify_links_snoc split: sum.splits if_splits)
  have tf: "hashed_text f hq \<in> T"
    using snoc.prems(4) link_ok_hash [OF lf] fs by (auto simp: chain_texts_def)
  have len: "length x = 64" if "verify_links H 1 GENESIS_EVENT_HASH None gs = Inr x"
    "chain_texts gs \<subseteq> T" for gs x
  proof (cases gs rule: rev_cases)
    case Nil
    with that show ?thesis by (auto simp: GENESIS_EVENT_HASH_def)
  next
    case (snoc gs' g)
    with that(1) obtain s p q where l: "link_ok H s p q g" "x = ev_event_hash g"
      by (auto simp: verify_links_snoc split: sum.splits if_splits)
    moreover have "hashed_text g (ev_parent_event_hash g) \<in> T"
      using that(2) snoc by (auto simp: chain_texts_def)
    ultimately show ?thesis using assms(5) link_ok_hash [OF l(1)] by auto
  qed
  have sub: "chain_texts es \<subseteq> T" "chain_texts fs' \<subseteq> T"
    using snoc.prems(4) fs by (auto simp: chain_texts_def)
  have "hashed_text e hp = hashed_text f hq"
    using link_ok_hash [OF le] link_ok_hash [OF lf] he hf te tf assms(3) by (metis inj_onD)
  then have "json_dumps (event_envelope e) = json_dumps (event_envelope f)" "hp = hq"
    using hashed_text_split len [OF hp sub(1)] len [OF hq sub(2)] link_ok_hash [OF le] link_ok_hash [OF lf]
    by metis+
  moreover have "map (\<lambda>e. json_dumps (event_envelope e)) es = map (\<lambda>e. json_dumps (event_envelope e)) fs'"
    using snoc.IH [OF hp _ assms(3) _ assms(5), of fs'] hq \<open>hp = hq\<close> sub by simp
  ultimately show ?case using fs by simp
qed

text \<open>C24. two databases in which a ticket's log verifies with the same head digest hold the same
  events, byte for byte in the canonical envelope, as long as the digest has no collision among the
  texts of the two logs, is 64 characters long and is never the genesis constant.  A log can
  therefore not be edited, reordered, truncated or extended under an unchanged head.\<close>

theorem same_head_same_log:
  assumes "verify_ticket_event_chain H d tid = Inr h" "verify_ticket_event_chain H d' tid = Inr h"
    and "inj_on H (chain_texts (ticket_events d tid) \<union> chain_texts (ticket_events d' tid))"
    and "\<forall>x \<in> chain_texts (ticket_events d tid) \<union> chain_texts (ticket_events d' tid).
      length (H x) = 64 \<and> H x \<noteq> GENESIS_EVENT_HASH"
  shows "map (\<lambda>e. json_dumps (event_envelope e)) (ticket_events d tid) =
    map (\<lambda>e. json_dumps (event_envelope e)) (ticket_events d' tid)"
  using chains_same_head [OF _ _ assms(3) subset_refl assms(4)] assms(1,2)
  by (simp add: verify_ticket_event_chain_links)

section \<open>Evaluated examples\<close>

definition sample_clock :: pydatetime where
  "sample_clock = \<lparr>dt_year = 2026, dt_month = 1, dt_day = 2, dt_hour = 3, dt_minute = 4, dt_second = 5,
     dt_micro = 6, dt_offset = Some 0\<rparr>"

definition sample_digest :: "string \<Rightarrow> string" where
  "sample_digest s = replicate 64 (CHR ''a'')"

definition sample_request :: event_request where
  "sample_request =
     \<lparr>rq_event_type = ''decision'', rq_payload = PDict [(''k'', PInt 1)], rq_visibility = ''internal'',
      rq_status = ''completed'', rq_tool_call_id = None, rq_step_index = None, rq_tool_round = None,
      rq_idempotency_id = None, rq_expected_head_id = Expect None, rq_expected_sequence = Some 0,
      rq_expected_hash = Unchecked\<rparr>"

lemma sample_append:
  obtains e d' where
    "append_event sample_digest (\<lambda>s. s) None ''e1'' sample_clock sample_db ''r1'' sample_request = Inr (e, d')"
    "ev_ticket_id e = ''t1''" "ev_event_hash e = replicate 64 (CHR ''a'')"
proof -
  define e where "e = new_event sample_digest (\<lambda>s. s) sample_run sample_ticket None None sample_request
    ''e1'' sample_clock"
  have "ev_event_hash e = replicate 64 (CHR ''a'')"
    by (simp add: e_def new_event_def Let_def event_hash_def sample_digest_def)
  moreover have "ev_ticket_id e = ''t1''" by (simp add: e_def new_event_fields sample_run_def)
  moreover have "\<exists>d'. append_event sample_digest (\<lambda>s. s) None ''e1'' sample_clock sample_db ''r1''
      sample_request = Inr (e, d')"
    by (simp add: append_event_def e_def lookup_by_def head_event_def ticket_events_def
        head_conflict_def sample_request_def insert_row_def Let_def sample_defs max_of_def)
  ultimately show ?thesis using that by blast
qed

lemma sample_intact: "chain_intact H sample_db tid"
  by (simp add: chain_intact_def ticket_events_def sample_defs)

theorem append_event_extends_chain_witness:
  "\<exists>e d'. append_event sample_digest (\<lambda>s. s) None ''e1'' sample_clock sample_db ''r1'' sample_request =
     Inr (e, d') \<and> verify_ticket_event_chain sample_digest d' ''t1'' = Inr (replicate 64 (CHR ''a''))"
  using append_event_extends_chain [OF _ sample_intact] sample_append by metis

theorem same_head_same_log_witness:
  "\<exists>e d'. append_event sample_digest (\<lambda>s. s) None ''e1'' sample_clock sample_db ''r1'' sample_request =
       Inr (e, d') \<and> ticket_events d' ''t1'' = [e] \<and>
     map (\<lambda>e. json_dumps (event_envelope e)) (ticket_events d' ''t1'') =
       map (\<lambda>e. json_dumps (event_envelope e)) (ticket_events (d'\<lparr>jobs := []\<rparr>) ''t1'')"
proof -
  obtain e d' where a: "append_event sample_digest (\<lambda>s. s) None ''e1'' sample_clock sample_db ''r1''
      sample_request = Inr (e, d')" and t: "ev_ticket_id e = ''t1''"
    by (rule sample_append)
  have es: "ticket_events d' ''t1'' = [e]" "ticket_events (d'\<lparr>jobs := []\<rparr>) ''t1'' = [e]"
    using append_event_ticket_events [OF a, of "''t1''"] t by (simp_all add: ticket_events_def sample_defs)
  obtain r tk where hc: "head_conflict tk (head_event sample_db (run_ticket_id r)) sample_request = None"
    and e: "e = new_event sample_digest (\<lambda>s. s) r tk (head_event sample_db (run_ticket_id r)) None
      sample_request ''e1'' sample_clock"
    using a by (rule append_event_Inr)
  have none: "head_event sample_db x = None" for x
    by (simp add: head_event_def ticket_events_def sample_defs)
  have "link_ok sample_digest 1 GENESIS_EVENT_HASH None e"
    using new_event_link [OF hc, of sample_digest "\<lambda>s. s" r None "''e1''" sample_clock] e none by simp
  then have v: "verify_ticket_event_chain sample_digest x ''t1'' = Inr (ev_event_hash e)"
    if "ticket_events x ''t1'' = [e]" for x
    by (simp add: verify_ticket_event_chain_def that)
  have "map (\<lambda>e. json_dumps (event_envelope e)) (ticket_events d' ''t1'') =
       map (\<lambda>e. json_dumps (event_envelope e)) (ticket_events (d'\<lparr>jobs := []\<rparr>) ''t1'')"
    by (rule same_head_same_log [OF v v]) (auto simp: es chain_texts_def sample_digest_def GENESIS_EVENT_HASH_def)
  with a es show ?thesis by blast
qed

end
