(* ===== verification/Turn_Activation.thy ===== *)
theory Turn_Activation
  imports Event_Chain
begin

text \<open>
  \<open>services/turn_activation.py\<close> and \<open>services/conversation_activity.py\<close>: promoting the oldest accepted
  turn of a ticket to a queued run with its job and outbox row, and the customer-visible message
  clock.  What the services take from outside the transaction (the digest, the redaction, the worker
  context, the provenance of a run, the clocks and fresh identifiers) is the record \<open>world\<close>.  The
  branch modelled is the one for a database that is not PostgreSQL, in which the application
  allocates the dispatch sequence.
\<close>

record world =
  w_digest :: "string \<Rightarrow> string"
  w_redact :: "string \<Rightarrow> string"
  w_worker :: "worker_context option"
  w_provenance :: "string \<Rightarrow> string \<Rightarrow> string \<Rightarrow> string \<Rightarrow> pydict"
  w_new_id :: "string \<Rightarrow> string"
  w_now :: int            \<comment> \<open>\<open>SELECT now()\<close>\<close>
  w_clock :: pydatetime   \<comment> \<open>\<open>datetime.now(UTC)\<close>\<close>

text \<open>\<open>runtime_provenance\<close> of the run's model, provider mode, tool-call mode and context version.\<close>

definition provenance_of :: "world \<Rightarrow> run_request \<Rightarrow> pydict" where
  "provenance_of w q =
     w_provenance w (rr_model q) (rr_provider_mode q) (rr_tool_call_mode q) (rr_context_version q)"

section \<open>The conversation clock\<close>

definition advance_conversation_activity :: "int \<Rightarrow> support_ticket \<Rightarrow> support_ticket" where
  "advance_conversation_activity activity_at tk =
     (case tk_last_message_at tk of
        None \<Rightarrow> tk\<lparr>tk_last_message_at := Some activity_at\<rparr>
      | Some current \<Rightarrow>
          if activity_at > current then tk\<lparr>tk_last_message_at := Some activity_at\<rparr> else tk)"

lemma advance_conversation_activity_max:
  "tk_last_message_at (advance_conversation_activity a tk) =
     Some (case tk_last_message_at tk of None \<Rightarrow> a | Some c \<Rightarrow> max a c)"
  by (auto simp: advance_conversation_activity_def split: option.split)

section \<open>Promotion of the oldest accepted turn\<close>

definition CONTEXT_VERSION :: string where "CONTEXT_VERSION = ''context-v1.2''"

definition turn_active :: "string \<Rightarrow> conversation_turn \<Rightarrow> bool" where
  "turn_active tid t = (tn_ticket_id t = tid \<and> tn_activity_state t \<in> {''queued'', ''running''})"

definition accepted_turn :: "db \<Rightarrow> string \<Rightarrow> conversation_turn option" where
  "accepted_turn d tid =
     (case sort_key (\<lambda>t. (tn_ordinal t, tn_id t))
             (filter (\<lambda>t. tn_ticket_id t = tid \<and> tn_activity_state t = ''accepted'') (turns d)) of
        [] \<Rightarrow> None | t # _ \<Rightarrow> Some t)"

definition falsy_str :: "string option \<Rightarrow> bool" where
  "falsy_str x = (x = None \<or> x = Some [])"

definition str_or :: "string option \<Rightarrow> string \<Rightarrow> string" where
  "str_or x y = (case x of None \<Rightarrow> y | Some s \<Rightarrow> if s = [] then y else s)"

definition new_runtime_job ::
  "int \<Rightarrow> string \<Rightarrow> string \<Rightarrow> string \<Rightarrow> string \<Rightarrow> nat \<Rightarrow> string \<Rightarrow> string option \<Rightarrow> runtime_job" where
  "new_runtime_job now jid tenant tid rid seq kind approval =
     \<lparr>job_id = jid, job_tenant_id = tenant, job_ticket_id = tid, job_run_id = rid,
      job_dispatch_sequence = seq, job_kind = kind, job_approval_id = approval,
      job_status = ''queued'', job_status_version = 1, job_attempt = 0, job_lease_owner = None,
      job_fencing_token = 0, job_lease_expires_at = None, job_heartbeat_at = None,
      job_available_at = now, job_created_at = now, job_outcome = None, job_last_error = None\<rparr>"

definition new_outbox ::
  "int \<Rightarrow> string \<Rightarrow> string \<Rightarrow> string \<Rightarrow> string \<Rightarrow> string \<Rightarrow> nat \<Rightarrow> pydict \<Rightarrow> outbox_event" where
  "new_outbox now oid delivery tenant jid rid generation payload =
     \<lparr>ox_id = oid, ox_delivery_id = delivery, ox_tenant_id = tenant, ox_job_id = jid, ox_run_id = rid,
      ox_delivery_generation = generation, ox_event_type = ''runtime_job_available'', ox_payload = payload,
      ox_redis_message_id = None, ox_available_at = now, ox_published_at = None, ox_last_delivery_at = None,
      ox_publish_attempts = 0, ox_superseded_at = None, ox_superseded_by_delivery_id = None,
      ox_delivery_state_version = 1, ox_created_at = now\<rparr>"

lemma new_outbox_fields [simp]:
  "ox_id (new_outbox now oid dv tenant jid rid g pl) = oid"
  "ox_delivery_id (new_outbox now oid dv tenant jid rid g pl) = dv"
  "ox_tenant_id (new_outbox now oid dv tenant jid rid g pl) = tenant"
  "ox_job_id (new_outbox now oid dv tenant jid rid g pl) = jid"
  "ox_run_id (new_outbox now oid dv tenant jid rid g pl) = rid"
  "ox_delivery_generation (new_outbox now oid dv tenant jid rid g pl) = g"
  "ox_event_type (new_outbox now oid dv tenant jid rid g pl) = ''runtime_job_available''"
  "ox_payload (new_outbox now oid dv tenant jid rid g pl) = pl"
  "ox_published_at (new_outbox now oid dv tenant jid rid g pl) = None"
  "ox_superseded_at (new_outbox now oid dv tenant jid rid g pl) = None"
  by (simp_all add: new_outbox_def)

definition turn_run_request :: "support_ticket \<Rightarrow> conversation_turn \<Rightarrow> run_request" where
  "turn_run_request tk t =
     \<lparr>rr_ticket_id = tk_id tk, rr_customer_id = tk_customer_id tk,
      rr_message_id = tn_customer_message_id t, rr_model = the (tn_model t),
      rr_provider_mode = the (tn_provider_mode t), rr_tool_call_mode = the (tn_tool_call_mode t),
      rr_context_version = str_or (tn_context_version t) CONTEXT_VERSION\<rparr>"

definition bind_turn :: "support_ticket \<Rightarrow> conversation_turn \<Rightarrow> agent_run \<Rightarrow> db \<Rightarrow> db" where
  "bind_turn tk t r d =
     upd_run (run_id r) (\<lambda>x. x\<lparr>run_status := ''queued'', run_turn_id := Some (tn_id t)\<rparr>)
      (upd_turn (tn_id t) (\<lambda>x. x\<lparr>tn_run_id := Some (run_id r), tn_activity_state := ''queued''\<rparr>)
        (upd_ticket (tk_id tk)
          (\<lambda>x. x\<lparr>tk_next_dispatch_sequence := Suc (tk_next_dispatch_sequence x), tk_status := ''queued'',
             tk_version := Suc (tk_version x)\<rparr>)
          (d\<lparr>messages := update_by msg_id (tn_customer_message_id t)
             (\<lambda>m. m\<lparr>msg_run_id := Some (run_id r)\<rparr>) (messages d)\<rparr>)))"

definition activate_next_turn ::
  "world \<Rightarrow> db \<Rightarrow> support_ticket \<Rightarrow> string \<Rightarrow> ((agent_run \<times> runtime_job) option \<times> db) result" where
  "activate_next_turn w d tk trace_id =
     (if list_ex (turn_active (tk_id tk)) (turns d) \<or> tk_automation_mode tk \<noteq> ''agent'' \<or>
         tk_lifecycle tk \<noteq> ''active'' then Inr (None, d)
      else (case accepted_turn d (tk_id tk) of
          None \<Rightarrow> Inr (None, d)
        | Some t \<Rightarrow>
            if falsy_str (tn_model t) \<or> falsy_str (tn_provider_mode t) \<or> falsy_str (tn_tool_call_mode t)
            then Inl (RuntimeConflict ''accepted_turn_runtime_identity_missing'')
            else
              (let q = turn_run_request tk t in
               case create_run (w_digest w) (w_redact w) (w_worker w) (provenance_of w q)
                      (w_new_id w ''run'') (w_new_id w ''event'') (w_clock w) d q of
                 Inl e \<Rightarrow> Inl e
               | Inr (r, d1) \<Rightarrow>
                   (case lookup_by msg_id (tn_customer_message_id t) (messages d1) of
                      None \<Rightarrow> Inl (RuntimeConflict ''accepted_turn_customer_message_missing'')
                    | Some m \<Rightarrow>
                        (let d2 = bind_turn tk t r d1;
                             job = new_runtime_job (w_now w) (w_new_id w ''job'') (tk_tenant_id tk)
                               (tk_id tk) (run_id r) (Suc (tk_next_dispatch_sequence tk))
                               ''agent_start'' None;
                             ob = new_outbox (w_now w) (w_new_id w ''outbox'') (w_new_id w ''delivery'') (tk_tenant_id tk)
                               (job_id job) (run_id r) 1 [(''traceparent'', PStr trace_id)]
                         in case insert_row job_id job (jobs d2) of
                              Inl e \<Rightarrow> Inl e
                            | Inr js \<Rightarrow>
                                (case insert_row ox_id ob (outbox d2) of
                                   Inl e \<Rightarrow> Inl e
                                 | Inr obs \<Rightarrow>
                                     Inr (Some (r\<lparr>run_status := ''queued'', run_turn_id := Some (tn_id t)\<rparr>,
                                           job),
                                       d2\<lparr>jobs := js, outbox := obs\<rparr>)))))))"

section \<open>What promotion changes\<close>

lemma accepted_turn_Some:
  assumes "accepted_turn d tid = Some t"
  shows "t \<in> set (turns d)" "tn_ticket_id t = tid" "tn_activity_state t = ''accepted''"
    "\<And>u. u \<in> set (turns d) \<Longrightarrow> tn_ticket_id u = tid \<Longrightarrow> tn_activity_state u = ''accepted'' \<Longrightarrow>
       (tn_ordinal t, tn_id t) \<le> (tn_ordinal u, tn_id u)"
proof -
  let ?k = "\<lambda>t. (tn_ordinal t, tn_id t)"
  let ?f = "filter (\<lambda>t. tn_ticket_id t = tid \<and> tn_activity_state t = ''accepted'') (turns d)"
  obtain ts where s: "sort_key ?k ?f = t # ts"
    using assms by (auto simp: accepted_turn_def split: list.splits)
  have "set (sort_key ?k ?f) = set ?f" by simp
  with s have mem: "t \<in> set ?f" by auto
  then show "t \<in> set (turns d)" "tn_ticket_id t = tid" "tn_activity_state t = ''accepted''" by auto
  have "sorted (map ?k (t # ts))" using sorted_sort_key [of ?k ?f] unfolding s .
  then have le: "?k t \<le> ?k u" if "u \<in> set (t # ts)" for u using that by auto
  fix u assume "u \<in> set (turns d)" "tn_ticket_id u = tid" "tn_activity_state u = ''accepted''"
  then have "u \<in> set (sort_key ?k ?f)" by simp
  with s le show "?k t \<le> ?k u" by simp
qed

lemma append_event_frame:
  assumes "append_event H redact worker eid clock d rid rq = Inr (e, d')"
  shows "turns d' = turns d" "jobs d' = jobs d" "messages d' = messages d" "outbox d' = outbox d"
    "approvals d' = approvals d" "proposals d' = proposals d" "markers d' = markers d"
    "map tk_id (tickets d') = map tk_id (tickets d)"
    "map tk_next_dispatch_sequence (tickets d') = map tk_next_dispatch_sequence (tickets d)"
  using assms
  by (auto simp: append_event_def Let_def upd_defs update_by_def split: option.splits if_splits sum.splits)

lemma create_run_frame:
  assumes "create_run H redact worker prov rid eid clock d q = Inr (r, d')"
  shows "turns d' = turns d" "jobs d' = jobs d" "messages d' = messages d" "outbox d' = outbox d"
    "approvals d' = approvals d" "proposals d' = proposals d" "markers d' = markers d"
    "map tk_id (tickets d') = map tk_id (tickets d)"
    "map tk_next_dispatch_sequence (tickets d') = map tk_next_dispatch_sequence (tickets d)"
  using assms
  by (auto simp: create_run_def Let_def dest: append_event_frame
      split: option.splits if_splits sum.splits prod.splits)

lemma filter_update_by_unique:
  assumes "distinct (map key rows)" "t \<in> set rows" "P (f t)" "\<not> list_ex P rows"
  shows "filter P (update_by key (key t) f rows) = [f t]"
  using assms
proof (induction rows)
  case (Cons x xs)
  show ?case
  proof (cases "x = t")
    case True
    with Cons.prems(1) have "\<forall>y \<in> set xs. key y \<noteq> key t" by (auto simp: image_iff)
    then have "update_by key (key t) f xs = xs" by (simp add: update_by_def map_idI)
    moreover have "filter P xs = []" using Cons.prems(4) by (auto simp: filter_empty_conv list_ex_iff)
    ultimately show ?thesis using True Cons.prems(3) by (simp add: update_by_def)
  next
    case False
    with Cons.prems have "key x \<noteq> key t" "t \<in> set xs" by auto
    with Cons show ?thesis by (simp add: update_by_def)
  qed
qed simp

lemma activate_next_turn_Some:
  assumes "activate_next_turn w d tk trace = Inr (Some (r, job), d')"
  obtains t r0 d1 ob where "\<not> list_ex (turn_active (tk_id tk)) (turns d)"
    "tk_automation_mode tk = ''agent''" "tk_lifecycle tk = ''active''"
    "accepted_turn d (tk_id tk) = Some t"
    "create_run (w_digest w) (w_redact w) (w_worker w) (provenance_of w (turn_run_request tk t))
       (w_new_id w ''run'') (w_new_id w ''event'') (w_clock w) d (turn_run_request tk t) = Inr (r0, d1)"
    "r = r0\<lparr>run_status := ''queued'', run_turn_id := Some (tn_id t)\<rparr>"
    "job = new_runtime_job (w_now w) (w_new_id w ''job'') (tk_tenant_id tk) (tk_id tk) (run_id r0)
       (Suc (tk_next_dispatch_sequence tk)) ''agent_start'' None"
    "ox_job_id ob = job_id job" "ox_run_id ob = run_id r0"
    "ox_delivery_generation ob = 1" "ox_id ob \<notin> ox_id ` set (outbox d)"
    "job_id job \<notin> job_id ` set (jobs d)"
    "d' = (bind_turn tk t r0 d1)\<lparr>jobs := jobs d @ [job], outbox := outbox d @ [ob]\<rparr>"
proof -
  from assms obtain t r0 d1 where 1: "\<not> list_ex (turn_active (tk_id tk)) (turns d)"
      "tk_automation_mode tk = ''agent''" "tk_lifecycle tk = ''active''"
      "accepted_turn d (tk_id tk) = Some t" and
    2: "create_run (w_digest w) (w_redact w) (w_worker w) (provenance_of w (turn_run_request tk t))
       (w_new_id w ''run'') (w_new_id w ''event'') (w_clock w) d (turn_run_request tk t) = Inr (r0, d1)"
    by (auto simp: activate_next_turn_def Let_def split: option.splits if_splits sum.splits)
  have fr: "jobs (bind_turn tk t r0 d1) = jobs d" "outbox (bind_turn tk t r0 d1) = outbox d"
    using create_run_frame [OF 2] by (simp_all add: bind_turn_def upd_defs)
  from assms 1 2 fr show ?thesis
    by (auto simp: activate_next_turn_def Let_def insert_row_Inr split: option.splits if_splits sum.splits
        intro!: that [OF 1 2])
qed

lemma bind_turn_turns [simp]:
  "turns (bind_turn tk t r d) = update_by tn_id (tn_id t)
     (\<lambda>x. x\<lparr>tn_run_id := Some (run_id r), tn_activity_state := ''queued''\<rparr>) (turns d)"
  by (simp add: bind_turn_def upd_defs)

text \<open>a promotion takes the ticket's accepted turn that is least in (ordinal, id); afterwards that
  turn, queued and bound to the run, is the ticket's only active turn; exactly one job, on the next
  dispatch sequence of the ticket, and one outbox row for it are written.\<close>

theorem activate_next_turn_promotes_oldest:
  assumes "activate_next_turn w d tk trace = Inr (Some (r, job), d')"
    and "distinct (map tn_id (turns d))"
  shows "\<exists>t ob. t \<in> set (turns d) \<and> tn_ticket_id t = tk_id tk \<and> tn_activity_state t = ''accepted'' \<and>
    (\<forall>u \<in> set (turns d). tn_ticket_id u = tk_id tk \<and> tn_activity_state u = ''accepted'' \<longrightarrow>
       (tn_ordinal t, tn_id t) \<le> (tn_ordinal u, tn_id u)) \<and>
    filter (turn_active (tk_id tk)) (turns d') =
      [t\<lparr>tn_run_id := Some (run_id r), tn_activity_state := ''queued''\<rparr>] \<and>
    jobs d' = jobs d @ [job] \<and> job_run_id job = run_id r \<and> job_ticket_id job = tk_id tk \<and>
    job_dispatch_sequence job = Suc (tk_next_dispatch_sequence tk) \<and> job_status job = ''queued'' \<and>
    outbox d' = outbox d @ [ob] \<and> ox_job_id ob = job_id job"
proof -
  from assms(1) obtain t r0 d1 ob where *: "\<not> list_ex (turn_active (tk_id tk)) (turns d)"
    "accepted_turn d (tk_id tk) = Some t"
    "create_run (w_digest w) (w_redact w) (w_worker w) (provenance_of w (turn_run_request tk t))
       (w_new_id w ''run'') (w_new_id w ''event'') (w_clock w) d (turn_run_request tk t) = Inr (r0, d1)"
    "r = r0\<lparr>run_status := ''queued'', run_turn_id := Some (tn_id t)\<rparr>"
    "job = new_runtime_job (w_now w) (w_new_id w ''job'') (tk_tenant_id tk) (tk_id tk) (run_id r0)
       (Suc (tk_next_dispatch_sequence tk)) ''agent_start'' None"
    "ox_job_id ob = job_id job"
    "d' = (bind_turn tk t r0 d1)\<lparr>jobs := jobs d @ [job], outbox := outbox d @ [ob]\<rparr>"
    by (rule activate_next_turn_Some)
  note t = accepted_turn_Some [OF *(2)]
  have "filter (turn_active (tk_id tk)) (turns d') =
      [t\<lparr>tn_run_id := Some (run_id r0), tn_activity_state := ''queued''\<rparr>]"
    using filter_update_by_unique [OF assms(2) t(1), of "turn_active (tk_id tk)"
        "\<lambda>x. x\<lparr>tn_run_id := Some (run_id r0), tn_activity_state := ''queued''\<rparr>"] *(1) t(2)
    by (simp add: *(7) create_run_frame(1) [OF *(3)] turn_active_def)
  moreover have "jobs d' = jobs d @ [job]" "outbox d' = outbox d @ [ob]" using *(7) by simp_all
  moreover have "run_id r = run_id r0" using *(4) by simp
  moreover have "job_run_id job = run_id r0" "job_ticket_id job = tk_id tk" "job_status job = ''queued''"
    "job_dispatch_sequence job = Suc (tk_next_dispatch_sequence tk)"
    using *(5) by (simp_all add: new_runtime_job_def)
  ultimately show ?thesis using t *(6) by (intro exI [of _ t] exI [of _ ob]) simp
qed

text \<open>A promotion that finds nothing to do changes nothing.\<close>

lemma activate_next_turn_None: "activate_next_turn w d tk trace = Inr (None, d') \<Longrightarrow> d' = d"
  by (auto simp: activate_next_turn_def Let_def split: option.splits if_splits sum.splits)

section \<open>Evaluated examples\<close>

definition sample_world :: world where
  "sample_world =
     \<lparr>w_digest = sample_digest, w_redact = (\<lambda>s. s), w_worker = None, w_provenance = (\<lambda>_ _ _ _. []),
      w_new_id = (\<lambda>p. p @ ''_1''), w_now = 0, w_clock = sample_clock\<rparr>"

text \<open>Two accepted turns; the customer message of the older one has no run yet.\<close>

definition waiting_db :: db where
  "waiting_db = empty_db\<lparr>tickets := [sample_ticket],
     messages := [sample_message\<lparr>msg_id := ''m2''\<rparr>, sample_message],
     turns := [sample_turn\<lparr>tn_id := ''u2'', tn_ordinal := 2, tn_activity_state := ''accepted'',
                 tn_customer_message_id := ''m2''\<rparr>,
               sample_turn\<lparr>tn_activity_state := ''accepted''\<rparr>]\<rparr>"

lemma waiting_accepted:
  "accepted_turn waiting_db ''t1'' = Some (sample_turn\<lparr>tn_activity_state := ''accepted''\<rparr>)"
  by (simp add: accepted_turn_def waiting_db_def sample_defs less_eq_prod_def)

lemma sample_activation:
  "\<exists>r job d'. activate_next_turn sample_world waiting_db sample_ticket ''trace'' = Inr (Some (r, job), d')"
proof -
  let ?t = "sample_turn\<lparr>tn_activity_state := ''accepted''\<rparr>"
  let ?q = "turn_run_request sample_ticket ?t"
  have "\<exists>r d1. create_run sample_digest (\<lambda>s. s) None [] ''run_1'' ''event_1'' sample_clock waiting_db ?q =
      Inr (r, d1)"
    by (simp add: create_run_def append_event_def turn_run_request_def select_first_def waiting_db_def
        lookup_by_def head_event_def ticket_events_def head_conflict_def run_started_def insert_row_def
        Let_def max_of_def str_or_def sample_defs)
  then obtain r d1 where r: "create_run sample_digest (\<lambda>s. s) None [] ''run_1'' ''event_1'' sample_clock
      waiting_db ?q = Inr (r, d1)" by blast
  have fr: "messages d1 = messages waiting_db" "jobs d1 = []" "outbox d1 = []"
    using create_run_frame [OF r] by (simp_all add: waiting_db_def sample_defs)
  have "tk_id sample_ticket = ''t1''" "\<not> list_ex (turn_active ''t1'') (turns waiting_db)"
    "tk_automation_mode sample_ticket = ''agent''" "tk_lifecycle sample_ticket = ''active''"
    by (simp_all add: waiting_db_def turn_active_def sample_defs)
  moreover have "lookup_by msg_id (tn_customer_message_id ?t) (messages waiting_db) = Some sample_message"
    by (simp add: waiting_db_def lookup_by_def sample_defs)
  moreover have "\<not> falsy_str (tn_model ?t)" "\<not> falsy_str (tn_provider_mode ?t)"
    "\<not> falsy_str (tn_tool_call_mode ?t)"
    by (simp_all add: falsy_str_def sample_defs)
  ultimately show ?thesis
    using r fr
    by (simp add: activate_next_turn_def waiting_accepted sample_world_def provenance_of_def Let_def bind_turn_def upd_defs
        insert_row_def)
qed

theorem activate_next_turn_promotes_oldest_witness:
  "\<exists>r job d'. activate_next_turn sample_world waiting_db sample_ticket ''trace'' = Inr (Some (r, job), d') \<and>
     map tn_id (filter (turn_active ''t1'') (turns d')) = [''u1''] \<and> job_dispatch_sequence job = 2"
proof -
  obtain r job d' where a:
    "activate_next_turn sample_world waiting_db sample_ticket ''trace'' = Inr (Some (r, job), d')"
    using sample_activation by blast
  have "distinct (map tn_id (turns waiting_db))" by (simp add: waiting_db_def sample_defs)
  from activate_next_turn_promotes_oldest [OF a this] obtain t where t: "t \<in> set (turns waiting_db)"
    "\<forall>u \<in> set (turns waiting_db). tn_ticket_id u = tk_id sample_ticket \<and> tn_activity_state u = ''accepted''
       \<longrightarrow> (tn_ordinal t, tn_id t) \<le> (tn_ordinal u, tn_id u)"
    "filter (turn_active (tk_id sample_ticket)) (turns d') =
      [t\<lparr>tn_run_id := Some (run_id r), tn_activity_state := ''queued''\<rparr>]"
    "job_dispatch_sequence job = Suc (tk_next_dispatch_sequence sample_ticket)"
    by blast
  have "tn_id t = ''u1''" using t(1,2) by (auto simp: waiting_db_def sample_defs less_eq_prod_def)
  with a t(3,4) show ?thesis by (simp add: sample_ticket_def)
qed

end
