(* ===== verification/Approval_Lifecycle.thy ===== *)
theory Approval_Lifecycle
  imports Action_Specs Turn_Activation
begin

text \<open>
  \<open>services/approval_lifecycle.py\<close>: the approval state machine with its compare-and-set transition,
  the canonical identity of an approval, the lookup of the active approval of an identity, and the
  derivation of a ticket's status from its turns, jobs and approvals.  The branch modelled is the one
  for a database that is not PostgreSQL; \<open>status_version\<close> is the mapper's version column, which each
  flushed change raises by one.
\<close>

section \<open>Statuses and transitions\<close>

definition ACTIVE_APPROVAL_STATUSES :: "string list" where
  "ACTIVE_APPROVAL_STATUSES = [''pending'', ''approved'']"

definition TERMINAL_APPROVAL_STATUSES :: "string list" where
  "TERMINAL_APPROVAL_STATUSES =
     [''executed'', ''rejected'', ''stale'', ''withdrawn'', ''failed'', ''manual_takeover'']"

definition NEW_APPROVAL_STATUSES :: "string list" where
  "NEW_APPROVAL_STATUSES =
     ACTIVE_APPROVAL_STATUSES @ filter (\<lambda>s. s \<noteq> ''manual_takeover'') TERMINAL_APPROVAL_STATUSES"

definition APPROVAL_TRANSITIONS :: "(string \<times> string list) list" where
  "APPROVAL_TRANSITIONS =
     [(''pending'', [''approved'', ''rejected'', ''withdrawn'', ''stale'', ''failed'']),
      (''approved'', [''executed'', ''stale'', ''failed''])]"

record approval_transition =
  previous_status :: string
  at_new_status :: string
  changed :: bool

definition transition_approval ::
  "db \<Rightarrow> approval_request \<Rightarrow> string \<Rightarrow> string \<Rightarrow> nat option \<Rightarrow> int option \<Rightarrow>
   (approval_transition \<times> db) result" where
  "transition_approval d ap to_status expected_status expected_version decided_at =
     (let previous = ap_status ap in
      if previous = to_status then
        Inr (\<lparr>previous_status = previous, at_new_status = previous, changed = False\<rparr>, d)
      else if to_status = ''manual_takeover'' \<or> to_status \<notin> set NEW_APPROVAL_STATUSES then
        Inl (RuntimeConflict ''approval_transition_invalid'')
      else if previous \<noteq> expected_status \<or>
          (case expected_version of None \<Rightarrow> False | Some v \<Rightarrow> ap_status_version ap \<noteq> v) then
        Inl (RuntimeConflict ''approval_state_conflict'')
      else if previous \<in> set TERMINAL_APPROVAL_STATUSES then
        Inl (RuntimeConflict ''approval_terminal_conflict'')
      else if to_status \<notin>
          (case map_of APPROVAL_TRANSITIONS previous of None \<Rightarrow> {} | Some ts \<Rightarrow> set ts) then
        Inl (RuntimeConflict ''approval_transition_invalid'')
      else (case lookup_by ap_id (ap_id ap) (approvals d) of
          None \<Rightarrow> Inl (RuntimeConflict ''approval_state_conflict'')
        | Some row \<Rightarrow>
            if ap_status_version row \<noteq> ap_status_version ap then
              Inl (RuntimeConflict ''approval_state_conflict'')
            else
              Inr (\<lparr>previous_status = previous, at_new_status = to_status, changed = True\<rparr>,
                upd_approval (ap_id ap)
                  (\<lambda>a. a\<lparr>ap_status := to_status, ap_status_version := Suc (ap_status_version ap),
                     ap_decided_at := (case decided_at of None \<Rightarrow> ap_decided_at a | Some t \<Rightarrow> Some t)\<rparr>)
                  d)))"

section \<open>Identity\<close>

record canonical_approval_identity =
  ci_id_tenant :: string
  ci_id_customer :: string
  ci_id_action_type :: string
  ci_id_resource_type :: string
  ci_id_resource_id :: string
  ci_id_resource_version :: int
  ci_id_origin_turn :: string

definition canonical_approval_identity_values ::
  "string \<Rightarrow> string \<Rightarrow> string \<Rightarrow> string \<Rightarrow> int \<Rightarrow> agent_run \<Rightarrow> canonical_approval_identity result" where
  "canonical_approval_identity_values tenant customer action_type resource_id resource_version r =
     (case (get_action_spec_or_none action_type, run_turn_id r) of
        (Some sp, Some turn) \<Rightarrow>
          if tenant \<noteq> run_tenant_id r \<or> resource_id = [] \<or> resource_version < 1 \<or> turn = [] then
            Inl (RuntimeConflict ''approval_canonical_identity_invalid'')
          else (case resource_field sp of
              None \<Rightarrow> Inl AttributeError
            | Some f \<Rightarrow>
                Inr \<lparr>ci_id_tenant = tenant, ci_id_customer = customer, ci_id_action_type = action_type,
                     ci_id_resource_type = f, ci_id_resource_id = resource_id,
                     ci_id_resource_version = resource_version, ci_id_origin_turn = turn\<rparr>)
      | _ \<Rightarrow> Inl (RuntimeConflict ''approval_canonical_identity_invalid''))"

definition canonical_approval_identity_of ::
  "proposal_record \<Rightarrow> agent_run \<Rightarrow> string \<Rightarrow> canonical_approval_identity result" where
  "canonical_approval_identity_of p r customer =
     (if pr_tenant_id p \<noteq> run_tenant_id r \<or> pr_run_id p \<noteq> run_id r then
        Inl (RuntimeConflict ''approval_canonical_identity_invalid'')
      else canonical_approval_identity_values (pr_tenant_id p) customer (pr_action_type p)
        (pr_resource_id p) (pr_resource_version p) r)"

definition find_active :: "db \<Rightarrow> canonical_approval_identity \<Rightarrow> approval_request option" where
  "find_active d i =
     select_first (\<lambda>a. ap_tenant_id a = ci_id_tenant i \<and> ap_customer_id a = ci_id_customer i \<and>
       ap_action_type a = ci_id_action_type i \<and> ap_resource_type a = ci_id_resource_type i \<and>
       ap_resource_id a = ci_id_resource_id i \<and> ap_status a \<in> set ACTIVE_APPROVAL_STATUSES) (approvals d)"

section \<open>The ticket projection\<close>

definition has_active_turn :: "db \<Rightarrow> support_ticket \<Rightarrow> bool" where
  "has_active_turn d tk = list_ex (\<lambda>t. tn_tenant_id t = tk_tenant_id tk \<and> turn_active (tk_id tk) t) (turns d)"

definition in_ticket :: "support_ticket \<Rightarrow> runtime_job \<Rightarrow> bool" where
  "in_ticket tk j = (job_tenant_id j = tk_tenant_id tk \<and> job_ticket_id j = tk_id tk)"

definition has_active_job :: "db \<Rightarrow> support_ticket \<Rightarrow> bool" where
  "has_active_job d tk =
     list_ex (\<lambda>j. in_ticket tk j \<and> job_status j \<in> {''queued'', ''retry_wait'', ''leased''}) (jobs d)"

definition has_verification_pending :: "db \<Rightarrow> support_ticket \<Rightarrow> bool" where
  "has_verification_pending d tk =
     list_ex (\<lambda>a. ap_tenant_id a = tk_tenant_id tk \<and> ap_ticket_id a = tk_id tk \<and> ap_status a = ''approved'' \<and>
       list_ex (\<lambda>j. job_tenant_id j = ap_tenant_id a \<and> job_ticket_id j = ap_ticket_id a \<and>
         job_approval_id j = Some (ap_id a) \<and> job_status j = ''succeeded'' \<and>
         job_outcome j = Some ''verification_pending'') (jobs d)) (approvals d)"

definition has_active_approval :: "db \<Rightarrow> support_ticket \<Rightarrow> bool" where
  "has_active_approval d tk =
     list_ex (\<lambda>a. ap_tenant_id a = tk_tenant_id tk \<and> ap_ticket_id a = tk_id tk \<and>
       ap_status a \<in> set ACTIVE_APPROVAL_STATUSES) (approvals d)"

definition derived_status :: "db \<Rightarrow> support_ticket \<Rightarrow> string \<Rightarrow> string" where
  "derived_status d tk default_status =
     (if has_active_turn d tk \<or> has_active_job d tk then ''queued''
      else if has_verification_pending d tk then ''verification_pending''
      else if has_active_approval d tk then ''awaiting_approval''
      else default_status)"

definition converge_ticket :: "db \<Rightarrow> support_ticket \<Rightarrow> string \<Rightarrow> string \<times> db" where
  "converge_ticket d tk default_status =
     (if tk_lifecycle tk \<noteq> ''active'' \<or> tk_automation_mode tk \<noteq> ''agent'' then (tk_status tk, d)
      else
        (let status = derived_status d tk default_status;
             clear = status \<in> {''running'', ''queued'', ''awaiting_approval'', ''verification_pending''}
         in (status,
             if tk_status tk \<noteq> status \<or> (clear \<and> tk_final_response tk \<noteq> None) then
               upd_ticket (tk_id tk)
                 (\<lambda>t. t\<lparr>tk_status := status,
                    tk_final_response := (if clear then None else tk_final_response t),
                    tk_version := Suc (tk_version t)\<rparr>) d
             else d)))"

definition activate_next_turn_and_converge_ticket ::
  "world \<Rightarrow> db \<Rightarrow> support_ticket \<Rightarrow> string \<Rightarrow> string \<Rightarrow> (string \<times> db) result" where
  "activate_next_turn_and_converge_ticket w d tk trace_id default_status =
     (case activate_next_turn w d tk trace_id of
        Inl e \<Rightarrow> Inl e
      | Inr (_, d1) \<Rightarrow>
          (case lookup_by tk_id (tk_id tk) (tickets d1) of
             None \<Rightarrow> Inl AttributeError
           | Some tk1 \<Rightarrow> Inr (converge_ticket d1 tk1 default_status)))"

section \<open>The transition relation\<close>

text \<open>The edges of the state machine: what the tables of the source allow.\<close>

definition approval_edge :: "string \<Rightarrow> string \<Rightarrow> bool" where
  "approval_edge a b =
     ((a = ''pending'' \<and> b \<in> {''approved'', ''rejected'', ''withdrawn'', ''stale'', ''failed''}) \<or>
      (a = ''approved'' \<and> b \<in> {''executed'', ''stale'', ''failed''}))"

lemma approval_edge_table:
  "approval_edge a b \<longleftrightarrow>
     b \<in> (case map_of APPROVAL_TRANSITIONS a of None \<Rightarrow> {} | Some ts \<Rightarrow> set ts)"
  by (auto simp: approval_edge_def APPROVAL_TRANSITIONS_def)

lemma transition_approval_Inr:
  assumes "transition_approval d ap to_s exp_s v dec = Inr (tr, d')"
  shows "(ap_status ap = to_s \<and> d' = d \<and> \<not> changed tr) \<or>
    (\<exists>row. lookup_by ap_id (ap_id ap) (approvals d) = Some row \<and>
       ap_status_version row = ap_status_version ap \<and> approval_edge (ap_status ap) to_s \<and> changed tr \<and>
       ap_status ap = exp_s \<and> (\<forall>n. v = Some n \<longrightarrow> n = ap_status_version ap) \<and>
       d' = upd_approval (ap_id ap)
         (\<lambda>a. a\<lparr>ap_status := to_s, ap_status_version := Suc (ap_status_version ap),
            ap_decided_at := (case dec of None \<Rightarrow> ap_decided_at a | Some t \<Rightarrow> Some t)\<rparr>) d)"
  using assms approval_edge_table [of "ap_status ap" to_s]
  by (auto simp: transition_approval_def Let_def split: if_splits option.splits)

text \<open>Any sequence of successful transitions, each on the current row of some approval.\<close>

inductive approval_steps :: "db \<Rightarrow> db \<Rightarrow> bool" where
  none: "approval_steps d d"
| step: "approval_steps d d1 \<Longrightarrow> lookup_by ap_id i (approvals d1) = Some ap \<Longrightarrow>
    transition_approval d1 ap to_s exp_s v dec = Inr (tr, d2) \<Longrightarrow> approval_steps d d2"

definition approval_row :: "db \<Rightarrow> string \<Rightarrow> approval_request option" where
  "approval_row d i = lookup_by ap_id i (approvals d)"

lemma transition_approval_row:
  assumes "transition_approval d ap to_s exp_s v dec = Inr (tr, d')"
    and "lookup_by ap_id (ap_id ap) (approvals d) = Some ap" "approval_row d j = Some b"
  shows "\<exists>b'. approval_row d' j = Some b' \<and>
    (b' = b \<or> approval_edge (ap_status b) (ap_status b') \<and> ap_status_version b' = Suc (ap_status_version b))"
  using transition_approval_Inr [OF assms(1)] assms(2,3)
  by (cases "j = ap_id ap") (auto simp: approval_row_def upd_approval_def lookup_by_update_by)

text \<open>How far a row is into its life, and the statuses possible there.\<close>

definition life_stage :: "approval_request \<Rightarrow> approval_request \<Rightarrow> bool" where
  "life_stage a b =
     ((ap_status b = ''pending'' \<and> ap_status_version b = ap_status_version a) \<or>
      (ap_status b \<in> {''approved'', ''rejected'', ''withdrawn'', ''stale'', ''failed''} \<and>
         ap_status_version b = ap_status_version a + 1) \<or>
      (ap_status b \<in> {''executed'', ''stale'', ''failed''} \<and>
         ap_status_version b = ap_status_version a + 2))"

lemma life_stage_step:
  "life_stage a b \<Longrightarrow> approval_edge (ap_status b) (ap_status b') \<Longrightarrow>
     ap_status_version b' = Suc (ap_status_version b) \<Longrightarrow> life_stage a b'"
  by (auto simp: life_stage_def approval_edge_def)

lemma approval_steps_life:
  assumes "approval_steps d d'" "approval_row d j = Some a" "ap_status a = ''pending''"
  shows "\<exists>b. approval_row d' j = Some b \<and> life_stage a b"
  using assms
proof (induction rule: approval_steps.induct)
  case (none d)
  then show ?case by (auto simp: life_stage_def)
next
  case (step d d1 i ap to_s exp_s v dec tr d2)
  then obtain b where b: "approval_row d1 j = Some b" "life_stage a b" by blast
  have "lookup_by ap_id (ap_id ap) (approvals d1) = Some ap"
    using step.hyps(2) lookup_by_Some [OF step.hyps(2)] by simp
  from transition_approval_row [OF step.hyps(3) this b(1)] b(2) life_stage_step show ?case by blast
qed

text \<open>C25. whatever transitions succeed, a pending approval only ever moves along pending, then
  approved or a closing status, then executed, stale or failed: its version counts its transitions,
  at most two, and it is executed only in the second, which leaves the approved status.\<close>

theorem approval_life:
  assumes "approval_steps d d'" "approval_row d i = Some a" "ap_status a = ''pending''"
  shows "\<exists>b. approval_row d' i = Some b \<and> ap_status_version b \<le> ap_status_version a + 2 \<and>
    (ap_status b = ''executed'' \<longrightarrow> ap_status_version b = ap_status_version a + 2) \<and>
    (ap_status b = ''approved'' \<longrightarrow> ap_status_version b = ap_status_version a + 1) \<and>
    (ap_status b \<in> {''rejected'', ''withdrawn''} \<longrightarrow> ap_status_version b = ap_status_version a + 1) \<and>
    ap_status b \<in> set NEW_APPROVAL_STATUSES"
  using approval_steps_life [OF assms]
  by (auto simp: life_stage_def NEW_APPROVAL_STATUSES_def ACTIVE_APPROVAL_STATUSES_def
      TERMINAL_APPROVAL_STATUSES_def)

lemma terminal_no_edge: "s \<in> set TERMINAL_APPROVAL_STATUSES \<Longrightarrow> \<not> approval_edge s t"
  by (auto simp: TERMINAL_APPROVAL_STATUSES_def approval_edge_def)

text \<open>a closed approval is never reopened: no sequence of successful transitions changes the row
  of an approval in a terminal status.\<close>

theorem terminal_approval_frozen:
  assumes "approval_steps d d'" "approval_row d i = Some a" "ap_status a \<in> set TERMINAL_APPROVAL_STATUSES"
  shows "approval_row d' i = Some a"
  using assms
proof (induction rule: approval_steps.induct)
  case (step d d1 j ap to_s exp_s v dec tr d2)
  have "lookup_by ap_id (ap_id ap) (approvals d1) = Some ap"
    using step.hyps(2) lookup_by_Some [OF step.hyps(2)] by simp
  from transition_approval_row [OF step.hyps(3) this, of i a] step.IH [OF step.prems]
    terminal_no_edge [OF step.prems(2)] show ?case by blast
qed

text \<open>two callers that loaded the same approval row cannot both decide it: after one changing
  transition, any different transition from the same loaded copy is a conflict.\<close>

theorem second_decision_conflicts:
  assumes "transition_approval d ap to_s exp_s v dec = Inr (tr, d1)" "changed tr"
    and "to_s' \<noteq> ap_status ap"
  shows "\<exists>m. transition_approval d1 ap to_s' exp_s' v' dec' = Inl (RuntimeConflict m)"
proof -
  have "lookup_by ap_id (ap_id ap) (approvals d1) = None \<or>
      (\<exists>row. lookup_by ap_id (ap_id ap) (approvals d1) = Some row \<and>
         ap_status_version row = Suc (ap_status_version ap))"
    using transition_approval_Inr [OF assms(1)] assms(2)
    by (auto simp: upd_approval_def lookup_by_update_by)
  with assms(3) show ?thesis
    by (auto simp: transition_approval_def Let_def split: option.split)
qed

section \<open>Convergence\<close>

lemma converge_ticket_frame:
  assumes "converge_ticket d tk s = (st, d')"
  shows "turns d' = turns d" "jobs d' = jobs d" "approvals d' = approvals d"
    "map tk_id (tickets d') = map tk_id (tickets d)"
  using assms by (auto simp: converge_ticket_def Let_def upd_defs update_by_def split: if_splits)

lemma derived_status_cong:
  "turns d' = turns d \<Longrightarrow> jobs d' = jobs d \<Longrightarrow> approvals d' = approvals d \<Longrightarrow>
   tk_id tk' = tk_id tk \<Longrightarrow> tk_tenant_id tk' = tk_tenant_id tk \<Longrightarrow>
     derived_status d' tk' s = derived_status d tk s"
  by (simp add: derived_status_def has_active_turn_def has_active_job_def has_verification_pending_def
      has_active_approval_def in_ticket_def)

text \<open>convergence reaches a fixed point in one step: the stored ticket then has the derived status,
  no final response survives under an open status, and converging again returns the same status and
  writes nothing.\<close>

theorem converge_ticket_fixpoint:
  assumes "converge_ticket d tk s = (st, d')" "lookup_by tk_id (tk_id tk) (tickets d) = Some tk"
  shows "\<exists>tk'. lookup_by tk_id (tk_id tk) (tickets d') = Some tk' \<and> tk_status tk' = st \<and>
    converge_ticket d' tk' s = (st, d') \<and>
    (tk_lifecycle tk = ''active'' \<and> tk_automation_mode tk = ''agent'' \<longrightarrow>
       st = derived_status d tk s \<and>
       (st \<in> {''queued'', ''awaiting_approval'', ''verification_pending''} \<longrightarrow> tk_final_response tk' = None))"
proof (cases "tk_lifecycle tk \<noteq> ''active'' \<or> tk_automation_mode tk \<noteq> ''agent''")
  case True
  with assms show ?thesis by (auto simp: converge_ticket_def)
next
  case False
  let ?clear = "st \<in> {''running'', ''queued'', ''awaiting_approval'', ''verification_pending''}"
  have st: "st = derived_status d tk s" using assms(1) False by (auto simp: converge_ticket_def Let_def)
  obtain tk' where tk': "lookup_by tk_id (tk_id tk) (tickets d') = Some tk'" "tk_status tk' = st"
    "?clear \<longrightarrow> tk_final_response tk' = None" "tk_id tk' = tk_id tk" "tk_tenant_id tk' = tk_tenant_id tk"
    "tk_lifecycle tk' = tk_lifecycle tk" "tk_automation_mode tk' = tk_automation_mode tk"
  proof (cases "tk_status tk \<noteq> st \<or> (?clear \<and> tk_final_response tk \<noteq> None)")
    case True
    then have "d' = upd_ticket (tk_id tk)
        (\<lambda>t. t\<lparr>tk_status := st, tk_final_response := (if ?clear then None else tk_final_response t),
           tk_version := Suc (tk_version t)\<rparr>) d"
      using assms(1) False st by (auto simp: converge_ticket_def Let_def)
    then show ?thesis using assms(2) that by (simp add: upd_ticket_def lookup_by_update_by)
  next
    case same: False
    then have "d' = d" using assms(1) False st by (auto simp: converge_ticket_def Let_def)
    with same assms(2) show ?thesis by (intro that [of tk]) auto
  qed
  have "derived_status d' tk' s = st"
    using derived_status_cong [OF converge_ticket_frame(1,2,3) [OF assms(1)] tk'(4,5)] st by simp
  then have "converge_ticket d' tk' s = (st, d')"
    using tk' False by (auto simp: converge_ticket_def Let_def)
  with tk' st show ?thesis by auto
qed

text \<open>A ticket whose accepted turn was just promoted converges to queued, whatever the default.\<close>

lemma promoted_ticket_is_queued:
  assumes "activate_next_turn w d tk trace = Inr (Some x, d1)"
    and "lookup_by tk_id (tk_id tk) (tickets d1) = Some tk1"
    and "tk_tenant_id tk1 = tk_tenant_id tk"
  shows "derived_status d1 tk1 s = ''queued''"
proof -
  obtain r job where x: "x = (r, job)" by (cases x)
  have "tk_id tk1 = tk_id tk" using lookup_by_Some [OF assms(2)] by simp
  moreover have "job \<in> set (jobs d1) \<and> job_tenant_id job = tk_tenant_id tk \<and>
      job_ticket_id job = tk_id tk \<and> job_status job = ''queued''"
    by (rule activate_next_turn_Some [OF assms(1) [unfolded x]]) (simp add: new_runtime_job_def)
  ultimately have "has_active_job d1 tk1"
    using assms(3) by (auto simp: has_active_job_def in_ticket_def list_ex_iff)
  then show ?thesis by (simp add: derived_status_def)
qed

section \<open>Evaluated examples\<close>

definition sample_approval :: approval_request where
  "sample_approval =
     \<lparr>ap_id = ''a1'', ap_tenant_id = ''acme'', ap_ticket_id = ''t1'', ap_customer_id = ''c1'',
      ap_proposal_id = Some ''p1'', ap_run_id = Some ''r1'', ap_action_type = ''refund'',
      ap_resource_type = ''billing_record_id'', ap_resource_id = ''b1'', ap_status = ''pending'',
      ap_status_version = 1, ap_decided_at = None,
      ap_action_payload = [(''billing_record_id'', PStr ''b1'')], ap_action_hash = ''h1'',
      ap_business_version = 1, ap_idempotency_key = ''k1'', ap_selected_revision_id = None,
      ap_selected_revision_number = None, ap_marker_id = None, ap_checkpoint_id = None,
      ap_canonical_checkpoint_ns = None, ap_canonical_checkpoint_hash = None, ap_checkpoint_version = 0,
      ap_expected_ticket_head_event_id = None, ap_expected_ticket_sequence = None,
      ap_expected_ticket_event_hash = None,
      ap_consumed_at = None\<rparr>"

definition approval_db :: db where
  "approval_db = sample_db\<lparr>approvals := [sample_approval]\<rparr>"

definition approved_db :: db where
  "approved_db = sample_db\<lparr>approvals :=
     [sample_approval\<lparr>ap_status := ''approved'', ap_status_version := 2, ap_decided_at := Some 7\<rparr>]\<rparr>"

lemmas approval_sample_defs = approval_db_def approved_db_def sample_approval_def sample_defs

lemma sample_approve:
  "transition_approval approval_db sample_approval ''approved'' ''pending'' (Some 1) (Some 7) =
     Inr (\<lparr>previous_status = ''pending'', at_new_status = ''approved'', changed = True\<rparr>, approved_db)"
  by (simp add: transition_approval_def Let_def NEW_APPROVAL_STATUSES_def ACTIVE_APPROVAL_STATUSES_def
      TERMINAL_APPROVAL_STATUSES_def APPROVAL_TRANSITIONS_def approval_sample_defs lookup_by_def
      upd_approval_def update_by_def)

lemma sample_steps: "approval_steps approval_db approved_db"
  by (rule approval_steps.step [OF approval_steps.none _ sample_approve, of "''a1''"])
    (simp add: approval_sample_defs lookup_by_def)

theorem approval_life_witness:
  "\<exists>b. approval_row approved_db ''a1'' = Some b \<and> ap_status b = ''approved'' \<and> ap_status_version b = 2 \<and>
     ap_status_version b \<le> 3"
  using approval_life [OF sample_steps, of "''a1''" sample_approval]
  by (auto simp: approval_row_def lookup_by_def approval_sample_defs)

theorem terminal_approval_frozen_witness:
  "approval_steps (approval_db\<lparr>approvals := [sample_approval\<lparr>ap_status := ''rejected''\<rparr>]\<rparr>)
     (approval_db\<lparr>approvals := [sample_approval\<lparr>ap_status := ''rejected''\<rparr>]\<rparr>) \<and>
   approval_row (approval_db\<lparr>approvals := [sample_approval\<lparr>ap_status := ''rejected''\<rparr>]\<rparr>) ''a1'' =
     Some (sample_approval\<lparr>ap_status := ''rejected''\<rparr>)"
  using terminal_approval_frozen [OF approval_steps.none, of
      "approval_db\<lparr>approvals := [sample_approval\<lparr>ap_status := ''rejected''\<rparr>]\<rparr>" "''a1''"
      "sample_approval\<lparr>ap_status := ''rejected''\<rparr>"] approval_steps.none
  by (simp add: approval_row_def lookup_by_def approval_sample_defs TERMINAL_APPROVAL_STATUSES_def)

theorem second_decision_conflicts_witness:
  "\<exists>m. transition_approval approved_db sample_approval ''rejected'' ''pending'' (Some 1) (Some 8) =
     Inl (RuntimeConflict m)"
  by (rule second_decision_conflicts [OF sample_approve]) (simp_all add: sample_approval_def)

theorem converge_ticket_fixpoint_witness:
  "\<exists>tk'. lookup_by tk_id ''t1'' (tickets (snd (converge_ticket approval_db sample_ticket ''resolved''))) =
     Some tk' \<and> tk_status tk' = ''queued''"
proof -
  have l: "lookup_by tk_id (tk_id sample_ticket) (tickets approval_db) = Some sample_ticket"
    by (simp add: approval_sample_defs lookup_by_def)
  obtain st d' where c: "converge_ticket approval_db sample_ticket ''resolved'' = (st, d')"
    by (cases "converge_ticket approval_db sample_ticket ''resolved''")
  have "st = ''queued''"
    using c by (auto simp: converge_ticket_def derived_status_def has_active_turn_def turn_active_def
        has_active_job_def approval_sample_defs Let_def split: if_splits)
  with converge_ticket_fixpoint [OF c l] c show ?thesis by (auto simp: sample_ticket_def)
qed

end
