(* ===== verification/Runtime_Jobs.thy ===== *)
theory Runtime_Jobs
  imports Approval_Lifecycle Publication_Policy
begin

text \<open>
  \<open>services/runtime_jobs.py\<close>: idempotent command acceptance, the job queue of a ticket lane (create,
  claim, heartbeat, retry, failure, completion), the fence every worker operation asserts, and the
  convergence of run, turn, ticket, approval and checkpoints when a job dies.  The branch modelled is
  the one for a database that is not PostgreSQL; the SECURITY DEFINER functions of the restricted
  worker role are SQL outside the Python sources.  \<open>SELECT now()\<close> is never null.
\<close>

section \<open>Idempotent acceptance\<close>

definition canonical_request_hash :: "(string \<Rightarrow> string) \<Rightarrow> pydict \<Rightarrow> string" where
  "canonical_request_hash H payload = H (json_dumps (PDict payload))"

text \<open>\<open>POST /api/tickets\<close> or a full match of \<open>POST /api/tickets/[^/]+/messages\<close>.\<close>

definition low_risk_route :: "string \<Rightarrow> bool" where
  "low_risk_route route =
     (let pre = ''POST /api/tickets/''; suf = ''/messages'';
          mid = take (length route - length pre - length suf) (drop (length pre) route) in
      route = ''POST /api/tickets'' \<or>
      (length pre + length suf < length route \<and> starts_with pre route \<and> ends_with suf route \<and>
       list_all (\<lambda>c. c \<noteq> CHR ''/'') mid))"

record accepted_command =
  ac_record :: idempotency_request
  ac_reused :: bool

definition accept ::
  "world \<Rightarrow> db \<Rightarrow> string \<Rightarrow> string \<Rightarrow> string \<Rightarrow> string \<Rightarrow> pydict \<Rightarrow> pydict \<Rightarrow> pydict \<Rightarrow> int option \<Rightarrow>
   (accepted_command \<times> db) result" where
  "accept w d tenant who route key payload resource_ids response_snapshot expires_at =
     (let request_hash = canonical_request_hash (w_digest w) payload;
          retention_class = (if low_risk_route route then ''low_risk_non_action'' else ''protected_action'');
          completed_at = (if response_snapshot \<noteq> [] then Some (instant (w_clock w)) else None)
      in case select_first (\<lambda>r. idm_tenant_id r = tenant \<and> idm_principal_id r = who \<and>
                idm_route r = route \<and> idm_key r = key) (idempotency d) of
           Some existing \<Rightarrow>
             if idm_request_hash existing \<noteq> request_hash then Inl (RuntimeConflict ''idempotency_conflict'')
             else Inr (\<lparr>ac_record = existing, ac_reused = True\<rparr>, d)
         | None \<Rightarrow>
             (let r = \<lparr>idm_id = w_new_id w ''idem'', idm_tenant_id = tenant, idm_principal_id = who,
                    idm_route = route, idm_key = key, idm_request_hash = request_hash,
                    idm_resource_ids = resource_ids, idm_response_snapshot = response_snapshot,
                    idm_expires_at = expires_at, idm_completed_at = completed_at,
                    idm_retention_class = retention_class\<rparr>
              in case insert_row idm_id r (idempotency d) of
                   Inl e \<Rightarrow> Inl e
                 | Inr rs \<Rightarrow> Inr (\<lparr>ac_record = r, ac_reused = False\<rparr>, d\<lparr>idempotency := rs\<rparr>)))"

section \<open>Leases\<close>

record job_lease =
  jl_job_id :: string
  jl_run_id :: string
  jl_tenant_id :: string
  jl_owner :: string
  jl_fencing_token :: nat
  jl_expires_at :: int
  jl_kind :: string
  jl_approval_id :: "string option"
  jl_attempt :: nat
  jl_ticket_id :: "string option"
  jl_dispatch_sequence :: "nat option"

record retry_decision =
  rd_terminal :: bool
  rd_next_status :: string
  rd_available_at :: int
  rd_reason :: string
  rd_attempt :: nat

definition live_statuses :: "string set" where
  "live_statuses = {''queued'', ''retry_wait'', ''leased''}"

definition transition_runtime_job_status :: "string \<Rightarrow> runtime_job \<Rightarrow> runtime_job" where
  "transition_runtime_job_status status j =
     (if job_status j = status then j
      else j\<lparr>job_status := status, job_status_version := Suc (job_status_version j)\<rparr>)"

definition seconds :: "nat \<Rightarrow> int" where
  "seconds n = int n * 1000000"

definition lease_of :: "string \<Rightarrow> int \<Rightarrow> runtime_job \<Rightarrow> job_lease" where
  "lease_of owner expires j =
     \<lparr>jl_job_id = job_id j, jl_run_id = job_run_id j, jl_tenant_id = job_tenant_id j, jl_owner = owner,
      jl_fencing_token = job_fencing_token j, jl_expires_at = expires, jl_kind = job_kind j,
      jl_approval_id = job_approval_id j, jl_attempt = job_attempt j,
      jl_ticket_id = Some (job_ticket_id j), jl_dispatch_sequence = Some (job_dispatch_sequence j)\<rparr>"

section \<open>Create and claim\<close>

definition create_job ::
  "world \<Rightarrow> db \<Rightarrow> string \<Rightarrow> string \<Rightarrow> string \<Rightarrow> string option \<Rightarrow> string option \<Rightarrow> string option \<Rightarrow>
   (runtime_job \<times> db) result" where
  "create_job w d tenant rid kind approval jid tid =
     (if (kind = ''agent_start'' \<and> approval \<noteq> None) \<or> (kind = ''approval_resume'' \<and> falsy_str approval) \<or>
         kind \<notin> {''agent_start'', ''approval_resume''} then
        Inl (RuntimeConflict ''runtime_job_kind_approval_shape_invalid'')
      else (case select_first (\<lambda>r. run_id r = rid \<and> run_tenant_id r = tenant) (runs d) of
          None \<Rightarrow> Inl (RuntimeConflict ''job_ticket_mismatch'')
        | Some r \<Rightarrow>
            if tid \<noteq> None \<and> tid \<noteq> Some (run_ticket_id r) then
              Inl (RuntimeConflict ''job_ticket_mismatch'')
            else if kind = ''approval_resume'' \<and>
                select_first (\<lambda>a. Some (ap_id a) = approval \<and> ap_tenant_id a = tenant \<and>
                  ap_run_id a = Some rid \<and> ap_ticket_id a = run_ticket_id r) (approvals d) = None then
              Inl (RuntimeConflict ''runtime_job_approval_mismatch'')
            else (case select_first (\<lambda>t. tk_id t = run_ticket_id r \<and> tk_tenant_id t = tenant) (tickets d) of
                None \<Rightarrow> Inl (RuntimeConflict ''ticket_not_found'')
              | Some tk \<Rightarrow>
                  (let job = new_runtime_job (w_now w) (str_or jid (w_new_id w ''job'')) tenant
                         (run_ticket_id r) rid (Suc (tk_next_dispatch_sequence tk)) kind approval
                   in case insert_row job_id job (jobs d) of
                        Inl e \<Rightarrow> Inl e
                      | Inr js \<Rightarrow> Inr (job,
                          upd_ticket (tk_id tk)
                            (\<lambda>t. t\<lparr>tk_next_dispatch_sequence := Suc (tk_next_dispatch_sequence t)\<rparr>)
                            (d\<lparr>jobs := js\<rparr>))))))"

definition in_lane :: "runtime_job \<Rightarrow> runtime_job \<Rightarrow> bool" where
  "in_lane j k = (job_tenant_id k = job_tenant_id j \<and> job_ticket_id k = job_ticket_id j)"

definition lane_head :: "db \<Rightarrow> runtime_job \<Rightarrow> nat option" where
  "lane_head d j =
     min_of job_dispatch_sequence (filter (\<lambda>k. in_lane j k \<and> job_status k \<in> live_statuses) (jobs d))"

definition lane_leased :: "db \<Rightarrow> runtime_job \<Rightarrow> bool" where
  "lane_leased d j = list_ex (\<lambda>k. in_lane j k \<and> job_status k = ''leased'') (jobs d)"

definition leased_job :: "int \<Rightarrow> string \<Rightarrow> nat \<Rightarrow> runtime_job \<Rightarrow> runtime_job" where
  "leased_job now owner lease_seconds j =
     (transition_runtime_job_status ''leased'' j)
       \<lparr>job_attempt := Suc (job_attempt j), job_lease_owner := Some owner, job_heartbeat_at := Some now,
        job_lease_expires_at := Some (now + seconds lease_seconds),
        job_fencing_token := Suc (job_fencing_token j)\<rparr>"

text \<open>What a successful claim writes: the job, its run, the run's turn and the ticket.\<close>

definition claim_writes ::
  "world \<Rightarrow> string \<Rightarrow> nat \<Rightarrow> runtime_job \<Rightarrow> support_ticket \<Rightarrow> agent_run \<Rightarrow> db \<Rightarrow> db" where
  "claim_writes w owner lease_seconds job tk r d =
     (let d1 = upd_job (job_id job) (leased_job (w_now w) owner lease_seconds) d;
          d2 = upd_run (run_id r)
            (\<lambda>x. x\<lparr>run_active_job_id := Some (job_id job),
               run_active_fencing_token := Some (Suc (job_fencing_token job)),
               run_status := ''running'', run_status_version := Suc (run_status_version x)\<rparr>) d1;
          d3 = (if \<not> falsy_str (run_turn_id r) \<and> job_kind job = ''agent_start''
            then upd_turn (the (run_turn_id r)) (\<lambda>t. t\<lparr>tn_activity_state := ''running''\<rparr>) d2
            else d2)
      in if tk_status tk = ''queued''
         then upd_ticket (tk_id tk) (\<lambda>t. t\<lparr>tk_status := ''running'', tk_version := Suc (tk_version t)\<rparr>) d3
         else d3)"

definition claim :: "world \<Rightarrow> db \<Rightarrow> string \<Rightarrow> string \<Rightarrow> nat \<Rightarrow> (job_lease \<times> db) result" where
  "claim w d jid owner lease_seconds =
     (case lookup_by job_id jid (jobs d) of
        None \<Rightarrow> Inl (RuntimeConflict ''job_not_claimable'')
      | Some job \<Rightarrow>
        (case select_first (\<lambda>t. tk_id t = job_ticket_id job \<and> tk_tenant_id t = job_tenant_id job) (tickets d) of
           None \<Rightarrow> Inl (RuntimeConflict ''ticket_not_claimable'')
         | Some tk \<Rightarrow>
             if tk_lifecycle tk \<noteq> ''active'' \<or> tk_automation_mode tk = ''human_queue'' then
               Inl (RuntimeConflict ''ticket_not_claimable'')
             else if job_status job \<notin> {''queued'', ''retry_wait''} then
               Inl (RuntimeConflict ''job_not_claimable'')
             else if lane_head d job \<noteq> Some (job_dispatch_sequence job) then
               Inl (RuntimeConflict ''ticket_fifo_blocked'')
             else if lane_leased d job then Inl (RuntimeConflict ''ticket_lane_leased'')
             else if job_available_at job > w_now w then Inl (RuntimeConflict ''job_not_due'')
             else (case select_first (\<lambda>r. run_id r = job_run_id job \<and> run_tenant_id r = job_tenant_id job)
                          (runs d) of
                None \<Rightarrow> Inl (RuntimeConflict ''run_not_claimable'')
              | Some r \<Rightarrow>
                  if run_status r \<notin> {''queued'', ''interrupted'', ''running''} then
                    Inl (RuntimeConflict ''run_not_claimable'')
                  else if job_kind job = ''approval_resume'' \<and>
                      (case select_first (\<lambda>a. Some (ap_id a) = job_approval_id job \<and>
                              ap_tenant_id a = job_tenant_id job \<and> ap_run_id a = Some (job_run_id job) \<and>
                              ap_ticket_id a = job_ticket_id job) (approvals d) of
                         None \<Rightarrow> True | Some a \<Rightarrow> ap_status a \<noteq> ''approved'') then
                    Inl (RuntimeConflict ''approval_resume_not_claimable'')
                  else if run_ticket_id r \<noteq> job_ticket_id job then
                    Inl (RuntimeConflict ''job_ticket_mismatch'')
                  else
                    Inr (lease_of owner (w_now w + seconds lease_seconds)
                           (leased_job (w_now w) owner lease_seconds job),
                         claim_writes w owner lease_seconds job tk r d))))"

section \<open>The fence\<close>

definition stale :: error where
  "stale = RuntimeConflict ''stale_fencing_token''"

definition lease_ticket :: "db \<Rightarrow> job_lease \<Rightarrow> string option" where
  "lease_ticket d l =
     (case jl_ticket_id l of Some t \<Rightarrow> Some t
      | None \<Rightarrow> map_option run_ticket_id
          (select_first (\<lambda>r. run_id r = jl_run_id l \<and> run_tenant_id r = jl_tenant_id l) (runs d)))"

definition assert_fence :: "int \<Rightarrow> db \<Rightarrow> job_lease \<Rightarrow> runtime_job result" where
  "assert_fence now d l =
     (case lease_ticket d l of
        None \<Rightarrow> Inl stale
      | Some tid \<Rightarrow>
        (case (select_first (\<lambda>t. tk_id t = tid \<and> tk_tenant_id t = jl_tenant_id l) (tickets d),
               select_first (\<lambda>j. job_id j = jl_job_id l \<and> job_tenant_id j = jl_tenant_id l \<and>
                 job_run_id j = jl_run_id l \<and> job_ticket_id j = tid) (jobs d)) of
           (Some _, Some job) \<Rightarrow>
             (case select_first (\<lambda>r. run_id r = jl_run_id l \<and> run_tenant_id r = job_tenant_id job) (runs d) of
                None \<Rightarrow> Inl stale
              | Some r \<Rightarrow>
                  if job_status job \<noteq> ''leased'' \<or> job_lease_owner job \<noteq> Some (jl_owner l) \<or>
                     job_fencing_token job \<noteq> jl_fencing_token l \<or>
                     (case job_lease_expires_at job of None \<Rightarrow> True | Some t \<Rightarrow> t \<le> now) \<or>
                     run_active_job_id r \<noteq> Some (jl_job_id l) \<or>
                     run_active_fencing_token r \<noteq> Some (jl_fencing_token l) \<or>
                     (case jl_dispatch_sequence l of None \<Rightarrow> False
                      | Some s \<Rightarrow> job_dispatch_sequence job \<noteq> s)
                  then Inl stale else Inr job)
         | _ \<Rightarrow> Inl stale))"

definition heartbeat :: "world \<Rightarrow> db \<Rightarrow> job_lease \<Rightarrow> nat \<Rightarrow> db result" where
  "heartbeat w d l lease_seconds =
     (case assert_fence (w_now w) d l of
        Inl e \<Rightarrow> Inl e
      | Inr job \<Rightarrow> Inr (upd_job (job_id job)
          (\<lambda>j. j\<lparr>job_heartbeat_at := Some (w_now w),
             job_lease_expires_at := Some (w_now w + seconds lease_seconds)\<rparr>) d))"

definition refresh_lease :: "world \<Rightarrow> db \<Rightarrow> job_lease \<Rightarrow> job_lease result" where
  "refresh_lease w d l =
     (case assert_fence (w_now w) d l of
        Inl e \<Rightarrow> Inl e
      | Inr job \<Rightarrow>
          (case job_lease_expires_at job of
             None \<Rightarrow> Inl stale
           | Some t \<Rightarrow> Inr (lease_of (jl_owner l) t job)))"

section \<open>Retry\<close>

definition hex_value :: "string \<Rightarrow> nat" where
  "hex_value s = foldl (\<lambda>n c. 16 * n + (let k = of_char c :: nat in if k \<le> 57 then k - 48 else k - 87)) 0 s"

text \<open>The first two digest bytes are the first four digits of the hexadecimal digest.\<close>

definition retry_decision_of ::
  "(string \<Rightarrow> string) \<Rightarrow> string \<Rightarrow> nat \<Rightarrow> int \<Rightarrow> int \<Rightarrow> nat \<Rightarrow> nat \<Rightarrow> retry_decision result" where
  "retry_decision_of H jid attempt created_at now max_attempts max_age_seconds =
     (if 1024 \<le> attempt then Inl OverflowError
      else
        (let terminal = (max_attempts \<le> attempt \<or> seconds max_age_seconds \<le> now - created_at);
             jitter_ms = hex_value (take 4 (H (jid @ '':'' @ show_nat attempt))) mod 1001;
             backoff = seconds (min 30 (2 ^ attempt)) + int jitter_ms * 1000
         in Inr \<lparr>rd_terminal = terminal, rd_next_status = (if terminal then ''dead'' else ''retry_wait''),
                 rd_available_at = now + backoff,
                 rd_reason = (if terminal then ''max_attempts_or_age'' else ''bounded_backoff''),
                 rd_attempt = attempt\<rparr>))"

section \<open>Failure convergence\<close>

definition failure_key :: "runtime_job \<Rightarrow> string" where
  "failure_key job = ''runtime-failure:'' @ job_id job"

definition failure_message ::
  "world \<Rightarrow> runtime_job \<Rightarrow> agent_run \<Rightarrow> support_ticket \<Rightarrow> public_failure_category \<Rightarrow> ticket_message" where
  "failure_message w job r tk category =
     \<lparr>msg_id = w_new_id w ''msg'', msg_tenant_id = job_tenant_id job, msg_ticket_id = tk_id tk,
      msg_turn_id = run_turn_id r, msg_run_id = Some (run_id r), msg_approval_id = job_approval_id job,
      msg_conversation_sequence = Some (Suc (tk_next_message_sequence tk)), msg_kind = ''assistant'',
      msg_publication_key = Some (failure_key job), msg_role = ''assistant'',
      msg_content = public_failure_reply category,
      msg_source_refs = PList [PDict [(''kind'', PStr ''runtime_failure''),
        (''reason_code'', PStr ''automatic_processing_failed''),
        (''failure_category'', PStr (category_value category))]]\<rparr>"

text \<open>The ticket part: status, and the failure reply unless one was already published.\<close>

definition publish_failure ::
  "world \<Rightarrow> runtime_job \<Rightarrow> agent_run \<Rightarrow> public_failure_category \<Rightarrow> support_ticket \<Rightarrow> db \<Rightarrow> db result" where
  "publish_failure w job r category tk d =
     (let d1 = upd_ticket (tk_id tk) (\<lambda>t. t\<lparr>tk_status := ''failed'', tk_version := Suc (tk_version t)\<rparr>) d in
      if select_first (\<lambda>m. msg_tenant_id m = job_tenant_id job \<and>
           msg_publication_key m = Some (failure_key job)) (messages d) \<noteq> None then Inr d1
      else (case insert_row msg_id (failure_message w job r tk category) (messages d) of
          Inl e \<Rightarrow> Inl e
        | Inr ms \<Rightarrow> Inr (upd_ticket (tk_id tk)
            (\<lambda>t. advance_conversation_activity (instant (w_clock w))
               (t\<lparr>tk_next_message_sequence := Suc (tk_next_message_sequence t)\<rparr>))
            (d1\<lparr>messages := ms\<rparr>))))"

definition fail_approval :: "runtime_job \<Rightarrow> db \<Rightarrow> db result" where
  "fail_approval job d =
     (if falsy_str (job_approval_id job) then Inr d
      else (case lookup_by ap_id (the (job_approval_id job)) (approvals d) of
          None \<Rightarrow> Inr d
        | Some a \<Rightarrow>
            if ap_status a \<in> {''executed'', ''rejected'', ''manual_takeover'', ''failed'', ''stale'', ''withdrawn''}
            then Inr d
            else (case transition_approval d a ''failed'' (ap_status a) (Some (ap_status_version a)) None of
                Inl e \<Rightarrow> Inl e
              | Inr (_, d1) \<Rightarrow>
                  Inr (case ap_proposal_id a of
                      None \<Rightarrow> d1
                    | Some p \<Rightarrow>
                        d1\<lparr>proposals := update_by pr_id p
                          (\<lambda>q. if pr_status q \<in> {''draft'', ''bound''}
                               then q\<lparr>pr_status := ''stale'', pr_status_version := Suc (pr_status_version q)\<rparr>
                               else q) (proposals d1)\<rparr>))))"

definition abort_markers :: "runtime_job \<Rightarrow> db \<Rightarrow> db" where
  "abort_markers job d =
     d\<lparr>markers := map (\<lambda>m. if mk_job_id m = job_id job \<and> mk_status m \<in> {''prepared'', ''checkpoint_written''}
       then m\<lparr>mk_status := ''aborted'', mk_status_version := Suc (mk_status_version m)\<rparr> else m) (markers d)\<rparr>"

definition fail_run :: "world \<Rightarrow> agent_run \<Rightarrow> string \<Rightarrow> db \<Rightarrow> db" where
  "fail_run w r reason d =
     (let now = instant (w_clock w);
          d1 = upd_run (run_id r)
            (\<lambda>x. x\<lparr>run_status := ''failed'', run_error_code := Some (take_chars 128 reason),
               run_active_job_id := None, run_active_fencing_token := None,
               run_completed_at := Some now\<rparr>) d
      in if falsy_str (run_turn_id r) then d1
         else upd_turn (the (run_turn_id r))
           (\<lambda>t. t\<lparr>tn_activity_state := ''failed'', tn_result_state := Some ''failed'',
              tn_completed_at := Some now\<rparr>) d1)"

definition release_lane :: "world \<Rightarrow> runtime_job \<Rightarrow> string \<Rightarrow> db \<Rightarrow> db result" where
  "release_lane w job tid d =
     (case lookup_by tk_id tid (tickets d) of
        None \<Rightarrow> Inr d
      | Some tk \<Rightarrow>
          if tk_automation_mode tk = ''agent'' \<and> tk_lifecycle tk = ''active'' then
            (case activate_next_turn_and_converge_ticket w d tk (failure_key job) ''failed'' of
               Inl e \<Rightarrow> Inl e | Inr (_, d') \<Rightarrow> Inr d')
          else Inr d)"

definition converge_dead_aggregates ::
  "world \<Rightarrow> db \<Rightarrow> runtime_job \<Rightarrow> agent_run \<Rightarrow> string \<Rightarrow> db result" where
  "converge_dead_aggregates w d job r reason =
     (let category = (case classify_public_failure (PStr reason) of None \<Rightarrow> Runtime | Some c \<Rightarrow> c);
          d1 = fail_run w r reason d
      in case (case lookup_by tk_id (run_ticket_id r) (tickets d1) of
                 None \<Rightarrow> Inr d1
               | Some tk \<Rightarrow> if tk_automation_mode tk \<noteq> ''human_queue''
                   then publish_failure w job r category tk d1 else Inr d1) of
           Inl e \<Rightarrow> Inl e
         | Inr d2 \<Rightarrow>
             (case fail_approval job d2 of
                Inl e \<Rightarrow> Inl e
              | Inr d3 \<Rightarrow> release_lane w job (run_ticket_id r) (abort_markers job d3)))"

section \<open>Settling a lease\<close>

definition released_job :: "string \<Rightarrow> runtime_job \<Rightarrow> runtime_job" where
  "released_job status j =
     (transition_runtime_job_status status j)
       \<lparr>job_lease_owner := None, job_lease_expires_at := None, job_heartbeat_at := None\<rparr>"

definition fail :: "world \<Rightarrow> db \<Rightarrow> job_lease \<Rightarrow> string \<Rightarrow> nat \<Rightarrow> nat \<Rightarrow> (string \<times> db) result" where
  "fail w d l error_code max_attempts max_age_seconds =
     (case assert_fence (w_now w) d l of
        Inl e \<Rightarrow> Inl e
      | Inr job \<Rightarrow>
        (case lookup_by run_id (jl_run_id l) (runs d) of
           None \<Rightarrow> Inl (RuntimeConflict ''run_not_found'')
         | Some r \<Rightarrow>
           (case retry_decision_of (w_digest w) (job_id job) (job_attempt job) (job_created_at job)
                   (w_now w) max_attempts max_age_seconds of
              Inl e \<Rightarrow> Inl e
            | Inr dec \<Rightarrow>
                (let d1 = upd_job (job_id job)
                       (\<lambda>j. (released_job (rd_next_status dec) j)
                          \<lparr>job_last_error := Some (take_chars 128 error_code),
                           job_available_at := rd_available_at dec\<rparr>) d;
                     d2 = upd_run (run_id r)
                       (\<lambda>x. x\<lparr>run_active_job_id := None, run_active_fencing_token := None,
                          run_status := (if rd_terminal dec then ''failed'' else ''queued''),
                          run_error_code := (if rd_terminal dec then Some (take_chars 128 error_code) else None),
                          run_status_version := Suc (run_status_version x)\<rparr>) d1
                 in if rd_terminal dec
                    then (case converge_dead_aggregates w d2 job r error_code of
                            Inl e \<Rightarrow> Inl e | Inr d3 \<Rightarrow> Inr (rd_next_status dec, d3))
                    else Inr (rd_next_status dec, d2)))))"

definition terminal_fail :: "world \<Rightarrow> db \<Rightarrow> job_lease \<Rightarrow> string \<Rightarrow> (string \<times> db) result" where
  "terminal_fail w d l error_code =
     (case assert_fence (w_now w) d l of
        Inl e \<Rightarrow> Inl e
      | Inr job \<Rightarrow>
        (case lookup_by run_id (jl_run_id l) (runs d) of
           None \<Rightarrow> Inl (RuntimeConflict ''run_not_found'')
         | Some r \<Rightarrow>
             (let d1 = upd_job (job_id job)
                    (\<lambda>j. (released_job ''dead'' j)\<lparr>job_last_error := Some (take_chars 128 error_code)\<rparr>) d
              in case converge_dead_aggregates w d1 job r error_code of
                   Inl e \<Rightarrow> Inl e
                 | Inr d2 \<Rightarrow> Inr (''dead'',
                     upd_run (run_id r) (\<lambda>x. x\<lparr>run_status_version := Suc (run_status_version x)\<rparr>) d2))))"

definition finalize_control :: "db \<Rightarrow> job_lease \<Rightarrow> string \<Rightarrow> string \<Rightarrow> db result" where
  "finalize_control d l status outcome =
     (case lookup_by job_id (jl_job_id l) (jobs d) of
        None \<Rightarrow> Inl stale
      | Some job \<Rightarrow> Inr (upd_job (job_id job)
          (\<lambda>j. (released_job status j)\<lparr>job_outcome := Some outcome,
             job_last_error := (if status = ''dead'' then Some (take_chars 128 outcome) else None)\<rparr>) d))"

definition complete :: "world \<Rightarrow> db \<Rightarrow> job_lease \<Rightarrow> string \<Rightarrow> db result" where
  "complete w d l outcome =
     (case assert_fence (w_now w) d l of
        Inl e \<Rightarrow> Inl e
      | Inr job \<Rightarrow>
        (case lookup_by run_id (jl_run_id l) (runs d) of
           None \<Rightarrow> Inl (RuntimeConflict ''run_not_found'')
         | Some r \<Rightarrow>
             Inr (upd_run (run_id r)
               (\<lambda>x. (if outcome = ''interrupted'' then x\<lparr>run_status := ''interrupted''\<rparr>
                     else if outcome \<in> {''completed'', ''rejected'', ''manual_takeover''}
                     then x\<lparr>run_status := ''completed'', run_completed_at := Some (instant (w_clock w))\<rparr>
                     else x)
                 \<lparr>run_active_job_id := None, run_active_fencing_token := None,
                  run_status_version := Suc (run_status_version x)\<rparr>)
               (upd_job (job_id job)
                 (\<lambda>j. (released_job ''succeeded'' j)\<lparr>job_outcome := Some outcome\<rparr>) d))))"

section \<open>What the operations do to the job table\<close>

text \<open>
  Every operation but \<open>claim\<close> is quiet: it keeps the identity and the fencing token of each job, leases
  none, and at most adds jobs that are not leased.
\<close>

definition same_job :: "runtime_job \<Rightarrow> runtime_job \<Rightarrow> bool" where
  "same_job j k =
     (job_id k = job_id j \<and> job_tenant_id k = job_tenant_id j \<and> job_ticket_id k = job_ticket_id j \<and>
      job_run_id k = job_run_id j \<and> job_dispatch_sequence k = job_dispatch_sequence j)"

definition job_quiet :: "runtime_job \<Rightarrow> runtime_job \<Rightarrow> bool" where
  "job_quiet j k =
     (same_job j k \<and> job_fencing_token k = job_fencing_token j \<and>
      (job_status k = ''leased'' \<longrightarrow> job_status j = ''leased''))"

definition quiet_jobs :: "runtime_job list \<Rightarrow> runtime_job list \<Rightarrow> bool" where
  "quiet_jobs js js' =
     (\<exists>ks new. js' = ks @ new \<and> list_all2 job_quiet js ks \<and>
        (\<forall>j \<in> set new. job_status j \<noteq> ''leased'' \<and> job_id j \<notin> job_id ` set js) \<and> distinct (map job_id new))"

lemma job_quiet_refl [simp]: "job_quiet j j"
  by (simp add: job_quiet_def same_job_def)

lemma job_quiet_trans: "job_quiet i j \<Longrightarrow> job_quiet j k \<Longrightarrow> job_quiet i k"
  by (auto simp: job_quiet_def same_job_def)

lemma list_all2_ids: "list_all2 job_quiet js ks \<Longrightarrow> map job_id ks = map job_id js"
  by (induction rule: list_all2_induct) (auto simp: job_quiet_def same_job_def)

lemma quiet_jobs_refl [simp]: "quiet_jobs js js"
  unfolding quiet_jobs_def by (intro exI [of _ js] exI [of _ "[]"]) (simp add: list_all2_refl)

lemma quiet_jobs_snoc:
  "job_status j \<noteq> ''leased'' \<Longrightarrow> job_id j \<notin> job_id ` set js \<Longrightarrow> quiet_jobs js (js @ [j])"
  unfolding quiet_jobs_def by (intro exI [of _ js] exI [of _ "[j]"]) (simp add: list_all2_refl)

lemma quiet_jobs_update:
  assumes "\<And>j. j \<in> set js \<Longrightarrow> job_id j = k \<Longrightarrow> job_quiet j (f j)"
  shows "quiet_jobs js (update_by job_id k f js)"
  using assms unfolding quiet_jobs_def
  by (intro exI [of _ "update_by job_id k f js"] exI [of _ "[]"])
    (auto simp: update_by_def list_all2_conv_all_nth)

lemma quiet_jobs_trans:
  assumes "quiet_jobs js js'" "quiet_jobs js' js''"
  shows "quiet_jobs js js''"
proof -
  obtain ks new where 1: "js' = ks @ new" "list_all2 job_quiet js ks" "distinct (map job_id new)"
    "\<forall>j \<in> set new. job_status j \<noteq> ''leased'' \<and> job_id j \<notin> job_id ` set js"
    using assms(1) by (auto simp: quiet_jobs_def)
  obtain ks2 new2 where 2: "js'' = ks2 @ new2" "list_all2 job_quiet js' ks2" "distinct (map job_id new2)"
    "\<forall>j \<in> set new2. job_status j \<noteq> ''leased'' \<and> job_id j \<notin> job_id ` set js'"
    using assms(2) by (auto simp: quiet_jobs_def)
  obtain a b where ab: "ks2 = a @ b" "list_all2 job_quiet ks a" "list_all2 job_quiet new b"
    using 1(1) 2(2) by (auto simp: list_all2_append1)
  have ids: "map job_id b = map job_id new" "map job_id a = map job_id js"
    using list_all2_ids [OF ab(3)] list_all2_ids [OF ab(2)] list_all2_ids [OF 1(2)] by simp_all
  have idset: "job_id ` set js \<subseteq> job_id ` set js'" "job_id ` set b = job_id ` set new"
    using ids list_all2_ids [OF 1(2)] 1(1) by (metis image_set set_append image_Un Un_upper1)+
  have b: "\<forall>k \<in> set b. job_status k \<noteq> ''leased'' \<and> job_id k \<notin> job_id ` set js"
  proof
    fix k assume "k \<in> set b"
    then obtain j where "j \<in> set new" "job_quiet j k" using list_all2_right [OF ab(3)] by blast
    then show "job_status k \<noteq> ''leased'' \<and> job_id k \<notin> job_id ` set js"
      using 1(4) by (auto simp: job_quiet_def same_job_def)
  qed
  have "job_id ` set new \<subseteq> job_id ` set js'" using 1(1) by auto
  moreover have "job_id ` set new2 \<inter> job_id ` set js' = {}" using 2(4) by blast
  ultimately have disj: "job_id ` set b \<inter> job_id ` set new2 = {}" unfolding idset(2) by blast
  have "list_all2 job_quiet js a"
    using list_all2_trans [OF _ 1(2) ab(2)] job_quiet_trans by blast
  moreover have "js'' = a @ (b @ new2)" using 2(1) ab(1) by simp
  moreover have "\<forall>j \<in> set (b @ new2). job_status j \<noteq> ''leased'' \<and> job_id j \<notin> job_id ` set js"
    using b 2(4) idset(1) unfolding set_append by blast
  moreover have "distinct (map job_id (b @ new2))" using ids(1) 1(3) 2(3) disj
    unfolding map_append distinct_append set_map by simp
  ultimately show ?thesis unfolding quiet_jobs_def by blast
qed

lemma released_quiet: "s \<noteq> ''leased'' \<Longrightarrow> job_quiet j (released_job s j)"
  by (auto simp: job_quiet_def same_job_def released_job_def transition_runtime_job_status_def)

lemma activate_next_turn_quiet:
  assumes "activate_next_turn w d tk trace = Inr (x, d')"
  shows "quiet_jobs (jobs d) (jobs d')"
proof (cases x)
  case None
  with assms activate_next_turn_None have "d' = d" by simp
  then show ?thesis by simp
next
  case (Some rj)
  then obtain r job where rj: "x = Some (r, job)" by (cases rj) simp
  show ?thesis
    by (rule activate_next_turn_Some [OF assms [unfolded rj]])
      (simp add: quiet_jobs_snoc new_runtime_job_def)
qed

lemma release_lane_cases:
  assumes "release_lane w job tid d = Inr d'"
  obtains (same) "d' = d"
    | (released) tk x d1 st tk1 where "activate_next_turn w d tk (failure_key job) = Inr (x, d1)"
      "converge_ticket d1 tk1 ''failed'' = (st, d')"
proof (cases "\<exists>tk. lookup_by tk_id tid (tickets d) = Some tk \<and> tk_automation_mode tk = ''agent'' \<and>
    tk_lifecycle tk = ''active''")
  case True
  then have "\<exists>tk x d1 st tk1. activate_next_turn w d tk (failure_key job) = Inr (x, d1) \<and>
      converge_ticket d1 tk1 ''failed'' = (st, d')"
    using assms
    by (auto simp: release_lane_def activate_next_turn_and_converge_ticket_def
        split: sum.splits option.splits prod.splits) blast
  then show ?thesis using released by blast
next
  case False
  with assms same show ?thesis by (auto simp: release_lane_def split: option.splits if_splits)
qed

lemma release_lane_quiet:
  assumes "release_lane w job tid d = Inr d'"
  shows "quiet_jobs (jobs d) (jobs d')"
  using assms
proof (cases rule: release_lane_cases)
  case (released tk x d1 st tk1)
  then show ?thesis using activate_next_turn_quiet converge_ticket_frame(2) by metis
qed simp

lemma transition_approval_jobs: "transition_approval d a t e v c = Inr (x, d') \<Longrightarrow> jobs d' = jobs d"
  by (auto dest!: transition_approval_Inr simp: upd_approval_def)

lemma publish_failure_jobs: "publish_failure w job r c tk d = Inr d' \<Longrightarrow> jobs d' = jobs d"
  by (auto simp: publish_failure_def Let_def upd_defs split: if_splits sum.splits)

lemma fail_approval_jobs: "fail_approval job d = Inr d' \<Longrightarrow> jobs d' = jobs d"
  by (auto simp: fail_approval_def dest: transition_approval_jobs
      split: if_splits option.splits sum.splits prod.splits)

lemma fail_run_jobs [simp]: "jobs (fail_run w r reason d) = jobs d"
  by (simp add: fail_run_def Let_def upd_defs)

lemma abort_markers_jobs [simp]: "jobs (abort_markers job d) = jobs d"
  by (simp add: abort_markers_def)

lemma converge_dead_aggregates_Inr:
  assumes "converge_dead_aggregates w d job r reason = Inr d'"
  obtains d2 d3 where "(case lookup_by tk_id (run_ticket_id r) (tickets (fail_run w r reason d)) of
        None \<Rightarrow> Inr (fail_run w r reason d)
      | Some tk \<Rightarrow> if tk_automation_mode tk \<noteq> ''human_queue'' then publish_failure w job r
          (case classify_public_failure (PStr reason) of None \<Rightarrow> Runtime | Some c \<Rightarrow> c) tk (fail_run w r reason d)
          else Inr (fail_run w r reason d)) = Inr d2"
    "fail_approval job d2 = Inr d3" "release_lane w job (run_ticket_id r) (abort_markers job d3) = Inr d'"
  using assms unfolding converge_dead_aggregates_def Let_def by (auto elim!: result_cases_Inr)

lemma converge_dead_aggregates_quiet:
  assumes "converge_dead_aggregates w d job r reason = Inr d'"
  shows "quiet_jobs (jobs d) (jobs d')"
  using assms
proof (rule converge_dead_aggregates_Inr)
  fix d2 d3
  assume 2: "(case lookup_by tk_id (run_ticket_id r) (tickets (fail_run w r reason d)) of
        None \<Rightarrow> Inr (fail_run w r reason d)
      | Some tk \<Rightarrow> if tk_automation_mode tk \<noteq> ''human_queue'' then publish_failure w job r
          (case classify_public_failure (PStr reason) of None \<Rightarrow> Runtime | Some c \<Rightarrow> c) tk (fail_run w r reason d)
          else Inr (fail_run w r reason d)) = Inr d2"
    and 3: "fail_approval job d2 = Inr d3"
    and 4: "release_lane w job (run_ticket_id r) (abort_markers job d3) = Inr d'"
  have "jobs d2 = jobs d"
    using 2 publish_failure_jobs by (auto split: option.splits if_splits)
  then show ?thesis using release_lane_quiet [OF 4] fail_approval_jobs [OF 3] by simp
qed

lemma assert_fence_Inr:
  assumes "assert_fence now d l = Inr j"
  shows "j \<in> set (jobs d) \<and> job_id j = jl_job_id l \<and> job_status j = ''leased'' \<and>
    job_lease_owner j = Some (jl_owner l) \<and> job_fencing_token j = jl_fencing_token l \<and>
    job_tenant_id j = jl_tenant_id l \<and> job_run_id j = jl_run_id l \<and>
    (\<exists>t. job_lease_expires_at j = Some t \<and> now < t)"
proof -
  obtain tid where "lease_ticket d l = Some tid"
    using assms by (auto simp: assert_fence_def split: option.splits)
  with assms show ?thesis
    by (auto simp: assert_fence_def dest!: select_first_Some split: option.splits if_splits)
qed

lemma assert_fence_stale: "assert_fence now d l = Inl e \<Longrightarrow> e = stale"
  by (auto simp: assert_fence_def split: option.splits if_splits)

lemma heartbeat_quiet:
  assumes "heartbeat w d l n = Inr d'"
  shows "quiet_jobs (jobs d) (jobs d')"
  using assms
  by (auto simp: heartbeat_def upd_job_def job_quiet_def same_job_def intro!: quiet_jobs_update
      split: sum.splits)

lemma new_runtime_job_fields [simp]:
  "job_id (new_runtime_job now jid tn tid rid n kind ap) = jid"
  "job_status (new_runtime_job now jid tn tid rid n kind ap) = ''queued''"
  "job_tenant_id (new_runtime_job now jid tn tid rid n kind ap) = tn"
  "job_ticket_id (new_runtime_job now jid tn tid rid n kind ap) = tid"
  "job_run_id (new_runtime_job now jid tn tid rid n kind ap) = rid"
  "job_dispatch_sequence (new_runtime_job now jid tn tid rid n kind ap) = n"
  by (simp_all add: new_runtime_job_def)

lemma create_job_jobs:
  assumes "create_job w d tenant rid kind ap jid tid = Inr (j, d')"
  shows "jobs d' = jobs d @ [j] \<and> job_id j \<notin> job_id ` set (jobs d) \<and> job_status j = ''queued''"
  using assms unfolding create_job_def Let_def upd_ticket_def guard_simps by clarsimp

lemma create_job_quiet:
  assumes "create_job w d tenant rid kind ap jid tid = Inr (j, d')"
  shows "quiet_jobs (jobs d) (jobs d')"
  using create_job_jobs [OF assms] by (simp add: quiet_jobs_snoc)

lemma retry_decision_status:
  "retry_decision_of H jid a c now m g = Inr dec \<Longrightarrow> rd_next_status dec \<noteq> ''leased''"
  by (auto simp: retry_decision_of_def Let_def split: if_splits)

lemma job_quiet_released:
  assumes "s \<noteq> ''leased''"
    and "\<And>j. job_status (g j) = job_status j" "\<And>j. job_fencing_token (g j) = job_fencing_token j"
      "\<And>j. same_job j (g j)"
  shows "job_quiet j (g (released_job s j))"
  using released_quiet [OF assms(1), of j] assms(2,3) assms(4) [of "released_job s j"]
  by (auto simp: job_quiet_def same_job_def)

lemma complete_jobs:
  assumes "complete w d l out = Inr d'"
  obtains job where "assert_fence (w_now w) d l = Inr job"
    "jobs d' = update_by job_id (job_id job)
       (\<lambda>j. (released_job ''succeeded'' j)\<lparr>job_outcome := Some out\<rparr>) (jobs d)"
  using assms unfolding complete_def guard_simps by (clarsimp simp: upd_defs)

lemma fail_jobs:
  assumes "fail w d l e ma mg = Inr (st, d')"
  obtains job dec where "assert_fence (w_now w) d l = Inr job"
    "retry_decision_of (w_digest w) (job_id job) (job_attempt job) (job_created_at job) (w_now w) ma mg = Inr dec"
    "quiet_jobs (update_by job_id (job_id job)
       (\<lambda>j. (released_job (rd_next_status dec) j)\<lparr>job_last_error := Some (take_chars 128 e),
          job_available_at := rd_available_at dec\<rparr>) (jobs d)) (jobs d')"
proof -
  from assms obtain job r dec where 1: "assert_fence (w_now w) d l = Inr job"
    "retry_decision_of (w_digest w) (job_id job) (job_attempt job) (job_created_at job) (w_now w) ma mg = Inr dec"
    unfolding fail_def guard_simps by blast
  define d1 where "d1 = upd_job (job_id job) (\<lambda>j. (released_job (rd_next_status dec) j)
      \<lparr>job_last_error := Some (take_chars 128 e), job_available_at := rd_available_at dec\<rparr>) d"
  have "quiet_jobs (jobs d1) (jobs d')"
    using assms 1 unfolding fail_def Let_def
    by (auto simp: upd_run_def d1_def dest!: converge_dead_aggregates_quiet split: option.splits if_splits sum.splits)
  with that [OF 1] show ?thesis by (simp add: d1_def upd_job_def)
qed

lemma terminal_fail_jobs:
  assumes "terminal_fail w d l e = Inr (st, d')"
  obtains job where "assert_fence (w_now w) d l = Inr job"
    "quiet_jobs (update_by job_id (job_id job)
       (\<lambda>j. (released_job ''dead'' j)\<lparr>job_last_error := Some (take_chars 128 e)\<rparr>) (jobs d)) (jobs d')"
proof -
  from assms obtain job where 1: "assert_fence (w_now w) d l = Inr job"
    unfolding terminal_fail_def guard_simps by blast
  define d1 where "d1 = upd_job (job_id job)
      (\<lambda>j. (released_job ''dead'' j)\<lparr>job_last_error := Some (take_chars 128 e)\<rparr>) d"
  have "quiet_jobs (jobs d1) (jobs d')"
    using assms 1 unfolding terminal_fail_def Let_def
    by (auto simp: upd_run_def d1_def dest!: converge_dead_aggregates_quiet split: option.splits sum.splits)
  with that [OF 1] show ?thesis by (simp add: d1_def upd_job_def)
qed

lemma released_update_quiet:
  assumes "s \<noteq> ''leased''" "\<And>j. job_status (g j) = job_status j"
    "\<And>j. job_fencing_token (g j) = job_fencing_token j" "\<And>j. same_job j (g j)"
  shows "quiet_jobs js (update_by job_id k (\<lambda>j. g (released_job s j)) js)"
  by (rule quiet_jobs_update) (rule job_quiet_released [OF assms])

lemma fail_quiet: "fail w d l e ma mg = Inr (st, d') \<Longrightarrow> quiet_jobs (jobs d) (jobs d')"
proof (erule fail_jobs)
  fix job dec
  assume dec: "retry_decision_of (w_digest w) (job_id job) (job_attempt job) (job_created_at job) (w_now w)
      ma mg = Inr dec" and
    q: "quiet_jobs (update_by job_id (job_id job)
       (\<lambda>j. (released_job (rd_next_status dec) j)\<lparr>job_last_error := Some (take_chars 128 e),
          job_available_at := rd_available_at dec\<rparr>) (jobs d)) (jobs d')"
  show ?thesis
    by (rule quiet_jobs_trans [OF _ q], rule released_update_quiet [OF retry_decision_status [OF dec]]) (simp_all add: same_job_def)
qed

lemma terminal_fail_quiet: "terminal_fail w d l e = Inr (st, d') \<Longrightarrow> quiet_jobs (jobs d) (jobs d')"
proof (erule terminal_fail_jobs)
  fix job
  assume q: "quiet_jobs (update_by job_id (job_id job)
       (\<lambda>j. (released_job ''dead'' j)\<lparr>job_last_error := Some (take_chars 128 e)\<rparr>) (jobs d)) (jobs d')"
  show ?thesis
    by (rule quiet_jobs_trans [OF _ q], rule released_update_quiet) (simp_all add: same_job_def)
qed

lemma finalize_control_quiet:
  assumes "finalize_control d l s out = Inr d'" "s \<noteq> ''leased''"
  shows "quiet_jobs (jobs d) (jobs d')"
proof -
  obtain k where "jobs d' = update_by job_id k (\<lambda>j. (released_job s j)\<lparr>job_outcome := Some out,
      job_last_error := (if s = ''dead'' then Some (take_chars 128 out) else None)\<rparr>) (jobs d)"
    using assms(1) unfolding finalize_control_def guard_simps by (force simp: upd_job_def)
  then show ?thesis
    by (simp only:) (rule released_update_quiet [OF assms(2)], simp_all add: same_job_def)
qed

lemma complete_quiet: "complete w d l out = Inr d' \<Longrightarrow> quiet_jobs (jobs d) (jobs d')"
  by (erule complete_jobs) (simp, rule released_update_quiet, simp_all add: same_job_def)

lemma claim_writes_jobs [simp]:
  "jobs (claim_writes w owner n job tk r d) =
     update_by job_id (job_id job) (leased_job (w_now w) owner n) (jobs d)"
  by (simp add: claim_writes_def Let_def upd_defs)

lemma claim_writes_runs [simp]:
  "runs (claim_writes w owner n job tk r d) = update_by run_id (run_id r)
     (\<lambda>x. x\<lparr>run_active_job_id := Some (job_id job),
        run_active_fencing_token := Some (Suc (job_fencing_token job)),
        run_status := ''running'', run_status_version := Suc (run_status_version x)\<rparr>) (runs d)"
  by (simp add: claim_writes_def Let_def upd_defs)

lemma claim_writes_tickets:
  "map (\<lambda>t. (tk_id t, tk_tenant_id t)) (tickets (claim_writes w owner n job tk r d)) =
     map (\<lambda>t. (tk_id t, tk_tenant_id t)) (tickets d)"
  by (simp add: claim_writes_def Let_def upd_defs update_by_def)

lemma claim_Inr:
  assumes "claim w d jid owner n = Inr (l, d')"
  obtains job tk r where "lookup_by job_id jid (jobs d) = Some job" "job_id job = jid"
    "job_status job \<in> {''queued'', ''retry_wait''}"
    "lane_head d job = Some (job_dispatch_sequence job)" "\<not> lane_leased d job"
    "job_available_at job \<le> w_now w"
    "select_first (\<lambda>t. tk_id t = job_ticket_id job \<and> tk_tenant_id t = job_tenant_id job) (tickets d) = Some tk"
    "select_first (\<lambda>r. run_id r = job_run_id job \<and> run_tenant_id r = job_tenant_id job) (runs d) = Some r"
    "l = lease_of owner (w_now w + seconds n) (leased_job (w_now w) owner n job)"
    "d' = claim_writes w owner n job tk r d"
proof -
  from assms obtain job tk r where "lookup_by job_id jid (jobs d) = Some job"
    "job_status job \<in> {''queued'', ''retry_wait''}"
    "lane_head d job = Some (job_dispatch_sequence job)" "\<not> lane_leased d job"
    "\<not> job_available_at job > w_now w"
    "select_first (\<lambda>t. tk_id t = job_ticket_id job \<and> tk_tenant_id t = job_tenant_id job) (tickets d) = Some tk"
    "select_first (\<lambda>r. run_id r = job_run_id job \<and> run_tenant_id r = job_tenant_id job) (runs d) = Some r"
    "(lease_of owner (w_now w + seconds n) (leased_job (w_now w) owner n job),
      claim_writes w owner n job tk r d) = (l, d')"
    unfolding claim_def guard_simps Inr_inject by blast
  with that lookup_by_Some [of job_id jid "jobs d" job] show ?thesis by simp
qed

end
