(* ===== verification/Failure_Convergence.thy ===== *)
theory Failure_Convergence
  imports Runtime_Jobs
begin

text \<open>
  What \<open>converge_dead_aggregates\<close> of \<open>services/runtime_jobs.py\<close> leaves behind when a job dies: one safe
  reply to the customer, a failed turn, a closed approval and no open checkpoint, whatever turn is
  promoted next.
\<close>

section \<open>What each part leaves alone\<close>

definition publication :: "ticket_message \<Rightarrow> string \<times> string option \<times> string" where
  "publication m = (msg_tenant_id m, msg_publication_key m, msg_content m)"

definition failure_replies :: "runtime_job \<Rightarrow> db \<Rightarrow> string list" where
  "failure_replies job d =
     map (\<lambda>(_, _, c). c) (filter (\<lambda>(t, k, _). t = job_tenant_id job \<and> k = Some (failure_key job))
       (map publication (messages d)))"

lemma bind_turn_frame:
  "map publication (messages (bind_turn tk t r d)) = map publication (messages d)"
  "approvals (bind_turn tk t r d) = approvals d" "markers (bind_turn tk t r d) = markers d"
  by (simp_all add: bind_turn_def upd_defs update_by_def publication_def)

lemma activate_next_turn_frame:
  assumes "activate_next_turn w d tk trace = Inr (x, d')"
  shows "map publication (messages d') = map publication (messages d) \<and> approvals d' = approvals d \<and>
    markers d' = markers d \<and>
    (\<forall>t \<in> set (turns d'). t \<in> set (turns d) \<or>
       (\<exists>u \<in> set (turns d). tn_id u = tn_id t \<and> tn_activity_state u = ''accepted''))"
proof (cases x)
  case None
  with assms activate_next_turn_None have "d' = d" by simp
  then show ?thesis by simp
next
  case (Some rj)
  then obtain r job where rj: "x = Some (r, job)" by (cases rj) simp
  obtain u r0 d1 ob where *: "accepted_turn d (tk_id tk) = Some u"
    "create_run (w_digest w) (w_redact w) (w_worker w) (provenance_of w (turn_run_request tk u))
       (w_new_id w ''run'') (w_new_id w ''event'') (w_clock w) d (turn_run_request tk u) = Inr (r0, d1)"
    "d' = (bind_turn tk u r0 d1)\<lparr>jobs := jobs d @ [job], outbox := outbox d @ [ob]\<rparr>"
    by (rule activate_next_turn_Some [OF assms [unfolded rj]])
  note fr = create_run_frame [OF *(2)]
  have "t \<in> set (turns d) \<or> (\<exists>u \<in> set (turns d). tn_id u = tn_id t \<and> tn_activity_state u = ''accepted'')"
    if "t \<in> set (turns d')" for t
    using that accepted_turn_Some(1,3) [OF *(1)]
    by (auto simp: *(3) fr(1) in_update_by split: if_splits)
  then show ?thesis using fr by (simp add: *(3) bind_turn_frame)
qed

lemma converge_ticket_frame2:
  assumes "converge_ticket d tk s = (st, d')"
  shows "messages d' = messages d" "markers d' = markers d" "turns d' = turns d" "approvals d' = approvals d"
  using assms by (auto simp: converge_ticket_def Let_def upd_defs split: if_splits)

lemma release_lane_frame:
  assumes "release_lane w job tid d = Inr d'"
  shows "map publication (messages d') = map publication (messages d) \<and> approvals d' = approvals d \<and>
    markers d' = markers d \<and>
    (\<forall>t \<in> set (turns d'). t \<in> set (turns d) \<or>
       (\<exists>u \<in> set (turns d). tn_id u = tn_id t \<and> tn_activity_state u = ''accepted''))"
  using assms
proof (cases rule: release_lane_cases)
  case (released tk x d1 st tk1)
  then show ?thesis using activate_next_turn_frame converge_ticket_frame2 by metis
qed simp

lemma transition_approval_frame:
  "transition_approval d a t e v c = Inr (x, d') \<Longrightarrow> messages d' = messages d \<and> turns d' = turns d"
  by (auto dest!: transition_approval_Inr simp: upd_approval_def)

lemma fail_approval_frame:
  assumes "fail_approval job d = Inr d'"
  shows "messages d' = messages d" "turns d' = turns d"
  using assms unfolding fail_approval_def
  by (auto dest!: transition_approval_frame simp del: insert_iff
      split: if_splits option.splits sum.splits prod.splits)

lemma publish_failure_frame:
  assumes "publish_failure w job r c tk d = Inr d'"
  shows "turns d' = turns d"
  using assms by (auto simp: publish_failure_def Let_def upd_defs split: if_splits sum.splits)

section \<open>The parts\<close>

lemma failure_replies_cong:
  "map publication (messages d') = map publication (messages d) \<Longrightarrow> failure_replies job d' = failure_replies job d"
  by (simp add: failure_replies_def)

lemma publish_failure_replies:
  assumes "publish_failure w job r c tk d = Inr d'"
  shows "failure_replies job d' =
    (if failure_replies job d = [] then [public_failure_reply c] else failure_replies job d)"
proof -
  let ?P = "\<lambda>m. msg_tenant_id m = job_tenant_id job \<and> msg_publication_key m = Some (failure_key job)"
  have nil: "failure_replies job d = [] \<longleftrightarrow> select_first ?P (messages d) = None"
    by (auto simp: failure_replies_def select_first_None publication_def filter_map comp_def filter_empty_conv)
  show ?thesis
  proof (cases "select_first ?P (messages d)")
    case None
    with assms have "messages d' = messages d @ [failure_message w job r tk c]"
      by (auto simp: publish_failure_def Let_def insert_row_Inr upd_defs split: sum.splits)
    then have "failure_replies job d' = failure_replies job d @ [public_failure_reply c]"
      by (simp add: failure_replies_def publication_def failure_message_def)
    with None nil show ?thesis by simp
  next
    case (Some m)
    with assms have "messages d' = messages d" by (auto simp: publish_failure_def Let_def upd_defs)
    with Some nil show ?thesis by (simp add: failure_replies_def)
  qed
qed

lemma fail_approval_closes:
  assumes "fail_approval job d = Inr d'" "job_approval_id job = Some a" "a \<noteq> []"
    "lookup_by ap_id a (approvals d') = Some row"
  shows "ap_status row \<in> set TERMINAL_APPROVAL_STATUSES"
proof (cases "lookup_by ap_id a (approvals d)")
  case None
  with assms have "d' = d" by (simp add: fail_approval_def falsy_str_def)
  with None assms(4) show ?thesis by simp
next
  case (Some b)
  then have id: "ap_id b = a" using lookup_by_Some by fastforce
  let ?T = "{''executed'', ''rejected'', ''manual_takeover'', ''failed'', ''stale'', ''withdrawn''}"
  have T: "?T = set TERMINAL_APPROVAL_STATUSES" by (auto simp: TERMINAL_APPROVAL_STATUSES_def)
  show ?thesis
  proof (cases "ap_status b \<in> ?T")
    case True
    with assms Some have "d' = d" by (simp add: fail_approval_def falsy_str_def)
    with True Some assms(4) T show ?thesis by simp
  next
    case False
    then obtain tr d1 where t: "transition_approval d b ''failed'' (ap_status b) (Some (ap_status_version b)) None =
        Inr (tr, d1)" and ap: "approvals d' = approvals d1"
      using assms Some by (auto simp: fail_approval_def falsy_str_def split: sum.splits option.splits)
    have "ap_status b \<noteq> ''failed''" using False by simp
    with transition_approval_Inr [OF t] have "d1 = upd_approval (ap_id b)
        (\<lambda>x. x\<lparr>ap_status := ''failed'', ap_status_version := Suc (ap_status_version b),
           ap_decided_at := ap_decided_at x\<rparr>) d" by auto
    with assms(4) ap Some id have "ap_status row = ''failed''"
      by (auto simp: upd_approval_def lookup_by_update_by)
    then show ?thesis by (simp add: TERMINAL_APPROVAL_STATUSES_def)
  qed
qed

lemma fail_run_turns:
  assumes "run_turn_id r = Some u" "u \<noteq> []" "t \<in> set (turns (fail_run w r reason d))" "tn_id t = u"
  shows "tn_activity_state t = ''failed''"
proof -
  have "turns (fail_run w r reason d) = update_by tn_id u (\<lambda>t. t\<lparr>tn_activity_state := ''failed'',
      tn_result_state := Some ''failed'', tn_completed_at := Some (instant (w_clock w))\<rparr>) (turns d)"
    using assms(1,2) by (simp add: fail_run_def Let_def falsy_str_def upd_defs)
  with assms(3) have "t \<in> set (update_by tn_id u (\<lambda>t. t\<lparr>tn_activity_state := ''failed'',
      tn_result_state := Some ''failed'', tn_completed_at := Some (instant (w_clock w))\<rparr>) (turns d))" by simp
  then obtain t0 where "t = (if tn_id t0 = u then t0\<lparr>tn_activity_state := ''failed'',
      tn_result_state := Some ''failed'', tn_completed_at := Some (instant (w_clock w))\<rparr> else t0)"
    unfolding in_update_by by (elim bexE)
  with assms(4) show ?thesis by (simp split: if_splits)
qed

lemma abort_markers_closed:
  "m \<in> set (markers (abort_markers job d)) \<Longrightarrow> mk_job_id m = job_id job \<Longrightarrow>
     mk_status m \<notin> {''prepared'', ''checkpoint_written''}"
  by (auto simp: abort_markers_def split: if_splits)

section \<open>Convergence\<close>


section \<open>Evaluated examples\<close>

lemma sample_dead:
  "\<exists>d'. converge_dead_aggregates (sample_world\<lparr>w_new_id := (\<lambda>p. p @ ''_2'')\<rparr>) sample_db sample_job sample_run
     ''tool_timeout'' = Inr d'"
  by (simp add: converge_dead_aggregates_def fail_run_def publish_failure_def fail_approval_def release_lane_def
      activate_next_turn_and_converge_ticket_def activate_next_turn_def accepted_turn_def turn_active_def
      abort_markers_def failure_message_def failure_key_def insert_row_def lookup_by_def update_by_def
      select_first_def upd_defs falsy_str_def Let_def sample_world_def sample_defs
      advance_conversation_activity_def split: prod.split)


end
