(* ===== verification/Delivery.thy ===== *)
theory Delivery
  imports Runtime_Jobs
begin

text \<open>
  Delivery of jobs to workers: \<open>runtime/delivery.py\<close> (the outbox dispatcher and the worker's acceptance and
  settlement of a delivery), \<open>contracts/queue.py\<close> and the reconciler of \<open>services/runtime_maintenance.py\<close>,
  on the branches for a database that is not PostgreSQL.  The message queue is outside the model: what
  \<open>XADD\<close> returns and whether \<open>XRANGE\<close> still finds a message are arguments.
\<close>

section \<open>Messages\<close>

record runtime_job_message =
  rm_event_id :: string
  rm_delivery_id :: string
  rm_job_id :: string
  rm_run_id :: string
  rm_tenant_id :: string
  rm_delivery_generation :: nat
  rm_traceparent :: "string option"

definition id_field :: "string \<Rightarrow> bool" where
  "id_field s = (1 \<le> py_len s \<and> py_len s \<le> 64)"

definition message_valid :: "runtime_job_message \<Rightarrow> bool" where
  "message_valid m =
     (id_field (rm_event_id m) \<and> id_field (rm_delivery_id m) \<and> id_field (rm_job_id m) \<and>
      id_field (rm_run_id m) \<and> id_field (rm_tenant_id m) \<and>
      1 \<le> rm_delivery_generation m \<and> rm_delivery_generation m \<le> 5 \<and>
      (case rm_traceparent m of None \<Rightarrow> True | Some t \<Rightarrow> py_len t \<le> 128))"

definition job_message :: "outbox_event \<Rightarrow> runtime_job_message result" where
  "job_message e =
     (let build = (\<lambda>tp. \<lparr>rm_event_id = ox_id e, rm_delivery_id = ox_delivery_id e, rm_job_id = ox_job_id e,
            rm_run_id = ox_run_id e, rm_tenant_id = ox_tenant_id e,
            rm_delivery_generation = ox_delivery_generation e, rm_traceparent = tp\<rparr>);
          check = (\<lambda>m. if message_valid m then Inr m else Inl (ValidationError ''RuntimeJobMessage''))
      in case dget (ox_payload e) ''traceparent'' of
           PNone \<Rightarrow> check (build None)
         | PStr s \<Rightarrow> check (build (Some s))
         | _ \<Rightarrow> Inl (ValidationError ''RuntimeJobMessage''))"

section \<open>The outbox dispatcher\<close>

text \<open>The first transaction takes a batch of due rows and pushes their next attempt away.\<close>

definition claim_outbox :: "int \<Rightarrow> int \<Rightarrow> nat \<Rightarrow> db \<Rightarrow> string list \<times> db" where
  "claim_outbox now later batch_size d =
     (let ids = map ox_id (take batch_size (sort_key ox_created_at
            (filter (\<lambda>e. ox_published_at e = None \<and> ox_available_at e \<le> now) (outbox d))))
      in (ids, d\<lparr>outbox := map (\<lambda>e. if ox_id e \<in> set ids
           then e\<lparr>ox_publish_attempts := Suc (ox_publish_attempts e), ox_available_at := later + seconds 30\<rparr>
           else e) (outbox d)\<rparr>))"

definition mark_published :: "int \<Rightarrow> string \<Rightarrow> string \<Rightarrow> db \<Rightarrow> bool \<times> db" where
  "mark_published now redis_message_id event_id d =
     (case select_first (\<lambda>e. ox_id e = event_id \<and> ox_published_at e = None) (outbox d) of
        None \<Rightarrow> (False, d)
      | Some _ \<Rightarrow> (True, d\<lparr>outbox := update_by ox_id event_id
          (\<lambda>e. e\<lparr>ox_redis_message_id := Some redis_message_id, ox_published_at := Some now,
             ox_last_delivery_at := Some now\<rparr>) (outbox d)\<rparr>))"

text \<open>
  Each claimed row is loaded, sent and marked in transactions of its own.  A send that raises (\<open>None\<close>) is
  logged and skipped; an invalid message is not caught and ends the pass with what was committed so far.
\<close>

fun publish_claimed ::
  "(runtime_job_message \<Rightarrow> string option) \<Rightarrow> (string \<Rightarrow> int) \<Rightarrow> string list \<Rightarrow> nat \<Rightarrow> db \<Rightarrow> db \<times> nat result" where
  "publish_claimed xadd clock [] published d = (d, Inr published)"
| "publish_claimed xadd clock (i # ids) published d =
     (case lookup_by ox_id i (outbox d) of
        None \<Rightarrow> publish_claimed xadd clock ids published d
      | Some e \<Rightarrow>
          if ox_published_at e \<noteq> None then publish_claimed xadd clock ids published d
          else (case job_message e of
              Inl err \<Rightarrow> (d, Inl err)
            | Inr m \<Rightarrow>
                (case xadd m of
                   None \<Rightarrow> publish_claimed xadd clock ids published d
                 | Some rid \<Rightarrow>
                     (case mark_published (clock i) rid i d of
                        (marked, d1) \<Rightarrow>
                          publish_claimed xadd clock ids (if marked then Suc published else published) d1))))"

definition dispatch_once ::
  "(runtime_job_message \<Rightarrow> string option) \<Rightarrow> (string \<Rightarrow> int) \<Rightarrow> int \<Rightarrow> int \<Rightarrow> nat \<Rightarrow> db \<Rightarrow> db \<times> nat result" where
  "dispatch_once xadd clock now later batch_size d =
     (case claim_outbox now later batch_size d of (ids, d1) \<Rightarrow> publish_claimed xadd clock ids 0 d1)"

section \<open>The worker's side\<close>

record delivery_envelope =
  de_redis_id :: string
  de_payload_hash :: string
  de_message :: runtime_job_message

record delivery_admission =
  da_message :: runtime_job_message
  da_lease :: "job_lease option"
  da_ack_terminal :: bool

definition record_delivery ::
  "world \<Rightarrow> db \<Rightarrow> runtime_job_message \<Rightarrow> string \<Rightarrow> string \<Rightarrow> ((inbox_delivery \<times> bool) \<times> db) result" where
  "record_delivery w d m redis_message_id consumer_group =
     (case select_first (\<lambda>x. ib_consumer_group x = consumer_group \<and> ib_delivery_id x = rm_delivery_id m) (inbox d) of
        Some x \<Rightarrow> Inr ((x, True), d)
      | None \<Rightarrow>
          (let x = \<lparr>ib_id = w_new_id w ''inbox'', ib_tenant_id = rm_tenant_id m, ib_job_id = rm_job_id m,
                 ib_delivery_id = rm_delivery_id m, ib_redis_message_id = redis_message_id,
                 ib_consumer_group = consumer_group, ib_status = ''received'', ib_outcome = None,
                 ib_created_at = w_now w\<rparr>
           in case insert_row ib_id x (inbox d) of
                Inl e \<Rightarrow> Inl e | Inr rows \<Rightarrow> Inr ((x, False), d\<lparr>inbox := rows\<rparr>)))"

definition settle_inbox :: "string \<Rightarrow> string \<Rightarrow> string option \<Rightarrow> db \<Rightarrow> db" where
  "settle_inbox i status outcome d =
     d\<lparr>inbox := update_by ib_id i (\<lambda>x. x\<lparr>ib_status := status, ib_outcome := outcome\<rparr>) (inbox d)\<rparr>"

definition envelope_trusted :: "runtime_job option \<Rightarrow> runtime_job_message \<Rightarrow> bool" where
  "envelope_trusted job m =
     (case job of None \<Rightarrow> False
      | Some j \<Rightarrow> job_tenant_id j = rm_tenant_id m \<and> job_run_id j = rm_run_id m \<and>
          job_kind j \<in> {''agent_start'', ''approval_resume''})"

definition untrusted_audit ::
  "world \<Rightarrow> string \<Rightarrow> delivery_envelope \<Rightarrow> runtime_job option \<Rightarrow> queue_delivery_audit" where
  "untrusted_audit w grp env job =
     \<lparr>qa_id = w_new_id w ''qaudit'', qa_tenant_id = map_option job_tenant_id job,
      qa_job_id = Some (rm_job_id (de_message env)), qa_delivery_id = Some (rm_delivery_id (de_message env)),
      qa_redis_message_id = de_redis_id env, qa_consumer_group = grp,
      qa_outcome = ''rejected_untrusted_envelope'', qa_payload_hash = de_payload_hash env,
      qa_details = [(''job_exists'', PBool (job \<noteq> None)),
        (''tenant_match'', PBool (case job of None \<Rightarrow> False | Some j \<Rightarrow> job_tenant_id j = rm_tenant_id (de_message env))),
        (''run_match'', PBool (case job of None \<Rightarrow> False | Some j \<Rightarrow> job_run_id j = rm_run_id (de_message env)))]\<rparr>"

definition add_queue_audit :: "queue_delivery_audit \<Rightarrow> db \<Rightarrow> db result" where
  "add_queue_audit a d =
     (case insert_row qa_id a (queue_audits d) of
        Inl e \<Rightarrow> Inl e | Inr rows \<Rightarrow> Inr (d\<lparr>queue_audits := rows\<rparr>))"

text \<open>A delivery whose job cannot be claimed is acknowledged when the job is over and refused otherwise.\<close>

definition refuse_delivery ::
  "runtime_job_message \<Rightarrow> inbox_delivery \<Rightarrow> db \<Rightarrow> delivery_admission \<times> db" where
  "refuse_delivery m x d =
     (let over = (case lookup_by job_id (rm_job_id m) (jobs d) of
            None \<Rightarrow> False | Some j \<Rightarrow> job_status j \<in> {''succeeded'', ''dead''})
      in (\<lparr>da_message = m, da_lease = None, da_ack_terminal = over\<rparr>,
          if over then settle_inbox (ib_id x) ''acked'' (Some ''already_terminal'') d
          else settle_inbox (ib_id x) ''rejected'' (Some ''not_claimable'') d))"

definition accept_delivery ::
  "world \<Rightarrow> string \<Rightarrow> string \<Rightarrow> nat \<Rightarrow> delivery_envelope \<Rightarrow> db \<Rightarrow> (delivery_admission \<times> db) result" where
  "accept_delivery w grp consumer lease_seconds env d =
     (let m = de_message env; job = lookup_by job_id (rm_job_id m) (jobs d) in
      if \<not> envelope_trusted job m then
        (case add_queue_audit (untrusted_audit w grp env job) d of
           Inl e \<Rightarrow> Inl e
         | Inr d1 \<Rightarrow> Inr (\<lparr>da_message = m, da_lease = None, da_ack_terminal = True\<rparr>, d1))
      else (case record_delivery w d m (de_redis_id env) grp of
          Inl e \<Rightarrow> Inl e
        | Inr ((x, reused), d1) \<Rightarrow>
            if reused \<and> ib_status x = ''acked'' then
              Inr (\<lparr>da_message = m, da_lease = None, da_ack_terminal = True\<rparr>, d1)
            else (case claim w d1 (rm_job_id m) consumer lease_seconds of
                Inl (RuntimeConflict _) \<Rightarrow> Inr (refuse_delivery m x d1)
              | Inl e \<Rightarrow> Inl e
              | Inr (l, d2) \<Rightarrow>
                  Inr (\<lparr>da_message = m, da_lease = Some l, da_ack_terminal = False\<rparr>,
                    settle_inbox (ib_id x) ''claimed'' (ib_outcome x) d2))))"

text \<open>What the handler of a job ended with: an outcome, a domain error, or another exception by its class.\<close>

datatype handler_failure = DomainFailure error_code | OtherFailure string

definition settle_job ::
  "world \<Rightarrow> db \<Rightarrow> job_lease \<Rightarrow> string \<Rightarrow> handler_failure option \<Rightarrow> (string \<times> db) result" where
  "settle_job w d l outcome failure =
     (let leased = (case lookup_by job_id (jl_job_id l) (jobs d) of
            None \<Rightarrow> False | Some j \<Rightarrow> job_status j = ''leased'')
      in case failure of
           Some f \<Rightarrow>
             if leased then (case f of
                 DomainFailure c \<Rightarrow> terminal_fail w d l (''domain:'' @ error_code_value c)
               | OtherFailure n \<Rightarrow> fail w d l n 5 3600)
             else Inr (outcome, d)
         | None \<Rightarrow>
             if outcome \<noteq> ''interrupted'' \<and> leased then
               (case complete w d l outcome of Inl e \<Rightarrow> Inl e | Inr d1 \<Rightarrow> Inr (outcome, d1))
             else Inr (outcome, d))"

definition finish_delivery ::
  "world \<Rightarrow> string \<Rightarrow> delivery_admission \<Rightarrow> string \<Rightarrow> handler_failure option \<Rightarrow> db \<Rightarrow>
   ((string \<times> string option) \<times> db) result" where
  "finish_delivery w grp adm outcome failure d =
     (case da_lease adm of
        None \<Rightarrow> Inl (RuntimeError ''delivery admission omitted a lease'')
      | Some l \<Rightarrow>
          (case settle_job w d l outcome failure of
             Inl e \<Rightarrow> Inl e
           | Inr (outcome', d1) \<Rightarrow>
               (case select_first (\<lambda>x. ib_consumer_group x = grp \<and>
                       ib_delivery_id x = rm_delivery_id (da_message adm)) (inbox d1) of
                  None \<Rightarrow> Inl (RuntimeError ''inbox delivery disappeared'')
                | Some x \<Rightarrow>
                    Inr ((outcome', map_option run_ticket_id (lookup_by run_id (rm_run_id (da_message adm)) (runs d1))),
                      settle_inbox (ib_id x) ''acked'' (Some outcome') d1))))"

section \<open>The reconciler\<close>

definition MAX_DELIVERY_GENERATION :: nat where "MAX_DELIVERY_GENERATION = 5"

text \<open>\<open>probe i\<close> is what \<open>XRANGE\<close> says of message \<open>i\<close>; \<open>None\<close> stands for an exception.\<close>

definition latest_delivery_still_exists :: "(string \<Rightarrow> bool option) \<Rightarrow> string option \<Rightarrow> bool" where
  "latest_delivery_still_exists probe redis_message_id =
     (case redis_message_id of None \<Rightarrow> False
      | Some i \<Rightarrow> (case probe i of None \<Rightarrow> True | Some b \<Rightarrow> b))"

definition latest_inbox :: "db \<Rightarrow> string \<Rightarrow> inbox_delivery option" where
  "latest_inbox d delivery =
     (case sort_desc ib_created_at (filter (\<lambda>x. ib_delivery_id x = delivery) (inbox d)) of
        [] \<Rightarrow> None | x # _ \<Rightarrow> Some x)"

definition delivery_is_recoverable ::
  "(string \<Rightarrow> bool option) \<Rightarrow> db \<Rightarrow> outbox_event \<Rightarrow> string \<Rightarrow> bool" where
  "delivery_is_recoverable probe d e status =
     (if (case latest_inbox d (ox_delivery_id e) of
            None \<Rightarrow> False | Some x \<Rightarrow> ib_status x \<in> {''acked'', ''rejected''}) then False
      else if status = ''retry_wait'' then False
      else latest_delivery_still_exists probe (ox_redis_message_id e))"

definition superseded_audit ::
  "world \<Rightarrow> outbox_event \<Rightarrow> nat \<Rightarrow> inbox_delivery option \<Rightarrow> queue_delivery_audit" where
  "superseded_audit w e next_generation x =
     \<lparr>qa_id = w_new_id w ''qaudit'', qa_tenant_id = Some (ox_tenant_id e), qa_job_id = Some (ox_job_id e),
      qa_delivery_id = Some (ox_delivery_id e),
      qa_redis_message_id = (case x of Some i \<Rightarrow> ib_redis_message_id i
        | None \<Rightarrow> str_or (ox_redis_message_id e) (''outbox:'' @ ox_id e)),
      qa_consumer_group = (case x of Some i \<Rightarrow> ib_consumer_group i | None \<Rightarrow> ''reconciler''),
      qa_outcome = ''superseded_lost_or_expired'', qa_payload_hash = w_digest w (ox_delivery_id e),
      qa_details = [(''outbox_id'', PStr (ox_id e)),
        (''previous_status'', PStr (case x of Some i \<Rightarrow> ib_status i | None \<Rightarrow> ''missing'')),
        (''delivery_generation'', PInt (int (ox_delivery_generation e))),
        (''next_generation'', PInt (int next_generation))]\<rparr>"

text \<open>\<open>ws i\<close> is the world of the \<open>i\<close>-th row that is added.\<close>

definition supersede_delivery ::
  "int \<Rightarrow> (nat \<Rightarrow> world) \<Rightarrow> outbox_event \<Rightarrow> nat \<Rightarrow> string \<Rightarrow> db \<Rightarrow> db result" where
  "supersede_delivery now ws e next_generation next_id d =
     (let xs = filter (\<lambda>x. ib_delivery_id x = ox_delivery_id e) (inbox d);
          sources = (if xs = [] then [None] else map Some xs);
          d1 = d\<lparr>outbox := update_by ox_id (ox_id e)
                (\<lambda>r. r\<lparr>ox_superseded_at := Some now, ox_superseded_by_delivery_id := Some next_id,
                   ox_delivery_state_version := Suc (ox_delivery_state_version r)\<rparr>) (outbox d),
              inbox := map (\<lambda>x. if ib_delivery_id x = ox_delivery_id e
                then x\<lparr>ib_status := ''rejected'', ib_outcome := Some ''superseded_by_redelivery''\<rparr> else x) (inbox d)\<rparr>
      in foldE add_queue_audit
           (map (\<lambda>(i, x). superseded_audit (ws i) e next_generation x) (enumerate 1 sources)) d1)"

definition latest_outbox :: "db \<Rightarrow> string \<Rightarrow> outbox_event option" where
  "latest_outbox d jid =
     (case sort_desc ox_delivery_generation (filter (\<lambda>e. ox_job_id e = jid) (outbox d)) of
        [] \<Rightarrow> None | e # _ \<Rightarrow> Some e)"

definition reconcile_due :: "int \<Rightarrow> runtime_job \<Rightarrow> bool" where
  "reconcile_due now j =
     (job_status j = ''queued'' \<or> (job_status j = ''retry_wait'' \<and> job_available_at j \<le> now) \<or>
      (job_status j = ''leased'' \<and> (case job_lease_expires_at j of None \<Rightarrow> False | Some t \<Rightarrow> t < now)))"

definition lane_first :: "db \<Rightarrow> runtime_job \<Rightarrow> string option" where
  "lane_first d j =
     (case sort_key (\<lambda>k. (job_dispatch_sequence k, job_id k))
        (filter (\<lambda>k. job_tenant_id k = job_tenant_id j \<and> job_ticket_id k = job_ticket_id j \<and>
           job_status k \<in> live_statuses) (jobs d)) of
        [] \<Rightarrow> None | k # _ \<Rightarrow> Some (job_id k))"

text \<open>Whether the newest delivery of a job may still reach a worker, or was sent within the grace period.\<close>

definition delivery_pending ::
  "int \<Rightarrow> (string \<Rightarrow> bool option) \<Rightarrow> db \<Rightarrow> outbox_event option \<Rightarrow> string \<Rightarrow> bool" where
  "delivery_pending grace probe d latest status =
     (case latest of None \<Rightarrow> False
      | Some e \<Rightarrow> ox_published_at e = None \<or>
          (case ox_last_delivery_at e of None \<Rightarrow> False
           | Some t \<Rightarrow> delivery_is_recoverable probe d e status \<or> grace < t))"

definition next_generation :: "outbox_event option \<Rightarrow> nat" where
  "next_generation latest = (case latest of None \<Rightarrow> 1 | Some e \<Rightarrow> Suc (ox_delivery_generation e))"

definition dead_letter :: "world \<Rightarrow> db \<Rightarrow> runtime_job \<Rightarrow> string \<Rightarrow> db result" where
  "dead_letter w d job reason =
     (let close = (\<lambda>j. (released_job ''dead'' j)\<lparr>job_last_error := Some reason\<rparr>);
          d1 = upd_job (job_id job) close d
      in case lookup_by run_id (job_run_id job) (runs d1) of
           None \<Rightarrow> Inr d1
         | Some r \<Rightarrow> converge_dead_aggregates w d1 (close job) r reason)"

definition redeliver :: "int \<Rightarrow> (nat \<Rightarrow> world) \<Rightarrow> db \<Rightarrow> runtime_job \<Rightarrow> outbox_event option \<Rightarrow> db result" where
  "redeliver now ws d job latest =
     (let w = ws 0; oid = w_new_id w ''outbox''; g = next_generation latest in
      case (case latest of None \<Rightarrow> Inr d | Some e \<Rightarrow> supersede_delivery now ws e g oid d) of
        Inl e \<Rightarrow> Inl e
      | Inr d1 \<Rightarrow>
          (case insert_row ox_id (new_outbox (w_now w) oid (w_new_id w ''delivery'') (job_tenant_id job)
                  (job_id job) (job_run_id job) g []) (outbox d1) of
             Inl e \<Rightarrow> Inl e | Inr rows \<Rightarrow> Inr (d1\<lparr>outbox := rows\<rparr>)))"

text \<open>An expired lease becomes claimable again whatever happens to its delivery.\<close>

definition reopen_expired :: "runtime_job \<Rightarrow> db \<Rightarrow> db" where
  "reopen_expired job d =
     (if job_status job = ''leased'' then upd_job (job_id job) (released_job ''queued'') d else d)"

definition reconcile_job ::
  "int \<Rightarrow> int \<Rightarrow> int \<Rightarrow> (string \<Rightarrow> bool option) \<Rightarrow> (nat \<Rightarrow> world) \<Rightarrow> string \<Rightarrow> nat \<times> db \<Rightarrow> (nat \<times> db) result" where
  "reconcile_job now grace max_age probe ws jid s =
     (case s of (repaired, d) \<Rightarrow>
      (case lookup_by job_id jid (jobs d) of
         None \<Rightarrow> Inr (repaired, d)
       | Some job \<Rightarrow>
           if lane_first d job \<noteq> Some jid then Inr (repaired, d)
           else
             (let status = (if job_status job = ''leased'' then ''queued'' else job_status job);
                  d1 = reopen_expired job d; latest = latest_outbox d1 jid; g = next_generation latest;
                  d2 = upd_job jid (transition_runtime_job_status ''queued'') d1
              in if delivery_pending grace probe d1 latest status then Inr (repaired, d1)
                 else if MAX_DELIVERY_GENERATION < g \<or> max_age \<le> now - job_created_at job then
                   (case dead_letter (ws 0) d2 (transition_runtime_job_status ''queued'' job)
                           (if MAX_DELIVERY_GENERATION < g then ''delivery_generation_exhausted''
                            else ''job_max_age_exhausted'') of
                      Inl e \<Rightarrow> Inl e | Inr d3 \<Rightarrow> Inr (repaired, d3))
                 else
                   (case redeliver now ws d2 job latest of
                      Inl e \<Rightarrow> Inl e | Inr d3 \<Rightarrow> Inr (Suc repaired, d3)))))"

text \<open>\<open>ws j\<close> are the worlds of the rows added while job \<open>j\<close> is handled.\<close>

definition reconcile_once ::
  "int \<Rightarrow> int \<Rightarrow> int option \<Rightarrow> (string \<Rightarrow> bool option) \<Rightarrow> (string \<Rightarrow> nat \<Rightarrow> world) \<Rightarrow> db \<Rightarrow> (nat \<times> db) result" where
  "reconcile_once now redelivery_grace horizon probe ws d =
     (let max_age = (case horizon of None \<Rightarrow> seconds 600 | Some h \<Rightarrow> h) in
      foldE (\<lambda>j. reconcile_job now (now - redelivery_grace) max_age probe (ws j) j)
        (map job_id (sort_key (\<lambda>j. (job_tenant_id j, job_ticket_id j, job_dispatch_sequence j, job_id j))
          (filter (reconcile_due now) (jobs d)))) (0, d))"

section \<open>What they do to the job table\<close>

lemma settle_inbox_frame [simp]:
  "jobs (settle_inbox i st out d) = jobs d" "outbox (settle_inbox i st out d) = outbox d"
  "runs (settle_inbox i st out d) = runs d" "tickets (settle_inbox i st out d) = tickets d"
  by (simp_all add: settle_inbox_def)

lemma add_queue_audit_Inr [guard_simps]:
  "add_queue_audit a d = Inr d' \<longleftrightarrow> qa_id a \<notin> qa_id ` set (queue_audits d) \<and>
     d' = d\<lparr>queue_audits := queue_audits d @ [a]\<rparr>"
  by (auto simp: add_queue_audit_def insert_row_def)

lemma add_queue_audits_frame:
  "foldE add_queue_audit as d = Inr d' \<Longrightarrow> jobs d' = jobs d \<and> outbox d' = outbox d"
  by (induction as arbitrary: d) (auto simp: add_queue_audit_Inr split: sum.splits)

lemma record_delivery_frame:
  assumes "record_delivery w d m rid grp = Inr (x, d')"
  shows "jobs d' = jobs d" "outbox d' = outbox d"
  using assms by (auto simp: record_delivery_def Let_def insert_row_Inr split: option.splits sum.splits)

lemma claim_outbox_jobs [simp]: "jobs (snd (claim_outbox now later n d)) = jobs d"
  by (simp add: claim_outbox_def Let_def)

lemma mark_published_jobs [simp]: "jobs (snd (mark_published now rid i d)) = jobs d"
  by (simp add: mark_published_def split: option.splits)

lemma supersede_delivery_frame:
  assumes "supersede_delivery now ws e g oid d = Inr d'"
  shows "jobs d' = jobs d"
    "outbox d' = update_by ox_id (ox_id e) (\<lambda>r. r\<lparr>ox_superseded_at := Some now,
       ox_superseded_by_delivery_id := Some oid, ox_delivery_state_version := Suc (ox_delivery_state_version r)\<rparr>) (outbox d)"
  using add_queue_audits_frame [OF assms [unfolded supersede_delivery_def Let_def]] by simp_all

lemma redeliver_jobs: "redeliver now ws d job latest = Inr d' \<Longrightarrow> jobs d' = jobs d"
  by (auto simp: redeliver_def Let_def insert_row_Inr dest: supersede_delivery_frame(1)
      split: option.splits sum.splits)

lemma transition_quiet:
  "s \<noteq> ''leased'' \<Longrightarrow> quiet_jobs js (update_by job_id i (transition_runtime_job_status s) js)"
  by (rule quiet_jobs_update) (simp add: job_quiet_def same_job_def transition_runtime_job_status_def)

lemma dead_letter_quiet:
  assumes "dead_letter w d job reason = Inr d'"
  shows "quiet_jobs (jobs d) (jobs d')"
proof -
  let ?close = "\<lambda>j. (released_job ''dead'' j)\<lparr>job_last_error := Some reason\<rparr>"
  let ?d1 = "upd_job (job_id job) ?close d"
  have 1: "quiet_jobs (jobs d) (jobs ?d1)" unfolding upd_job_def
    using released_update_quiet [of "''dead''" "\<lambda>j. j\<lparr>job_last_error := Some reason\<rparr>"] by (simp add: same_job_def)
  have "quiet_jobs (jobs ?d1) (jobs d')"
    using assms converge_dead_aggregates_quiet
    by (auto simp: dead_letter_def Let_def split: option.splits)
  with 1 show ?thesis by (rule quiet_jobs_trans)
qed

lemma reopen_expired_quiet: "quiet_jobs (jobs d) (jobs (reopen_expired job d))"
  using released_update_quiet [of "''queued''" "\<lambda>j. j"]
  by (simp add: reopen_expired_def upd_job_def same_job_def)

lemma reconcile_job_quiet:
  assumes "reconcile_job now grace max_age probe ws jid (n, d) = Inr (n', d')"
  shows "quiet_jobs (jobs d) (jobs d')"
proof (cases "lookup_by job_id jid (jobs d)")
  case None
  then show ?thesis using assms by (simp add: reconcile_job_def)
next
  case (Some job)
  let ?d1 = "reopen_expired job d"
  let ?d2 = "upd_job jid (transition_runtime_job_status ''queued'') ?d1"
  have 1: "quiet_jobs (jobs d) (jobs ?d1)" by (rule reopen_expired_quiet)
  moreover have "quiet_jobs (jobs ?d1) (jobs ?d2)" using transition_quiet [of "''queued''"] by (simp add: upd_job_def)
  ultimately have 2: "quiet_jobs (jobs d) (jobs ?d2)" by (rule quiet_jobs_trans)
  have "d' = d \<or> d' = ?d1 \<or> (\<exists>job r. dead_letter (ws 0) ?d2 job r = Inr d') \<or> jobs d' = jobs ?d2"
    using assms Some redeliver_jobs
    by (fastforce simp: reconcile_job_def Let_def split: if_splits sum.splits)
  with 1 2 show ?thesis using dead_letter_quiet quiet_jobs_trans by fastforce
qed

lemma reconcile_jobs_quiet:
  "foldE (\<lambda>j. reconcile_job now grace max_age probe (ws j) j) js s = Inr s' \<Longrightarrow>
   quiet_jobs (jobs (snd s)) (jobs (snd s'))"
proof (induction js arbitrary: s)
  case (Cons j js)
  then obtain s1 where 1: "reconcile_job now grace max_age probe (ws j) j s = Inr s1"
    and 2: "foldE (\<lambda>j. reconcile_job now grace max_age probe (ws j) j) js s1 = Inr s'"
    by (auto split: sum.splits)
  have "quiet_jobs (jobs (snd s)) (jobs (snd s1))"
    using reconcile_job_quiet [of now grace max_age probe "ws j" j "fst s" "snd s" "fst s1" "snd s1"] 1 by simp
  then show ?case using Cons.IH [OF 2] by (rule quiet_jobs_trans)
qed simp

lemma reconcile_once_quiet:
  "reconcile_once now g h probe ws d = Inr (n, d') \<Longrightarrow> quiet_jobs (jobs d) (jobs d')"
  unfolding reconcile_once_def Let_def by (drule reconcile_jobs_quiet) simp

lemma settle_job_quiet: "settle_job w d l out f = Inr (out', d') \<Longrightarrow> quiet_jobs (jobs d) (jobs d')"
  unfolding settle_job_def Let_def
  by (auto dest: fail_quiet terminal_fail_quiet complete_quiet
      split: option.splits if_splits handler_failure.splits sum.splits)

lemma finish_delivery_settles_job:
  assumes "finish_delivery w grp adm out f d = Inr (r, d')"
  obtains l out' d1 where "da_lease adm = Some l" "settle_job w d l out f = Inr (out', d1)" "fst r = out'"
    "jobs d' = jobs d1" "outbox d' = outbox d1"
  using assms unfolding finish_delivery_def guard_simps by (auto split: option.splits sum.splits)

lemma finish_delivery_quiet:
  assumes "finish_delivery w grp adm out f d = Inr (r, d')"
  shows "quiet_jobs (jobs d) (jobs d')"
  by (rule finish_delivery_settles_job [OF assms]) (simp add: settle_job_quiet)

lemma accept_delivery_jobs:
  assumes "accept_delivery w grp consumer n env d = Inr (a, d')"
  obtains (refused) "da_lease a = None" "jobs d' = jobs d"
    | (claimed) d1 l d2 where "claim w d1 (rm_job_id (de_message env)) consumer n = Inr (l, d2)"
      "da_lease a = Some l" "jobs d1 = jobs d" "jobs d' = jobs d2"
      "envelope_trusted (lookup_by job_id (rm_job_id (de_message env)) (jobs d)) (de_message env)"
proof -
  let ?m = "de_message env"
  show ?thesis
  proof (cases "envelope_trusted (lookup_by job_id (rm_job_id ?m) (jobs d)) ?m")
    case False
    then show ?thesis using assms refused by (auto simp: accept_delivery_def Let_def add_queue_audit_Inr split: sum.splits)
  next
    case True
    then obtain x b d1 where r: "record_delivery w d ?m (de_redis_id env) grp = Inr ((x, b), d1)"
      using assms by (auto simp: accept_delivery_def Let_def split: sum.splits)
    note f = record_delivery_frame [OF r]
    show ?thesis
    proof (cases "b \<and> ib_status x = ''acked''")
      case True
      with \<open>envelope_trusted _ _\<close> r assms refused f show ?thesis by (auto simp: accept_delivery_def Let_def)
    next
      case False
      then have *: "(case claim w d1 (rm_job_id ?m) consumer n of
                Inl (RuntimeConflict _) \<Rightarrow> Inr (refuse_delivery ?m x d1)
              | Inl e \<Rightarrow> Inl e
              | Inr (l, d2) \<Rightarrow> Inr (\<lparr>da_message = ?m, da_lease = Some l, da_ack_terminal = False\<rparr>,
                    settle_inbox (ib_id x) ''claimed'' (ib_outcome x) d2)) = Inr (a, d')"
        using \<open>envelope_trusted _ _\<close> r assms by (auto simp: accept_delivery_def Let_def)
      show ?thesis
      proof (cases "claim w d1 (rm_job_id ?m) consumer n")
        case (Inl e)
        with * f show ?thesis by (intro refused) (auto simp: refuse_delivery_def Let_def split: error.splits)
      next
        case (Inr y)
        obtain l d2 where y: "y = (l, d2)" by (cases y)
        with * Inr f True show ?thesis by (intro claimed [of d1 l d2]) auto
      qed
    qed
  qed
qed

end
