(* ===== verification/Job_Fencing.thy ===== *)
theory Job_Fencing
  imports Delivery
begin

text \<open>
  The guarantees of the job queue of \<open>services/runtime_jobs.py\<close> over any interleaving of its
  operations with the dispatcher, the workers' deliveries and the reconciler: leases exclude each other per ticket, a lease that was settled or superseded is never
  accepted again, claims follow the dispatch order, and retries are bounded.
\<close>

section \<open>Interleavings\<close>

inductive job_step :: "db \<Rightarrow> db \<Rightarrow> bool" where
  create: "create_job w d tenant rid kind ap jid tid = Inr (job, d') \<Longrightarrow> job_step d d'"
| claim: "claim w d jid owner n = Inr (l, d') \<Longrightarrow> job_step d d'"
| heartbeat: "heartbeat w d l n = Inr d' \<Longrightarrow> job_step d d'"
| fail: "fail w d l e ma mg = Inr (st, d') \<Longrightarrow> job_step d d'"
| terminal_fail: "terminal_fail w d l e = Inr (st, d') \<Longrightarrow> job_step d d'"
| finalize: "finalize_control d l s out = Inr d' \<Longrightarrow> s \<noteq> ''leased'' \<Longrightarrow> job_step d d'"
| complete: "complete w d l out = Inr d' \<Longrightarrow> job_step d d'"
| activate: "activate_next_turn w d tk trace = Inr (x, d') \<Longrightarrow> job_step d d'"
| dispatch: "claim_outbox now later n d = (ids, d') \<Longrightarrow> job_step d d'"
| publish: "mark_published now rid i d = (b, d') \<Longrightarrow> job_step d d'"
| deliver: "accept_delivery w grp owner n env d = Inr (a, d') \<Longrightarrow> job_step d d'"
| settle: "finish_delivery w grp a out f d = Inr (r, d') \<Longrightarrow> job_step d d'"
| reconcile: "reconcile_once now g h probe ws d = Inr (n, d') \<Longrightarrow> job_step d d'"

lemma job_step_cases:
  assumes "job_step d d'"
  obtains (quiet) "quiet_jobs (jobs d) (jobs d')"
    | (leases) w jid owner n l d1 d2 where "claim w d1 jid owner n = Inr (l, d2)" "jobs d1 = jobs d" "jobs d' = jobs d2"
  using assms
proof (cases rule: job_step.cases)
  case (claim w jid owner n l)
  then show ?thesis by (rule leases) simp_all
next
  case (dispatch now later n ids)
  then show ?thesis using claim_outbox_jobs [of now later n d] by (intro quiet) simp
next
  case (publish now rid i b)
  then show ?thesis using mark_published_jobs [of now rid i d] by (intro quiet) simp
next
  case (deliver w grp owner n env a)
  then show ?thesis
  proof (cases rule: accept_delivery_jobs)
    case refused
    then show ?thesis by (intro quiet) simp
  next
    case (claimed d1 l d2)
    then show ?thesis by (intro leases)
  qed
qed (blast intro: quiet create_job_quiet heartbeat_quiet fail_quiet terminal_fail_quiet
    finalize_control_quiet complete_quiet activate_next_turn_quiet finish_delivery_quiet reconcile_once_quiet)+

definition ids_ok :: "db \<Rightarrow> bool" where
  "ids_ok d = distinct (map job_id (jobs d))"

text \<open>How one job may change: its token never falls, and it is leased anew only under a new token.\<close>

definition job_grows :: "runtime_job \<Rightarrow> runtime_job \<Rightarrow> bool" where
  "job_grows j k =
     (same_job j k \<and> job_fencing_token j \<le> job_fencing_token k \<and>
      (job_fencing_token k = job_fencing_token j \<and> job_status k = ''leased'' \<longrightarrow> job_status j = ''leased''))"

lemma job_grows_refl [simp]: "job_grows j j"
  by (simp add: job_grows_def same_job_def)

lemma job_grows_trans: "job_grows i j \<Longrightarrow> job_grows j k \<Longrightarrow> job_grows i k"
  by (auto simp: job_grows_def same_job_def)

lemma job_quiet_grows: "job_quiet j k \<Longrightarrow> job_grows j k"
  by (auto simp: job_grows_def job_quiet_def)

lemma leased_job_fields [simp]:
  "job_id (leased_job now owner n j) = job_id j"
  "job_status (leased_job now owner n j) = ''leased''"
  "job_fencing_token (leased_job now owner n j) = Suc (job_fencing_token j)"
  "job_tenant_id (leased_job now owner n j) = job_tenant_id j"
  "job_ticket_id (leased_job now owner n j) = job_ticket_id j"
  "job_run_id (leased_job now owner n j) = job_run_id j"
  "job_dispatch_sequence (leased_job now owner n j) = job_dispatch_sequence j"
  "job_lease_owner (leased_job now owner n j) = Some owner"
  "job_lease_expires_at (leased_job now owner n j) = Some (now + seconds n)"
  by (simp_all add: leased_job_def transition_runtime_job_status_def)

lemma quiet_jobs_ids: "quiet_jobs js js' \<Longrightarrow> distinct (map job_id js) \<Longrightarrow> distinct (map job_id js')"
proof -
  assume "quiet_jobs js js'" and dist: "distinct (map job_id js)"
  then obtain ks new where 1: "js' = ks @ new" "list_all2 job_quiet js ks" "distinct (map job_id new)"
    "\<forall>j \<in> set new. job_id j \<notin> job_id ` set js"
    by (auto simp: quiet_jobs_def)
  have ids: "map job_id ks = map job_id js" using 1(2) by (rule list_all2_ids)
  then have eq: "job_id ` set ks = job_id ` set js" by (metis set_map)
  have "job_id ` set ks \<inter> job_id ` set new = {}" unfolding eq
    using 1(4) by (intro image_disjointI) simp
  then show ?thesis using 1(1,3) ids dist unfolding 1(1) map_append distinct_append set_map by simp
qed

lemma quiet_jobs_grow:
  assumes "quiet_jobs js js'" "j \<in> set js"
  shows "\<exists>k \<in> set js'. job_grows j k"
proof -
  obtain ks new where "js' = ks @ new" "list_all2 job_quiet js ks"
    using assms(1) by (auto simp: quiet_jobs_def)
  moreover obtain i where "i < length js" "j = js ! i" using assms(2) by (auto simp: in_set_conv_nth)
  ultimately have "job_quiet j (ks ! i)" "ks ! i \<in> set js'"
    by (auto simp: list_all2_conv_all_nth)
  then show ?thesis using job_quiet_grows by blast
qed

lemma claim_jobs:
  assumes "claim w d jid owner n = Inr (l, d')"
  shows "jobs d' = update_by job_id jid (leased_job (w_now w) owner n) (jobs d)"
  by (rule claim_Inr [OF assms]) simp

lemma job_step_ids: "job_step d d' \<Longrightarrow> ids_ok d \<Longrightarrow> ids_ok d'"
  by (erule job_step_cases) (auto simp: ids_ok_def update_by_keys dest!: claim_jobs intro: quiet_jobs_ids)

lemma job_step_grow:
  assumes "job_step d d'" "j \<in> set (jobs d)"
  shows "\<exists>k \<in> set (jobs d'). job_grows j k"
  using assms(1)
proof (cases rule: job_step_cases)
  case quiet
  then show ?thesis using quiet_jobs_grow assms(2) by blast
next
  case (leases w jid owner n l d1 d2)
  let ?k = "if job_id j = jid then leased_job (w_now w) owner n j else j"
  have "?k \<in> set (jobs d')" using assms(2) by (auto simp: leases(2,3) claim_jobs [OF leases(1)] update_by_def)
  moreover have "job_grows j ?k" by (simp add: job_grows_def same_job_def)
  ultimately show ?thesis by blast
qed

lemma job_steps_ids: "job_step\<^sup>*\<^sup>* d d' \<Longrightarrow> ids_ok d \<Longrightarrow> ids_ok d'"
  by (induction rule: rtranclp_induct) (auto intro: job_step_ids)

lemma job_steps_grow:
  assumes "job_step\<^sup>*\<^sup>* d d'" "j \<in> set (jobs d)"
  shows "\<exists>k \<in> set (jobs d'). job_grows j k"
  using assms
proof (induction rule: rtranclp_induct)
  case (step d1 d2)
  then show ?case using job_step_grow job_grows_trans by blast
next
  case base
  then show ?case using job_grows_refl by blast
qed

section \<open>Settled leases\<close>

definition lease_settled :: "db \<Rightarrow> job_lease \<Rightarrow> bool" where
  "lease_settled d l =
     (\<exists>j \<in> set (jobs d). job_id j = jl_job_id l \<and>
        (jl_fencing_token l < job_fencing_token j \<or>
         jl_fencing_token l = job_fencing_token j \<and> job_status j \<noteq> ''leased''))"

lemma lease_settled_steps:
  assumes "job_step\<^sup>*\<^sup>* d d'" "lease_settled d l"
  shows "lease_settled d' l"
proof -
  obtain j where j: "j \<in> set (jobs d)" "job_id j = jl_job_id l"
    "jl_fencing_token l < job_fencing_token j \<or>
     jl_fencing_token l = job_fencing_token j \<and> job_status j \<noteq> ''leased''"
    using assms(2) by (auto simp: lease_settled_def)
  obtain k where "k \<in> set (jobs d')" "job_grows j k" using job_steps_grow [OF assms(1) j(1)] by blast
  with j show ?thesis
    by (auto simp: lease_settled_def job_grows_def same_job_def intro!: bexI [of _ k])
qed

lemma lease_settled_stale:
  assumes "lease_settled d l" "ids_ok d"
  shows "assert_fence now d l = Inl stale"
proof (cases "assert_fence now d l")
  case (Inl e)
  then show ?thesis using assert_fence_stale by blast
next
  case (Inr k)
  then have k: "k \<in> set (jobs d)" "job_id k = jl_job_id l" "job_status k = ''leased''"
    "job_fencing_token k = jl_fencing_token l" using assert_fence_Inr by blast+
  obtain j where "j \<in> set (jobs d)" "job_id j = jl_job_id l"
    "jl_fencing_token l < job_fencing_token j \<or>
     jl_fencing_token l = job_fencing_token j \<and> job_status j \<noteq> ''leased''"
    using assms(1) by (auto simp: lease_settled_def)
  moreover from this k have "j = k"
    using assms(2) by (metis ids_ok_def distinct_map inj_onD)
  ultimately show ?thesis using k by auto
qed

lemma released_settles:
  assumes "assert_fence now d l = Inr job" "s \<noteq> ''leased''"
    and "\<And>j. job_status (g j) = job_status j" "\<And>j. job_fencing_token (g j) = job_fencing_token j"
      "\<And>j. same_job j (g j)"
    and "quiet_jobs (update_by job_id (job_id job) (\<lambda>j. g (released_job s j)) (jobs d)) (jobs d')"
  shows "lease_settled d' l"
proof -
  let ?k = "g (released_job s job)"
  note job = assert_fence_Inr [OF assms(1)]
  have "?k \<in> set (update_by job_id (job_id job) (\<lambda>j. g (released_job s j)) (jobs d))"
    using job by (auto simp: update_by_def)
  then obtain k' where "k' \<in> set (jobs d')" "job_grows ?k k'"
    using quiet_jobs_grow [OF assms(6)] by blast
  moreover have "job_id ?k = jl_job_id l" "job_fencing_token ?k = jl_fencing_token l"
    "job_status ?k \<noteq> ''leased''"
    using job assms(2-4) assms(5) [of "released_job s job"]
    by (auto simp: released_job_def transition_runtime_job_status_def same_job_def)
  ultimately show ?thesis
    by (auto simp: lease_settled_def job_grows_def same_job_def intro!: bexI [of _ k'])
qed

lemma complete_settles: "complete w d l out = Inr d' \<Longrightarrow> lease_settled d' l"
  by (erule complete_jobs, rule released_settles [where s = "''succeeded''" and
        g = "\<lambda>j. j\<lparr>job_outcome := Some out\<rparr>"], assumption) (simp_all add: same_job_def)

lemma fail_settles: "fail w d l e ma mg = Inr (st, d') \<Longrightarrow> lease_settled d' l"
proof (erule fail_jobs)
  fix job dec
  assume "assert_fence (w_now w) d l = Inr job" "retry_decision_of (w_digest w) (job_id job) (job_attempt job)
      (job_created_at job) (w_now w) ma mg = Inr dec"
    "quiet_jobs (update_by job_id (job_id job) (\<lambda>j. (released_job (rd_next_status dec) j)
       \<lparr>job_last_error := Some (take_chars 128 e), job_available_at := rd_available_at dec\<rparr>) (jobs d)) (jobs d')"
  then show ?thesis
    by (intro released_settles [where s = "rd_next_status dec" and
          g = "\<lambda>j. j\<lparr>job_last_error := Some (take_chars 128 e), job_available_at := rd_available_at dec\<rparr>"])
      (auto simp: same_job_def dest: retry_decision_status)
qed

lemma terminal_fail_settles: "terminal_fail w d l e = Inr (st, d') \<Longrightarrow> lease_settled d' l"
  by (erule terminal_fail_jobs, rule released_settles [where s = "''dead''" and
        g = "\<lambda>j. j\<lparr>job_last_error := Some (take_chars 128 e)\<rparr>"], assumption) (simp_all add: same_job_def)

text \<open>Once a worker has completed, failed or terminally failed its job, its lease is never accepted
  again, whatever operations follow and whoever runs them.\<close>

theorem settled_lease_never_valid:
  assumes "complete w d l out = Inr d1 \<or> (\<exists>st. fail w d l e ma mg = Inr (st, d1)) \<or>
      (\<exists>st. terminal_fail w d l e = Inr (st, d1))"
    and "ids_ok d1" "job_step\<^sup>*\<^sup>* d1 d2"
  shows "assert_fence now d2 l = Inl stale"
  using assms lease_settled_stale lease_settled_steps job_steps_ids
    complete_settles fail_settles terminal_fail_settles by metis

text \<open>C29. A worker that held a valid lease and lost it to a later claim of the same job stays fenced off:
  its lease is refused in every later state.\<close>

theorem superseded_lease_never_valid:
  assumes "assert_fence now d0 l = Inr job" "job_step\<^sup>*\<^sup>* d0 d"
    and "claim w d (jl_job_id l) owner n = Inr (l', d1)" "job_step\<^sup>*\<^sup>* d1 d2" "ids_ok d0"
  shows "assert_fence now' d2 l = Inl stale"
proof -
  note job = assert_fence_Inr [OF assms(1)]
  obtain k where k: "k \<in> set (jobs d)" "job_grows job k" using job_steps_grow [OF assms(2)] job by blast
  have "leased_job (w_now w) owner n k \<in> set (jobs d1)"
    using k job by (auto simp: claim_jobs [OF assms(3)] update_by_def job_grows_def same_job_def)
  moreover have "jl_fencing_token l < Suc (job_fencing_token k)" "job_id k = jl_job_id l"
    using k(2) job by (auto simp: job_grows_def same_job_def)
  ultimately have "lease_settled d1 l"
    by (auto simp: lease_settled_def intro!: bexI [of _ "leased_job (w_now w) owner n k"])
  moreover have "ids_ok d2"
    using job_steps_ids [OF assms(4)] job_step_ids [OF job_step.claim [OF assms(3)]]
      job_steps_ids [OF assms(2,5)] by blast
  ultimately show ?thesis using lease_settled_steps [OF assms(4)] lease_settled_stale by blast
qed

section \<open>Exclusion in a ticket lane\<close>

definition lane_exclusive :: "db \<Rightarrow> bool" where
  "lane_exclusive d =
     (\<forall>j \<in> set (jobs d). \<forall>k \<in> set (jobs d).
        job_status j = ''leased'' \<and> job_status k = ''leased'' \<and> in_lane j k \<longrightarrow> job_id j = job_id k)"

lemma quiet_jobs_leased:
  assumes "quiet_jobs js js'" "k \<in> set js'" "job_status k = ''leased''"
  shows "\<exists>j \<in> set js. job_status j = ''leased'' \<and> same_job j k"
proof -
  obtain ks new where "js' = ks @ new" "list_all2 job_quiet js ks"
    "\<forall>j \<in> set new. job_status j \<noteq> ''leased''"
    using assms(1) by (auto simp: quiet_jobs_def)
  with assms(2,3) have "k \<in> set ks" "list_all2 job_quiet js ks" by auto
  then obtain j where "j \<in> set js" "job_quiet j k" using list_all2_right by metis
  with assms(3) show ?thesis by (auto simp: job_quiet_def)
qed

lemma in_lane_same_job: "same_job j j' \<Longrightarrow> same_job k k' \<Longrightarrow> in_lane j' k' \<Longrightarrow> in_lane j k"
  by (simp add: same_job_def in_lane_def)

lemma lane_exclusive_quiet:
  assumes "quiet_jobs (jobs d) (jobs d')" "lane_exclusive d"
  shows "lane_exclusive d'"
  unfolding lane_exclusive_def
proof (intro ballI impI)
  fix j' k' assume "j' \<in> set (jobs d')" "k' \<in> set (jobs d')"
    and "job_status j' = ''leased'' \<and> job_status k' = ''leased'' \<and> in_lane j' k'"
  then obtain j k where "j \<in> set (jobs d)" "job_status j = ''leased''" "same_job j j'"
    "k \<in> set (jobs d)" "job_status k = ''leased''" "same_job k k'" "in_lane j' k'"
    using quiet_jobs_leased [OF assms(1)] by metis
  moreover from this have "job_id j = job_id k"
    using assms(2) in_lane_same_job by (auto simp: lane_exclusive_def)
  ultimately show "job_id j' = job_id k'" by (simp add: same_job_def)
qed

lemma lane_exclusive_cong: "jobs d' = jobs d \<Longrightarrow> lane_exclusive d' = lane_exclusive d"
  by (simp add: lane_exclusive_def)

lemma lane_exclusive_claim:
  assumes "claim w d jid owner n = Inr (l, d')" "lane_exclusive d" "ids_ok d"
  shows "lane_exclusive d'"
proof -
  from assms(1) obtain job where job: "lookup_by job_id jid (jobs d) = Some job" "job_id job = jid"
    "\<not> lane_leased d job" by (rule claim_Inr)
  have free: "job_status k \<noteq> ''leased''" if "k \<in> set (jobs d)" "in_lane job k" for k
    using job(3) that by (auto simp: lane_leased_def list_ex_iff)
  have the_job: "j = job" if "j \<in> set (jobs d)" "job_id j = jid" for j
    using lookup_by_distinct [OF assms(3) [unfolded ids_ok_def] that(1)] job(1) that(2) by simp
  show ?thesis unfolding lane_exclusive_def
  proof (intro ballI impI)
    fix j' k' assume j': "j' \<in> set (jobs d')" and k': "k' \<in> set (jobs d')"
      and l: "job_status j' = ''leased'' \<and> job_status k' = ''leased'' \<and> in_lane j' k'"
    obtain j k where j: "j \<in> set (jobs d)"
        "j' = (if job_id j = jid then leased_job (w_now w) owner n j else j)"
      and k: "k \<in> set (jobs d)" "k' = (if job_id k = jid then leased_job (w_now w) owner n k else k)"
      using j' k' unfolding claim_jobs [OF assms(1)] in_update_by by blast
    show "job_id j' = job_id k'"
    proof (cases "job_id j = jid"; cases "job_id k = jid")
      assume "job_id j = jid" "job_id k \<noteq> jid"
      then have "in_lane job k" "job_status k = ''leased''" using j k l the_job by (auto simp: in_lane_def)
      with free k(1) show ?thesis by blast
    next
      assume "job_id j \<noteq> jid" "job_id k = jid"
      then have "in_lane job j" "job_status j = ''leased''" using j k l the_job by (auto simp: in_lane_def)
      with free j(1) show ?thesis by blast
    next
      assume "job_id j \<noteq> jid" "job_id k \<noteq> jid"
      then show ?thesis using j k l assms(2) by (auto simp: lane_exclusive_def)
    qed (use j k in auto)
  qed
qed

lemma job_steps_exclusive:
  assumes "job_step\<^sup>*\<^sup>* d d'" "ids_ok d" "lane_exclusive d"
  shows "lane_exclusive d'"
  using assms
proof (induction rule: rtranclp_induct)
  case (step d1 d2)
  then have "lane_exclusive d1" "ids_ok d1" using job_steps_ids by blast+
  from step.hyps(2) show ?case
  proof (cases rule: job_step_cases)
    case quiet
    then show ?thesis using lane_exclusive_quiet \<open>lane_exclusive d1\<close> by blast
  next
    case (leases w jid owner n l e1 e2)
    have "lane_exclusive e1" "ids_ok e1"
      using \<open>lane_exclusive d1\<close> \<open>ids_ok d1\<close> leases(2) lane_exclusive_cong [OF leases(2)] by (simp_all add: ids_ok_def)
    then have "lane_exclusive e2" using lane_exclusive_claim leases(1) by blast
    then show ?thesis using lane_exclusive_cong [OF leases(3)] by simp
  qed
qed

text \<open>C30. In every state that the queue operations reach, two leases the fence accepts for jobs of the
  same ticket are one: the same job, the same owner and the same fencing token.\<close>

theorem one_valid_lease_per_ticket:
  assumes "job_step\<^sup>*\<^sup>* d0 d" "ids_ok d0" "lane_exclusive d0"
    and "assert_fence now d l = Inr j" "assert_fence now' d l' = Inr j'"
    and "job_tenant_id j = job_tenant_id j'" "job_ticket_id j = job_ticket_id j'"
  shows "j = j' \<and> jl_owner l = jl_owner l' \<and> jl_fencing_token l = jl_fencing_token l'"
proof -
  note f = assert_fence_Inr [OF assms(4)] assert_fence_Inr [OF assms(5)]
  have m: "j \<in> set (jobs d)" "j' \<in> set (jobs d)"
    "job_status j = ''leased'' \<and> job_status j' = ''leased'' \<and> in_lane j j'"
    using f assms(6,7) unfolding in_lane_def by metis+
  then have "job_id j = job_id j'"
    using job_steps_exclusive [OF assms(1,2,3)] unfolding lane_exclusive_def by blast
  moreover have "inj_on job_id (set (jobs d))"
    using job_steps_ids [OF assms(1,2)] by (simp add: ids_ok_def distinct_map)
  ultimately have "j = j'" using m by (metis inj_onD)
  with f show ?thesis by (metis option.inject)
qed

section \<open>Claims\<close>

lemma select_updated:
  assumes "select_first P rows = Some r" "distinct (map key rows)"
    and "\<And>x. key (f x) = key x" "\<And>x. P (f x) = P x" "\<And>x. P x \<Longrightarrow> key x = k"
  shows "select_first P (update_by key k f rows) = Some (f r)"
proof -
  have r: "r \<in> set rows" "P r" using select_first_Some [OF assms(1)] by auto
  then have "key r = k" by (simp add: assms(5))
  with r have "f r \<in> set (update_by key k f rows)" by (auto simp: update_by_def)
  then show ?thesis
    unfolding select_first_def
    using find_unique_iff [of key "update_by key k f rows" P k "f r"] assms r
    by (simp add: update_by_keys)
qed

lemma select_first_exists: "(\<exists>x \<in> set rows. P x) \<Longrightarrow> \<exists>r. select_first P rows = Some r"
  by (metis select_first_None not_None_eq)

text \<open>The lease a claim returns is accepted until it expires.\<close>

lemma claim_lease_valid:
  assumes "claim w d jid owner n = Inr (l, d')" "keys_ok d" "now < jl_expires_at l"
  shows "\<exists>j. assert_fence now d' l = Inr j"
proof -
  from assms(1) obtain job tk r where c: "lookup_by job_id jid (jobs d) = Some job" "job_id job = jid"
    "lane_head d job = Some (job_dispatch_sequence job)" "\<not> lane_leased d job"
    "select_first (\<lambda>t. tk_id t = job_ticket_id job \<and> tk_tenant_id t = job_tenant_id job) (tickets d) = Some tk"
    "select_first (\<lambda>r. run_id r = job_run_id job \<and> run_tenant_id r = job_tenant_id job) (runs d) = Some r"
    "l = lease_of owner (w_now w + seconds n) (leased_job (w_now w) owner n job)"
    "d' = claim_writes w owner n job tk r d"
    by (rule claim_Inr)
  let ?j = "leased_job (w_now w) owner n job"
  have job: "job \<in> set (jobs d)" using lookup_by_Some [OF c(1)] by simp
  have rid: "run_id r = job_run_id job" using select_first_Some [OF c(6)] by simp
  have "select_first (\<lambda>j. job_id j = jl_job_id l \<and> job_tenant_id j = jl_tenant_id l \<and>
      job_run_id j = jl_run_id l \<and> job_ticket_id j = job_ticket_id job) (jobs d') = Some ?j"
    unfolding c(8) claim_writes_jobs
  proof (rule select_updated)
    show "select_first (\<lambda>j. job_id j = jl_job_id l \<and> job_tenant_id j = jl_tenant_id l \<and>
        job_run_id j = jl_run_id l \<and> job_ticket_id j = job_ticket_id job) (jobs d) = Some job"
      unfolding select_first_def
      by (rule find_unique_iff [of job_id _ _ "job_id job", THEN iffD2])
        (use job assms(2) c(7) in \<open>auto simp: keys_ok_def lease_of_def\<close>)
  qed (use assms(2) c(7) in \<open>simp_all add: keys_ok_def lease_of_def\<close>)
  moreover have "\<exists>t. select_first (\<lambda>t. tk_id t = job_ticket_id job \<and> tk_tenant_id t = jl_tenant_id l)
      (tickets d') = Some t"
  proof (rule select_first_exists)
    have "(job_ticket_id job, job_tenant_id job) \<in> (\<lambda>t. (tk_id t, tk_tenant_id t)) ` set (tickets d)"
      using select_first_Some [OF c(5)] by force
    then have "(job_ticket_id job, job_tenant_id job) \<in> (\<lambda>t. (tk_id t, tk_tenant_id t)) ` set (tickets d')"
      unfolding c(8) using claim_writes_tickets [of w owner n job tk r d] by (metis image_set)
    then show "\<exists>t \<in> set (tickets d'). tk_id t = job_ticket_id job \<and> tk_tenant_id t = jl_tenant_id l"
      using c(7) by (auto simp: lease_of_def)
  qed
  moreover have "\<exists>r'. select_first (\<lambda>r. run_id r = jl_run_id l \<and> run_tenant_id r = job_tenant_id ?j) (runs d') =
      Some r' \<and> run_active_job_id r' = Some jid \<and> run_active_fencing_token r' = Some (jl_fencing_token l)"
    unfolding c(8) claim_writes_runs
    using select_updated [OF c(6), of run_id "\<lambda>x. x\<lparr>run_active_job_id := Some (job_id job),
        run_active_fencing_token := Some (Suc (job_fencing_token job)),
        run_status := ''running'', run_status_version := Suc (run_status_version x)\<rparr>" "run_id r"]
      assms(2) rid c(2,7) by (simp add: keys_ok_def lease_of_def)
  ultimately have "assert_fence now d' l = Inr ?j"
    using c(2,7) assms(3) by (auto simp: assert_fence_def lease_ticket_def lease_of_def)
  then show ?thesis ..
qed

text \<open>C31. A claim takes the head of its ticket's lane: no queued, waiting or leased job of the ticket has
  an earlier dispatch sequence and none is leased.  The lease it returns is valid until it expires.\<close>

theorem claim_head_of_lane:
  assumes "claim w d jid owner n = Inr (l, d')" "keys_ok d"
  shows "\<exists>job \<in> set (jobs d). job_id job = jid \<and> jl_job_id l = jid \<and>
    (\<forall>k \<in> set (jobs d). in_lane job k \<and> job_status k \<in> live_statuses \<longrightarrow>
       job_dispatch_sequence job \<le> job_dispatch_sequence k \<and> job_status k \<noteq> ''leased'') \<and>
    jl_fencing_token l = Suc (job_fencing_token job) \<and>
    (\<forall>now < jl_expires_at l. \<exists>j. assert_fence now d' l = Inr j)"
proof -
  from assms(1) obtain job tk r where c: "lookup_by job_id jid (jobs d) = Some job" "job_id job = jid"
    "lane_head d job = Some (job_dispatch_sequence job)" "\<not> lane_leased d job"
    "l = lease_of owner (w_now w + seconds n) (leased_job (w_now w) owner n job)"
    by (rule claim_Inr)
  have "job \<in> set (jobs d)" using lookup_by_Some [OF c(1)] by simp
  moreover have "job_dispatch_sequence job \<le> job_dispatch_sequence k \<and> job_status k \<noteq> ''leased''"
    if "k \<in> set (jobs d)" "in_lane job k" "job_status k \<in> live_statuses" for k
    using min_of_le [OF c(3) [unfolded lane_head_def], of k] c(4) that
    by (auto simp: lane_leased_def list_ex_iff)
  ultimately show ?thesis
    using c(2,5) claim_lease_valid [OF assms] by (intro bexI [of _ job]) (auto simp: lease_of_def)
qed

section \<open>Retries\<close>

text \<open>C32. A retry decision is terminal exactly when the attempts or the age are used up; otherwise the job
  waits at least the exponential backoff of its attempt and at most one second more, and never more
  than 31 seconds.\<close>

theorem retry_is_bounded:
  assumes "retry_decision_of H jid attempt created_at now max_attempts max_age = Inr dec"
  shows "(rd_terminal dec \<longleftrightarrow> max_attempts \<le> attempt \<or> seconds max_age \<le> now - created_at) \<and>
    rd_next_status dec = (if rd_terminal dec then ''dead'' else ''retry_wait'') \<and>
    now + seconds (min 30 (2 ^ attempt)) \<le> rd_available_at dec \<and>
    rd_available_at dec \<le> now + seconds (min 30 (2 ^ attempt)) + seconds 1 \<and>
    rd_available_at dec \<le> now + seconds 31"
proof -
  let ?j = "hex_value (take 4 (H (jid @ '':'' @ show_nat attempt))) mod 1001"
  from assms have dec: "dec = \<lparr>rd_terminal = (max_attempts \<le> attempt \<or> seconds max_age \<le> now - created_at),
      rd_next_status = (if max_attempts \<le> attempt \<or> seconds max_age \<le> now - created_at then ''dead''
        else ''retry_wait''),
      rd_available_at = now + (seconds (min 30 (2 ^ attempt)) + int ?j * 1000),
      rd_reason = (if max_attempts \<le> attempt \<or> seconds max_age \<le> now - created_at
        then ''max_attempts_or_age'' else ''bounded_backoff''), rd_attempt = attempt\<rparr>"
    unfolding retry_decision_of_def guard_simps Let_def by simp
  have "int ?j \<le> 1000" by simp
  then have "0 \<le> int ?j * 1000" "int ?j * 1000 \<le> seconds 1" by (simp_all add: seconds_def)
  moreover have "seconds (min 30 (2 ^ attempt)) \<le> seconds 30" by (simp add: seconds_def)
  ultimately show ?thesis by (simp add: dec seconds_def)
qed

section \<open>Idempotent acceptance\<close>

lemma select_first_append_None:
  "select_first P rows = None \<Longrightarrow> P r \<Longrightarrow> select_first P (rows @ [r]) = Some r"
  unfolding select_first_def by (induction rows) (auto split: if_splits)

text \<open>After a command is accepted under a key, repeating the key with the same canonical payload
  returns the recorded command and writes nothing, and with any other payload digest it is a conflict.\<close>

theorem accept_is_idempotent:
  assumes "accept w d tenant who route key payload rids snap expires = Inr (c, d1)"
    and "w_digest w' = w_digest w"
  shows "accept w' d1 tenant who route key payload' rids' snap' expires' =
    (if canonical_request_hash (w_digest w) payload' = canonical_request_hash (w_digest w) payload
     then Inr (\<lparr>ac_record = ac_record c, ac_reused = True\<rparr>, d1)
     else Inl (RuntimeConflict ''idempotency_conflict''))"
proof -
  let ?P = "\<lambda>r. idm_tenant_id r = tenant \<and> idm_principal_id r = who \<and> idm_route r = route \<and> idm_key r = key"
  have "select_first ?P (idempotency d1) = Some (ac_record c) \<and>
      idm_request_hash (ac_record c) = canonical_request_hash (w_digest w) payload"
  proof (cases "select_first ?P (idempotency d)")
    case None
    then show ?thesis using assms(1) select_first_append_None [OF None]
      by (auto simp: accept_def Let_def insert_row_Inr split: sum.splits)
  next
    case (Some r)
    then show ?thesis using assms(1) by (auto simp: accept_def Let_def split: if_splits)
  qed
  then show ?thesis using assms(2) by (simp add: accept_def Let_def)
qed

section \<open>The fence in front of every operation\<close>

interpretation heartbeats: fenced_operation "assert_fence (w_now w)" "\<lambda>d l n. heartbeat w d l n" for w
  by unfold_locales (simp add: heartbeat_def)

interpretation refreshes: fenced_operation "assert_fence (w_now w)" "\<lambda>d l (u::unit). refresh_lease w d l" for w
  by unfold_locales (simp add: refresh_lease_def)

interpretation failures: fenced_operation "assert_fence (w_now w)"
    "\<lambda>d l (e, ma, mg). fail w d l e ma mg" for w
  by unfold_locales (auto simp: fail_def)

interpretation terminal_failures: fenced_operation "assert_fence (w_now w)" "terminal_fail w" for w
  by unfold_locales (simp add: terminal_fail_def)

interpretation completions: fenced_operation "assert_fence (w_now w)" "complete w" for w
  by unfold_locales (simp add: complete_def)

section \<open>Evaluated examples\<close>

lemma sample_claim:
  obtains l d' where "claim sample_world sample_db ''j1'' ''w1'' 30 = Inr (l, d')"
    "l = lease_of ''w1'' 30000000 (leased_job 0 ''w1'' 30 sample_job)"
    "jobs d' = [leased_job 0 ''w1'' 30 sample_job]" "keys_ok d'"
    "d' = claim_writes sample_world ''w1'' 30 sample_job sample_ticket sample_run sample_db"
proof -
  let ?tk = sample_ticket and ?r = sample_run
  have "claim sample_world sample_db ''j1'' ''w1'' 30 =
      Inr (lease_of ''w1'' (0 + seconds 30) (leased_job 0 ''w1'' 30 sample_job),
        claim_writes sample_world ''w1'' 30 sample_job ?tk ?r sample_db)"
    by (simp add: claim_def lookup_by_def select_first_def lane_head_def lane_leased_def in_lane_def
        live_statuses_def min_of_def sample_world_def sample_defs)
  moreover have "jobs (claim_writes sample_world ''w1'' 30 sample_job ?tk ?r sample_db) =
      [leased_job 0 ''w1'' 30 sample_job]"
    by (simp add: update_by_def sample_world_def sample_db_def empty_db_def)
  moreover have "keys_ok (claim_writes sample_world ''w1'' 30 sample_job ?tk ?r sample_db)"
    by (simp add: keys_ok_def claim_writes_def Let_def upd_defs update_by_def sample_defs)
  ultimately show ?thesis using that by (simp add: seconds_def)
qed

lemma sample_keys: "keys_ok sample_db" "ids_ok sample_db" "lane_exclusive sample_db"
  by (simp_all add: keys_ok_def ids_ok_def lane_exclusive_def sample_defs)

theorem claim_head_of_lane_witness:
  "\<exists>l d'. claim sample_world sample_db ''j1'' ''w1'' 30 = Inr (l, d') \<and> jl_fencing_token l = 1 \<and>
     (\<exists>j. assert_fence 29999999 d' l = Inr j)"
proof -
  obtain l d' where c: "claim sample_world sample_db ''j1'' ''w1'' 30 = Inr (l, d')"
    "l = lease_of ''w1'' 30000000 (leased_job 0 ''w1'' 30 sample_job)" by (rule sample_claim)
  from claim_head_of_lane [OF c(1) sample_keys(1)]
  have "\<forall>now < jl_expires_at l. \<exists>j. assert_fence now d' l = Inr j" by blast
  moreover have "jl_expires_at l = 30000000" "jl_fencing_token l = 1"
    by (simp_all add: c(2) lease_of_def sample_job_def)
  ultimately have "\<exists>j. assert_fence 29999999 d' l = Inr j" by simp
  with c(1) \<open>jl_fencing_token l = 1\<close> show ?thesis by blast
qed

theorem retry_is_bounded_witness:
  "\<exists>dec. retry_decision_of (\<lambda>_. ''ffff'') ''j1'' 2 0 1000000 5 3600 = Inr dec \<and> \<not> rd_terminal dec \<and>
     rd_available_at dec \<le> 1000000 + seconds 31"
proof -
  obtain dec where dec: "retry_decision_of (\<lambda>_. ''ffff'') ''j1'' 2 0 1000000 5 3600 = Inr dec"
    by (simp add: retry_decision_of_def Let_def)
  with retry_is_bounded [OF dec] show ?thesis by (auto simp: seconds_def)
qed

lemma sample_completed:
  obtains l d' d1 where "claim sample_world sample_db ''j1'' ''w1'' 30 = Inr (l, d')"
    "complete sample_world d' l ''completed'' = Inr d1" "ids_ok d1"
    "l = lease_of ''w1'' 30000000 (leased_job 0 ''w1'' 30 sample_job)"
proof -
  obtain l d' where c: "claim sample_world sample_db ''j1'' ''w1'' 30 = Inr (l, d')"
    "l = lease_of ''w1'' 30000000 (leased_job 0 ''w1'' 30 sample_job)"
    and d': "d' = claim_writes sample_world ''w1'' 30 sample_job sample_ticket sample_run sample_db"
    by (rule sample_claim)
  obtain j where j: "assert_fence (w_now sample_world) d' l = Inr j"
    using claim_lease_valid [OF c(1) sample_keys(1), of 0] c(2) by (auto simp: lease_of_def sample_world_def)
  have "jl_run_id l = ''r1''" using c(2) by (simp add: lease_of_def sample_job_def)
  moreover have "\<exists>r. lookup_by run_id ''r1'' (runs d') = Some r"
    by (simp add: d' lookup_by_def update_by_def sample_defs)
  ultimately have "\<exists>d1. complete sample_world d' l ''completed'' = Inr d1"
    using j by (auto simp: complete_def)
  then obtain d1 where d1: "complete sample_world d' l ''completed'' = Inr d1" ..
  have "ids_ok d'" using job_step_ids [OF job_step.claim [OF c(1)] sample_keys(2)] .
  then have "ids_ok d1" using job_step_ids [OF job_step.complete [OF d1]] by blast
  with c(1,2) d1 that show ?thesis by blast
qed

theorem settled_lease_never_valid_witness:
  "\<exists>l d' d1. claim sample_world sample_db ''j1'' ''w1'' 30 = Inr (l, d') \<and>
     complete sample_world d' l ''completed'' = Inr d1 \<and> assert_fence 1 d1 l = Inl stale"
proof -
  obtain l d' d1 where c: "claim sample_world sample_db ''j1'' ''w1'' 30 = Inr (l, d')"
    "complete sample_world d' l ''completed'' = Inr d1" "ids_ok d1" by (rule sample_completed)
  have "assert_fence 1 d1 l = Inl stale"
    using settled_lease_never_valid [OF disjI1 [OF c(2)] c(3) rtranclp.rtrancl_refl] .
  with c show ?thesis by blast
qed

text \<open>The first worker's lease fails with a retry; a second worker then claims the job.\<close>

lemma sample_reclaim:
  obtains l d' st d1 l' d2 where "claim sample_world sample_db ''j1'' ''w1'' 30 = Inr (l, d')"
    "fail sample_world d' l ''boom'' 5 3600 = Inr (st, d1)"
    "claim (sample_world\<lparr>w_now := 40000000\<rparr>) d1 ''j1'' ''w2'' 30 = Inr (l', d2)" "jl_job_id l = ''j1''"
    "\<exists>j. assert_fence 0 d' l = Inr j"
proof -
  obtain l d' where c: "claim sample_world sample_db ''j1'' ''w1'' 30 = Inr (l, d')"
    "l = lease_of ''w1'' 30000000 (leased_job 0 ''w1'' 30 sample_job)" and
    d': "d' = claim_writes sample_world ''w1'' 30 sample_job sample_ticket sample_run sample_db"
    by (rule sample_claim)
  obtain j where j: "assert_fence 0 d' l = Inr j"
    using claim_lease_valid [OF c(1) sample_keys(1), of 0] c(2) by (auto simp: lease_of_def)
  have jj: "j = leased_job 0 ''w1'' 30 sample_job"
    using assert_fence_Inr [OF j] by (simp add: d' update_by_def sample_defs sample_world_def)
  let ?t = "2000000 + int (hex_value (take 4 (replicate 64 (CHR ''a''))) mod 1001) * 1000"
  let ?d1 = "upd_run ''r1'' (\<lambda>x. x\<lparr>run_active_job_id := None, run_active_fencing_token := None,
      run_status := ''queued'', run_error_code := None, run_status_version := Suc (run_status_version x)\<rparr>)
    (upd_job ''j1'' (\<lambda>j. (released_job ''retry_wait'' j)\<lparr>job_last_error := Some (take_chars 128 ''boom''),
      job_available_at := ?t\<rparr>) d')"
  have r: "\<exists>r. lookup_by run_id ''r1'' (runs d') = Some r \<and> run_id r = ''r1''"
    by (simp add: d' lookup_by_def update_by_def sample_defs sample_world_def)
  have "fail sample_world d' l ''boom'' 5 3600 = Inr (''retry_wait'', ?d1)"
    using j r c(2)
    by (auto simp: fail_def sample_world_def jj lease_of_def sample_job_def retry_decision_of_def Let_def
        seconds_def leased_job_def transition_runtime_job_status_def sample_digest_def)
  moreover have "?t \<le> 40000000" by simp
  then have "\<exists>l' d2. claim (sample_world\<lparr>w_now := 40000000\<rparr>) ?d1 ''j1'' ''w2'' 30 = Inr (l', d2)"
    by (simp add: d' claim_def lookup_by_def select_first_def lane_head_def lane_leased_def in_lane_def
        live_statuses_def min_of_def sample_world_def upd_defs update_by_def claim_writes_def Let_def
        released_job_def leased_job_def transition_runtime_job_status_def sample_defs falsy_str_def)
  ultimately show ?thesis using c j that by (auto simp: lease_of_def sample_job_def)
qed

theorem superseded_lease_never_valid_witness:
  "\<exists>l d' st d1 l' d2. claim sample_world sample_db ''j1'' ''w1'' 30 = Inr (l, d') \<and>
     fail sample_world d' l ''boom'' 5 3600 = Inr (st, d1) \<and>
     claim (sample_world\<lparr>w_now := 40000000\<rparr>) d1 ''j1'' ''w2'' 30 = Inr (l', d2) \<and>
     assert_fence 41000000 d2 l = Inl stale"
proof -
  obtain l d' st d1 l' d2 where c: "claim sample_world sample_db ''j1'' ''w1'' 30 = Inr (l, d')"
    "fail sample_world d' l ''boom'' 5 3600 = Inr (st, d1)"
    "claim (sample_world\<lparr>w_now := 40000000\<rparr>) d1 ''j1'' ''w2'' 30 = Inr (l', d2)" "jl_job_id l = ''j1''"
    "\<exists>j. assert_fence 0 d' l = Inr j" by (rule sample_reclaim)
  then obtain j where j: "assert_fence 0 d' l = Inr j" by blast
  have ids: "ids_ok d'" using job_step_ids [OF job_step.claim [OF c(1)] sample_keys(2)] .
  have steps: "job_step\<^sup>*\<^sup>* d' d1" using job_step.fail [OF c(2)] by blast
  from superseded_lease_never_valid [OF j steps c(3) [folded c(4)] rtranclp.rtrancl_refl ids]
  have "assert_fence 41000000 d2 l = Inl stale" .
  with c show ?thesis by blast
qed

theorem one_valid_lease_per_ticket_witness:
  "\<exists>l d' j. claim sample_world sample_db ''j1'' ''w1'' 30 = Inr (l, d') \<and> assert_fence 5 d' l = Inr j \<and>
     jl_owner l = ''w1''"
proof -
  obtain l d' where c: "claim sample_world sample_db ''j1'' ''w1'' 30 = Inr (l, d')"
    "l = lease_of ''w1'' 30000000 (leased_job 0 ''w1'' 30 sample_job)" by (rule sample_claim)
  obtain j where j: "assert_fence 5 d' l = Inr j"
    using claim_lease_valid [OF c(1) sample_keys(1), of 5] c(2) by (auto simp: lease_of_def)
  have s: "job_step\<^sup>*\<^sup>* sample_db d'" using job_step.claim [OF c(1)] by blast
  from one_valid_lease_per_ticket [OF s sample_keys(2,3) j j refl refl] c j
  show ?thesis by (auto simp: lease_of_def)
qed

theorem accept_is_idempotent_witness:
  "\<exists>c d1. accept sample_world sample_db ''acme'' ''p1'' ''POST /api/tickets'' ''k1'' [(''a'', PInt 1)] [] [] None =
       Inr (c, d1) \<and>
     accept sample_world d1 ''acme'' ''p1'' ''POST /api/tickets'' ''k1'' [(''a'', PInt 1)] [] [] None =
       Inr (\<lparr>ac_record = ac_record c, ac_reused = True\<rparr>, d1)"
proof -
  obtain c d1 where a: "accept sample_world sample_db ''acme'' ''p1'' ''POST /api/tickets'' ''k1''
      [(''a'', PInt 1)] [] [] None = Inr (c, d1)"
    by (simp add: accept_def Let_def select_first_def insert_row_def sample_defs)
  from accept_is_idempotent [OF a refl, of "[(''a'', PInt 1)]" "[]" "[]" None] a show ?thesis by auto
qed

end
