(* ===== verification/Attempt_Ledger.thy ===== *)
theory Attempt_Ledger
  imports Job_Fencing
begin

text \<open>
  \<open>services/attempts.py\<close>: the ledger of physical calls of a run.  A reservation asserts the fence,
  checks the kind's own rules, charges the run's budget and writes an attempt (and, for a read over
  MCP, its transport row); finishing settles both.  The metrics the code increments are not state of
  the model.  Database times are read as aware UTC values.
\<close>

definition isoformat :: "pydatetime \<Rightarrow> string" where
  "isoformat t =
     iso_date_string t @ ''T'' @ pad_nat 2 (dt_hour t) @ '':'' @ pad_nat 2 (dt_minute t) @ '':'' @
     pad_nat 2 (dt_second t) @ (if dt_micro t \<noteq> 0 then ''.'' @ pad_nat 6 (dt_micro t) else '''') @
     str_offset (dt_offset t)"

definition opt_iso :: "int option \<Rightarrow> pyval" where
  "opt_iso x = (case x of None \<Rightarrow> PNone | Some t \<Rightarrow> PStr (isoformat (of_wall_utc t)))"

section \<open>Structured error paths\<close>

definition is_ident :: "string \<Rightarrow> bool" where
  "is_ident s =
     (s \<noteq> [] \<and> (is_alpha (hd s) \<or> hd s = CHR ''_'') \<and> list_all (\<lambda>c. is_alnum c \<or> c = CHR ''_'') s)"

definition is_digits :: "string \<Rightarrow> bool" where
  "is_digits s = (s \<noteq> [] \<and> list_all (\<lambda>c. char_digit c \<noteq> None) s)"

definition error_path_head :: "string \<Rightarrow> bool" where
  "error_path_head s =
     (s = ''$'' \<or>
      (case split_on (CHR ''.'') s of
         [] \<Rightarrow> False | p # ps \<Rightarrow> is_ident p \<and> list_all (\<lambda>q. is_ident q \<or> is_digits q) ps))"

text \<open>None of the character classes of the pattern holds a colon, so the colons delimit its parts.\<close>

definition safe_structured_error_path :: "string \<Rightarrow> bool" where
  "safe_structured_error_path s =
     (case split_on (CHR '':'') s of
        [h, n] \<Rightarrow> error_path_head h \<and> is_ident n
      | [h, n, t] \<Rightarrow> error_path_head h \<and> is_ident n \<and> t \<noteq> [] \<and>
          list_all (\<lambda>c. is_alnum c \<or> c \<in> set ''_. -'') t
      | _ \<Rightarrow> False)"

section \<open>Reservation\<close>

definition MAX_LLM_CALLS :: nat where "MAX_LLM_CALLS = 6"
definition MAX_TOOL_ATTEMPTS :: nat where "MAX_TOOL_ATTEMPTS = 6"
definition MAX_TOOL_ROUNDS :: nat where "MAX_TOOL_ROUNDS = 2"

record reserved_attempt =
  ra_id :: string
  ra_kind :: string
  ra_ordinal :: nat
  ra_logical_invocation_id :: "string option"
  ra_transport_ordinal :: "nat option"
  ra_transport_attempt_id :: "string option"

record reserve_request =
  rs_kind :: string
  rs_logical_invocation_id :: "string option"
  rs_transport_ordinal :: "nat option"
  rs_actual_provider :: "(string \<times> string \<times> string) option"
  rs_repair_of_attempt_id :: "string option"

text \<open>A structure repair names a failed language-model attempt of the same run and job, once per run.\<close>

definition repair_conflict :: "db \<Rightarrow> job_lease \<Rightarrow> reserve_request \<Rightarrow> string option" where
  "repair_conflict d l q =
     (if rs_kind q \<noteq> ''structure_repair'' then None
      else if (case lookup_by at_id (the (rs_repair_of_attempt_id q)) (attempts d) of
            None \<Rightarrow> True
          | Some a \<Rightarrow> at_run_id a \<noteq> jl_run_id l \<or> at_job_id a \<noteq> jl_job_id l \<or>
              at_call_kind a \<noteq> ''llm'' \<or> at_status a \<noteq> ''failed'') then
        Some ''structure_repair_origin_invalid''
      else if select_first (\<lambda>a. at_run_id a = jl_run_id l \<and> at_call_kind a = ''structure_repair'')
            (attempts d) \<noteq> None then
        Some ''structure_repair_already_used''
      else None)"

definition invocation_reservable :: "db \<Rightarrow> job_lease \<Rightarrow> string \<Rightarrow> bool" where
  "invocation_reservable d l i =
     (case lookup_by iv_id i (invocations d) of
        None \<Rightarrow> False
      | Some v \<Rightarrow> iv_run_id v = jl_run_id l \<and> iv_job_id v = jl_job_id l \<and>
          iv_fencing_token v = jl_fencing_token l \<and> iv_lifecycle v \<noteq> ''terminal'')"

text \<open>The charge of one attempt against the run's budget.\<close>

definition charge_attempt :: "db \<Rightarrow> job_lease \<Rightarrow> reserve_request \<Rightarrow> agent_run \<Rightarrow> db result" where
  "charge_attempt d l q r =
     (if rs_kind q \<in> {''llm'', ''structure_repair''} then
        if MAX_LLM_CALLS \<le> run_llm_calls r then Inl (RuntimeConflict ''llm_budget_exhausted'')
        else Inr (upd_run (run_id r) (\<lambda>x. x\<lparr>run_llm_calls := Suc (run_llm_calls x)\<rparr>) d)
      else if rs_kind q \<in> {''read_mcp'', ''tool_preflight''} then
        (case rs_logical_invocation_id q of
           None \<Rightarrow> Inl (ValueError ''tool attempt requires logical_invocation_id'')
         | Some i \<Rightarrow>
             if \<not> invocation_reservable d l i then Inl (RuntimeConflict ''tool_invocation_not_reservable'')
             else if rs_kind q = ''read_mcp'' \<and>
                 (rs_transport_ordinal q = None \<or> rs_transport_ordinal q = Some 0) then
               Inl (ValueError ''read_mcp attempt requires positive transport_ordinal'')
             else if rs_kind q = ''tool_preflight'' \<and> rs_transport_ordinal q \<noteq> None then
               Inl (ValueError ''tool_preflight cannot reserve transport'')
             else if MAX_TOOL_ATTEMPTS \<le> run_tool_attempts r then
               Inl (RuntimeConflict ''tool_budget_exhausted'')
             else Inr (upd_run (run_id r) (\<lambda>x. x\<lparr>run_tool_attempts := Suc (run_tool_attempts x)\<rparr>) d))
      else Inl (ValueError (''unknown attempt kind: '' @ rs_kind q)))"

definition next_attempt_ordinal :: "db \<Rightarrow> string \<Rightarrow> string \<Rightarrow> nat" where
  "next_attempt_ordinal d rid kind =
     (case max_of at_ordinal (filter (\<lambda>a. at_run_id a = rid \<and> at_call_kind a = kind) (attempts d)) of
        None \<Rightarrow> 1 | Some n \<Rightarrow> Suc n)"

definition attempt_provenance :: "world \<Rightarrow> job_lease \<Rightarrow> reserve_request \<Rightarrow> agent_run \<Rightarrow> pydict" where
  "attempt_provenance w l q r =
     (let p = (case rs_actual_provider q of
            Some (model, provider_mode, tool_call_mode) \<Rightarrow>
              w_provenance w model provider_mode tool_call_mode CONTEXT_VERSION
          | None \<Rightarrow>
              w_provenance w (run_model r) (run_provider_mode r) (run_tool_call_mode r) CONTEXT_VERSION);
          p1 = dset p ''worker_execution'' (PDict [(''lease_owner'', PStr (jl_owner l)),
            (''fencing_token'', PInt (int (jl_fencing_token l))), (''job_id'', PStr (jl_job_id l))])
      in if rs_kind q = ''structure_repair''
         then dset (dset p1 ''repair_of_attempt_id'' (opt_str_val (rs_repair_of_attempt_id q)))
           ''repair_contract'' (PStr ''strict-structure-repair.v1'')
         else p1)"

definition new_attempt ::
  "world \<Rightarrow> db \<Rightarrow> job_lease \<Rightarrow> reserve_request \<Rightarrow> agent_run \<Rightarrow> agent_call_attempt" where
  "new_attempt w d l q r =
     \<lparr>at_id = w_new_id w ''attempt'', at_tenant_id = jl_tenant_id l, at_run_id = jl_run_id l,
      at_job_id = jl_job_id l, at_fencing_token = jl_fencing_token l, at_call_kind = rs_kind q,
      at_ordinal = next_attempt_ordinal d (jl_run_id l) (rs_kind q),
      at_logical_invocation_id = rs_logical_invocation_id q,
      at_transport_ordinal = rs_transport_ordinal q, at_status = ''started'', at_prompt_tokens = 0,
      at_completion_tokens = 0, at_latency_ms = None, at_error_code = None,
      at_runtime_provenance = attempt_provenance w l q r\<rparr>"

definition new_transport ::
  "world \<Rightarrow> job_lease \<Rightarrow> string \<Rightarrow> nat \<Rightarrow> string \<Rightarrow> tool_transport_attempt" where
  "new_transport w l i n aid =
     \<lparr>tt_id = w_new_id w ''transport'', tt_tenant_id = jl_tenant_id l, tt_run_id = jl_run_id l,
      tt_job_id = jl_job_id l, tt_invocation_id = i, tt_agent_call_attempt_id = aid,
      tt_fencing_token = jl_fencing_token l, tt_transport_ordinal = n, tt_status = ''reserved'',
      tt_error_code = None, tt_completed_at = None\<rparr>"

definition reserved_of :: "agent_call_attempt \<Rightarrow> string option \<Rightarrow> reserved_attempt" where
  "reserved_of a tid =
     \<lparr>ra_id = at_id a, ra_kind = at_call_kind a, ra_ordinal = at_ordinal a,
      ra_logical_invocation_id = at_logical_invocation_id a,
      ra_transport_ordinal = at_transport_ordinal a, ra_transport_attempt_id = tid\<rparr>"

definition reserve ::
  "world \<Rightarrow> db \<Rightarrow> job_lease \<Rightarrow> reserve_request \<Rightarrow> (reserved_attempt \<times> db) result" where
  "reserve w d l q =
     (case assert_fence (w_now w) d l of
        Inl e \<Rightarrow> Inl e
      | Inr _ \<Rightarrow>
        if rs_kind q = ''structure_repair'' \<and> falsy_str (rs_repair_of_attempt_id q) then
          Inl (ValueError ''structure repair requires repair_of_attempt_id'')
        else if rs_kind q \<noteq> ''structure_repair'' \<and> rs_repair_of_attempt_id q \<noteq> None then
          Inl (ValueError ''repair_of_attempt_id is only valid for structure repair'')
        else (case lookup_by run_id (jl_run_id l) (runs d) of
            None \<Rightarrow> Inl (RuntimeConflict ''run_not_found'')
          | Some r \<Rightarrow>
            (case repair_conflict d l q of
               Some m \<Rightarrow> Inl (RuntimeConflict m)
             | None \<Rightarrow>
               (case charge_attempt d l q r of
                  Inl e \<Rightarrow> Inl e
                | Inr d1 \<Rightarrow>
                  (let a = new_attempt w d l q r in
                   case insert_row at_id a (attempts d1) of
                     Inl e \<Rightarrow> Inl e
                   | Inr as \<Rightarrow>
                       if rs_kind q = ''read_mcp'' then
                         (case (rs_logical_invocation_id q, rs_transport_ordinal q) of
                            (Some i, Some n) \<Rightarrow>
                              (let t = new_transport w l i n (at_id a) in
                               case insert_row tt_id t (transports d1) of
                                 Inl e \<Rightarrow> Inl e
                               | Inr ts \<Rightarrow> Inr (reserved_of a (Some (tt_id t)),
                                   d1\<lparr>attempts := as, transports := ts\<rparr>))
                          | _ \<Rightarrow> Inl (RuntimeConflict ''transport_identity_missing''))
                       else Inr (reserved_of a None, d1\<lparr>attempts := as\<rparr>))))))"

definition reserve_tool_round :: "world \<Rightarrow> db \<Rightarrow> job_lease \<Rightarrow> (nat \<times> db) result" where
  "reserve_tool_round w d l =
     (case assert_fence (w_now w) d l of
        Inl e \<Rightarrow> Inl e
      | Inr _ \<Rightarrow>
        (case lookup_by run_id (jl_run_id l) (runs d) of
           None \<Rightarrow> Inl (RuntimeConflict ''run_not_found'')
         | Some r \<Rightarrow>
             if MAX_TOOL_ROUNDS \<le> run_tool_rounds r then
               Inl (RuntimeConflict ''tool_round_budget_exhausted'')
             else Inr (Suc (run_tool_rounds r),
               upd_run (run_id r) (\<lambda>x. x\<lparr>run_tool_rounds := Suc (run_tool_rounds x)\<rparr>) d)))"

section \<open>Settlement\<close>

record attempt_outcome =
  fo_status :: string
  fo_prompt_tokens :: int
  fo_completion_tokens :: int
  fo_latency_ms :: "int option"
  fo_error_code :: "string option"
  fo_provider_transport_attempts :: "int option"
  fo_transport_lifecycle :: "pydict option"
  fo_structured_error_paths :: "pyval list option"

definition paths_error :: "reserved_attempt \<Rightarrow> attempt_outcome \<Rightarrow> string option" where
  "paths_error ra o' =
     (case fo_structured_error_paths o' of
        None \<Rightarrow> None
      | Some paths \<Rightarrow>
          if fo_status o' \<noteq> ''failed'' \<or> ra_kind ra \<notin> {''llm'', ''structure_repair''} then
            Some ''structured error paths require a failed Provider attempt''
          else if paths = [] \<or> length paths > 12 then
            Some ''structured error paths must contain between 1 and 12 items''
          else if list_ex (\<lambda>p. case p of
              PStr s \<Rightarrow> py_len s > 200 \<or> \<not> safe_structured_error_path s | _ \<Rightarrow> True) paths then
            Some ''invalid structured error path''
          else None)"

definition provider_error :: "reserved_attempt \<Rightarrow> attempt_outcome \<Rightarrow> string option" where
  "provider_error ra o' =
     (case fo_provider_transport_attempts o' of
        None \<Rightarrow> None
      | Some n \<Rightarrow>
          if ra_kind ra \<notin> {''llm'', ''structure_repair''} then
            Some ''provider transport attempts require an LLM attempt''
          else if n \<notin> {1, 2} then
            Some ''provider transport attempts exceed the bounded retry contract''
          else None)"

definition lifecycle_identity :: "job_lease \<Rightarrow> reserved_attempt \<Rightarrow> pydict" where
  "lifecycle_identity l ra =
     [(''tenant_id'', PStr (jl_tenant_id l)), (''run_id'', PStr (jl_run_id l)),
      (''job_id'', PStr (jl_job_id l)), (''fencing_token'', PInt (int (jl_fencing_token l))),
      (''tool_attempt_id'', PStr (ra_id ra)),
      (''transport_attempt_id'', opt_str_val (ra_transport_attempt_id ra)),
      (''transport_ordinal'', opt_nat_val (ra_transport_ordinal ra))]"

definition lifecycle_error :: "job_lease \<Rightarrow> reserved_attempt \<Rightarrow> pydict \<Rightarrow> error option" where
  "lifecycle_error l ra lc =
     (if dget lc ''schema_version'' \<noteq> PStr ''mcp-transport-lifecycle.v1'' then
        Some (ValueError ''invalid MCP transport lifecycle schema'')
      else if list_ex (dhas lc) [''prompt'', ''payload'', ''arguments'', ''secret'', ''api_key''] then
        Some (ValueError ''MCP transport lifecycle contains forbidden fields'')
      else if list_ex (\<lambda>(k, v). dhas lc k \<and> \<not> py_eq (dget lc k) v) (lifecycle_identity l ra) then
        Some (RuntimeConflict ''mcp_transport_lifecycle_identity_mismatch'')
      else None)"

definition worker_snapshot :: "runtime_job \<Rightarrow> pyval" where
  "worker_snapshot job =
     PDict [(''lease_owner'', opt_str_val (job_lease_owner job)),
       (''lease_expires_at'', opt_iso (job_lease_expires_at job)),
       (''heartbeat_at'', opt_iso (job_heartbeat_at job)),
       (''fencing_token'', PInt (int (job_fencing_token job))), (''job_status'', PStr (job_status job))]"

text \<open>The provenance after the outcome: error paths, provider retries, then the transport lifecycle.\<close>

definition settled_provenance :: "runtime_job \<Rightarrow> reserved_attempt \<Rightarrow> attempt_outcome \<Rightarrow> pydict \<Rightarrow> pydict" where
  "settled_provenance job ra o' p =
     (let p1 = (case fo_structured_error_paths o' of None \<Rightarrow> p
            | Some paths \<Rightarrow> dset p ''structured_error_paths'' (PList paths));
          p2 = (case fo_provider_transport_attempts o' of None \<Rightarrow> p1
            | Some n \<Rightarrow> dset (dset p1 ''provider_transport_attempts'' (PInt n))
                ''provider_retry_count'' (PInt (n - 1)))
      in case (ra_transport_attempt_id ra, fo_transport_lifecycle o') of
           (Some _, Some lc) \<Rightarrow> dset p2 ''mcp_transport_lifecycle''
             (PDict (dset lc ''worker_snapshot'' (worker_snapshot job)))
         | _ \<Rightarrow> p2)"

definition settled_attempt ::
  "runtime_job \<Rightarrow> reserved_attempt \<Rightarrow> attempt_outcome \<Rightarrow> agent_call_attempt \<Rightarrow> agent_call_attempt" where
  "settled_attempt job ra o' a =
     a\<lparr>at_status := fo_status o', at_prompt_tokens := max 0 (fo_prompt_tokens o'),
       at_completion_tokens := max 0 (fo_completion_tokens o'), at_latency_ms := fo_latency_ms o',
       at_error_code := fo_error_code o',
       at_runtime_provenance := settled_provenance job ra o' (at_runtime_provenance a)\<rparr>"

definition finish :: "world \<Rightarrow> db \<Rightarrow> job_lease \<Rightarrow> reserved_attempt \<Rightarrow> attempt_outcome \<Rightarrow> db result" where
  "finish w d l ra o' =
     (case assert_fence (w_now w) d l of
        Inl e \<Rightarrow> Inl e
      | Inr job \<Rightarrow>
        (case lookup_by at_id (ra_id ra) (attempts d) of
           None \<Rightarrow> Inl (RuntimeConflict ''attempt_not_started'')
         | Some a \<Rightarrow>
             if at_status a \<noteq> ''started'' then Inl (RuntimeConflict ''attempt_not_started'')
             else if fo_status o' \<notin> {''succeeded'', ''failed'', ''unknown''} then
               Inl (ValueError ''invalid attempt outcome'')
             else (case paths_error ra o' of Some m \<Rightarrow> Inl (ValueError m) | None \<Rightarrow>
               (case provider_error ra o' of Some m \<Rightarrow> Inl (ValueError m) | None \<Rightarrow>
                 (let d1 = d\<lparr>attempts := update_by at_id (ra_id ra) (settled_attempt job ra o') (attempts d)\<rparr> in
                  case ra_transport_attempt_id ra of
                    None \<Rightarrow> Inr d1
                  | Some tid \<Rightarrow>
                      (case lookup_by tt_id tid (transports d) of
                         None \<Rightarrow> Inl (RuntimeConflict ''transport_attempt_not_active'')
                       | Some t \<Rightarrow>
                           if tt_status t \<notin> {''reserved'', ''executing''} then
                             Inl (RuntimeConflict ''transport_attempt_not_active'')
                           else (case (case fo_transport_lifecycle o' of None \<Rightarrow> None
                                   | Some lc \<Rightarrow> lifecycle_error l ra lc) of
                               Some e \<Rightarrow> Inl e
                             | None \<Rightarrow> Inr (d1\<lparr>transports := update_by tt_id tid
                                 (\<lambda>x. x\<lparr>tt_status := fo_status o', tt_error_code := fo_error_code o',
                                    tt_completed_at := Some (instant (w_clock w))\<rparr>) (transports d)\<rparr>))))))))"

section \<open>What the operations do\<close>

definition llm_kinds :: "string list" where "llm_kinds = [''llm'', ''structure_repair'']"
definition tool_kinds :: "string list" where "tool_kinds = [''read_mcp'', ''tool_preflight'']"

lemma kinds_disjoint: "k \<in> set llm_kinds \<Longrightarrow> k \<notin> set tool_kinds"
  by (auto simp: llm_kinds_def tool_kinds_def)

lemma charge_attempt_Inr:
  assumes "charge_attempt d l q r = Inr d1"
  shows "(rs_kind q \<in> set llm_kinds \<and> run_llm_calls r < MAX_LLM_CALLS \<and>
      d1 = upd_run (run_id r) (\<lambda>x. x\<lparr>run_llm_calls := Suc (run_llm_calls x)\<rparr>) d) \<or>
    (rs_kind q \<in> set tool_kinds \<and> run_tool_attempts r < MAX_TOOL_ATTEMPTS \<and>
      d1 = upd_run (run_id r) (\<lambda>x. x\<lparr>run_tool_attempts := Suc (run_tool_attempts x)\<rparr>) d)"
proof (cases "rs_kind q \<in> {''llm'', ''structure_repair''}")
  case True
  with assms show ?thesis by (simp add: charge_attempt_def guard_simps llm_kinds_def not_le)
next
  case False
  then have "rs_kind q \<in> {''read_mcp'', ''tool_preflight''}"
    using assms unfolding charge_attempt_def by (simp split: if_splits)
  with assms False show ?thesis
    unfolding charge_attempt_def by (simp add: guard_simps tool_kinds_def not_le) blast
qed

lemma reserve_Inr:
  assumes "reserve w d l q = Inr (ra, d')"
  obtains r d1 where "lookup_by run_id (jl_run_id l) (runs d) = Some r" "run_id r = jl_run_id l"
    "charge_attempt d l q r = Inr d1" "runs d' = runs d1"
    "attempts d' = attempts d @ [new_attempt w d l q r]"
    "at_id (new_attempt w d l q r) \<notin> at_id ` set (attempts d)" "ra_id ra = at_id (new_attempt w d l q r)"
proof -
  obtain r d1 where 1: "lookup_by run_id (jl_run_id l) (runs d) = Some r" "charge_attempt d l q r = Inr d1"
    using assms unfolding reserve_def by (auto split: sum.splits if_splits option.splits)
  have rid: "run_id r = jl_run_id l" using lookup_by_Some [OF 1(1)] by simp
  have d1: "attempts d1 = attempts d" using charge_attempt_Inr [OF 1(2)] by (auto simp: upd_run_def)
  have "attempts d' = attempts d @ [new_attempt w d l q r] \<and> runs d' = runs d1 \<and>
      at_id (new_attempt w d l q r) \<notin> at_id ` set (attempts d) \<and> ra_id ra = at_id (new_attempt w d l q r)"
    using assms 1 d1 unfolding reserve_def Let_def
    by (auto simp: insert_row_Inr reserved_of_def split: sum.splits if_splits option.splits)
  with that 1 rid show ?thesis by blast
qed

lemma new_attempt_fields [simp]:
  "at_run_id (new_attempt w d l q r) = jl_run_id l" "at_call_kind (new_attempt w d l q r) = rs_kind q"
  "at_status (new_attempt w d l q r) = ''started''"
  by (simp_all add: new_attempt_def)

lemma reserve_tool_round_Inr:
  assumes "reserve_tool_round w d l = Inr (n, d')"
  obtains r where "lookup_by run_id (jl_run_id l) (runs d) = Some r" "run_tool_rounds r < MAX_TOOL_ROUNDS"
    "d' = upd_run (jl_run_id l) (\<lambda>x. x\<lparr>run_tool_rounds := Suc (run_tool_rounds x)\<rparr>) d"
proof -
  obtain r where r: "lookup_by run_id (jl_run_id l) (runs d) = Some r" "run_tool_rounds r < MAX_TOOL_ROUNDS"
    "d' = upd_run (run_id r) (\<lambda>x. x\<lparr>run_tool_rounds := Suc (run_tool_rounds x)\<rparr>) d"
    using assms unfolding reserve_tool_round_def guard_simps by (auto simp: not_le)
  moreover have "run_id r = jl_run_id l" using lookup_by_Some [OF r(1)] by simp
  ultimately show ?thesis using that by simp
qed

lemma finish_Inr:
  assumes "finish w d l ra o' = Inr d'"
  obtains job a where "assert_fence (w_now w) d l = Inr job" "lookup_by at_id (ra_id ra) (attempts d) = Some a"
    "at_status a = ''started''" "fo_status o' \<in> {''succeeded'', ''failed'', ''unknown''}"
    "attempts d' = update_by at_id (ra_id ra) (settled_attempt job ra o') (attempts d)" "runs d' = runs d"
proof -
  obtain job a where 1: "assert_fence (w_now w) d l = Inr job"
    "lookup_by at_id (ra_id ra) (attempts d) = Some a" "at_status a = ''started''"
    "fo_status o' \<in> {''succeeded'', ''failed'', ''unknown''}"
    using assms unfolding finish_def guard_simps by blast
  have "attempts d' = update_by at_id (ra_id ra) (settled_attempt job ra o') (attempts d) \<and> runs d' = runs d"
    using assms 1 unfolding finish_def Let_def
    by (auto simp del: insert_iff split: option.splits if_splits)
  with that 1 show ?thesis by blast
qed

section \<open>Budgets\<close>

text \<open>Charges of one run, as steps on the database.\<close>

definition run_field :: "(agent_run \<Rightarrow> nat) \<Rightarrow> string \<Rightarrow> db \<Rightarrow> nat" where
  "run_field f rid d = (case lookup_by run_id rid (runs d) of None \<Rightarrow> 0 | Some r \<Rightarrow> f r)"

definition reserve_of_kind ::
  "string list \<Rightarrow> string \<Rightarrow> world \<times> job_lease \<times> reserve_request \<Rightarrow> db \<Rightarrow> db result" where
  "reserve_of_kind kinds rid x d =
     (case x of (w, l, q) \<Rightarrow>
        if jl_run_id l = rid \<and> rs_kind q \<in> set kinds then map_sum id snd (reserve w d l q)
        else Inl (ValueError ''not a charge of this budget''))"

definition round_of_run :: "string \<Rightarrow> world \<times> job_lease \<Rightarrow> db \<Rightarrow> db result" where
  "round_of_run rid x d =
     (case x of (w, l) \<Rightarrow> if jl_run_id l = rid then map_sum id snd (reserve_tool_round w d l)
        else Inl (ValueError ''not a charge of this budget''))"

lemma reserve_of_kind_Inr:
  "reserve_of_kind kinds rid x d = Inr d' \<longleftrightarrow>
     (\<exists>w l q ra. x = (w, l, q) \<and> jl_run_id l = rid \<and> rs_kind q \<in> set kinds \<and> reserve w d l q = Inr (ra, d'))"
  by (cases x) (auto simp: reserve_of_kind_def map_sum_def split: sum.splits)

lemma run_field_upd:
  assumes "lookup_by run_id rid (runs d) = Some r" "\<And>x. run_id (f x) = run_id x"
  shows "run_field g rid (upd_run rid f d) = g (f r)"
  using assms by (simp add: run_field_def upd_run_def lookup_by_update_by)

lemma llm_charge:
  assumes "reserve_of_kind llm_kinds rid x d = Inr d'"
  shows "run_field run_llm_calls rid d < MAX_LLM_CALLS"
    "run_field run_llm_calls rid d' = Suc (run_field run_llm_calls rid d)"
proof -
  obtain w l q ra where x: "jl_run_id l = rid" "rs_kind q \<in> set llm_kinds" "reserve w d l q = Inr (ra, d')"
    using assms by (auto simp: reserve_of_kind_Inr)
  from x(3) obtain r d1 where r: "lookup_by run_id (jl_run_id l) (runs d) = Some r" "run_id r = jl_run_id l"
    "charge_attempt d l q r = Inr d1" "runs d' = runs d1" by (rule reserve_Inr)
  from charge_attempt_Inr [OF r(3)] kinds_disjoint [OF x(2)]
  have c: "run_llm_calls r < MAX_LLM_CALLS"
    "d1 = upd_run (run_id r) (\<lambda>x. x\<lparr>run_llm_calls := Suc (run_llm_calls x)\<rparr>) d" by auto
  show "run_field run_llm_calls rid d < MAX_LLM_CALLS" using c(1) r(1) x(1) by (simp add: run_field_def)
  show "run_field run_llm_calls rid d' = Suc (run_field run_llm_calls rid d)"
    using c(2) r x(1) by (simp add: run_field_def upd_run_def lookup_by_update_by)
qed

lemma tool_charge:
  assumes "reserve_of_kind tool_kinds rid x d = Inr d'"
  shows "run_field run_tool_attempts rid d < MAX_TOOL_ATTEMPTS"
    "run_field run_tool_attempts rid d' = Suc (run_field run_tool_attempts rid d)"
proof -
  obtain w l q ra where x: "jl_run_id l = rid" "rs_kind q \<in> set tool_kinds" "reserve w d l q = Inr (ra, d')"
    using assms by (auto simp: reserve_of_kind_Inr)
  from x(3) obtain r d1 where r: "lookup_by run_id (jl_run_id l) (runs d) = Some r" "run_id r = jl_run_id l"
    "charge_attempt d l q r = Inr d1" "runs d' = runs d1" by (rule reserve_Inr)
  from charge_attempt_Inr [OF r(3)] kinds_disjoint x(2)
  have c: "run_tool_attempts r < MAX_TOOL_ATTEMPTS"
    "d1 = upd_run (run_id r) (\<lambda>x. x\<lparr>run_tool_attempts := Suc (run_tool_attempts x)\<rparr>) d" by auto
  show "run_field run_tool_attempts rid d < MAX_TOOL_ATTEMPTS" using c(1) r(1) x(1) by (simp add: run_field_def)
  show "run_field run_tool_attempts rid d' = Suc (run_field run_tool_attempts rid d)"
    using c(2) r x(1) by (simp add: run_field_def upd_run_def lookup_by_update_by)
qed

lemma round_charge:
  assumes "round_of_run rid x d = Inr d'"
  shows "run_field run_tool_rounds rid d < MAX_TOOL_ROUNDS"
    "run_field run_tool_rounds rid d' = Suc (run_field run_tool_rounds rid d)"
proof -
  obtain w l n where x: "jl_run_id l = rid" "reserve_tool_round w d l = Inr (n, d')"
    using assms by (cases x) (auto simp: round_of_run_def map_sum_def split: if_splits sum.splits)
  from x(2) obtain r where r: "lookup_by run_id (jl_run_id l) (runs d) = Some r" "run_tool_rounds r < MAX_TOOL_ROUNDS"
    "d' = upd_run (jl_run_id l) (\<lambda>x. x\<lparr>run_tool_rounds := Suc (run_tool_rounds x)\<rparr>) d"
    by (rule reserve_tool_round_Inr)
  then show "run_field run_tool_rounds rid d < MAX_TOOL_ROUNDS"
    "run_field run_tool_rounds rid d' = Suc (run_field run_tool_rounds rid d)"
    using x(1) run_field_upd [of rid d r "\<lambda>x. x\<lparr>run_tool_rounds := Suc (run_tool_rounds x)\<rparr>" run_tool_rounds]
    by (simp_all add: run_field_def)
qed

interpretation llm_budget: budget_counter "run_field run_llm_calls rid" "reserve_of_kind llm_kinds rid"
    MAX_LLM_CALLS for rid
  by unfold_locales (fact llm_charge)+

interpretation tool_budget: budget_counter "run_field run_tool_attempts rid" "reserve_of_kind tool_kinds rid"
    MAX_TOOL_ATTEMPTS for rid
  by unfold_locales (fact tool_charge)+

interpretation round_budget: budget_counter "run_field run_tool_rounds rid" "round_of_run rid"
    MAX_TOOL_ROUNDS for rid
  by unfold_locales (fact round_charge)+

interpretation reservations: fenced_operation "assert_fence (w_now w)" "reserve w" for w
  by unfold_locales (simp add: reserve_def)

interpretation rounds: fenced_operation "assert_fence (w_now w)" "\<lambda>d l (u::unit). reserve_tool_round w d l" for w
  by unfold_locales (simp add: reserve_tool_round_def)

interpretation settlements: fenced_operation "assert_fence (w_now w)" "\<lambda>d l (ra, o'). finish w d l ra o'" for w
  by unfold_locales (auto simp: finish_def)

section \<open>The recorded calls\<close>

inductive attempt_step :: "db \<Rightarrow> db \<Rightarrow> bool" where
  reserve: "reserve w d l q = Inr (ra, d') \<Longrightarrow> attempt_step d d'"
| round: "reserve_tool_round w d l = Inr (n, d') \<Longrightarrow> attempt_step d d'"
| finish: "finish w d l ra o' = Inr d' \<Longrightarrow> attempt_step d d'"

definition recorded :: "string list \<Rightarrow> string \<Rightarrow> db \<Rightarrow> nat" where
  "recorded kinds rid d =
     length (filter (\<lambda>a. at_run_id a = rid \<and> at_call_kind a \<in> set kinds) (attempts d))"

text \<open>The ledger and the counters of the runs agree, and both are within the budgets.\<close>

definition run_within :: "db \<Rightarrow> agent_run \<Rightarrow> bool" where
  "run_within d r =
     (recorded llm_kinds (run_id r) d = run_llm_calls r \<and> run_llm_calls r \<le> MAX_LLM_CALLS \<and>
      recorded tool_kinds (run_id r) d = run_tool_attempts r \<and> run_tool_attempts r \<le> MAX_TOOL_ATTEMPTS \<and>
      run_tool_rounds r \<le> MAX_TOOL_ROUNDS)"

definition budgets_ok :: "db \<Rightarrow> bool" where
  "budgets_ok d = (distinct (map run_id (runs d)) \<and> (\<forall>r \<in> set (runs d). run_within d r))"

lemma budgets_ok_cong:
  "budgets_ok d \<Longrightarrow> runs d' = runs d \<Longrightarrow> (\<And>k rid. recorded k rid d' = recorded k rid d) \<Longrightarrow> budgets_ok d'"
  by (simp add: budgets_ok_def run_within_def)

lemma finish_recorded:
  assumes "finish w d l ra o' = Inr d'"
  shows "recorded k rid d' = recorded k rid d"
proof -
  from assms obtain job where a: "attempts d' = update_by at_id (ra_id ra) (settled_attempt job ra o') (attempts d)"
    by (rule finish_Inr)
  have "map (\<lambda>a. (at_run_id a, at_call_kind a)) (attempts d') =
      map (\<lambda>a. (at_run_id a, at_call_kind a)) (attempts d)"
    by (simp add: a update_by_def settled_attempt_def)
  moreover have "recorded k rid x =
      length (filter (\<lambda>(r, c). r = rid \<and> c \<in> set k) (map (\<lambda>a. (at_run_id a, at_call_kind a)) (attempts x)))" for x
    by (simp add: recorded_def filter_map comp_def)
  ultimately show ?thesis by (simp only:)
qed

lemma budgets_ok_update:
  assumes "budgets_ok d" "lookup_by run_id rid (runs d) = Some r"
    "runs d' = update_by run_id rid f (runs d)" "\<And>x. run_id (f x) = run_id x" "run_within d' (f r)"
    "\<And>x. run_id x \<noteq> rid \<Longrightarrow> run_within d x \<Longrightarrow> run_within d' x"
  shows "budgets_ok d'"
  unfolding budgets_ok_def
proof (intro conjI ballI)
  have dist: "distinct (map run_id (runs d))" using assms(1) by (simp add: budgets_ok_def)
  then show "distinct (map run_id (runs d'))" by (simp add: assms(3,4) update_by_keys)
  fix x assume "x \<in> set (runs d')"
  then obtain y where y: "y \<in> set (runs d)" "x = (if run_id y = rid then f y else y)"
    by (auto simp: assms(3) update_by_def)
  show "run_within d' x"
  proof (cases "run_id y = rid")
    case True
    with lookup_by_distinct [OF dist y(1)] assms(2) have "y = r" by simp
    with True y(2) assms(5) show ?thesis by simp
  next
    case False
    with y assms(1,6) show ?thesis by (simp add: budgets_ok_def)
  qed
qed

lemma reserve_budgets:
  assumes "reserve w d l q = Inr (ra, d')" "budgets_ok d"
  shows "budgets_ok d'"
proof -
  from assms(1) obtain r d1 where r: "lookup_by run_id (jl_run_id l) (runs d) = Some r" "run_id r = jl_run_id l"
    "charge_attempt d l q r = Inr d1" "runs d' = runs d1"
    "attempts d' = attempts d @ [new_attempt w d l q r]" by (rule reserve_Inr)
  have rec: "recorded k rid d' = recorded k rid d + (if rid = run_id r \<and> rs_kind q \<in> set k then 1 else 0)" for k rid
    by (auto simp: recorded_def r(2,5))
  have in_d: "run_within d r" using assms(2) lookup_by_Some [OF r(1)] by (simp add: budgets_ok_def)
  note upd = budgets_ok_update [OF assms(2) r(1)]
  from charge_attempt_Inr [OF r(3)] show ?thesis
  proof
    assume c: "rs_kind q \<in> set llm_kinds \<and> run_llm_calls r < MAX_LLM_CALLS \<and>
      d1 = upd_run (run_id r) (\<lambda>x. x\<lparr>run_llm_calls := Suc (run_llm_calls x)\<rparr>) d"
    then have "rs_kind q \<notin> set tool_kinds" using kinds_disjoint by blast
    with c in_d r(2,4) show ?thesis
      by (intro upd [where f = "\<lambda>x. x\<lparr>run_llm_calls := Suc (run_llm_calls x)\<rparr>"])
        (simp_all add: upd_run_def run_within_def rec)
  next
    assume c: "rs_kind q \<in> set tool_kinds \<and> run_tool_attempts r < MAX_TOOL_ATTEMPTS \<and>
      d1 = upd_run (run_id r) (\<lambda>x. x\<lparr>run_tool_attempts := Suc (run_tool_attempts x)\<rparr>) d"
    then have "rs_kind q \<notin> set llm_kinds" using kinds_disjoint by blast
    with c in_d r(2,4) show ?thesis
      by (intro upd [where f = "\<lambda>x. x\<lparr>run_tool_attempts := Suc (run_tool_attempts x)\<rparr>"])
        (simp_all add: upd_run_def run_within_def rec)
  qed
qed

lemma round_budgets:
  assumes "reserve_tool_round w d l = Inr (n, d')" "budgets_ok d"
  shows "budgets_ok d'"
proof -
  from assms(1) obtain r where r: "lookup_by run_id (jl_run_id l) (runs d) = Some r" "run_tool_rounds r < MAX_TOOL_ROUNDS"
    "d' = upd_run (jl_run_id l) (\<lambda>x. x\<lparr>run_tool_rounds := Suc (run_tool_rounds x)\<rparr>) d"
    by (rule reserve_tool_round_Inr)
  have "run_within d r" using assms(2) lookup_by_Some [OF r(1)] by (simp add: budgets_ok_def)
  moreover have "recorded k i d' = recorded k i d" for k i by (simp add: recorded_def r(3) upd_run_def)
  ultimately show ?thesis using r(2)
    by (intro budgets_ok_update [OF assms(2) r(1), where f = "\<lambda>x. x\<lparr>run_tool_rounds := Suc (run_tool_rounds x)\<rparr>"])
      (simp_all add: r(3) upd_run_def run_within_def)
qed

lemma attempt_steps_budgets: "attempt_step\<^sup>*\<^sup>* d d' \<Longrightarrow> budgets_ok d \<Longrightarrow> budgets_ok d'"
proof (induction rule: rtranclp_induct)
  case (step d1 d2)
  from step.hyps(2) show ?case
  proof cases
    case (finish w l ra o')
    then have "runs d2 = runs d1" by (rule finish_Inr)
    with finish_recorded [OF finish] step budgets_ok_cong show ?thesis by blast
  qed (use step reserve_budgets round_budgets in blast)+
qed

text \<open>C34. Over any interleaving of reservations, rounds and settlements a run records at most six
  language-model calls and six tool attempts and opens at most two tool rounds, and its counters are
  the numbers of calls the ledger holds.\<close>

theorem recorded_calls_within_budget:
  assumes "attempt_step\<^sup>*\<^sup>* d d'" "budgets_ok d" "r \<in> set (runs d')"
  shows "recorded llm_kinds (run_id r) d' \<le> 6 \<and> recorded tool_kinds (run_id r) d' \<le> 6 \<and>
    run_tool_rounds r \<le> 2 \<and> run_llm_calls r = recorded llm_kinds (run_id r) d' \<and>
    run_tool_attempts r = recorded tool_kinds (run_id r) d'"
  using attempt_steps_budgets [OF assms(1,2)] assms(3)
  by (auto simp: budgets_ok_def run_within_def MAX_LLM_CALLS_def MAX_TOOL_ATTEMPTS_def MAX_TOOL_ROUNDS_def)

text \<open>However charges of other kinds interleave, a run of reservations that all succeed is short.\<close>

lemma llm_reservations_bounded:
  assumes "foldE (reserve_of_kind llm_kinds rid) qs d = Inr d'" "run_field run_llm_calls rid d \<le> MAX_LLM_CALLS"
  shows "length qs \<le> MAX_LLM_CALLS - run_field run_llm_calls rid d"
  using assms by (rule llm_budget.run_length_bounded)

text \<open>An attempt is settled once.\<close>

lemma finish_once:
  assumes "finish w d l ra o' = Inr d'"
  shows "\<exists>e. finish w' d' l' ra o'' = Inl e"
proof -
  from assms obtain job a where a: "lookup_by at_id (ra_id ra) (attempts d) = Some a"
    "fo_status o' \<in> {''succeeded'', ''failed'', ''unknown''}"
    "attempts d' = update_by at_id (ra_id ra) (settled_attempt job ra o') (attempts d)" by (rule finish_Inr)
  have "lookup_by at_id (ra_id ra) (attempts d') = Some (settled_attempt job ra o' a)"
    using a(1) by (simp add: a(3) lookup_by_update_by settled_attempt_def)
  moreover have "at_status (settled_attempt job ra o' a) \<noteq> ''started''"
    using a(2) by (auto simp: settled_attempt_def)
  ultimately show ?thesis by (cases "assert_fence (w_now w') d' l'") (simp_all add: finish_def)
qed

section \<open>Evaluated examples\<close>

definition sample_llm :: reserve_request where
  "sample_llm = \<lparr>rs_kind = ''llm'', rs_logical_invocation_id = None, rs_transport_ordinal = None,
     rs_actual_provider = None, rs_repair_of_attempt_id = None\<rparr>"

lemma sample_reserve:
  obtains l d' ra d1 where "claim sample_world sample_db ''j1'' ''w1'' 30 = Inr (l, d')"
    "reserve sample_world d' l sample_llm = Inr (ra, d1)" "budgets_ok d'"
    "\<exists>r \<in> set (runs d1). run_id r = ''r1'' \<and> run_llm_calls r = 1"
proof -
  obtain l d' where c: "claim sample_world sample_db ''j1'' ''w1'' 30 = Inr (l, d')"
    "l = lease_of ''w1'' 30000000 (leased_job 0 ''w1'' 30 sample_job)" and
    d': "d' = claim_writes sample_world ''w1'' 30 sample_job sample_ticket sample_run sample_db"
    by (rule sample_claim)
  obtain j where j: "assert_fence (w_now sample_world) d' l = Inr j"
    using claim_lease_valid [OF c(1) sample_keys(1), of 0] c(2) by (auto simp: lease_of_def sample_world_def)
  have lr: "jl_run_id l = ''r1''" using c(2) by (simp add: lease_of_def sample_job_def)
  have at: "attempts d' = []" by (simp add: d' claim_writes_def Let_def upd_defs sample_defs)
  obtain r where r: "runs d' = [r]" "run_id r = ''r1''" "run_llm_calls r = 0" "run_tool_attempts r = 0"
    "run_tool_rounds r = 0" by (simp add: d' update_by_def sample_defs)
  have "\<exists>ra d1. reserve sample_world d' l sample_llm = Inr (ra, d1)"
    using j lr r at by (simp add: reserve_def sample_llm_def repair_conflict_def charge_attempt_def lookup_by_def
        MAX_LLM_CALLS_def insert_row_def upd_run_def Let_def)
  then obtain ra d1 where ra: "reserve sample_world d' l sample_llm = Inr (ra, d1)" by blast
  have "runs d1 = [r\<lparr>run_llm_calls := 1\<rparr>]"
    using ra j lr r at by (auto simp: reserve_def sample_llm_def repair_conflict_def charge_attempt_def lookup_by_def
        MAX_LLM_CALLS_def insert_row_def upd_run_def update_by_def Let_def)
  moreover have "budgets_ok d'"
    using r at by (simp add: budgets_ok_def run_within_def recorded_def)
  ultimately show ?thesis using that [OF c(1) ra] r(2) by simp
qed

theorem recorded_calls_within_budget_witness:
  "\<exists>l d' ra d1. claim sample_world sample_db ''j1'' ''w1'' 30 = Inr (l, d') \<and>
     reserve sample_world d' l sample_llm = Inr (ra, d1) \<and> recorded llm_kinds ''r1'' d1 = 1"
proof -
  obtain l d' ra d1 where c: "claim sample_world sample_db ''j1'' ''w1'' 30 = Inr (l, d')"
    "reserve sample_world d' l sample_llm = Inr (ra, d1)" "budgets_ok d'"
    "\<exists>r \<in> set (runs d1). run_id r = ''r1'' \<and> run_llm_calls r = 1" by (rule sample_reserve)
  then obtain r where r: "r \<in> set (runs d1)" "run_id r = ''r1''" "run_llm_calls r = 1" by blast
  have "attempt_step\<^sup>*\<^sup>* d' d1" using attempt_step.reserve [OF c(2)] by blast
  from recorded_calls_within_budget [OF this c(3) r(1)] r c show ?thesis by auto
qed

end
