(* ===== verification/Tool_Capabilities.thy ===== *)
theory Tool_Capabilities
  imports Canonical_Json
begin

text \<open>
  \<open>contracts/capabilities.py\<close> and \<open>tools/capabilities.py\<close>: the three capability surfaces (reads the
  model may call, proposals only the deterministic policy may call, effects only the runtime
  finalizer may call), the registry with its digest, and the authorization of a tool the model
  names.  The JSON schema Pydantic derives from an input class is the parameter \<open>schema\<close>, the digest
  is \<open>H\<close>.  A dictionary of input classes is modelled as its items, a class by its name.
\<close>

section \<open>Surfaces\<close>

definition READ_TOOL_INPUTS :: "(string \<times> string) list" where
  "READ_TOOL_INPUTS =
     [(''search_knowledge'', ''KnowledgeSearchInput''), (''query_account'', ''NoArguments''),
      (''query_subscription'', ''NoArguments''), (''query_api_usage'', ''UsageInput''),
      (''check_service_status'', ''ServiceStatusInput''), (''query_billing_record'', ''BillingRecordInput''),
      (''query_request_trace'', ''RequestTraceInput''), (''query_api_key_metadata'', ''ApiKeyMetadataInput''),
      (''query_incident_impact'', ''IncidentImpactInput'')]"

definition POLICY_TOOL_INPUTS :: "(string \<times> string) list" where
  "POLICY_TOOL_INPUTS =
     [(''propose_refund'', ''RefundProposalInput''),
      (''propose_api_key_revocation'', ''ApiKeyRevocationProposalInput''),
      (''propose_entitlement_change'', ''EntitlementChangeProposalInput'')]"

definition RUNTIME_COMMAND_INPUTS :: "(string \<times> string) list" where
  "RUNTIME_COMMAND_INPUTS =
     [(''execute_refund'', ''RuntimeCommandInput''), (''execute_api_key_revocation'', ''RuntimeCommandInput''),
      (''execute_entitlement_change'', ''RuntimeCommandInput'')]"

definition READ_CAPABILITIES :: "string list" where
  "READ_CAPABILITIES = map fst READ_TOOL_INPUTS"

definition ACTION_PROPOSAL_CAPABILITIES :: "string list" where
  "ACTION_PROPOSAL_CAPABILITIES = map fst POLICY_TOOL_INPUTS"

definition RUNTIME_EFFECT_CAPABILITIES :: "string list" where
  "RUNTIME_EFFECT_CAPABILITIES = map fst RUNTIME_COMMAND_INPUTS"

lemmas surface_defs = READ_CAPABILITIES_def ACTION_PROPOSAL_CAPABILITIES_def
  RUNTIME_EFFECT_CAPABILITIES_def READ_TOOL_INPUTS_def POLICY_TOOL_INPUTS_def RUNTIME_COMMAND_INPUTS_def

section \<open>The registry\<close>

record tool_capability =
  tc_name :: string
  tc_effect_class :: string
  tc_model_visible :: bool
  tc_required_scope :: string
  tc_allowed_callers :: "string list"
  tc_requires_fence :: bool
  tc_requires_human_approval :: bool
  tc_idempotency_required :: bool
  tc_concurrency_group :: string
  tc_timeout_ms :: int
  tc_interrupt_policy :: string
  tc_schema_hash :: string

text \<open>\<open>json.dumps\<close> escapes characters outside ASCII here; the schemas and names it hashes have none.\<close>

definition hash_schema :: "(string \<Rightarrow> string) \<Rightarrow> pyval \<Rightarrow> string" where
  "hash_schema H v = H (json_dumps v)"

definition read_capability :: "(string \<Rightarrow> string) \<Rightarrow> (string \<Rightarrow> pyval) \<Rightarrow> string \<Rightarrow> tool_capability" where
  "read_capability H schema name =
     \<lparr>tc_name = name, tc_effect_class = ''read'', tc_model_visible = True,
      tc_required_scope = ''worker_execution'', tc_allowed_callers = [''agent_runtime''],
      tc_requires_fence = True, tc_requires_human_approval = False, tc_idempotency_required = False,
      tc_concurrency_group = ''read_mcp'', tc_timeout_ms = 8000, tc_interrupt_policy = ''bounded_retry_once'',
      tc_schema_hash = hash_schema H (schema (the (map_of READ_TOOL_INPUTS name)))\<rparr>"

definition proposal_capability :: "(string \<Rightarrow> string) \<Rightarrow> string \<Rightarrow> tool_capability" where
  "proposal_capability H name =
     \<lparr>tc_name = name, tc_effect_class = ''proposal'', tc_model_visible = False,
      tc_required_scope = ''worker_execution'', tc_allowed_callers = [''deterministic_policy''],
      tc_requires_fence = True, tc_requires_human_approval = True, tc_idempotency_required = True,
      tc_concurrency_group = ''action_mcp'', tc_timeout_ms = 8000, tc_interrupt_policy = ''fail_closed'',
      tc_schema_hash = hash_schema H (PDict [(''name'', PStr name), (''surface'', PStr ''policy_only'')])\<rparr>"

definition effect_capability :: "(string \<Rightarrow> string) \<Rightarrow> string \<Rightarrow> tool_capability" where
  "effect_capability H name =
     \<lparr>tc_name = name, tc_effect_class = ''mutation'', tc_model_visible = False,
      tc_required_scope = ''worker_execution'', tc_allowed_callers = [''runtime_finalizer''],
      tc_requires_fence = True, tc_requires_human_approval = True, tc_idempotency_required = True,
      tc_concurrency_group = ''runtime_action'', tc_timeout_ms = 8000, tc_interrupt_policy = ''reconcile_unknown'',
      tc_schema_hash = hash_schema H (PDict [(''name'', PStr name), (''surface'', PStr ''runtime_only'')])\<rparr>"

text \<open>A later dictionary display overrides an earlier one, so it is first in the list of items.\<close>

definition CAPABILITIES :: "(string \<Rightarrow> string) \<Rightarrow> (string \<Rightarrow> pyval) \<Rightarrow> (string \<times> tool_capability) list" where
  "CAPABILITIES H schema =
     map (\<lambda>n. (n, effect_capability H n)) RUNTIME_EFFECT_CAPABILITIES @
     map (\<lambda>n. (n, proposal_capability H n)) ACTION_PROPOSAL_CAPABILITIES @
     map (\<lambda>n. (n, read_capability H schema n)) READ_CAPABILITIES"

definition MODEL_VISIBLE_READ_TOOLS :: "(string \<Rightarrow> string) \<Rightarrow> (string \<Rightarrow> pyval) \<Rightarrow> string list" where
  "MODEL_VISIBLE_READ_TOOLS H schema = map fst (filter (\<lambda>(n, c). tc_model_visible c) (CAPABILITIES H schema))"

definition capability_dict :: "tool_capability \<Rightarrow> pyval" where
  "capability_dict c =
     PDict [(''name'', PStr (tc_name c)), (''effect_class'', PStr (tc_effect_class c)),
       (''model_visible'', PBool (tc_model_visible c)), (''required_scope'', PStr (tc_required_scope c)),
       (''allowed_callers'', PList (map PStr (tc_allowed_callers c))),
       (''requires_fence'', PBool (tc_requires_fence c)),
       (''requires_human_approval'', PBool (tc_requires_human_approval c)),
       (''idempotency_required'', PBool (tc_idempotency_required c)),
       (''concurrency_group'', PStr (tc_concurrency_group c)), (''timeout_ms'', PInt (tc_timeout_ms c)),
       (''interrupt_policy'', PStr (tc_interrupt_policy c)), (''schema_hash'', PStr (tc_schema_hash c))]"

definition registry_hash :: "(string \<Rightarrow> string) \<Rightarrow> (string \<Rightarrow> pyval) \<Rightarrow> string" where
  "registry_hash H schema =
     hash_schema H (PDict (map (\<lambda>(n, c). (n, capability_dict c)) (sort_key fst (CAPABILITIES H schema))))"

definition authorize_model_tool ::
  "(string \<Rightarrow> string) \<Rightarrow> (string \<Rightarrow> pyval) \<Rightarrow> string \<Rightarrow> string set \<Rightarrow> tool_capability result" where
  "authorize_model_tool H schema name allowlist =
     (case map_of (CAPABILITIES H schema) name of
        None \<Rightarrow> Inl (PermissionError ''forbidden_tool_surface'')
      | Some c \<Rightarrow>
          if \<not> tc_model_visible c \<or> tc_effect_class c \<noteq> ''read'' then
            Inl (PermissionError ''forbidden_tool_surface'')
          else if name \<notin> allowlist then Inl (PermissionError ''tool_not_allowlisted'')
          else Inr c)"

section \<open>Properties\<close>

lemma surfaces_disjoint:
  "distinct (READ_CAPABILITIES @ ACTION_PROPOSAL_CAPABILITIES @ RUNTIME_EFFECT_CAPABILITIES)"
  by (simp add: surface_defs)

lemma map_of_graph: "map_of (map (\<lambda>n. (n, f n)) ns) n = (if n \<in> set ns then Some (f n) else None)"
  by (induction ns) auto

lemma CAPABILITIES_lookup:
  "map_of (CAPABILITIES H schema) n =
     (if n \<in> set READ_CAPABILITIES then Some (read_capability H schema n)
      else if n \<in> set ACTION_PROPOSAL_CAPABILITIES then Some (proposal_capability H n)
      else if n \<in> set RUNTIME_EFFECT_CAPABILITIES then Some (effect_capability H n) else None)"
  using surfaces_disjoint unfolding CAPABILITIES_def map_of_append map_add_def map_of_graph by auto

text \<open>The model is granted exactly the allowlisted tools of the read surface.  What is not a read needs
  a human approval and an idempotency key, and every capability of the registry needs the fence.\<close>

theorem model_surface_is_read_only:
  "(\<exists>c. authorize_model_tool H schema name allowed = Inr c) = (name \<in> set READ_CAPABILITIES \<and> name \<in> allowed) \<and>
   set (MODEL_VISIBLE_READ_TOOLS H schema) = set READ_CAPABILITIES \<and>
   list_all (\<lambda>(n, c). tc_name c = n \<and> tc_requires_fence c \<and>
       tc_model_visible c = (tc_effect_class c = ''read'') \<and>
       (tc_requires_human_approval c \<and> tc_idempotency_required c) = (tc_effect_class c \<noteq> ''read''))
     (CAPABILITIES H schema)"
proof (intro conjI)
  show "(\<exists>c. authorize_model_tool H schema name allowed = Inr c) = (name \<in> set READ_CAPABILITIES \<and> name \<in> allowed)"
    unfolding authorize_model_tool_def guard_simps CAPABILITIES_lookup
    by (auto simp: read_capability_def proposal_capability_def effect_capability_def)
  show "set (MODEL_VISIBLE_READ_TOOLS H schema) = set READ_CAPABILITIES"
    by (auto simp: MODEL_VISIBLE_READ_TOOLS_def CAPABILITIES_def read_capability_def proposal_capability_def
        effect_capability_def comp_def filter_map)
  show "list_all (\<lambda>(n, c). tc_name c = n \<and> tc_requires_fence c \<and>
       tc_model_visible c = (tc_effect_class c = ''read'') \<and>
       (tc_requires_human_approval c \<and> tc_idempotency_required c) = (tc_effect_class c \<noteq> ''read''))
     (CAPABILITIES H schema)"
    by (auto simp: CAPABILITIES_def read_capability_def proposal_capability_def effect_capability_def list_all_iff)
qed

end
