(* ===== verification/Tool_Ledger.thy ===== *)
theory Tool_Ledger
  imports Attempt_Ledger Tool_Capabilities
begin

text \<open>
  \<open>services/tool_ledger.py\<close>: the durable record of what the model asked for.  A decision opens a turn
  group with one invocation per call; every invocation ends with one observation; a turn closes when
  all its observations are there.  A worker that takes a run over re-fences the open turn, replays the
  observations that are there and executes or aborts the rest.

  The Pydantic codec of \<open>ObservationEnvelope\<close> (\<open>contracts/tools.py\<close>) is a pair of parameters:
  \<open>dump\<close> is \<open>model_dump(mode="json")\<close> and \<open>parse\<close> is \<open>model_validate\<close>, \<open>None\<close> where it raises.
  \<open>ids i\<close> gives the fresh identifiers of the \<open>i\<close>-th row an operation inserts.
\<close>

section \<open>Data\<close>

record observation_envelope =
  oe_tool_name :: string
  oe_tool_call_id :: string
  oe_ticket_id :: string
  oe_run_id :: string
  oe_tenant_id :: "string option"
  oe_customer_id :: "string option"
  oe_scope_hash :: "string option"
  oe_attempt_index :: nat
  oe_status :: string
  oe_retryable :: bool
  oe_error_code :: "string option"
  oe_safe_error_summary :: "string option"
  oe_observed_at :: pydatetime
  oe_freshness_class :: string
  oe_freshness_status :: string
  oe_fresh_until :: "pydatetime option"
  oe_duration_ms :: int
  oe_source_refs :: "pyval list"
  oe_resource_version :: "string option"
  oe_data :: pydict
  oe_transport_lifecycle :: "pydict option"

record invocation_spec =
  is_provider_tool_call_id :: string
  is_tool_name :: string
  is_arguments :: pydict
  is_ordinal :: nat
  is_arguments_hash :: "string option"

record turn_request =
  tr_segment_id :: string
  tr_tool_round :: nat
  tr_decision :: pydict
  tr_context_manifest :: pydict
  tr_calls :: "invocation_spec list"

definition upd_turn_group :: "string \<Rightarrow> (turn_group \<Rightarrow> turn_group) \<Rightarrow> db \<Rightarrow> db" where
  "upd_turn_group k f d = d\<lparr>turn_groups := update_by tg_id k f (turn_groups d)\<rparr>"

definition insert_rows :: "('r \<Rightarrow> string) \<Rightarrow> 'r list \<Rightarrow> 'r list \<Rightarrow> 'r list result" where
  "insert_rows key new rows = foldE (insert_row key) new rows"

section \<open>Opening a turn\<close>

definition visible_schema_hash :: "world \<Rightarrow> (string \<Rightarrow> pyval) \<Rightarrow> pydict \<Rightarrow> string" where
  "visible_schema_hash w schema cm =
     py_str (py_or (py_or (dget cm ''injected_tool_schema_hash'') (dget cm ''visible_tool_schema_hash''))
       (PStr (registry_hash (w_digest w) schema)))"

definition new_turn_group :: "world \<Rightarrow> db \<Rightarrow> job_lease \<Rightarrow> turn_request \<Rightarrow> string \<Rightarrow> string \<Rightarrow> string \<Rightarrow> turn_group" where
  "new_turn_group w d l q dh ch sh =
     \<lparr>tg_id = w_new_id w ''turn'', tg_tenant_id = jl_tenant_id l, tg_run_id = jl_run_id l,
      tg_job_id = jl_job_id l, tg_segment_id = tr_segment_id q, tg_fencing_token = jl_fencing_token l,
      tg_decision_ordinal =
        (case max_of tg_decision_ordinal (filter (\<lambda>t. tg_run_id t = jl_run_id l) (turn_groups d)) of
           None \<Rightarrow> 1 | Some n \<Rightarrow> Suc n),
      tg_tool_round = tr_tool_round q, tg_expected_invocations = length (tr_calls q),
      tg_decision_hash = dh, tg_context_hash = ch, tg_tool_schema_hash = sh, tg_status = ''open'',
      tg_closed_at = None\<rparr>"

definition call_hash :: "world \<Rightarrow> invocation_spec \<Rightarrow> string result" where
  "call_hash w c =
     (if falsy_str (is_arguments_hash c) then canonical_json_hash (w_digest w) (PDict (is_arguments c))
      else Inr (the (is_arguments_hash c)))"

definition new_invocation ::
  "world \<Rightarrow> (nat \<Rightarrow> string \<Rightarrow> string) \<Rightarrow> job_lease \<Rightarrow> string \<Rightarrow> string \<Rightarrow> nat \<times> invocation_spec \<Rightarrow>
   tool_invocation result" where
  "new_invocation w ids l turn segment ic =
     (case ic of (i, c) \<Rightarrow>
        (case call_hash w c of
           Inl e \<Rightarrow> Inl e
         | Inr h \<Rightarrow> Inr
             \<lparr>iv_id = ids i ''invocation'', iv_tenant_id = jl_tenant_id l, iv_run_id = jl_run_id l,
              iv_job_id = jl_job_id l, iv_turn_group_id = turn, iv_segment_id = segment,
              iv_fencing_token = jl_fencing_token l,
              iv_provider_tool_call_id = is_provider_tool_call_id c,
              iv_logical_invocation_id = ids i ''logical'', iv_ordinal = is_ordinal c,
              iv_tool_name = is_tool_name c, iv_arguments_hash = h, iv_requested_cost = 1,
              iv_lifecycle = ''received'', iv_outcome = None, iv_terminal_at = None\<rparr>))"

definition open_turn ::
  "world \<Rightarrow> (string \<Rightarrow> pyval) \<Rightarrow> (nat \<Rightarrow> string \<Rightarrow> string) \<Rightarrow> db \<Rightarrow> job_lease \<Rightarrow> turn_request \<Rightarrow>
   (turn_group \<times> tool_invocation list \<times> db) result" where
  "open_turn w schema ids d l q =
     (case assert_fence (w_now w) d l of
        Inl e \<Rightarrow> Inl e
      | Inr _ \<Rightarrow>
        if tr_calls q = [] then Inl (RuntimeConflict ''empty_tool_turn'')
        else (let sh = visible_schema_hash w schema (tr_context_manifest q) in
          if py_len sh \<noteq> 64 then Inl (RuntimeConflict ''visible_tool_schema_hash_invalid'')
          else (case canonical_json_hash (w_digest w) (PDict (tr_decision q)) of
              Inl e \<Rightarrow> Inl e
            | Inr dh \<Rightarrow>
              (case canonical_json_hash (w_digest w) (PDict (tr_context_manifest q)) of
                 Inl e \<Rightarrow> Inl e
               | Inr ch \<Rightarrow>
                 (let turn = new_turn_group w d l q dh ch sh in
                  case insert_row tg_id turn (turn_groups d) of
                    Inl e \<Rightarrow> Inl e
                  | Inr tgs \<Rightarrow>
                    (case mapE (new_invocation w ids l (tg_id turn) (tr_segment_id q))
                        (enumerate 0 (tr_calls q)) of
                       Inl e \<Rightarrow> Inl e
                     | Inr vs \<Rightarrow>
                       (case insert_rows iv_id vs (invocations d) of
                          Inl e \<Rightarrow> Inl e
                        | Inr ivs \<Rightarrow> Inr (turn, vs, d\<lparr>turn_groups := tgs, invocations := ivs\<rparr>))))))))"

section \<open>Executing and replaying an invocation\<close>

definition mark_executing :: "world \<Rightarrow> db \<Rightarrow> job_lease \<Rightarrow> string \<Rightarrow> (tool_invocation \<times> db) result" where
  "mark_executing w d l i =
     (case assert_fence (w_now w) d l of
        Inl e \<Rightarrow> Inl e
      | Inr _ \<Rightarrow>
        (case lookup_by iv_id i (invocations d) of
           None \<Rightarrow> Inl (RuntimeConflict ''invocation_not_executable'')
         | Some v \<Rightarrow>
             if iv_fencing_token v \<noteq> jl_fencing_token l \<or>
                iv_lifecycle v \<notin> {''received'', ''validated'', ''authorized''} then
               Inl (RuntimeConflict ''invocation_not_executable'')
             else Inr (v\<lparr>iv_lifecycle := ''executing''\<rparr>,
               upd_invocation (iv_id v) (\<lambda>x. x\<lparr>iv_lifecycle := ''executing''\<rparr>) d)))"

record call_identity =
  ck_turn_id :: string
  ck_provider_tool_call_id :: string
  ck_tool_name :: string
  ck_arguments_hash :: string

definition replay_in_scope :: "job_lease \<Rightarrow> call_identity \<Rightarrow> turn_group \<Rightarrow> tool_invocation \<Rightarrow> bool" where
  "replay_in_scope l c t v =
     (tg_id t = iv_turn_group_id v \<and> tg_tenant_id t = jl_tenant_id l \<and> tg_run_id t = jl_run_id l \<and>
      tg_job_id t = jl_job_id l \<and> tg_fencing_token t = jl_fencing_token l \<and>
      iv_tenant_id v = jl_tenant_id l \<and> iv_run_id v = jl_run_id l \<and> iv_job_id v = jl_job_id l \<and>
      iv_provider_tool_call_id v = ck_provider_tool_call_id c \<and> iv_tool_name v = ck_tool_name c \<and>
      iv_arguments_hash v = ck_arguments_hash c)"

definition dpop :: "pydict \<Rightarrow> string \<Rightarrow> pydict" where
  "dpop d k = filter (\<lambda>kv. fst kv \<noteq> k) d"

definition replay_terminal_observation ::
  "world \<Rightarrow> (pydict \<Rightarrow> observation_envelope option) \<Rightarrow> db \<Rightarrow> job_lease \<Rightarrow> string \<Rightarrow> call_identity \<Rightarrow>
   (tool_observation \<times> observation_envelope) option result" where
  "replay_terminal_observation w parse d l i c =
     (case assert_fence (w_now w) d l of
        Inl e \<Rightarrow> Inl e
      | Inr _ \<Rightarrow>
        (case (lookup_by tg_id (ck_turn_id c) (turn_groups d), lookup_by iv_id i (invocations d)) of
           (Some t, Some v) \<Rightarrow>
             if \<not> replay_in_scope l c t v then
               Inl (RuntimeConflict ''terminal_observation_replay_scope_mismatch'')
             else if iv_lifecycle v \<noteq> ''terminal'' then
               if iv_fencing_token v \<noteq> jl_fencing_token l then
                 Inl (RuntimeConflict ''pending_invocation_fence_mismatch'')
               else Inr None
             else (case select_first (\<lambda>r. obs_invocation_id r = iv_id v \<and> obs_tenant_id r = jl_tenant_id l \<and>
                   obs_run_id r = jl_run_id l \<and> obs_job_id r = jl_job_id l) (observations d) of
                 None \<Rightarrow> Inl (RuntimeConflict ''terminal_observation_missing'')
               | Some row \<Rightarrow>
                 (case parse (dpop (obs_payload row) ''trusted_retrieval_intent'') of
                    None \<Rightarrow> Inl (RuntimeConflict ''terminal_observation_payload_invalid'')
                  | Some ob \<Rightarrow>
                    (case canonical_json_hash (w_digest w) (PDict (obs_payload row)) of
                       Inl e \<Rightarrow> Inl e
                     | Inr h \<Rightarrow>
                         if h \<noteq> obs_content_hash row \<or> oe_run_id ob \<noteq> jl_run_id l \<or>
                            oe_tool_call_id ob \<noteq> ck_provider_tool_call_id c \<or>
                            oe_tool_name ob \<noteq> ck_tool_name c then
                           Inl (RuntimeConflict ''terminal_observation_replay_integrity_mismatch'')
                         else Inr (Some (row, ob)))))
         | _ \<Rightarrow> Inl (RuntimeConflict ''terminal_observation_replay_scope_mismatch'')))"

definition next_transport_ordinal :: "world \<Rightarrow> db \<Rightarrow> job_lease \<Rightarrow> string \<Rightarrow> nat option result" where
  "next_transport_ordinal w d l i =
     (case assert_fence (w_now w) d l of
        Inl e \<Rightarrow> Inl e
      | Inr _ \<Rightarrow>
        (case lookup_by iv_id i (invocations d) of
           None \<Rightarrow> Inl (RuntimeConflict ''transport_ordinal_scope_mismatch'')
         | Some v \<Rightarrow>
             if iv_tenant_id v \<noteq> jl_tenant_id l \<or> iv_run_id v \<noteq> jl_run_id l \<or>
                iv_job_id v \<noteq> jl_job_id l \<or> iv_fencing_token v \<noteq> jl_fencing_token l \<or>
                iv_lifecycle v = ''terminal'' then
               Inl (RuntimeConflict ''transport_ordinal_scope_mismatch'')
             else (let current = (case max_of tt_transport_ordinal
                     (filter (\<lambda>t. tt_invocation_id t = iv_id v) (transports d)) of None \<Rightarrow> 0 | Some n \<Rightarrow> n)
               in Inr (if current < 2 then Some (Suc current) else None))))"

definition pending_invocation_count :: "world \<Rightarrow> db \<Rightarrow> job_lease \<Rightarrow> string \<Rightarrow> nat result" where
  "pending_invocation_count w d l tid =
     (case assert_fence (w_now w) d l of
        Inl e \<Rightarrow> Inl e
      | Inr _ \<Rightarrow>
        (case lookup_by tg_id tid (turn_groups d) of
           None \<Rightarrow> Inl (RuntimeConflict ''turn_group_pending_scope_mismatch'')
         | Some t \<Rightarrow>
             if tg_tenant_id t \<noteq> jl_tenant_id l \<or> tg_run_id t \<noteq> jl_run_id l \<or>
                tg_job_id t \<noteq> jl_job_id l \<or> tg_fencing_token t \<noteq> jl_fencing_token l then
               Inl (RuntimeConflict ''turn_group_pending_scope_mismatch'')
             else Inr (length (filter (\<lambda>v. iv_turn_group_id v = tg_id t \<and> iv_lifecycle v \<noteq> ''terminal'')
               (invocations d)))))"

section \<open>Ending invocations and turns\<close>

definition observation_payload ::
  "(observation_envelope \<Rightarrow> pydict) \<Rightarrow> observation_envelope \<Rightarrow> pydict option \<Rightarrow> pydict result" where
  "observation_payload dump ob intent =
     (case intent of
        None \<Rightarrow> Inr (dump ob)
      | Some it \<Rightarrow>
          if oe_tool_name ob \<noteq> ''search_knowledge'' then
            Inl (RuntimeConflict ''trusted_retrieval_intent_tool_mismatch'')
          else Inr (dset (dump ob) ''trusted_retrieval_intent'' (PDict it)))"

definition new_observation ::
  "world \<Rightarrow> job_lease \<Rightarrow> tool_invocation \<Rightarrow> observation_envelope \<Rightarrow> pydict \<Rightarrow> string \<Rightarrow> tool_observation" where
  "new_observation w l v ob payload digest =
     \<lparr>obs_id = w_new_id w ''observation'', obs_tenant_id = jl_tenant_id l, obs_run_id = jl_run_id l,
      obs_job_id = jl_job_id l, obs_invocation_id = iv_id v, obs_segment_id = iv_segment_id v,
      obs_fencing_token = jl_fencing_token l, obs_status = oe_status ob,
      obs_attempt_index = oe_attempt_index ob, obs_content_hash = digest, obs_payload = payload\<rparr>"

definition terminal_invocation :: "world \<Rightarrow> string \<Rightarrow> tool_invocation \<Rightarrow> tool_invocation" where
  "terminal_invocation w out v =
     v\<lparr>iv_lifecycle := ''terminal'', iv_outcome := Some out, iv_terminal_at := Some (instant (w_clock w))\<rparr>"

definition terminalize ::
  "world \<Rightarrow> (observation_envelope \<Rightarrow> pydict) \<Rightarrow> db \<Rightarrow> job_lease \<Rightarrow> string \<Rightarrow> string \<Rightarrow>
   observation_envelope \<Rightarrow> pydict option \<Rightarrow> (tool_observation \<times> db) result" where
  "terminalize w dump d l i out ob intent =
     (case assert_fence (w_now w) d l of
        Inl e \<Rightarrow> Inl e
      | Inr _ \<Rightarrow>
        (case lookup_by iv_id i (invocations d) of
           None \<Rightarrow> Inl (RuntimeConflict ''invocation_fence_mismatch'')
         | Some v \<Rightarrow>
           if iv_fencing_token v \<noteq> jl_fencing_token l then
             Inl (RuntimeConflict ''invocation_fence_mismatch'')
           else (case observation_payload dump ob intent of
               Inl e \<Rightarrow> Inl e
             | Inr payload \<Rightarrow>
               (case canonical_json_hash (w_digest w) (PDict payload) of
                  Inl e \<Rightarrow> Inl e
                | Inr digest \<Rightarrow>
                  (case select_first (\<lambda>r. obs_invocation_id r = iv_id v) (observations d) of
                     Some row \<Rightarrow>
                       if obs_content_hash row \<noteq> digest \<or> iv_outcome v \<noteq> Some out then
                         Inl (RuntimeConflict ''terminal_observation_conflict'')
                       else Inr (row, d)
                   | None \<Rightarrow>
                       if iv_lifecycle v = ''terminal'' then
                         Inl (RuntimeConflict ''terminal_observation_missing'')
                       else (let row = new_observation w l v ob payload digest in
                         case insert_row obs_id row (observations d) of
                           Inl e \<Rightarrow> Inl e
                         | Inr rows \<Rightarrow> Inr (row,
                             upd_invocation (iv_id v) (terminal_invocation w out) (d\<lparr>observations := rows\<rparr>))))))))"

text \<open>The outer join of invocations and observations of one turn.\<close>

definition observation_join :: "db \<Rightarrow> string \<Rightarrow> (tool_invocation \<times> tool_observation option) list" where
  "observation_join d tid =
     concat (map (\<lambda>v. case filter (\<lambda>r. obs_invocation_id r = iv_id v) (observations d) of
         [] \<Rightarrow> [(v, None)] | rs \<Rightarrow> map (\<lambda>r. (v, Some r)) rs)
       (filter (\<lambda>v. iv_turn_group_id v = tid) (invocations d)))"

definition close_turn :: "world \<Rightarrow> db \<Rightarrow> job_lease \<Rightarrow> string \<Rightarrow> (turn_group \<times> db) result" where
  "close_turn w d l tid =
     (case assert_fence (w_now w) d l of
        Inl e \<Rightarrow> Inl e
      | Inr _ \<Rightarrow>
        (case lookup_by tg_id tid (turn_groups d) of
           None \<Rightarrow> Inl (RuntimeConflict ''turn_group_fence_mismatch'')
         | Some t \<Rightarrow>
             if tg_fencing_token t \<noteq> jl_fencing_token l then
               Inl (RuntimeConflict ''turn_group_fence_mismatch'')
             else (let rows = observation_join d (tg_id t);
                       counts = (length rows, length (filter (\<lambda>p. snd p \<noteq> None) rows));
                       f = (\<lambda>x. x\<lparr>tg_status := ''closed'', tg_closed_at := Some (instant (w_clock w))\<rparr>)
               in if counts \<noteq> (tg_expected_invocations t, tg_expected_invocations t) then
                    Inl (RuntimeConflict ''turn_group_incomplete'')
                  else Inr (f t, upd_turn_group (tg_id t) f d))))"

section \<open>Taking a turn over\<close>

definition turn_invocations :: "db \<Rightarrow> string \<Rightarrow> tool_invocation list" where
  "turn_invocations d tid = sort_key iv_ordinal (filter (\<lambda>v. iv_turn_group_id v = tid) (invocations d))"

definition takeover_note :: "world \<Rightarrow> job_lease \<Rightarrow> agent_call_attempt \<Rightarrow> pyval" where
  "takeover_note w l a =
     PDict [(''schema_version'', PStr ''mcp-fence-takeover.v1''),
       (''observed_at'', PStr (isoformat (w_clock w))),
       (''previous_fencing_token'', PInt (int (at_fencing_token a))),
       (''replacement_fencing_token'', PInt (int (jl_fencing_token l))),
       (''replacement_lease_owner'', PStr (jl_owner l)),
       (''replacement_lease_expires_at'', PStr (isoformat (of_wall_utc (jl_expires_at l))))]"

definition interrupted :: "string list \<Rightarrow> agent_call_attempt \<Rightarrow> bool" where
  "interrupted pending a =
     (case at_logical_invocation_id a of None \<Rightarrow> False | Some i \<Rightarrow> i \<in> set pending \<and> at_status a = ''started'')"

definition unknown_attempt :: "world \<Rightarrow> job_lease \<Rightarrow> agent_call_attempt \<Rightarrow> agent_call_attempt" where
  "unknown_attempt w l a =
     a\<lparr>at_status := ''unknown'', at_error_code := Some ''fence_takeover'',
       at_runtime_provenance := dset (at_runtime_provenance a) ''fence_takeover'' (takeover_note w l a)\<rparr>"

definition unknown_transport ::
  "world \<Rightarrow> agent_call_attempt \<Rightarrow> tool_transport_attempt list \<Rightarrow> tool_transport_attempt list" where
  "unknown_transport w a ts =
     (case select_first (\<lambda>t. tt_agent_call_attempt_id t = at_id a) ts of
        None \<Rightarrow> ts
      | Some t \<Rightarrow>
          if tt_status t = ''reserved'' then
            update_by tt_id (tt_id t) (\<lambda>x. x\<lparr>tt_status := ''unknown'', tt_error_code := Some ''fence_takeover'',
              tt_completed_at := Some (instant (w_clock w))\<rparr>) ts
          else ts)"

definition refenced :: "job_lease \<Rightarrow> tool_invocation \<Rightarrow> tool_invocation" where
  "refenced l v =
     (if iv_lifecycle v = ''terminal'' then v
      else v\<lparr>iv_fencing_token := jl_fencing_token l, iv_job_id := jl_job_id l,
             iv_lifecycle := (if iv_lifecycle v = ''executing'' then ''authorized'' else iv_lifecycle v)\<rparr>)"

definition pending_ids :: "db \<Rightarrow> string \<Rightarrow> string list" where
  "pending_ids d tid = map iv_id (filter (\<lambda>v. iv_lifecycle v \<noteq> ''terminal'') (turn_invocations d tid))"

definition takeover_writes :: "world \<Rightarrow> job_lease \<Rightarrow> string \<Rightarrow> db \<Rightarrow> db" where
  "takeover_writes w l tid d =
     (let pending = pending_ids d tid in
      upd_turn_group tid (\<lambda>x. x\<lparr>tg_fencing_token := jl_fencing_token l, tg_job_id := jl_job_id l\<rparr>)
       (d\<lparr>attempts := map (\<lambda>a. if interrupted pending a then unknown_attempt w l a else a) (attempts d),
          transports := foldl (\<lambda>ts a. unknown_transport w a ts) (transports d)
            (filter (interrupted pending) (attempts d)),
          invocations := map (\<lambda>v. if iv_turn_group_id v = tid then refenced l v else v) (invocations d)\<rparr>))"

definition takeover :: "world \<Rightarrow> db \<Rightarrow> job_lease \<Rightarrow> string \<Rightarrow> (turn_group \<times> string list \<times> db) result" where
  "takeover w d l tid =
     (case assert_fence (w_now w) d l of
        Inl e \<Rightarrow> Inl e
      | Inr _ \<Rightarrow>
        (case lookup_by tg_id tid (turn_groups d) of
           None \<Rightarrow> Inl (RuntimeConflict ''turn_group_takeover_scope_mismatch'')
         | Some t \<Rightarrow>
             if tg_run_id t \<noteq> jl_run_id l \<or> tg_job_id t \<noteq> jl_job_id l then
               Inl (RuntimeConflict ''turn_group_takeover_scope_mismatch'')
             else if tg_status t \<notin> {''open'', ''completing''} then
               Inl (RuntimeConflict ''turn_group_not_takeoverable'')
             else if jl_fencing_token l \<le> tg_fencing_token t then
               Inl (RuntimeConflict ''turn_group_takeover_fence_not_newer'')
             else Inr (t\<lparr>tg_fencing_token := jl_fencing_token l, tg_job_id := jl_job_id l\<rparr>,
               pending_ids d (tg_id t), takeover_writes w l (tg_id t) d)))"

section \<open>Aborting a turn\<close>

definition abort_observation :: "world \<Rightarrow> db \<Rightarrow> job_lease \<Rightarrow> string \<Rightarrow> string \<Rightarrow> tool_invocation \<Rightarrow> observation_envelope" where
  "abort_observation w d l ticket reason v =
     \<lparr>oe_tool_name = iv_tool_name v, oe_tool_call_id = iv_provider_tool_call_id v, oe_ticket_id = ticket,
      oe_run_id = jl_run_id l, oe_tenant_id = None, oe_customer_id = None, oe_scope_hash = None,
      oe_attempt_index = max 1 (length (filter (\<lambda>a. at_logical_invocation_id a = Some (iv_id v)) (attempts d))),
      oe_status = ''unavailable'', oe_retryable = False, oe_error_code = Some reason,
      oe_safe_error_summary = Some ''The interrupted capability was safely aborted.'',
      oe_observed_at = w_clock w, oe_freshness_class = ''unknown'', oe_freshness_status = ''unknown'',
      oe_fresh_until = None, oe_duration_ms = 0, oe_source_refs = [], oe_resource_version = None,
      oe_data = [], oe_transport_lifecycle = None\<rparr>"

definition abort_one ::
  "world \<Rightarrow> (observation_envelope \<Rightarrow> pydict) \<Rightarrow> (nat \<Rightarrow> string \<Rightarrow> string) \<Rightarrow> job_lease \<Rightarrow> string \<Rightarrow> string \<Rightarrow>
   nat \<times> tool_invocation \<Rightarrow> db \<Rightarrow> db result" where
  "abort_one w dump ids l ticket reason iv d =
     (case iv of (i, v) \<Rightarrow>
        if iv_lifecycle v = ''terminal'' then Inr d
        else map_sum id snd (terminalize (w\<lparr>w_new_id := ids i\<rparr>) dump d l (iv_id v) ''cancelled''
          (abort_observation w d l ticket reason v) None))"

definition abort_pending ::
  "world \<Rightarrow> (observation_envelope \<Rightarrow> pydict) \<Rightarrow> (nat \<Rightarrow> string \<Rightarrow> string) \<Rightarrow> db \<Rightarrow> job_lease \<Rightarrow> string \<Rightarrow>
   string \<Rightarrow> string \<Rightarrow> (turn_group \<times> db) result" where
  "abort_pending w dump ids d l tid ticket reason =
     (case assert_fence (w_now w) d l of
        Inl e \<Rightarrow> Inl e
      | Inr _ \<Rightarrow>
        (case lookup_by tg_id tid (turn_groups d) of
           None \<Rightarrow> Inl (RuntimeConflict ''turn_group_abort_fence_mismatch'')
         | Some t \<Rightarrow>
             if tg_fencing_token t \<noteq> jl_fencing_token l then
               Inl (RuntimeConflict ''turn_group_abort_fence_mismatch'')
             else (case foldE (abort_one w dump ids l ticket reason)
                   (enumerate 0 (turn_invocations d (tg_id t))) d of
                 Inl e \<Rightarrow> Inl e
               | Inr d1 \<Rightarrow>
                   (let f = (\<lambda>x. x\<lparr>tg_status := ''aborted'', tg_closed_at := Some (instant (w_clock w))\<rparr>)
                    in Inr (f t, upd_turn_group (tg_id t) f d1)))))"

interpretation openings: fenced_operation "assert_fence (w_now w)" "\<lambda>d l (schema, ids, q). open_turn w schema ids d l q" for w
  by unfold_locales (auto simp: open_turn_def)

interpretation executions: fenced_operation "assert_fence (w_now w)" "mark_executing w" for w
  by unfold_locales (simp add: mark_executing_def)

interpretation replays: fenced_operation "assert_fence (w_now w)" "\<lambda>d l (parse, i, c). replay_terminal_observation w parse d l i c" for w
  by unfold_locales (auto simp: replay_terminal_observation_def)

interpretation ordinals: fenced_operation "assert_fence (w_now w)" "next_transport_ordinal w" for w
  by unfold_locales (simp add: next_transport_ordinal_def)

interpretation pendings: fenced_operation "assert_fence (w_now w)" "pending_invocation_count w" for w
  by unfold_locales (simp add: pending_invocation_count_def)

interpretation terminalizations: fenced_operation "assert_fence (w_now w)"
    "\<lambda>d l (dump, i, out, ob, intent). terminalize w dump d l i out ob intent" for w
  by unfold_locales (auto simp: terminalize_def)

interpretation closings: fenced_operation "assert_fence (w_now w)" "close_turn w" for w
  by unfold_locales (simp add: close_turn_def)

interpretation takeovers: fenced_operation "assert_fence (w_now w)" "takeover w" for w
  by unfold_locales (simp add: takeover_def)

interpretation abortions: fenced_operation "assert_fence (w_now w)"
    "\<lambda>d l (dump, ids, tid, ticket, reason). abort_pending w dump ids d l tid ticket reason" for w
  by unfold_locales (auto simp: abort_pending_def)

end
