(* ===== verification/Tool_Turns.thy ===== *)
theory Tool_Turns
  imports Tool_Ledger
begin

text \<open>
  The life of the tool ledger: its operations as steps, interleaved with transactions that write other
  tables; the invariant that ties turn groups, invocations and observations together; and what it
  gives a worker that takes a turn over.
\<close>

inductive tool_step :: "db \<Rightarrow> db \<Rightarrow> bool" where
  opened: "open_turn w schema ids d l q = Inr (t, vs, d') \<Longrightarrow> tool_step d d'"
| executing: "mark_executing w d l i = Inr (v, d') \<Longrightarrow> tool_step d d'"
| terminal: "terminalize w dump d l i out ob intent = Inr (row, d') \<Longrightarrow> tool_step d d'"
| closed: "close_turn w d l tid = Inr (t, d') \<Longrightarrow> tool_step d d'"
| taken: "takeover w d l tid = Inr (t, ps, d') \<Longrightarrow> tool_step d d'"
| aborted: "abort_pending w dump ids d l tid ticket reason = Inr (t, d') \<Longrightarrow> tool_step d d'"
| other: "turn_groups d' = turn_groups d \<Longrightarrow> invocations d' = invocations d \<Longrightarrow>
    observations d' = observations d \<Longrightarrow> tool_step d d'"

definition is_terminal :: "tool_invocation \<Rightarrow> bool" where
  "is_terminal v = (iv_lifecycle v = ''terminal'')"

definition in_turn :: "string \<Rightarrow> db \<Rightarrow> tool_invocation list" where
  "in_turn tid d = filter (\<lambda>v. iv_turn_group_id v = tid) (invocations d)"

definition turn_done :: "turn_group \<Rightarrow> bool" where
  "turn_done t = (tg_status t \<in> {''closed'', ''aborted''})"

text \<open>
  Keys are unique, an invocation has at most one observation, references point to rows, an invocation
  is terminal exactly when it has its observation, a turn has the invocations it expects, and a
  finished turn has only terminal ones.
\<close>

definition ledger_ok :: "db \<Rightarrow> bool" where
  "ledger_ok d =
     (distinct (map tg_id (turn_groups d)) \<and> distinct (map iv_id (invocations d)) \<and>
      distinct (map obs_invocation_id (observations d)) \<and>
      (\<forall>v \<in> set (invocations d). iv_turn_group_id v \<in> tg_id ` set (turn_groups d)) \<and>
      (\<forall>r \<in> set (observations d). obs_invocation_id r \<in> iv_id ` set (invocations d)) \<and>
      (\<forall>v \<in> set (invocations d). is_terminal v \<longleftrightarrow> iv_id v \<in> obs_invocation_id ` set (observations d)) \<and>
      (\<forall>t \<in> set (turn_groups d). length (in_turn (tg_id t) d) = tg_expected_invocations t \<and>
         (turn_done t \<longrightarrow> list_all is_terminal (in_turn (tg_id t) d))))"

lemma ledger_ok_cong:
  "turn_groups d' = turn_groups d \<Longrightarrow> invocations d' = invocations d \<Longrightarrow>
   observations d' = observations d \<Longrightarrow> ledger_ok d \<Longrightarrow> ledger_ok d'"
  by (simp add: ledger_ok_def in_turn_def)

section \<open>Steps that keep the shape of the ledger\<close>

lemma in_turn_map:
  assumes "invocations d' = map f (invocations d)" "\<And>v. v \<in> set (invocations d) \<Longrightarrow> iv_turn_group_id (f v) = iv_turn_group_id v"
  shows "in_turn tid d' = map f (in_turn tid d)"
proof -
  have "filter (\<lambda>v. iv_turn_group_id v = tid) (map f vs) = map f (filter (\<lambda>v. iv_turn_group_id v = tid) vs)"
    if "\<And>v. v \<in> set vs \<Longrightarrow> iv_turn_group_id (f v) = iv_turn_group_id v" for vs
    using that by (induction vs) auto
  with assms show ?thesis by (simp add: in_turn_def)
qed

lemma ledger_ok_map:
  assumes ok: "ledger_ok d" and ivs: "invocations d' = map f (invocations d)"
    and f: "\<And>v. v \<in> set (invocations d) \<Longrightarrow>
      iv_id (f v) = iv_id v \<and> iv_turn_group_id (f v) = iv_turn_group_id v \<and> is_terminal (f v) = is_terminal v"
    and tgs: "turn_groups d' = map g (turn_groups d)"
    and g: "\<And>t. t \<in> set (turn_groups d) \<Longrightarrow> tg_id (g t) = tg_id t \<and>
      tg_expected_invocations (g t) = tg_expected_invocations t \<and>
      (turn_done (g t) \<longrightarrow> turn_done t \<or> list_all is_terminal (in_turn (tg_id t) d))"
    and obs: "observations d' = observations d"
  shows "ledger_ok d'"
proof -
  have ids: "map iv_id (invocations d') = map iv_id (invocations d)"
    "map tg_id (turn_groups d') = map tg_id (turn_groups d)"
    using ivs f tgs g by (simp_all cong: map_cong)
  have turn: "in_turn tid d' = map f (in_turn tid d)" for tid by (rule in_turn_map [OF ivs]) (simp add: f)
  have sub: "set (in_turn tid d) \<subseteq> set (invocations d)" for tid by (auto simp: in_turn_def)
  have len: "length (in_turn tid d') = length (in_turn tid d)" for tid by (simp add: turn)
  have fin: "list_all is_terminal (in_turn tid d') = list_all is_terminal (in_turn tid d)" for tid
    using sub f by (force simp: turn list_all_iff)
  have iids: "iv_id ` set (invocations d') = iv_id ` set (invocations d)"
    and tids: "tg_id ` set (turn_groups d') = tg_id ` set (turn_groups d)"
    using ids by (metis set_map)+
  have "\<forall>v \<in> set (invocations d'). iv_turn_group_id v \<in> tg_id ` set (turn_groups d') \<and>
      (is_terminal v \<longleftrightarrow> iv_id v \<in> obs_invocation_id ` set (observations d))"
    using ok f by (auto simp: ivs tids ledger_ok_def)
  moreover have "\<forall>t \<in> set (turn_groups d'). length (in_turn (tg_id t) d') = tg_expected_invocations t \<and>
      (turn_done t \<longrightarrow> list_all is_terminal (in_turn (tg_id t) d'))"
    using ok g by (auto simp: tgs fin len ledger_ok_def) blast
  ultimately show ?thesis
    using ok unfolding ledger_ok_def obs ids iids by blast
qed

lemma mark_executing_Inr:
  assumes "mark_executing w d l i = Inr (v', d')"
  obtains v where "lookup_by iv_id i (invocations d) = Some v" "\<not> is_terminal v"
    "d' = upd_invocation i (\<lambda>x. x\<lparr>iv_lifecycle := ''executing''\<rparr>) d"
proof -
  obtain v where v: "lookup_by iv_id i (invocations d) = Some v" "iv_lifecycle v \<in> {''received'', ''validated'', ''authorized''}"
    "d' = upd_invocation (iv_id v) (\<lambda>x. x\<lparr>iv_lifecycle := ''executing''\<rparr>) d"
    using assms unfolding mark_executing_def guard_simps by blast
  moreover have "iv_id v = i" using lookup_by_Some [OF v(1)] by simp
  ultimately show ?thesis using that by (auto simp: is_terminal_def)
qed

lemma executing_ok:
  assumes "mark_executing w d l i = Inr (v', d')" "ledger_ok d"
  shows "ledger_ok d'"
proof -
  from assms(1) obtain v where v: "lookup_by iv_id i (invocations d) = Some v" "\<not> is_terminal v"
    "d' = upd_invocation i (\<lambda>x. x\<lparr>iv_lifecycle := ''executing''\<rparr>) d" by (rule mark_executing_Inr)
  have "x = v" if "x \<in> set (invocations d)" "iv_id x = i" for x
    using lookup_by_distinct [of iv_id "invocations d" x] assms(2) that v(1) by (simp add: ledger_ok_def)
  with v(2,3) show ?thesis
    by (intro ledger_ok_map [OF assms(2), where g = id
          and f = "\<lambda>x. if iv_id x = i then x\<lparr>iv_lifecycle := ''executing''\<rparr> else x"])
      (auto simp: upd_invocation_def update_by_def is_terminal_def)
qed

lemma takeover_Inr:
  assumes "takeover w d l tid = Inr (t', ps, d')"
  obtains t j where "assert_fence (w_now w) d l = Inr j" "lookup_by tg_id tid (turn_groups d) = Some t" "tg_id t = tid"
    "tg_run_id t = jl_run_id l" "tg_job_id t = jl_job_id l" "tg_status t \<in> {''open'', ''completing''}"
    "tg_fencing_token t < jl_fencing_token l" "ps = pending_ids d tid"
    "d' = takeover_writes w l tid d" "t' = t\<lparr>tg_fencing_token := jl_fencing_token l, tg_job_id := jl_job_id l\<rparr>"
proof -
  obtain t j where t: "assert_fence (w_now w) d l = Inr j" "lookup_by tg_id tid (turn_groups d) = Some t"
    "tg_run_id t = jl_run_id l \<and> tg_job_id t = jl_job_id l" "tg_status t \<in> {''open'', ''completing''}"
    "tg_fencing_token t < jl_fencing_token l" "ps = pending_ids d (tg_id t)"
    "d' = takeover_writes w l (tg_id t) d" "t' = t\<lparr>tg_fencing_token := jl_fencing_token l, tg_job_id := jl_job_id l\<rparr>"
    using assms unfolding takeover_def guard_simps by (auto simp: not_le simp del: insert_iff)
  moreover have "tg_id t = tid" using lookup_by_Some [OF t(2)] by simp
  ultimately show ?thesis using that by simp
qed

lemma takeover_tables:
  "invocations (takeover_writes w l tid d) =
     map (\<lambda>v. if iv_turn_group_id v = tid then refenced l v else v) (invocations d)"
  "turn_groups (takeover_writes w l tid d) =
     update_by tg_id tid (\<lambda>x. x\<lparr>tg_fencing_token := jl_fencing_token l, tg_job_id := jl_job_id l\<rparr>) (turn_groups d)"
  "observations (takeover_writes w l tid d) = observations d"
  "jobs (takeover_writes w l tid d) = jobs d" "runs (takeover_writes w l tid d) = runs d"
  "tickets (takeover_writes w l tid d) = tickets d"
  by (simp_all add: takeover_writes_def upd_turn_group_def Let_def)

lemma refenced_fields [simp]:
  "iv_id (refenced l v) = iv_id v" "iv_turn_group_id (refenced l v) = iv_turn_group_id v"
  "is_terminal (refenced l v) = is_terminal v" "is_terminal v \<Longrightarrow> refenced l v = v"
  by (auto simp: refenced_def is_terminal_def)

lemma taken_ok:
  assumes "takeover w d l tid = Inr (t', ps, d')" "ledger_ok d"
  shows "ledger_ok d'"
proof -
  from assms(1) obtain t where "d' = takeover_writes w l tid d" by (rule takeover_Inr)
  then show ?thesis
    by (intro ledger_ok_map [OF assms(2), where f = "\<lambda>v. if iv_turn_group_id v = tid then refenced l v else v"
          and g = "\<lambda>x. if tg_id x = tid then x\<lparr>tg_fencing_token := jl_fencing_token l, tg_job_id := jl_job_id l\<rparr> else x"])
      (auto simp: takeover_tables update_by_def turn_done_def)
qed

lemma join_complete:
  assumes "length (filter (\<lambda>p. snd p \<noteq> None) (observation_join d tid)) = length (observation_join d tid)"
    "v \<in> set (in_turn tid d)"
  shows "iv_id v \<in> obs_invocation_id ` set (observations d)"
proof (rule ccontr)
  assume no: "iv_id v \<notin> obs_invocation_id ` set (observations d)"
  have "filter (\<lambda>r. obs_invocation_id r = iv_id v) (observations d) = []"
    using no by (force simp: filter_empty_conv)
  then have "(v, None) \<in> set (observation_join d tid)"
    using assms(2) by (force simp: observation_join_def in_turn_def)
  then show False using assms(1) length_filter_less [of "(v, None)" "observation_join d tid" "\<lambda>p. snd p \<noteq> None"]
    by simp
qed

lemma close_turn_Inr:
  assumes "close_turn w d l tid = Inr (t', d')"
  obtains t where "lookup_by tg_id tid (turn_groups d) = Some t"
    "length (filter (\<lambda>p. snd p \<noteq> None) (observation_join d tid)) = length (observation_join d tid)"
    "d' = upd_turn_group tid (\<lambda>x. x\<lparr>tg_status := ''closed'', tg_closed_at := Some (instant (w_clock w))\<rparr>) d"
proof -
  obtain t where t: "lookup_by tg_id tid (turn_groups d) = Some t"
    "length (observation_join d (tg_id t)) = tg_expected_invocations t"
    "length (filter (\<lambda>p. snd p \<noteq> None) (observation_join d (tg_id t))) = tg_expected_invocations t"
    "d' = upd_turn_group (tg_id t) (\<lambda>x. x\<lparr>tg_status := ''closed'', tg_closed_at := Some (instant (w_clock w))\<rparr>) d"
    using assms unfolding close_turn_def guard_simps Let_def by auto
  moreover have "tg_id t = tid" using lookup_by_Some [OF t(1)] by simp
  ultimately show ?thesis using that by simp
qed

lemma ledger_ok_terminal:
  "ledger_ok d \<Longrightarrow> v \<in> set (invocations d) \<Longrightarrow>
   is_terminal v \<longleftrightarrow> iv_id v \<in> obs_invocation_id ` set (observations d)"
  by (simp add: ledger_ok_def)

lemma finish_turn_ok:
  assumes "ledger_ok d" "list_all is_terminal (in_turn tid d)"
    "d' = upd_turn_group tid (\<lambda>x. x\<lparr>tg_status := s, tg_closed_at := c\<rparr>) d"
  shows "ledger_ok d'"
  using assms(2,3)
  by (intro ledger_ok_map [OF assms(1), where f = id
        and g = "\<lambda>x. if tg_id x = tid then x\<lparr>tg_status := s, tg_closed_at := c\<rparr> else x"])
    (auto simp: upd_turn_group_def update_by_def turn_done_def)

lemma closed_ok:
  assumes "close_turn w d l tid = Inr (t', d')" "ledger_ok d"
  shows "ledger_ok d'"
proof -
  from assms(1) obtain t where t: "length (filter (\<lambda>p. snd p \<noteq> None) (observation_join d tid)) = length (observation_join d tid)"
    "d' = upd_turn_group tid (\<lambda>x. x\<lparr>tg_status := ''closed'', tg_closed_at := Some (instant (w_clock w))\<rparr>) d"
    by (rule close_turn_Inr)
  have "list_all is_terminal (in_turn tid d)"
    using join_complete [OF t(1)] ledger_ok_terminal [OF assms(2)] by (auto simp: list_all_iff in_turn_def)
  with assms(2) t(2) show ?thesis by (blast intro: finish_turn_ok)
qed

section \<open>Ending an invocation\<close>

text \<open>A terminalization either finds the same observation or writes the first one of a pending invocation.\<close>

lemma terminalize_Inr:
  assumes "terminalize w dump d l i out ob intent = Inr (row, d')"
  obtains (found) v where "lookup_by iv_id i (invocations d) = Some v" "row \<in> set (observations d)"
      "obs_invocation_id row = i" "iv_outcome v = Some out" "d' = d"
  | (wrote) v payload digest where "lookup_by iv_id i (invocations d) = Some v" "iv_id v = i" "\<not> is_terminal v"
      "iv_fencing_token v = jl_fencing_token l"
      "observation_payload dump ob intent = Inr payload" "canonical_json_hash (w_digest w) (PDict payload) = Inr digest"
      "i \<notin> obs_invocation_id ` set (observations d)" "row = new_observation w l v ob payload digest"
      "obs_id row \<notin> obs_id ` set (observations d)"
      "d' = upd_invocation i (terminal_invocation w out) (d\<lparr>observations := observations d @ [row]\<rparr>)"
proof -
  obtain v payload digest where v: "lookup_by iv_id i (invocations d) = Some v" "iv_fencing_token v = jl_fencing_token l"
    "observation_payload dump ob intent = Inr payload" "canonical_json_hash (w_digest w) (PDict payload) = Inr digest"
    using assms unfolding terminalize_def guard_simps by blast
  have i: "iv_id v = i" using lookup_by_Some [OF v(1)] by simp
  show ?thesis
  proof (cases "select_first (\<lambda>r. obs_invocation_id r = i) (observations d)")
    case (Some r)
    with assms v i have "row = r \<and> iv_outcome v = Some out \<and> d' = d"
      by (auto simp: terminalize_def split: sum.splits if_splits)
    with select_first_Some [OF Some] v(1) that(1) show ?thesis by blast
  next
    case None
    with assms v i have "\<not> is_terminal v \<and> row = new_observation w l v ob payload digest \<and>
        obs_id row \<notin> obs_id ` set (observations d) \<and>
        d' = upd_invocation i (terminal_invocation w out) (d\<lparr>observations := observations d @ [row]\<rparr>)"
      by (auto simp: terminalize_def Let_def is_terminal_def insert_row_def split: sum.splits if_splits)
    moreover have "i \<notin> obs_invocation_id ` set (observations d)"
      using None by (auto simp: select_first_None)
    ultimately show ?thesis using that(2) [OF v(1) i] v by blast
  qed
qed

lemma terminal_invocation_fields [simp]:
  "iv_id (terminal_invocation w out v) = iv_id v" "is_terminal (terminal_invocation w out v)"
  "iv_turn_group_id (terminal_invocation w out v) = iv_turn_group_id v"
  by (simp_all add: terminal_invocation_def is_terminal_def)

lemma terminal_ok:
  assumes "terminalize w dump d l i out ob intent = Inr (row, d')" "ledger_ok d"
  shows "ledger_ok d'"
  using assms(1)
proof (cases rule: terminalize_Inr)
  case found
  then show ?thesis using assms(2) by simp
next
  case (wrote v payload digest)
  let ?f = "\<lambda>x. if iv_id x = i then terminal_invocation w out x else x"
  have ivs: "invocations d' = map ?f (invocations d)" by (simp add: wrote upd_invocation_def update_by_def)
  have tgs: "turn_groups d' = turn_groups d" by (simp add: wrote upd_invocation_def)
  have obs: "observations d' = observations d @ [row]" "obs_invocation_id row = i"
    using wrote by (simp_all add: upd_invocation_def new_observation_def)
  have turn: "in_turn tid d' = map ?f (in_turn tid d)" for tid by (rule in_turn_map [OF ivs]) simp
  have ids: "map iv_id (invocations d') = map iv_id (invocations d)" by (simp add: ivs)
  have v: "v \<in> set (invocations d)" "iv_id v = i" using lookup_by_Some [OF wrote(1)] by auto
  have "\<forall>x \<in> set (invocations d'). is_terminal x \<longleftrightarrow> iv_id x \<in> obs_invocation_id ` set (observations d')"
    using assms(2) by (auto simp: ivs obs ledger_ok_def)
  moreover have "\<forall>r \<in> set (observations d'). obs_invocation_id r \<in> iv_id ` set (invocations d')"
  proof -
    have "iv_id ` set (invocations d') = iv_id ` set (invocations d)" using ids by (metis set_map)
    then show ?thesis using assms(2) v by (auto simp: obs ledger_ok_def)
  qed
  moreover have "list_all is_terminal (in_turn tid d) \<Longrightarrow> list_all is_terminal (in_turn tid d')" for tid
    by (auto simp: turn list_all_iff)
  moreover have "length (in_turn tid d') = length (in_turn tid d)" for tid by (simp add: turn)
  moreover have "\<forall>x \<in> set (invocations d'). iv_turn_group_id x \<in> tg_id ` set (turn_groups d)"
    using assms(2) by (auto simp: ivs ledger_ok_def)
  ultimately show ?thesis
    using assms(2) wrote(7) obs unfolding ledger_ok_def ids tgs by auto
qed

section \<open>Opening a turn\<close>

lemma insert_rows_Inr:
  "insert_rows key new rows = Inr rows' \<Longrightarrow>
   rows' = rows @ new \<and> distinct (map key new) \<and> (\<forall>r \<in> set new. key r \<notin> key ` set rows)"
proof (induction new arbitrary: rows)
  case (Cons r rs)
  then have r: "key r \<notin> key ` set rows" "insert_rows key rs (rows @ [r]) = Inr rows'"
    by (auto simp: insert_rows_def insert_row_def split: if_splits)
  from Cons.IH [OF r(2)] r(1) show ?case by auto
qed (simp add: insert_rows_def)

lemma new_invocation_fields:
  assumes "new_invocation w ids l turn segment ic = Inr v"
  shows "iv_turn_group_id v = turn" "\<not> is_terminal v"
  using assms by (auto simp: new_invocation_def is_terminal_def split: prod.splits sum.splits)

lemma open_turn_Inr:
  assumes "open_turn w schema ids d l q = Inr (t, vs, d')"
  shows "turn_groups d' = turn_groups d @ [t] \<and> invocations d' = invocations d @ vs \<and>
    observations d' = observations d \<and> tg_id t \<notin> tg_id ` set (turn_groups d) \<and>
    (\<forall>v \<in> set vs. iv_id v \<notin> iv_id ` set (invocations d)) \<and> distinct (map iv_id vs) \<and>
    tg_expected_invocations t = length vs \<and> tg_status t = ''open'' \<and> vs \<noteq> [] \<and>
    (\<forall>v \<in> set vs. iv_turn_group_id v = tg_id t \<and> \<not> is_terminal v)"
proof -
  obtain dh ch sh tgs ivs where o: "t = new_turn_group w d l q dh ch sh"
    "insert_row tg_id t (turn_groups d) = Inr tgs"
    "mapE (new_invocation w ids l (tg_id t) (tr_segment_id q)) (enumerate 0 (tr_calls q)) = Inr vs"
    "insert_rows iv_id vs (invocations d) = Inr ivs" "d' = d\<lparr>turn_groups := tgs, invocations := ivs\<rparr>"
    "tr_calls q \<noteq> []"
    using assms unfolding open_turn_def Let_def guard_simps by auto
  have "length vs = length (tr_calls q)" using mapE_length [OF o(3)] by simp
  moreover have "\<forall>v \<in> set vs. iv_turn_group_id v = tg_id t \<and> \<not> is_terminal v"
    using mapE_in [OF o(3)] new_invocation_fields by blast
  moreover have "tg_expected_invocations t = length (tr_calls q)" "tg_status t = ''open''"
    by (simp_all add: o(1) new_turn_group_def)
  ultimately show ?thesis using o(2,5,6) insert_rows_Inr [OF o(4)] by (auto simp: insert_row_Inr)
qed

lemma opened_ok:
  assumes "open_turn w schema ids d l q = Inr (t, vs, d')" "ledger_ok d"
  shows "ledger_ok d'"
proof -
  note o = open_turn_Inr [OF assms(1)]
  have refs: "\<forall>v \<in> set (invocations d). iv_turn_group_id v \<in> tg_id ` set (turn_groups d)"
    using assms(2) by (simp add: ledger_ok_def)
  have fresh: "tg_id t \<notin> tg_id ` set (turn_groups d)" using o by blast
  have "iv_turn_group_id v \<noteq> tg_id t" if "v \<in> set (invocations d)" for v
    using bspec [OF refs that] fresh by auto
  then have "filter (\<lambda>v. iv_turn_group_id v = tg_id t) (invocations d) = []"
    by (simp add: filter_empty_conv)
  then have new: "in_turn (tg_id t) d' = vs" using o by (simp add: in_turn_def)
  have old: "in_turn (tg_id x) d' = in_turn (tg_id x) d" if "x \<in> set (turn_groups d)" for x
  proof -
    have "tg_id x \<noteq> tg_id t" using fresh that by (metis image_eqI)
    with o show ?thesis by (simp add: in_turn_def filter_empty_conv)
  qed
  have "\<forall>r \<in> set (observations d). obs_invocation_id r \<in> iv_id ` set (invocations d)"
    using assms(2) by (simp add: ledger_ok_def)
  then have "iv_id v \<notin> obs_invocation_id ` set (observations d)" if "v \<in> set vs" for v
    using o that by (metis imageE)
  then have "\<forall>v \<in> set (invocations d'). is_terminal v \<longleftrightarrow> iv_id v \<in> obs_invocation_id ` set (observations d')"
    using o ledger_ok_terminal [OF assms(2)] by (metis UnE set_append)
  moreover have "\<not> turn_done t" using o by (simp add: turn_done_def)
  moreover have "distinct (map tg_id (turn_groups d'))" "distinct (map iv_id (invocations d'))"
    using o assms(2) distinct_append_keys [of tg_id "turn_groups d" "[t]"]
      distinct_append_keys [of iv_id "invocations d" vs] by (simp_all only: ledger_ok_def) simp_all
  moreover have "\<forall>v \<in> set (invocations d'). iv_turn_group_id v \<in> tg_id ` set (turn_groups d')"
    using o refs by auto
  moreover have "\<forall>r \<in> set (observations d'). obs_invocation_id r \<in> iv_id ` set (invocations d')"
    "distinct (map obs_invocation_id (observations d'))"
    using o assms(2) by (auto simp: ledger_ok_def)
  moreover have "\<forall>t \<in> set (turn_groups d'). length (in_turn (tg_id t) d') = tg_expected_invocations t \<and>
      (turn_done t \<longrightarrow> list_all is_terminal (in_turn (tg_id t) d'))"
    using o assms(2) \<open>\<not> turn_done t\<close> by (simp add: ledger_ok_def new old)
  ultimately show ?thesis unfolding ledger_ok_def by blast
qed

section \<open>What a step never undoes\<close>

text \<open>A terminal invocation and its observation never change again; invocations keep their turn.\<close>

definition ledger_grows :: "db \<Rightarrow> db \<Rightarrow> bool" where
  "ledger_grows d d' =
     ((\<forall>v \<in> set (invocations d). is_terminal v \<longrightarrow> v \<in> set (invocations d')) \<and>
      set (observations d) \<subseteq> set (observations d'))"

lemma ledger_grows_refl [simp]: "ledger_grows d d"
  by (simp add: ledger_grows_def)

lemma ledger_grows_trans [trans]: "ledger_grows d1 d2 \<Longrightarrow> ledger_grows d2 d3 \<Longrightarrow> ledger_grows d1 d3"
  by (auto simp: ledger_grows_def)

lemma unique_invocation:
  "ledger_ok d \<Longrightarrow> v \<in> set (invocations d) \<Longrightarrow> v' \<in> set (invocations d) \<Longrightarrow> iv_id v = iv_id v' \<Longrightarrow> v = v'"
  by (auto simp: ledger_ok_def distinct_map dest: inj_onD)

lemma terminal_grows:
  assumes "terminalize w dump d l i out ob intent = Inr (row, d')" "ledger_ok d"
  shows "ledger_grows d d'"
  using assms(1)
proof (cases rule: terminalize_Inr)
  case (wrote v payload digest)
  have "iv_id x \<noteq> i" if "x \<in> set (invocations d)" "is_terminal x" for x
    using unique_invocation [OF assms(2) that(1)] lookup_by_Some [OF wrote(1)] wrote(3) that(2) by metis
  then show ?thesis by (auto simp: ledger_grows_def wrote(10) upd_invocation_def update_by_def)
qed simp

text \<open>The turn groups, and which invocation belongs to which.\<close>

definition turn_shape :: "db \<Rightarrow> turn_group list \<times> (string \<times> string) list" where
  "turn_shape d = (turn_groups d, map (\<lambda>v. (iv_id v, iv_turn_group_id v)) (invocations d))"

lemma turn_shape_in_turn:
  assumes "turn_shape d' = turn_shape d" "x \<in> set (in_turn tid d')"
  shows "\<exists>v \<in> set (in_turn tid d). iv_id v = iv_id x"
proof -
  have "(iv_id x, tid) \<in> set (snd (turn_shape d'))" using assms(2) by (force simp: turn_shape_def in_turn_def)
  then show ?thesis unfolding assms(1) by (auto simp: turn_shape_def in_turn_def)
qed

lemma terminal_in_turn:
  assumes "terminalize w dump d l i out ob intent = Inr (row, d')" "ledger_ok d"
  shows "turn_shape d' = turn_shape d" "\<And>v. v \<in> set (invocations d') \<Longrightarrow> iv_id v = i \<Longrightarrow> is_terminal v"
proof -
  note ok = terminal_ok [OF assms]
  show "turn_shape d' = turn_shape d"
    using assms(1) by (cases rule: terminalize_Inr) (auto simp: turn_shape_def upd_invocation_def update_by_def)
  have "row \<in> set (observations d') \<and> obs_invocation_id row = i"
    using assms(1) by (cases rule: terminalize_Inr) (auto simp: upd_invocation_def new_observation_def)
  then show "\<And>v. v \<in> set (invocations d') \<Longrightarrow> iv_id v = i \<Longrightarrow> is_terminal v"
    using ledger_ok_terminal [OF ok] by (metis image_eqI)
qed

section \<open>Aborting\<close>

definition all_terminal :: "string \<Rightarrow> db \<Rightarrow> bool" where
  "all_terminal i d = (\<forall>x \<in> set (invocations d). iv_id x = i \<longrightarrow> is_terminal x)"

definition settles :: "db \<Rightarrow> db \<Rightarrow> string set \<Rightarrow> bool" where
  "settles d d' is =
     (ledger_ok d' \<and> ledger_grows d d' \<and> turn_shape d' = turn_shape d \<and> (\<forall>i \<in> is. all_terminal i d'))"

lemma all_terminal_grows:
  assumes "settles d d' is" "all_terminal i d"
  shows "all_terminal i d'"
  unfolding all_terminal_def
proof (intro ballI impI)
  fix x assume x: "x \<in> set (invocations d')" "iv_id x = i"
  then have "x \<in> set (in_turn (iv_turn_group_id x) d')" by (simp add: in_turn_def)
  then obtain v where v: "v \<in> set (invocations d)" "iv_id v = i"
    using turn_shape_in_turn assms(1) x(2) by (force simp: settles_def in_turn_def)
  with assms have "is_terminal v" "v \<in> set (invocations d')"
    by (auto simp: all_terminal_def settles_def ledger_grows_def)
  with v x assms(1) unique_invocation show "is_terminal x" unfolding settles_def by metis
qed

lemma settles_trans:
  assumes "settles d d1 is" "settles d1 d' js"
  shows "settles d d' (is \<union> js)"
proof -
  have "\<forall>i \<in> is. all_terminal i d'"
    using assms(1) all_terminal_grows [OF assms(2)] by (simp add: settles_def)
  with assms ledger_grows_trans show ?thesis unfolding settles_def by (metis Un_iff)
qed

lemma abort_one_settles:
  assumes "abort_one w dump ids l ticket reason (n, v) d = Inr d'" "ledger_ok d"
    "is_terminal v \<Longrightarrow> v \<in> set (invocations d)"
  shows "settles d d' {iv_id v}"
proof (cases "is_terminal v")
  case True
  with assms have "d' = d" by (simp add: abort_one_def is_terminal_def)
  moreover have "all_terminal (iv_id v) d"
    using True assms(2,3) unique_invocation unfolding all_terminal_def by metis
  ultimately show ?thesis using assms(2) by (simp add: settles_def)
next
  case False
  with assms(1) obtain w' ob row where t: "terminalize w' dump d l (iv_id v) ''cancelled'' ob None = Inr (row, d')"
    by (auto simp: abort_one_def is_terminal_def map_sum_def split: sum.splits)
  show ?thesis
    using terminal_ok [OF t assms(2)] terminal_grows [OF t assms(2)] terminal_in_turn [OF t assms(2)]
    by (simp add: settles_def all_terminal_def)
qed

lemma abort_fold:
  assumes "foldE (abort_one w dump ids l ticket reason) xs d = Inr d'" "ledger_ok d"
    "\<And>v. v \<in> snd ` set xs \<Longrightarrow> is_terminal v \<Longrightarrow> v \<in> set (invocations d)"
  shows "settles d d' (iv_id ` snd ` set xs)"
  using assms
proof (induction xs arbitrary: d)
  case (Cons nv xs)
  obtain n v where nv: "nv = (n, v)" by (cases nv)
  with Cons.prems(1) obtain d1 where d1: "abort_one w dump ids l ticket reason (n, v) d = Inr d1"
    "foldE (abort_one w dump ids l ticket reason) xs d1 = Inr d'" by (auto split: sum.splits)
  have one: "settles d d1 {iv_id v}"
    using Cons.prems(3) [of v] nv by (intro abort_one_settles [OF d1(1) Cons.prems(2)]) simp
  have "settles d1 d' (iv_id ` snd ` set xs)"
    using one Cons.prems(3) by (intro Cons.IH [OF d1(2)]) (auto simp: settles_def ledger_grows_def)
  from settles_trans [OF one this] show ?case by (simp add: nv)
qed (simp add: settles_def)

lemma abort_pending_Inr:
  assumes "abort_pending w dump ids d l tid ticket reason = Inr (t', d')" "ledger_ok d"
  shows "ledger_ok d'" "ledger_grows d d'"
proof -
  obtain t d1 where "lookup_by tg_id tid (turn_groups d) = Some t"
    and t: "foldE (abort_one w dump ids l ticket reason) (enumerate 0 (turn_invocations d (tg_id t))) d = Inr d1"
    "d' = upd_turn_group (tg_id t) (\<lambda>x. x\<lparr>tg_status := ''aborted'', tg_closed_at := Some (instant (w_clock w))\<rparr>) d1"
    using assms(1) unfolding abort_pending_def guard_simps Let_def by auto
  have "snd ` set (enumerate 0 (turn_invocations d (tg_id t))) = set (in_turn (tg_id t) d)"
    unfolding set_map [symmetric] map_snd_enumerate by (simp add: turn_invocations_def in_turn_def)
  then have s: "settles d d1 (iv_id ` set (in_turn (tg_id t) d))"
    using abort_fold [OF t(1) assms(2)] by (simp add: in_turn_def)
  have "is_terminal x" if x: "x \<in> set (in_turn (tg_id t) d1)" for x
  proof -
    obtain v where "v \<in> set (in_turn (tg_id t) d)" "iv_id v = iv_id x"
      using turn_shape_in_turn [OF _ x, of d] s by (auto simp: settles_def)
    with s have "all_terminal (iv_id x) d1" unfolding settles_def by (metis image_eqI)
    with x show ?thesis by (simp add: all_terminal_def in_turn_def)
  qed
  then have "list_all is_terminal (in_turn (tg_id t) d1)" by (simp add: list_all_iff)
  with s show "ledger_ok d'" by (intro finish_turn_ok [OF _ _ t(2)]) (simp_all add: settles_def)
  have "ledger_grows d1 d'" by (simp add: ledger_grows_def t(2) upd_turn_group_def)
  with s show "ledger_grows d d'" using ledger_grows_trans by (auto simp: settles_def)
qed

section \<open>The steps\<close>

lemma tool_step_ok: "tool_step d d' \<Longrightarrow> ledger_ok d \<Longrightarrow> ledger_ok d'"
  by (induction rule: tool_step.induct)
    (blast intro: opened_ok executing_ok terminal_ok closed_ok taken_ok abort_pending_Inr(1) ledger_ok_cong)+

interpretation tool_ledger: invariant_steps tool_step ledger_ok
  by unfold_locales (rule tool_step_ok)

lemma tool_step_grows:
  assumes "tool_step d d'" "ledger_ok d"
  shows "ledger_grows d d'"
  using assms(1)
proof cases
  case (opened w schema ids l q t vs)
  then show ?thesis using open_turn_Inr by (fastforce simp: ledger_grows_def)
next
  case (executing w l i v')
  then obtain v where v: "lookup_by iv_id i (invocations d) = Some v" "\<not> is_terminal v"
    "d' = upd_invocation i (\<lambda>x. x\<lparr>iv_lifecycle := ''executing''\<rparr>) d" by (rule mark_executing_Inr)
  have "iv_id x \<noteq> i" if "x \<in> set (invocations d)" "is_terminal x" for x
    using unique_invocation [OF assms(2) that(1)] lookup_by_Some [OF v(1)] v(2) that(2) by metis
  then show ?thesis by (auto simp: ledger_grows_def v(3) upd_invocation_def update_by_def)
next
  case (taken w l tid t ps)
  then have "d' = takeover_writes w l tid d" by (rule takeover_Inr)
  then show ?thesis by (force simp: ledger_grows_def takeover_tables)
next
  case (closed w l tid t)
  then show ?thesis by (rule close_turn_Inr) (simp add: ledger_grows_def upd_turn_group_def)
qed (use assms(2) terminal_grows abort_pending_Inr(2) in \<open>auto simp: ledger_grows_def\<close>)

lemma tool_steps_grow:
  assumes "tool_step\<^sup>*\<^sup>* d d'" "ledger_ok d"
  shows "ledger_grows d d'"
  using tool_ledger.steps_keep [OF assms, where P = "ledger_grows d"] tool_step_grows ledger_grows_trans by auto

section \<open>Properties\<close>

text \<open>C35. In every state the ledger reaches, a closed or aborted turn has exactly the invocations its decision
  asked for, each of them terminal with exactly one observation.\<close>

theorem finished_turn_is_complete:
  assumes "tool_step\<^sup>*\<^sup>* d d'" "ledger_ok d"
    and "t \<in> set (turn_groups d')" "tg_status t = ''closed'' \<or> tg_status t = ''aborted''"
  shows "length (in_turn (tg_id t) d') = tg_expected_invocations t \<and>
    (\<forall>v \<in> set (in_turn (tg_id t) d'). iv_lifecycle v = ''terminal'' \<and>
       length (filter (\<lambda>r. obs_invocation_id r = iv_id v) (observations d')) = 1)"
proof -
  have ok: "ledger_ok d'" using tool_ledger.steps_inv assms(1,2) by blast
  have "is_terminal v \<and> iv_id v \<in> obs_invocation_id ` set (observations d')" if "v \<in> set (in_turn (tg_id t) d')" for v
    using ok assms(3,4) that ledger_ok_terminal [OF ok, of v]
    by (auto simp: ledger_ok_def turn_done_def list_all_iff in_turn_def)
  moreover have "distinct (map obs_invocation_id (observations d'))" using ok by (simp add: ledger_ok_def)
  moreover have "length (in_turn (tg_id t) d') = tg_expected_invocations t"
    using ok assms(3) by (simp add: ledger_ok_def)
  ultimately show ?thesis using filter_key_one by (metis is_terminal_def)
qed

text \<open>A written observation, found again after any steps.\<close>

lemma written_observation:
  assumes "terminalize w dump d l i out ob intent = Inr (row, d1)" "ledger_ok d" "tool_step\<^sup>*\<^sup>* d1 d2"
    "lookup_by iv_id i (invocations d) = Some v" "\<not> is_terminal v"
  shows "ledger_ok d2" "row \<in> set (observations d2)" "obs_invocation_id row = i"
    "terminal_invocation w out v \<in> set (invocations d2)"
proof -
  have iv: "v \<in> set (invocations d)" "iv_id v = i" using lookup_by_Some [OF assms(4)] by auto
  have ok: "ledger_ok d1" using terminal_ok [OF assms(1,2)] .
  then show "ledger_ok d2" using tool_ledger.steps_inv assms(3) by blast
  have "row \<in> set (observations d1) \<and> obs_invocation_id row = i \<and> terminal_invocation w out v \<in> set (invocations d1)"
    using assms(1)
  proof (cases rule: terminalize_Inr)
    case (found v')
    then have False using assms(4,5) iv ledger_ok_terminal [OF assms(2) iv(1)] by (metis image_eqI)
    then show ?thesis ..
  next
    case (wrote v' payload digest)
    then show ?thesis using iv by (auto simp: upd_invocation_def update_by_def new_observation_def)
  qed
  with tool_steps_grow [OF assms(3) ok] show "row \<in> set (observations d2)" "obs_invocation_id row = i"
    "terminal_invocation w out v \<in> set (invocations d2)" by (auto simp: ledger_grows_def)
qed

text \<open>C36. A pending invocation is answered once: after its terminal observation is written, any later
  terminalization that succeeds, under whatever lease, reports the same outcome, returns the same row
  and writes nothing.\<close>

theorem terminal_observation_is_final:
  assumes "terminalize w dump d l i out ob intent = Inr (row, d1)" "ledger_ok d"
    and "lookup_by iv_id i (invocations d) = Some v" "iv_lifecycle v \<noteq> ''terminal''"
    and "tool_step\<^sup>*\<^sup>* d1 d2" "terminalize w' dump' d2 l' i out' ob' intent' = Inr (row', d3)"
  shows "row' = row \<and> d3 = d2 \<and> out' = out"
proof -
  have "\<not> is_terminal v" using assms(4) by (simp add: is_terminal_def)
  note o = written_observation [OF assms(1,2,5,3) this]
  have id: "iv_id v = i" using lookup_by_Some [OF assms(3)] by simp
  show ?thesis
    using assms(6)
  proof (cases rule: terminalize_Inr)
    case (found v')
    have "inj_on obs_invocation_id (set (observations d2))" using o(1) by (simp add: ledger_ok_def distinct_map)
    then have "row' = row" using found(2,3) o(2,3) by (metis inj_onD)
    moreover have "v' = terminal_invocation w out v"
      using unique_invocation [OF o(1) _ o(4)] lookup_by_Some [OF found(1)] id by simp
    ultimately show ?thesis using found(4,5) by (simp add: terminal_invocation_def)
  next
    case (wrote v' payload digest)
    then show ?thesis using o(2,3) by (metis image_eqI)
  qed
qed

lemma dpop_payload:
  assumes "observation_payload dump ob intent = Inr payload" "\<not> dhas (dump ob) ''trusted_retrieval_intent''"
  shows "dpop payload ''trusted_retrieval_intent'' = dump ob"
proof -
  have "fst kv \<noteq> ''trusted_retrieval_intent''" if "kv \<in> set (dump ob)" for kv
    using assms(2) that unfolding dhas_iff by (metis image_eqI list.set_map)
  then have "dpop (dump ob) ''trusted_retrieval_intent'' = dump ob" by (simp add: dpop_def)
  moreover have "payload = dump ob \<or> (\<exists>x. payload = dump ob @ [(''trusted_retrieval_intent'', x)])"
    using assms by (auto simp: observation_payload_def dset_def split: option.splits if_splits)
  ultimately show ?thesis by (auto simp: dpop_def)
qed

lemma assert_fence_cong:
  "jobs d' = jobs d \<Longrightarrow> runs d' = runs d \<Longrightarrow> tickets d' = tickets d \<Longrightarrow> assert_fence now d' l = assert_fence now d l"
  unfolding assert_fence_def lease_ticket_def by (simp only:)

text \<open>C37. A worker that takes a turn over does not repeat a finished call: if the previous worker wrote the
  observation of an invocation, then after any steps of the ledger the takeover does not list that
  invocation as pending, and the replay under the new lease returns the stored row and the envelope it
  was written from.  The codec is assumed to read back what it wrote for this observation.\<close>

theorem takeover_replays_finished_call:
  assumes "terminalize w dump d l i out ob intent = Inr (row, d1)" "ledger_ok d"
    and "lookup_by iv_id i (invocations d) = Some v" "iv_lifecycle v \<noteq> ''terminal''" "tool_step\<^sup>*\<^sup>* d1 d2"
    and "takeover w' d2 l' (iv_turn_group_id v) = Inr (t, pending, d3)" "w_digest w' = w_digest w"
    and "jl_tenant_id l' = jl_tenant_id l" "jl_run_id l' = jl_run_id l" "jl_job_id l' = jl_job_id l"
    and "tg_tenant_id t = jl_tenant_id l" "iv_tenant_id v = jl_tenant_id l" "iv_run_id v = jl_run_id l"
    and "iv_job_id v = jl_job_id l"
    and "oe_run_id ob = iv_run_id v" "oe_tool_call_id ob = iv_provider_tool_call_id v" "oe_tool_name ob = iv_tool_name v"
    and "parse (dump ob) = Some ob" "\<not> dhas (dump ob) ''trusted_retrieval_intent''"
  shows "i \<notin> set pending \<and>
    replay_terminal_observation w' parse d3 l' i
      \<lparr>ck_turn_id = iv_turn_group_id v, ck_provider_tool_call_id = iv_provider_tool_call_id v,
       ck_tool_name = iv_tool_name v, ck_arguments_hash = iv_arguments_hash v\<rparr> = Inr (Some (row, ob))"
proof -
  let ?c = "\<lparr>ck_turn_id = iv_turn_group_id v, ck_provider_tool_call_id = iv_provider_tool_call_id v,
     ck_tool_name = iv_tool_name v, ck_arguments_hash = iv_arguments_hash v\<rparr>"
  have nt: "\<not> is_terminal v" using assms(4) by (simp add: is_terminal_def)
  note o = written_observation [OF assms(1,2,5,3) nt]
  have id: "iv_id v = i" using lookup_by_Some [OF assms(3)] by simp
  from assms(6) obtain t0 j where t0: "assert_fence (w_now w') d2 l' = Inr j"
    "lookup_by tg_id (iv_turn_group_id v) (turn_groups d2) = Some t0" "tg_id t0 = iv_turn_group_id v"
    "tg_run_id t0 = jl_run_id l'" "tg_job_id t0 = jl_job_id l'" "pending = pending_ids d2 (iv_turn_group_id v)"
    "d3 = takeover_writes w' l' (iv_turn_group_id v) d2"
    "t = t0\<lparr>tg_fencing_token := jl_fencing_token l', tg_job_id := jl_job_id l'\<rparr>" by (rule takeover_Inr)
  have fence: "assert_fence (w_now w') d3 l' = Inr j"
    using t0(1,7) assert_fence_cong [of d3 d2] by (simp add: takeover_tables)
  have ok3: "ledger_ok d3" using taken_ok [OF assms(6) o(1)] .
  have v3: "terminal_invocation w out v \<in> set (invocations d3)"
    using o(4) by (force simp: t0(7) takeover_tables)
  then have iv3: "lookup_by iv_id i (invocations d3) = Some (terminal_invocation w out v)"
    using lookup_by_distinct [of iv_id "invocations d3"] ok3 id by (force simp: ledger_ok_def)
  have tg3: "lookup_by tg_id (iv_turn_group_id v) (turn_groups d3) = Some t"
    using t0(2,8) by (simp add: t0(7) takeover_tables lookup_by_update_by)
  obtain payload digest where row: "observation_payload dump ob intent = Inr payload"
    "canonical_json_hash (w_digest w) (PDict payload) = Inr digest" "row = new_observation w l v ob payload digest"
    using assms(1)
  proof (cases rule: terminalize_Inr)
    case (found v')
    then have False using assms(3) nt ledger_ok_terminal [OF assms(2), of v] lookup_by_Some [OF assms(3)]
      by (metis image_eqI)
    then show ?thesis ..
  next
    case (wrote v' payload digest)
    then show ?thesis using that assms(3) by simp
  qed
  have pop: "parse (dpop payload ''trusted_retrieval_intent'') = Some ob"
    using dpop_payload [OF row(1) assms(19)] assms(18) by simp
  have "select_first (\<lambda>r. obs_invocation_id r = i \<and> obs_tenant_id r = jl_tenant_id l' \<and>
      obs_run_id r = jl_run_id l' \<and> obs_job_id r = jl_job_id l') (observations d3) = Some row"
    unfolding select_first_def using o(2) ok3 assms(8-10) id
    by (subst find_unique_iff [where key = obs_invocation_id and k = i])
      (auto simp: ledger_ok_def t0(7) takeover_tables row(3) new_observation_def)
  then have "replay_terminal_observation w' parse d3 l' i ?c = Inr (Some (row, ob))"
    using fence tg3 iv3 row pop assms t0 id
    by (simp add: replay_terminal_observation_def replay_in_scope_def terminal_invocation_def new_observation_def)
  moreover have "is_terminal x" if "x \<in> set (invocations d2)" "iv_id x = i" for x
    using unique_invocation [OF o(1) that(1) o(4)] that(2) id by simp
  then have "i \<notin> set pending"
    by (auto simp: t0(6) pending_ids_def turn_invocations_def is_terminal_def)
  ultimately show ?thesis by blast
qed

section \<open>Evaluated examples\<close>

definition sample_leased :: "nat \<Rightarrow> runtime_job" where
  "sample_leased n = sample_job\<lparr>job_status := ''leased'', job_lease_owner := Some ''w1'', job_fencing_token := n,
     job_lease_expires_at := Some 30000000\<rparr>"

definition sample_lease :: "nat \<Rightarrow> job_lease" where
  "sample_lease n = lease_of ''w1'' 30000000 (sample_leased n)"

text \<open>The database with the sample job leased under fencing token \<open>n\<close>.\<close>

definition refence :: "nat \<Rightarrow> db \<Rightarrow> db" where
  "refence n d = d\<lparr>jobs := [sample_leased n], tickets := [sample_ticket],
     runs := [sample_run\<lparr>run_active_job_id := Some ''j1'', run_active_fencing_token := Some n\<rparr>]\<rparr>"

lemma sample_lease_fields [simp]:
  "jl_tenant_id (sample_lease n) = ''acme''" "jl_run_id (sample_lease n) = ''r1''"
  "jl_job_id (sample_lease n) = ''j1''" "jl_fencing_token (sample_lease n) = n"
  by (simp_all add: sample_lease_def lease_of_def sample_leased_def sample_job_def)

lemma refence_tables [simp]:
  "turn_groups (refence n d) = turn_groups d" "invocations (refence n d) = invocations d"
  "observations (refence n d) = observations d" "attempts (refence n d) = attempts d"
  "cap_invocations (refence n d) = cap_invocations d" "cap_attempts (refence n d) = cap_attempts d"
  "cap_results (refence n d) = cap_results d"
  by (simp_all add: refence_def)

lemma refence_fence:
  assumes "jobs d' = jobs (refence n d)" "runs d' = runs (refence n d)" "tickets d' = tickets (refence n d)"
  shows "assert_fence (w_now sample_world) d' (sample_lease n) = Inr (sample_leased n)"
proof -
  have "assert_fence 0 (refence n d) (sample_lease n) = Inr (sample_leased n)"
    by (simp add: assert_fence_def lease_ticket_def refence_def sample_lease_def lease_of_def sample_leased_def
        select_first_def sample_defs)
  with assms show ?thesis by (simp add: assert_fence_cong [of d' "refence n d"] sample_world_def)
qed

definition sample_group :: turn_group where
  "sample_group =
     \<lparr>tg_id = ''g1'', tg_tenant_id = ''acme'', tg_run_id = ''r1'', tg_job_id = ''j1'', tg_segment_id = ''s1'',
      tg_fencing_token = 1, tg_decision_ordinal = 1, tg_tool_round = 1, tg_expected_invocations = 1,
      tg_decision_hash = [], tg_context_hash = [], tg_tool_schema_hash = [], tg_status = ''open'',
      tg_closed_at = None\<rparr>"

definition sample_invocation :: tool_invocation where
  "sample_invocation =
     \<lparr>iv_id = ''i1'', iv_tenant_id = ''acme'', iv_run_id = ''r1'', iv_job_id = ''j1'', iv_turn_group_id = ''g1'',
      iv_segment_id = ''s1'', iv_fencing_token = 1, iv_provider_tool_call_id = ''call'',
      iv_logical_invocation_id = ''l1'', iv_ordinal = 0, iv_tool_name = ''query_account'',
      iv_arguments_hash = [], iv_requested_cost = 1, iv_lifecycle = ''executing'', iv_outcome = None,
      iv_terminal_at = None\<rparr>"

definition sample_observation :: observation_envelope where
  "sample_observation =
     (abort_observation sample_world empty_db (sample_lease 1) ''t1'' ''r'' sample_invocation)
       \<lparr>oe_status := ''ok'', oe_error_code := None\<rparr>"

definition sample_dump :: "observation_envelope \<Rightarrow> pydict" where
  "sample_dump ob = [(''tool_name'', PStr (oe_tool_name ob)), (''run_id'', PStr (oe_run_id ob)),
     (''tool_call_id'', PStr (oe_tool_call_id ob)), (''status'', PStr (oe_status ob))]"

definition sample_parse :: "pydict \<Rightarrow> observation_envelope option" where
  "sample_parse p = (if p = sample_dump sample_observation then Some sample_observation else None)"

definition sample_ledger :: db where
  "sample_ledger = refence 1 (empty_db\<lparr>turn_groups := [sample_group], invocations := [sample_invocation]\<rparr>)"

definition sample_row :: tool_observation where
  "sample_row = new_observation sample_world (sample_lease 1) sample_invocation sample_observation
     (sample_dump sample_observation) (sample_digest [])"

definition answered_ledger :: db where
  "answered_ledger = upd_invocation ''i1'' (terminal_invocation sample_world ''succeeded'')
     (sample_ledger\<lparr>observations := [sample_row]\<rparr>)"

lemmas ledger_defs = sample_ledger_def sample_group_def sample_invocation_def empty_db_def

lemma sample_ledger_ok: "ledger_ok sample_ledger"
  by (simp add: ledger_ok_def ledger_defs in_turn_def is_terminal_def turn_done_def)

lemma sample_answer:
  "terminalize sample_world sample_dump sample_ledger (sample_lease 1) ''i1'' ''succeeded'' sample_observation None =
     Inr (sample_row, answered_ledger)"
proof -
  have "canonical_json_hash sample_digest (PDict (sample_dump sample_observation)) = Inr (sample_digest [])"
    by (simp add: canonical_json_hash_def canonical_json_bytes_def json_project_id sample_dump_def sample_digest_def)
  moreover have "assert_fence (w_now sample_world) sample_ledger (sample_lease 1) = Inr (sample_leased 1)"
    by (rule refence_fence) (simp_all add: sample_ledger_def refence_def)
  ultimately show ?thesis
    by (simp add: terminalize_def observation_payload_def sample_row_def answered_ledger_def ledger_defs
        lookup_by_def select_first_def insert_row_def sample_world_def Let_def)
qed

lemma sample_close:
  "\<exists>t. close_turn sample_world answered_ledger (sample_lease 1) ''g1'' = Inr (t,
     upd_turn_group ''g1'' (\<lambda>x. x\<lparr>tg_status := ''closed'', tg_closed_at := Some (instant sample_clock)\<rparr>) answered_ledger)"
proof -
  have "assert_fence (w_now sample_world) answered_ledger (sample_lease 1) = Inr (sample_leased 1)"
    by (rule refence_fence) (simp_all add: answered_ledger_def sample_ledger_def refence_def upd_invocation_def)
  then show ?thesis
    by (simp add: close_turn_def lookup_by_def answered_ledger_def ledger_defs upd_invocation_def update_by_def
        observation_join_def sample_row_def new_observation_def terminal_invocation_def sample_world_def Let_def)
qed

theorem finished_turn_is_complete_witness:
  "\<exists>t d'. close_turn sample_world answered_ledger (sample_lease 1) ''g1'' = Inr (t, d') \<and>
     length (in_turn ''g1'' d') = 1 \<and> (\<forall>v \<in> set (in_turn ''g1'' d'). iv_lifecycle v = ''terminal'')"
proof -
  obtain t d' where c: "close_turn sample_world answered_ledger (sample_lease 1) ''g1'' = Inr (t, d')"
    "d' = upd_turn_group ''g1'' (\<lambda>x. x\<lparr>tg_status := ''closed'', tg_closed_at := Some (instant sample_clock)\<rparr>) answered_ledger"
    using sample_close by blast
  let ?t = "sample_group\<lparr>tg_status := ''closed'', tg_closed_at := Some (instant sample_clock)\<rparr>"
  have "tool_step\<^sup>*\<^sup>* sample_ledger d'"
    using tool_step.terminal [OF sample_answer] tool_step.closed [OF c(1)] by (meson converse_rtranclp_into_rtranclp r_into_rtranclp)
  moreover have "?t \<in> set (turn_groups d')"
    by (simp add: c(2) upd_turn_group_def update_by_def answered_ledger_def upd_invocation_def sample_ledger_def sample_group_def)
  ultimately show ?thesis
    using finished_turn_is_complete [OF _ sample_ledger_ok, of d' ?t] c(1) by (simp add: sample_group_def)
qed

lemma sample_repeat:
  "\<exists>row d. terminalize sample_world sample_dump answered_ledger (sample_lease 1) ''i1'' ''succeeded'' sample_observation None =
     Inr (row, d)"
proof -
  have "canonical_json_hash sample_digest (PDict (sample_dump sample_observation)) = Inr (sample_digest [])"
    by (simp add: canonical_json_hash_def canonical_json_bytes_def json_project_id sample_dump_def sample_digest_def)
  moreover have "assert_fence (w_now sample_world) answered_ledger (sample_lease 1) = Inr (sample_leased 1)"
    by (rule refence_fence) (simp_all add: answered_ledger_def sample_ledger_def refence_def upd_invocation_def)
  ultimately show ?thesis
    by (simp add: terminalize_def observation_payload_def sample_row_def answered_ledger_def ledger_defs
        lookup_by_def select_first_def sample_world_def upd_invocation_def update_by_def new_observation_def
        terminal_invocation_def)
qed

theorem terminal_observation_is_final_witness:
  "terminalize sample_world sample_dump answered_ledger (sample_lease 1) ''i1'' ''succeeded'' sample_observation None =
     Inr (sample_row, answered_ledger)"
proof -
  have iv: "lookup_by iv_id ''i1'' (invocations sample_ledger) = Some sample_invocation"
    "iv_lifecycle sample_invocation \<noteq> ''terminal''" by (simp_all add: lookup_by_def ledger_defs)
  obtain row d where r: "terminalize sample_world sample_dump answered_ledger (sample_lease 1) ''i1'' ''succeeded''
      sample_observation None = Inr (row, d)" using sample_repeat by blast
  from terminal_observation_is_final [OF sample_answer sample_ledger_ok iv rtranclp.rtrancl_refl r] r
  show ?thesis by simp
qed

theorem takeover_replays_finished_call_witness:
  "\<exists>t d3. takeover sample_world (refence 2 answered_ledger) (sample_lease 2) ''g1'' = Inr (t, [], d3) \<and>
     replay_terminal_observation sample_world sample_parse d3 (sample_lease 2) ''i1''
       \<lparr>ck_turn_id = ''g1'', ck_provider_tool_call_id = ''call'', ck_tool_name = ''query_account'', ck_arguments_hash = []\<rparr> =
       Inr (Some (sample_row, sample_observation))"
proof -
  have iv: "lookup_by iv_id ''i1'' (invocations sample_ledger) = Some sample_invocation"
    "iv_lifecycle sample_invocation \<noteq> ''terminal''" by (simp_all add: lookup_by_def ledger_defs)
  have "assert_fence (w_now sample_world) (refence 2 answered_ledger) (sample_lease 2) = Inr (sample_leased 2)"
    by (rule refence_fence) (simp_all add: refence_def)
  then obtain t d3 where t: "takeover sample_world (refence 2 answered_ledger) (sample_lease 2) ''g1'' = Inr (t, [], d3)"
    "tg_tenant_id t = ''acme''"
    by (simp add: takeover_def lookup_by_def answered_ledger_def upd_invocation_def update_by_def ledger_defs
        pending_ids_def turn_invocations_def terminal_invocation_def)
  have st: "tool_step\<^sup>*\<^sup>* answered_ledger (refence 2 answered_ledger)" by (intro r_into_rtranclp tool_step.other) simp_all
  have "takeover sample_world (refence 2 answered_ledger) (sample_lease 2) (iv_turn_group_id sample_invocation) = Inr (t, [], d3)"
    using t by (simp add: sample_invocation_def)
  from takeover_replays_finished_call [OF sample_answer sample_ledger_ok iv st this, of sample_parse] t
  show ?thesis
    by (simp add: sample_parse_def sample_dump_def dhas_def sample_observation_def abort_observation_def) 
      (auto simp: sample_invocation_def)
qed

end
