(* ===== verification/Capability_Ledger.thy ===== *)
theory Capability_Ledger
  imports Tool_Turns
begin

text \<open>
  \<open>services/capability_ledger.py\<close> with the typed decisions of \<open>contracts/capability_decisions.py\<close>: the
  ledger of the effects the deterministic policy asks for.  An effect is reserved under a digest of its
  scope, decision and evidence; finishing or reconciling it writes one result.  The Action MCP server,
  which is not part of the Python worker, writes the result of an effect it commits in the same
  transaction; the worker treats that row as the authority.
\<close>

section \<open>Decisions\<close>

record frozen_capability_decision =
  fd_model_arguments :: pydict
  fd_observation_binding_hash :: string
  fd_policy_version :: string

record proposal_causal_decision = frozen_capability_decision +
  pd_capability_name :: string
  pd_action_type :: string
  pd_resource_id :: string
  pd_resource_version :: int

record escalation_causal_decision = frozen_capability_decision +
  ed_capability_name :: string
  ed_ticket_id :: string
  ed_ticket_version :: int
  ed_customer_id :: string

text \<open>\<open>UntypedDecision\<close> stands for an object of any other class.\<close>

datatype causal_decision =
    ProposalCausalDecisionV2 proposal_causal_decision
  | EscalationCausalDecisionV2 escalation_causal_decision
  | UntypedDecision

definition frozen_dump :: "'a frozen_capability_decision_scheme \<Rightarrow> pydict" where
  "frozen_dump f =
     [(''model_arguments'', PDict (fd_model_arguments f)),
      (''observation_binding_hash'', PStr (fd_observation_binding_hash f)),
      (''policy_version'', PStr (fd_policy_version f))]"

fun decision_dump :: "causal_decision \<Rightarrow> pydict" where
  "decision_dump (ProposalCausalDecisionV2 p) = frozen_dump p @
     [(''variant'', PStr ''proposal''), (''capability_name'', PStr (pd_capability_name p)),
      (''action_type'', PStr (pd_action_type p)), (''resource_id'', PStr (pd_resource_id p)),
      (''resource_version'', PInt (pd_resource_version p))]"
| "decision_dump (EscalationCausalDecisionV2 e) = frozen_dump e @
     [(''variant'', PStr ''escalation''), (''capability_name'', PStr (ed_capability_name e)),
      (''ticket_id'', PStr (ed_ticket_id e)), (''ticket_version'', PInt (ed_ticket_version e)),
      (''customer_id'', PStr (ed_customer_id e))]"
| "decision_dump UntypedDecision = []"

definition text_within :: "nat \<Rightarrow> nat \<Rightarrow> string \<Rightarrow> bool" where
  "text_within lo hi s = (lo \<le> py_len s \<and> py_len s \<le> hi)"

definition frozen_fields_ok :: "'a frozen_capability_decision_scheme \<Rightarrow> bool" where
  "frozen_fields_ok f =
     (text_within 64 64 (fd_observation_binding_hash f) \<and> text_within 1 128 (fd_policy_version f))"

definition canonical_payload_only :: "causal_decision \<Rightarrow> bool" where
  "canonical_payload_only c = (case canonical_json_bytes (PDict (decision_dump c)) of Inl _ \<Rightarrow> False | Inr _ \<Rightarrow> True)"

definition capability_matches_action :: "string \<Rightarrow> string \<Rightarrow> bool" where
  "capability_matches_action cap act =
     (map_of [(''propose_refund'', ''refund''), (''propose_api_key_revocation'', ''api_key_revocation''),
        (''propose_entitlement_change'', ''entitlement_change'')] cap = Some act)"

text \<open>Construction of a decision: the field constraints, then the model validators.\<close>

fun validate_causal_decision :: "causal_decision \<Rightarrow> causal_decision result" where
  "validate_causal_decision (ProposalCausalDecisionV2 p) =
     (if \<not> frozen_fields_ok p \<or>
         pd_capability_name p \<notin> {''propose_refund'', ''propose_api_key_revocation'', ''propose_entitlement_change''} \<or>
         pd_action_type p \<notin> {''refund'', ''api_key_revocation'', ''entitlement_change''} \<or>
         \<not> text_within 1 255 (pd_resource_id p) \<or> pd_resource_version p < 1 then
        Inl (ValidationError ''ProposalCausalDecisionV2'')
      else if \<not> canonical_payload_only (ProposalCausalDecisionV2 p) then
        Inl (ValidationError ''unsupported canonical value'')
      else if \<not> capability_matches_action (pd_capability_name p) (pd_action_type p) then
        Inl (ValidationError ''proposal capability and action type do not match'')
      else Inr (ProposalCausalDecisionV2 p))"
| "validate_causal_decision (EscalationCausalDecisionV2 e) =
     (if \<not> frozen_fields_ok e \<or> ed_capability_name e \<noteq> ''create_support_escalation'' \<or>
         \<not> text_within 1 255 (ed_ticket_id e) \<or> ed_ticket_version e < 1 \<or>
         \<not> text_within 1 255 (ed_customer_id e) then
        Inl (ValidationError ''EscalationCausalDecisionV2'')
      else if \<not> canonical_payload_only (EscalationCausalDecisionV2 e) then
        Inl (ValidationError ''unsupported canonical value'')
      else Inr (EscalationCausalDecisionV2 e))"
| "validate_causal_decision UntypedDecision = Inl (ValidationError ''variant'')"

fun decision_capability :: "causal_decision \<Rightarrow> string option" where
  "decision_capability (ProposalCausalDecisionV2 p) = Some (pd_capability_name p)"
| "decision_capability (EscalationCausalDecisionV2 e) = Some (ed_capability_name e)"
| "decision_capability UntypedDecision = None"

fun decision_binding :: "causal_decision \<Rightarrow> string option" where
  "decision_binding (ProposalCausalDecisionV2 p) = Some (fd_observation_binding_hash p)"
| "decision_binding (EscalationCausalDecisionV2 e) = Some (fd_observation_binding_hash e)"
| "decision_binding UntypedDecision = None"

section \<open>Reservation\<close>

definition capability_payload_hash :: "(string \<Rightarrow> string) \<Rightarrow> pyval \<Rightarrow> string result" where
  "capability_payload_hash H v = canonical_json_hash H v"

record reserved_capability =
  rc_id :: string
  rc_capability_name :: string
  rc_sequence :: nat
  rc_causal_decision_hash :: string
  rc_causal_decision :: causal_decision
  rc_observation_binding_hash :: string
  rc_effect_identity :: string
  rc_attempt_id :: string
  rc_attempt_ordinal :: nat

definition effect_scope :: "job_lease \<Rightarrow> string \<Rightarrow> string \<Rightarrow> string \<Rightarrow> string \<Rightarrow> pydict" where
  "effect_scope l segment cap dh bh =
     [(''tenant_id'', PStr (jl_tenant_id l)), (''run_id'', PStr (jl_run_id l)), (''segment_id'', PStr segment),
      (''capability_name'', PStr cap), (''causal_decision_hash'', PStr dh), (''observation_binding_hash'', PStr bh)]"

definition new_cap_invocation ::
  "world \<Rightarrow> db \<Rightarrow> job_lease \<Rightarrow> string \<Rightarrow> string \<Rightarrow> string \<Rightarrow> string \<Rightarrow> string \<Rightarrow> policy_capability_invocation" where
  "new_cap_invocation w d l segment cap dh bh eid =
     \<lparr>ci_id = w_new_id w ''capability'', ci_tenant_id = jl_tenant_id l, ci_run_id = jl_run_id l,
      ci_job_id = jl_job_id l, ci_segment_id = segment, ci_fencing_token = jl_fencing_token l,
      ci_capability_name = cap,
      ci_sequence =
        (case max_of ci_sequence (filter (\<lambda>c. ci_run_id c = jl_run_id l \<and> ci_segment_id c = segment)
            (cap_invocations d)) of None \<Rightarrow> 1 | Some n \<Rightarrow> Suc n),
      ci_causal_decision_hash = dh, ci_observation_binding_hash = bh, ci_effect_identity = eid,
      ci_status = ''reserved'', ci_error_code = None, ci_completed_at = None\<rparr>"

definition new_cap_attempt :: "world \<Rightarrow> job_lease \<Rightarrow> string \<Rightarrow> policy_capability_attempt" where
  "new_cap_attempt w l cid =
     \<lparr>ca_id = w_new_id w ''capattempt'', ca_tenant_id = jl_tenant_id l, ca_run_id = jl_run_id l,
      ca_job_id = jl_job_id l, ca_invocation_id = cid, ca_fencing_token = jl_fencing_token l,
      ca_ordinal = 1, ca_status = ''reserved'', ca_error_code = None, ca_completed_at = None\<rparr>"

definition reserve_capability ::
  "world \<Rightarrow> db \<Rightarrow> job_lease \<Rightarrow> string \<Rightarrow> string \<Rightarrow> causal_decision \<Rightarrow> pyval \<Rightarrow> (reserved_capability \<times> db) result" where
  "reserve_capability w d l segment cap dec binding =
     (case assert_fence (w_now w) d l of
        Inl e \<Rightarrow> Inl e
      | Inr _ \<Rightarrow>
        if dec = UntypedDecision then Inl (RuntimeConflict ''policy_capability_typed_decision_required'')
        else if decision_capability dec \<noteq> Some cap then
          Inl (RuntimeConflict ''policy_capability_decision_name_mismatch'')
        else (case canonical_json_hash (w_digest w) (PDict (decision_dump dec)) of
            Inl e \<Rightarrow> Inl e
          | Inr dh \<Rightarrow>
            (case canonical_json_hash (w_digest w) binding of
               Inl e \<Rightarrow> Inl e
             | Inr bh \<Rightarrow>
               if decision_binding dec \<noteq> Some bh then
                 Inl (RuntimeConflict ''policy_capability_observation_binding_mismatch'')
               else (case canonical_json_hash (w_digest w) (PDict (effect_scope l segment cap dh bh)) of
                   Inl e \<Rightarrow> Inl e
                 | Inr eid \<Rightarrow>
                   (case select_first (\<lambda>c. ci_tenant_id c = jl_tenant_id l \<and> ci_effect_identity c = eid)
                       (cap_invocations d) of
                      Some _ \<Rightarrow> Inl (RuntimeConflict ''policy_capability_already_reserved'')
                    | None \<Rightarrow>
                      (let c = new_cap_invocation w d l segment cap dh bh eid; a = new_cap_attempt w l (ci_id c) in
                       case insert_row ci_id c (cap_invocations d) of
                         Inl e \<Rightarrow> Inl e
                       | Inr cs \<Rightarrow>
                         (case insert_row ca_id a (cap_attempts d) of
                            Inl e \<Rightarrow> Inl e
                          | Inr as \<Rightarrow> Inr
                              (\<lparr>rc_id = ci_id c, rc_capability_name = cap, rc_sequence = ci_sequence c,
                                rc_causal_decision_hash = dh, rc_causal_decision = dec,
                                rc_observation_binding_hash = bh, rc_effect_identity = eid,
                                rc_attempt_id = ca_id a, rc_attempt_ordinal = 1\<rparr>,
                               d\<lparr>cap_invocations := cs, cap_attempts := as\<rparr>))))))))"

section \<open>Settlement\<close>

definition settled_cap_attempt :: "world \<Rightarrow> string \<Rightarrow> string option \<Rightarrow> policy_capability_attempt \<Rightarrow> policy_capability_attempt" where
  "settled_cap_attempt w status err a =
     a\<lparr>ca_status := status, ca_error_code := err, ca_completed_at := Some (instant (w_clock w))\<rparr>"

definition settled_cap_invocation ::
  "world \<Rightarrow> string \<Rightarrow> string option \<Rightarrow> policy_capability_invocation \<Rightarrow> policy_capability_invocation" where
  "settled_cap_invocation w status err c =
     c\<lparr>ci_status := status, ci_error_code := err, ci_completed_at := Some (instant (w_clock w))\<rparr>"

definition attempt_status_of :: "string \<Rightarrow> string" where
  "attempt_status_of status = (if status = ''succeeded'' then ''succeeded'' else ''failed'')"

definition upd_capability :: "string \<Rightarrow> (policy_capability_invocation \<Rightarrow> policy_capability_invocation) \<Rightarrow> db \<Rightarrow> db" where
  "upd_capability k f d = d\<lparr>cap_invocations := update_by ci_id k f (cap_invocations d)\<rparr>"

definition upd_cap_attempt :: "string \<Rightarrow> (policy_capability_attempt \<Rightarrow> policy_capability_attempt) \<Rightarrow> db \<Rightarrow> db" where
  "upd_cap_attempt k f d = d\<lparr>cap_attempts := update_by ca_id k f (cap_attempts d)\<rparr>"

definition new_cap_result ::
  "world \<Rightarrow> string \<Rightarrow> string \<Rightarrow> string \<Rightarrow> policy_capability_invocation \<Rightarrow> string \<Rightarrow> string \<Rightarrow> pydict \<Rightarrow> bool \<Rightarrow>
   policy_capability_result" where
  "new_cap_result w tenant run job c status h payload reconciled =
     \<lparr>cpr_id = w_new_id w ''capresult'', cpr_tenant_id = tenant, cpr_run_id = run, cpr_job_id = job,
      cpr_invocation_id = ci_id c, cpr_effect_identity = ci_effect_identity c, cpr_status = status,
      cpr_payload_hash = h, cpr_payload = payload,
      cpr_reconciled_at = (if reconciled then Some (instant (w_clock w)) else None)\<rparr>"

definition finish_capability ::
  "world \<Rightarrow> db \<Rightarrow> job_lease \<Rightarrow> reserved_capability \<Rightarrow> string \<Rightarrow> string option \<Rightarrow> pydict option \<Rightarrow> bool \<Rightarrow>
   (policy_capability_result option \<times> db) result" where
  "finish_capability w d l rc status err payload reconciled =
     (case assert_fence (w_now w) d l of
        Inl e \<Rightarrow> Inl e
      | Inr _ \<Rightarrow>
        (case lookup_by ci_id (rc_id rc) (cap_invocations d) of
           None \<Rightarrow> Inl (RuntimeConflict ''policy_capability_not_active'')
         | Some c \<Rightarrow>
           if ci_status c \<notin> {''reserved'', ''executing''} \<or> ci_fencing_token c \<noteq> jl_fencing_token l then
             Inl (RuntimeConflict ''policy_capability_not_active'')
           else if status \<notin> {''succeeded'', ''failed'', ''denied'', ''unknown''} then
             Inl (ValueError ''invalid policy capability outcome'')
           else (case lookup_by ca_id (rc_attempt_id rc) (cap_attempts d) of
               None \<Rightarrow> Inl (RuntimeConflict ''policy_capability_attempt_not_active'')
             | Some a \<Rightarrow>
               if ca_status a \<notin> {''reserved'', ''executing''} then
                 Inl (RuntimeConflict ''policy_capability_attempt_not_active'')
               else (let result_payload = (case payload of
                         Some (kv # kvs) \<Rightarrow> kv # kvs | _ \<Rightarrow> [(''error_code'', opt_str_val err)]) in
                 case canonical_json_hash (w_digest w) (PDict result_payload) of
                   Inl e \<Rightarrow> Inl e
                 | Inr h \<Rightarrow>
                   (case select_first (\<lambda>r. cpr_invocation_id r = rc_id rc) (cap_results d) of
                      Some r \<Rightarrow>
                        if cpr_effect_identity r \<noteq> rc_effect_identity rc then
                          Inl (RuntimeConflict ''policy_capability_result_conflict'')
                        else if status \<noteq> ''unknown'' \<and> (cpr_status r \<noteq> status \<or> cpr_payload_hash r \<noteq> h) then
                          Inl (RuntimeConflict ''policy_capability_result_conflict'')
                        else Inr (Some r,
                          upd_capability (ci_id c) (settled_cap_invocation w (cpr_status r) None)
                           (upd_cap_attempt (ca_id a) (settled_cap_attempt w (attempt_status_of (cpr_status r)) None) d))
                    | None \<Rightarrow>
                        (let d1 = upd_capability (ci_id c) (settled_cap_invocation w status err)
                             (upd_cap_attempt (ca_id a) (settled_cap_attempt w
                               (if status = ''unknown'' then ''unknown'' else attempt_status_of status) err) d)
                         in if status = ''unknown'' then Inr (None, d1)
                            else (let r = new_cap_result w (jl_tenant_id l) (jl_run_id l) (jl_job_id l) c status h
                                    result_payload reconciled in
                              case insert_row cpr_id r (cap_results d1) of
                                Inl e \<Rightarrow> Inl e
                              | Inr rs \<Rightarrow> Inr (Some r, d1\<lparr>cap_results := rs\<rparr>))))))))"

text \<open>The writes that settle an invocation and all its attempts.\<close>

definition settle_capability :: "world \<Rightarrow> string \<Rightarrow> string \<Rightarrow> db \<Rightarrow> db" where
  "settle_capability w cid status d =
     upd_capability cid (settled_cap_invocation w status None)
      (d\<lparr>cap_attempts := map (\<lambda>a. if ca_invocation_id a = cid
            then settled_cap_attempt w (attempt_status_of status) None a else a) (cap_attempts d)\<rparr>)"

definition reconcile_unknown ::
  "world \<Rightarrow> db \<Rightarrow> job_lease \<Rightarrow> string \<Rightarrow> string \<Rightarrow> pydict \<Rightarrow> (policy_capability_result \<times> db) result" where
  "reconcile_unknown w d l cid status payload =
     (case assert_fence (w_now w) d l of
        Inl e \<Rightarrow> Inl e
      | Inr _ \<Rightarrow>
        if status \<notin> {''succeeded'', ''failed'', ''denied''} then
          Inl (ValueError ''invalid reconciled capability outcome'')
        else (case lookup_by ci_id cid (cap_invocations d) of
            None \<Rightarrow> Inl (RuntimeConflict ''policy_capability_not_reconcilable'')
          | Some c \<Rightarrow>
            if ci_run_id c \<noteq> jl_run_id l \<or> ci_job_id c \<noteq> jl_job_id l \<or> ci_status c \<noteq> ''unknown'' then
              Inl (RuntimeConflict ''policy_capability_not_reconcilable'')
            else (case canonical_json_hash (w_digest w) (PDict payload) of
                Inl e \<Rightarrow> Inl e
              | Inr h \<Rightarrow>
                (case select_first (\<lambda>r. cpr_invocation_id r = ci_id c) (cap_results d) of
                   Some r \<Rightarrow>
                     if cpr_status r \<noteq> status \<or> cpr_payload_hash r \<noteq> h then
                       Inl (RuntimeConflict ''policy_capability_reconciliation_conflict'')
                     else Inr (r, settle_capability w (ci_id c) status d)
                 | None \<Rightarrow>
                     (let r = new_cap_result w (jl_tenant_id l) (jl_run_id l) (jl_job_id l) c status h payload True in
                      case insert_row cpr_id r (cap_results d) of
                        Inl e \<Rightarrow> Inl e
                      | Inr rs \<Rightarrow> Inr (r, settle_capability w (ci_id c) status (d\<lparr>cap_results := rs\<rparr>)))))))"

definition unprovable_payload :: "policy_capability_invocation \<Rightarrow> pydict" where
  "unprovable_payload c =
     [(''error_code'', PStr ''capability_effect_unprovable''), (''effect_status'', PStr ''not_applied''),
      (''resolution'', PStr ''failed''), (''effect_identity'', PStr (ci_effect_identity c))]"

definition effect_receipt :: "policy_capability_invocation \<Rightarrow> db \<Rightarrow> policy_capability_result option" where
  "effect_receipt c d =
     select_first (\<lambda>r. cpr_invocation_id r = ci_id c \<and> cpr_effect_identity r = ci_effect_identity c) (cap_results d)"

definition reconcile_unknown_effect ::
  "world \<Rightarrow> db \<Rightarrow> job_lease \<Rightarrow> string \<Rightarrow> (policy_capability_result \<times> db) result" where
  "reconcile_unknown_effect w d l cid =
     (case assert_fence (w_now w) d l of
        Inl e \<Rightarrow> Inl e
      | Inr _ \<Rightarrow>
        (case lookup_by ci_id cid (cap_invocations d) of
           None \<Rightarrow> Inl (RuntimeConflict ''policy_capability_not_reconcilable'')
         | Some c \<Rightarrow>
           if ci_status c \<noteq> ''unknown'' then Inl (RuntimeConflict ''policy_capability_not_reconcilable'')
           else (case effect_receipt c d of
               Some r \<Rightarrow> reconcile_unknown w d l (ci_id c) (cpr_status r) (cpr_payload r)
             | None \<Rightarrow> reconcile_unknown w d l (ci_id c) ''failed'' (unprovable_payload c))))"

definition reconcile_stale_active_effect ::
  "world \<Rightarrow> db \<Rightarrow> job_lease \<Rightarrow> string \<Rightarrow> (policy_capability_result \<times> db) result" where
  "reconcile_stale_active_effect w d l cid =
     (case assert_fence (w_now w) d l of
        Inl e \<Rightarrow> Inl e
      | Inr _ \<Rightarrow>
        (case lookup_by ci_id cid (cap_invocations d) of
           None \<Rightarrow> Inl (RuntimeConflict ''policy_capability_stale_takeover_not_allowed'')
         | Some c \<Rightarrow>
           if ci_tenant_id c \<noteq> jl_tenant_id l \<or> ci_run_id c \<noteq> jl_run_id l \<or> ci_job_id c \<noteq> jl_job_id l \<or>
              jl_fencing_token l \<le> ci_fencing_token c \<or>
              ci_status c \<notin> {''reserved'', ''executing'', ''unknown''} then
             Inl (RuntimeConflict ''policy_capability_stale_takeover_not_allowed'')
           else (case effect_receipt c d of
               Some r \<Rightarrow> Inr (r, settle_capability w (ci_id c) (cpr_status r) d)
             | None \<Rightarrow>
               (case canonical_json_hash (w_digest w) (PDict (unprovable_payload c)) of
                  Inl e \<Rightarrow> Inl e
                | Inr h \<Rightarrow>
                  (let r = new_cap_result w (ci_tenant_id c) (ci_run_id c) (ci_job_id c) c ''failed'' h
                        (unprovable_payload c) True in
                   case insert_row cpr_id r (cap_results d) of
                     Inl e \<Rightarrow> Inl e
                   | Inr rs \<Rightarrow> Inr (r, settle_capability w (ci_id c) ''failed'' (d\<lparr>cap_results := rs\<rparr>)))))))"

interpretation cap_reservations: fenced_operation "assert_fence (w_now w)"
    "\<lambda>d l (segment, cap, dec, binding). reserve_capability w d l segment cap dec binding" for w
  by unfold_locales (auto simp: reserve_capability_def)

interpretation cap_settlements: fenced_operation "assert_fence (w_now w)"
    "\<lambda>d l (rc, status, err, payload, reconciled). finish_capability w d l rc status err payload reconciled" for w
  by unfold_locales (auto simp: finish_capability_def)

interpretation reconciliations: fenced_operation "assert_fence (w_now w)"
    "\<lambda>d l (cid, status, payload). reconcile_unknown w d l cid status payload" for w
  by unfold_locales (auto simp: reconcile_unknown_def)

interpretation effect_reconciliations: fenced_operation "assert_fence (w_now w)" "reconcile_unknown_effect w" for w
  by unfold_locales (simp add: reconcile_unknown_effect_def)

interpretation stale_reconciliations: fenced_operation "assert_fence (w_now w)" "reconcile_stale_active_effect w" for w
  by unfold_locales (simp add: reconcile_stale_active_effect_def)

end
