(* ===== verification/Capability_Effects.thy ===== *)
theory Capability_Effects
  imports Capability_Ledger
begin

text \<open>
  The life of an effect.  The steps are the operations of the worker's ledger, the receipt the Action
  MCP server writes with the business effect, and any transaction that leaves the two tables alone.
\<close>

inductive cap_step :: "db \<Rightarrow> db \<Rightarrow> bool" where
  reserved: "reserve_capability w d l segment cap dec binding = Inr (rc, d') \<Longrightarrow> cap_step d d'"
| finished: "finish_capability w d l rc status err payload reconciled = Inr (r, d') \<Longrightarrow> cap_step d d'"
| reconciled: "reconcile_unknown w d l cid status payload = Inr (r, d') \<Longrightarrow> cap_step d d'"
| effect: "reconcile_unknown_effect w d l cid = Inr (r, d') \<Longrightarrow> cap_step d d'"
| stale: "reconcile_stale_active_effect w d l cid = Inr (r, d') \<Longrightarrow> cap_step d d'"
| receipt: "c \<in> set (cap_invocations d) \<Longrightarrow> cpr_invocation_id r = ci_id c \<Longrightarrow>
    cpr_effect_identity r = ci_effect_identity c \<Longrightarrow> cpr_status r = ''succeeded'' \<Longrightarrow>
    ci_id c \<notin> cpr_invocation_id ` set (cap_results d) \<Longrightarrow> d' = d\<lparr>cap_results := cap_results d @ [r]\<rparr> \<Longrightarrow>
    cap_step d d'"
| other: "cap_invocations d' = cap_invocations d \<Longrightarrow> cap_results d' = cap_results d \<Longrightarrow> cap_step d d'"

definition final_status :: "string \<Rightarrow> bool" where
  "final_status s = (s \<in> {''succeeded'', ''failed'', ''denied''})"

text \<open>
  Invocations and effect identities are unique, an invocation has at most one result, results are
  final and carry the identity of their invocation, and a settled invocation has the status of its
  result.
\<close>

definition cap_ok :: "db \<Rightarrow> bool" where
  "cap_ok d =
     (distinct (map ci_id (cap_invocations d)) \<and>
      distinct (map (\<lambda>c. (ci_tenant_id c, ci_effect_identity c)) (cap_invocations d)) \<and>
      distinct (map cpr_invocation_id (cap_results d)) \<and>
      (\<forall>r \<in> set (cap_results d). final_status (cpr_status r) \<and>
         (\<exists>c \<in> set (cap_invocations d). ci_id c = cpr_invocation_id r \<and> ci_effect_identity c = cpr_effect_identity r)) \<and>
      (\<forall>c \<in> set (cap_invocations d). final_status (ci_status c) \<longrightarrow>
         (\<exists>r \<in> set (cap_results d). cpr_invocation_id r = ci_id c \<and> cpr_status r = ci_status c)))"

lemma cap_ok_cong:
  "cap_invocations d' = cap_invocations d \<Longrightarrow> cap_results d' = cap_results d \<Longrightarrow> cap_ok d \<Longrightarrow> cap_ok d'"
  by (simp add: cap_ok_def)

section \<open>Writes that keep the invariant\<close>

lemma result_ok:
  assumes "cap_ok d" "c \<in> set (cap_invocations d)" "cpr_invocation_id r = ci_id c"
    "cpr_effect_identity r = ci_effect_identity c" "final_status (cpr_status r)"
    "ci_id c \<notin> cpr_invocation_id ` set (cap_results d)"
    "cap_invocations d' = cap_invocations d" "cap_results d' = cap_results d @ [r]"
  shows "cap_ok d'"
  using assms unfolding cap_ok_def assms(7,8) by auto

text \<open>Setting an invocation's status to that of its result, or to a status that is not final.\<close>

lemma settle_ok:
  assumes "cap_ok d" "cap_results d' = cap_results d"
    "cap_invocations d' = update_by ci_id cid (settled_cap_invocation w status err) (cap_invocations d)"
    "\<not> final_status status \<or> (\<exists>r \<in> set (cap_results d). cpr_invocation_id r = cid \<and> cpr_status r = status)"
  shows "cap_ok d'"
proof -
  have f: "ci_id (settled_cap_invocation w status err c) = ci_id c" "ci_tenant_id (settled_cap_invocation w status err c) = ci_tenant_id c"
    "ci_effect_identity (settled_cap_invocation w status err c) = ci_effect_identity c"
    "ci_status (settled_cap_invocation w status err c) = status" for c
    by (simp_all add: settled_cap_invocation_def)
  have ids: "map ci_id (cap_invocations d') = map ci_id (cap_invocations d)"
    "map (\<lambda>c. (ci_tenant_id c, ci_effect_identity c)) (cap_invocations d') =
     map (\<lambda>c. (ci_tenant_id c, ci_effect_identity c)) (cap_invocations d)"
    by (simp_all add: assms(3) update_by_def f)
  have res: "\<exists>c \<in> set (cap_invocations d'). ci_id c = cpr_invocation_id r \<and> ci_effect_identity c = cpr_effect_identity r"
    if r: "r \<in> set (cap_results d)" for r
  proof -
    obtain c where c: "c \<in> set (cap_invocations d)" "ci_id c = cpr_invocation_id r" "ci_effect_identity c = cpr_effect_identity r"
      using assms(1) r by (auto simp: cap_ok_def)
    then show ?thesis unfolding assms(3) update_by_def set_map
      by (intro bexI [of _ "if ci_id c = cid then settled_cap_invocation w status err c else c"]) (auto simp: f)
  qed
  have "\<exists>r \<in> set (cap_results d). cpr_invocation_id r = ci_id c \<and> cpr_status r = ci_status c"
    if "c \<in> set (cap_invocations d')" "final_status (ci_status c)" for c
  proof -
    obtain c0 where c0: "c0 \<in> set (cap_invocations d)" "c = (if ci_id c0 = cid then settled_cap_invocation w status err c0 else c0)"
      using \<open>c \<in> set (cap_invocations d')\<close> unfolding assms(3) in_update_by by blast
    show ?thesis
    proof (cases "ci_id c0 = cid")
      case True
      with c0 that(2) assms(4) show ?thesis by (simp add: f)
    next
      case False
      with c0 that(2) assms(1) show ?thesis by (simp add: cap_ok_def)
    qed
  qed
  with res show ?thesis using assms(1) unfolding cap_ok_def ids assms(2) by blast
qed

lemma settle_tables [simp]:
  "cap_results (settle_capability w cid status d) = cap_results d"
  "cap_invocations (settle_capability w cid status d) =
     update_by ci_id cid (settled_cap_invocation w status None) (cap_invocations d)"
  by (simp_all add: settle_capability_def upd_capability_def)

lemma settle_attempts:
  assumes "a \<in> set (cap_attempts (settle_capability w cid s d))" "ca_invocation_id a = cid"
  shows "ca_status a = attempt_status_of s"
proof -
  obtain b where "b \<in> set (cap_attempts d)"
    "a = (if ca_invocation_id b = cid then settled_cap_attempt w (attempt_status_of s) None b else b)"
    using assms(1) by (auto simp: settle_capability_def upd_capability_def)
  with assms(2) show ?thesis by (simp add: settled_cap_attempt_def split: if_splits)
qed

section \<open>What a successful operation did\<close>

lemma reserve_capability_Inr:
  assumes "reserve_capability w d l segment cap dec binding = Inr (rc, d')"
  obtains dh bh eid c where "canonical_json_hash (w_digest w) (PDict (decision_dump dec)) = Inr dh"
    "canonical_json_hash (w_digest w) binding = Inr bh"
    "canonical_json_hash (w_digest w) (PDict (effect_scope l segment cap dh bh)) = Inr eid"
    "\<forall>c \<in> set (cap_invocations d). \<not> (ci_tenant_id c = jl_tenant_id l \<and> ci_effect_identity c = eid)"
    "c = new_cap_invocation w d l segment cap dh bh eid" "ci_id c \<notin> ci_id ` set (cap_invocations d)"
    "cap_invocations d' = cap_invocations d @ [c]" "cap_results d' = cap_results d"
proof -
  obtain dh bh eid where h: "canonical_json_hash (w_digest w) (PDict (decision_dump dec)) = Inr dh"
    "canonical_json_hash (w_digest w) binding = Inr bh"
    "canonical_json_hash (w_digest w) (PDict (effect_scope l segment cap dh bh)) = Inr eid"
    using assms unfolding reserve_capability_def guard_simps by blast
  have none: "select_first (\<lambda>c. ci_tenant_id c = jl_tenant_id l \<and> ci_effect_identity c = eid) (cap_invocations d) = None"
    using assms h unfolding reserve_capability_def by (auto split: sum.splits if_splits option.splits)
  then have "ci_id (new_cap_invocation w d l segment cap dh bh eid) \<notin> ci_id ` set (cap_invocations d) \<and>
      cap_invocations d' = cap_invocations d @ [new_cap_invocation w d l segment cap dh bh eid] \<and>
      cap_results d' = cap_results d"
    using assms h unfolding reserve_capability_def Let_def
    by (auto simp: insert_row_Inr split: sum.splits if_splits)
  with none h that show ?thesis by (auto simp: select_first_None)
qed

text \<open>A settlement finds the result there is, writes the first one, or leaves the effect unknown.\<close>

inductive settlement :: "db \<Rightarrow> db \<Rightarrow> bool" where
  found: "c \<in> set (cap_invocations d) \<Longrightarrow> r \<in> set (cap_results d) \<Longrightarrow> cpr_invocation_id r = ci_id c \<Longrightarrow>
    \<not> final_status (ci_status c) \<Longrightarrow> cap_results d' = cap_results d \<Longrightarrow>
    cap_invocations d' = update_by ci_id (ci_id c) (settled_cap_invocation w (cpr_status r) None) (cap_invocations d) \<Longrightarrow>
    settlement d d'"
| wrote: "c \<in> set (cap_invocations d) \<Longrightarrow> ci_id c \<notin> cpr_invocation_id ` set (cap_results d) \<Longrightarrow>
    final_status (cpr_status r) \<Longrightarrow> cpr_invocation_id r = ci_id c \<Longrightarrow> cpr_effect_identity r = ci_effect_identity c \<Longrightarrow>
    \<not> final_status (ci_status c) \<Longrightarrow> cap_results d' = cap_results d @ [r] \<Longrightarrow>
    cap_invocations d' = update_by ci_id (ci_id c) (settled_cap_invocation w (cpr_status r) err) (cap_invocations d) \<Longrightarrow>
    settlement d d'"
| unknown: "c \<in> set (cap_invocations d) \<Longrightarrow> \<not> final_status (ci_status c) \<Longrightarrow> cap_results d' = cap_results d \<Longrightarrow>
    cap_invocations d' = update_by ci_id (ci_id c) (settled_cap_invocation w ''unknown'' err) (cap_invocations d) \<Longrightarrow>
    settlement d d'"

lemma new_cap_result_fields [simp]:
  "cpr_invocation_id (new_cap_result w t r j c s h p b) = ci_id c" "cpr_status (new_cap_result w t r j c s h p b) = s"
  "cpr_effect_identity (new_cap_result w t r j c s h p b) = ci_effect_identity c"
  by (simp_all add: new_cap_result_def)

lemma settlement_ok:
  assumes "settlement d d'" "cap_ok d"
  shows "cap_ok d'"
  using assms
proof (induction rule: settlement.induct)
  case (found c d r d' w)
  have "\<exists>x \<in> set (cap_results d). cpr_invocation_id x = ci_id c \<and> cpr_status x = cpr_status r"
    using found(2,3) by blast
  then show ?case by (intro settle_ok [OF found(7,5,6)]) simp
next
  case (wrote c d r d' w err)
  let ?d = "d\<lparr>cap_results := cap_results d @ [r]\<rparr>"
  have ok: "cap_ok ?d" by (rule result_ok [OF wrote(9,1,4,5,3,2)]) simp_all
  have "\<exists>x \<in> set (cap_results ?d). cpr_invocation_id x = ci_id c \<and> cpr_status x = cpr_status r"
    using wrote(4) by simp
  then show ?case using wrote(7,8) by (intro settle_ok [OF ok, of d' "ci_id c" w "cpr_status r" err]) simp_all
next
  case (unknown c d d' w err)
  show ?case by (rule settle_ok [OF unknown(5,3,4)]) (simp add: final_status_def)
qed

lemma no_result: "select_first (\<lambda>r. cpr_invocation_id r = i) rs = None \<Longrightarrow> i \<notin> cpr_invocation_id ` set rs"
  by (auto simp: select_first_None)

lemma finish_settlement:
  assumes "finish_capability w d l rc status err payload reconciled = Inr (r, d')"
  shows "settlement d d'"
proof -
  obtain c a h where c: "lookup_by ci_id (rc_id rc) (cap_invocations d) = Some c" "ci_status c \<in> {''reserved'', ''executing''}"
    "status \<in> {''succeeded'', ''failed'', ''denied'', ''unknown''}" "lookup_by ca_id (rc_attempt_id rc) (cap_attempts d) = Some a"
    using assms unfolding finish_capability_def guard_simps by blast
  have ci: "c \<in> set (cap_invocations d)" "ci_id c = rc_id rc" using lookup_by_Some [OF c(1)] by auto
  have nf: "\<not> final_status (ci_status c)" using c(2) by (auto simp: final_status_def)
  show ?thesis
  proof (cases "select_first (\<lambda>r. cpr_invocation_id r = rc_id rc) (cap_results d)")
    case (Some x)
    have "cap_results d' = cap_results d \<and>
        cap_invocations d' = update_by ci_id (ci_id c) (settled_cap_invocation w (cpr_status x) None) (cap_invocations d)"
      using assms c Some unfolding finish_capability_def guard_simps Let_def
      by (clarsimp simp: upd_capability_def upd_cap_attempt_def guard_simps simp del: insert_iff)
    with select_first_Some [OF Some] ci(2) show ?thesis
      by (intro settlement.found [OF ci(1) _ _ nf, of x _ w]) simp_all
  next
    case None
    show ?thesis
    proof (cases "status = ''unknown''")
      case True
      have "cap_results d' = cap_results d \<and>
          cap_invocations d' = update_by ci_id (ci_id c) (settled_cap_invocation w ''unknown'' err) (cap_invocations d)"
        using assms c None True unfolding finish_capability_def guard_simps Let_def
        by (clarsimp simp: upd_capability_def upd_cap_attempt_def simp del: insert_iff)
      then show ?thesis by (intro settlement.unknown [OF ci(1) nf, of _ w err]) simp_all
    next
      case False
      then obtain x where x: "r = Some x" "cpr_invocation_id x = ci_id c" "cpr_status x = status"
          "cpr_effect_identity x = ci_effect_identity c" "cap_results d' = cap_results d @ [x]"
          "cap_invocations d' = update_by ci_id (ci_id c) (settled_cap_invocation w status err) (cap_invocations d)"
        using assms c None unfolding finish_capability_def guard_simps Let_def
        by (clarsimp simp: upd_capability_def upd_cap_attempt_def insert_row_Inr guard_simps simp del: insert_iff)
      moreover have "final_status status" using c(3) False by (auto simp: final_status_def)
      ultimately show ?thesis using no_result [OF None] ci(2)
        by (intro settlement.wrote [OF ci(1) _ _ _ _ nf, of x _ w err]) simp_all
    qed
  qed
qed

lemma reconcile_settlement:
  assumes "reconcile_unknown w d l cid status payload = Inr (r, d')"
  shows "settlement d d'"
proof -
  obtain c h where c: "status \<in> {''succeeded'', ''failed'', ''denied''}" "lookup_by ci_id cid (cap_invocations d) = Some c"
    "ci_status c = ''unknown''" "canonical_json_hash (w_digest w) (PDict payload) = Inr h"
    using assms unfolding reconcile_unknown_def guard_simps by blast
  have ci: "c \<in> set (cap_invocations d)" using lookup_by_Some [OF c(2)] by auto
  have nf: "\<not> final_status (ci_status c)" using c(3) by (auto simp: final_status_def)
  show ?thesis
  proof (cases "select_first (\<lambda>r. cpr_invocation_id r = ci_id c) (cap_results d)")
    case (Some x)
    have "cpr_status x = status \<and> d' = settle_capability w (ci_id c) status d"
      using assms c Some unfolding reconcile_unknown_def guard_simps
      by (clarsimp simp del: insert_iff split: if_splits)
    with settlement.found [OF ci _ _ nf] select_first_Some [OF Some] show ?thesis by (metis settle_tables)
  next
    case None
    have "\<exists>x. r = x \<and> cpr_invocation_id x = ci_id c \<and> cpr_status x = status \<and> cpr_effect_identity x = ci_effect_identity c \<and>
        d' = settle_capability w (ci_id c) status (d\<lparr>cap_results := cap_results d @ [x]\<rparr>)"
      using assms c None unfolding reconcile_unknown_def guard_simps Let_def
      by (clarsimp simp: insert_row_Inr guard_simps simp del: insert_iff)
    then obtain x where x: "cpr_invocation_id x = ci_id c" "cpr_status x = status" "cpr_effect_identity x = ci_effect_identity c"
      "d' = settle_capability w (ci_id c) status (d\<lparr>cap_results := cap_results d @ [x]\<rparr>)" by blast
    moreover have "final_status status" using c(1) by (simp add: final_status_def)
    ultimately show ?thesis using no_result [OF None]
      by (intro settlement.wrote [OF ci _ _ _ _ nf, of x _ w None]) simp_all
  qed
qed

lemma effect_settlement:
  assumes "reconcile_unknown_effect w d l cid = Inr (r, d')"
  shows "settlement d d'"
proof -
  obtain i s p where "reconcile_unknown w d l i s p = Inr (r, d')"
    using assms unfolding reconcile_unknown_effect_def guard_simps by (auto split: option.splits)
  then show ?thesis by (rule reconcile_settlement)
qed

lemma stale_settlement:
  assumes "reconcile_stale_active_effect w d l cid = Inr (r, d')" "cap_ok d"
  shows "settlement d d'"
proof -
  obtain c where c: "lookup_by ci_id cid (cap_invocations d) = Some c" "ci_status c \<in> {''reserved'', ''executing'', ''unknown''}"
    using assms(1) unfolding reconcile_stale_active_effect_def guard_simps by blast
  have ci: "c \<in> set (cap_invocations d)" using lookup_by_Some [OF c(1)] by auto
  have nf: "\<not> final_status (ci_status c)" using c(2) by (auto simp: final_status_def)
  show ?thesis
  proof (cases "effect_receipt c d")
    case (Some x)
    have "d' = settle_capability w (ci_id c) (cpr_status x) d"
      using assms(1) c Some unfolding reconcile_stale_active_effect_def guard_simps
      by (clarsimp simp del: insert_iff)
    moreover have "x \<in> set (cap_results d)" "cpr_invocation_id x = ci_id c"
      using select_first_Some [OF Some [unfolded effect_receipt_def]] by auto
    ultimately show ?thesis by (intro settlement.found [OF ci _ _ nf]) simp_all
  next
    case None
    have no: "ci_id c \<notin> cpr_invocation_id ` set (cap_results d)"
    proof
      assume "ci_id c \<in> cpr_invocation_id ` set (cap_results d)"
      then obtain x where x: "x \<in> set (cap_results d)" "cpr_invocation_id x = ci_id c" by auto
      then obtain c' where "c' \<in> set (cap_invocations d)" "ci_id c' = ci_id c" "ci_effect_identity c' = cpr_effect_identity x"
        using assms(2) unfolding cap_ok_def by metis
      moreover from this have "c' = c" using ci assms(2) by (auto simp: cap_ok_def distinct_map dest: inj_onD)
      ultimately show False using None x by (auto simp: effect_receipt_def select_first_None)
    qed
    have "\<exists>x. r = x \<and> cpr_invocation_id x = ci_id c \<and> cpr_status x = ''failed'' \<and> cpr_effect_identity x = ci_effect_identity c \<and>
        d' = settle_capability w (ci_id c) ''failed'' (d\<lparr>cap_results := cap_results d @ [x]\<rparr>)"
      using assms(1) c None unfolding reconcile_stale_active_effect_def guard_simps Let_def
      by (clarsimp simp: insert_row_Inr guard_simps simp del: insert_iff)
    then obtain x where "cpr_invocation_id x = ci_id c" "cpr_status x = ''failed''" "cpr_effect_identity x = ci_effect_identity c"
      "d' = settle_capability w (ci_id c) ''failed'' (d\<lparr>cap_results := cap_results d @ [x]\<rparr>)" by blast
    then show ?thesis using no
      by (intro settlement.wrote [OF ci _ _ _ _ nf, of x _ w None]) (simp_all add: final_status_def)
  qed
qed

section \<open>The steps\<close>

lemma reserved_ok:
  assumes "reserve_capability w d l segment cap dec binding = Inr (rc, d')" "cap_ok d"
  shows "cap_ok d'"
proof -
  from assms(1) obtain dh bh eid c where r: "\<forall>c \<in> set (cap_invocations d). \<not> (ci_tenant_id c = jl_tenant_id l \<and> ci_effect_identity c = eid)"
    "c = new_cap_invocation w d l segment cap dh bh eid" "ci_id c \<notin> ci_id ` set (cap_invocations d)"
    "cap_invocations d' = cap_invocations d @ [c]" "cap_results d' = cap_results d" by (rule reserve_capability_Inr)
  have c: "ci_tenant_id c = jl_tenant_id l" "ci_effect_identity c = eid" "\<not> final_status (ci_status c)"
    by (simp_all add: r(2) new_cap_invocation_def final_status_def)
  have "distinct (map ci_id (cap_invocations d'))"
    using assms(2) r(3) distinct_append_keys [of ci_id "cap_invocations d" "[c]"] by (simp add: cap_ok_def r(4))
  moreover have "distinct (map (\<lambda>c. (ci_tenant_id c, ci_effect_identity c)) (cap_invocations d'))"
    unfolding r(4) using assms(2) r(1) c
    by (intro distinct_append_keys) (auto simp: cap_ok_def)
  moreover have "\<forall>x \<in> set (cap_results d'). final_status (cpr_status x) \<and>
      (\<exists>c \<in> set (cap_invocations d'). ci_id c = cpr_invocation_id x \<and> ci_effect_identity c = cpr_effect_identity x)"
    using assms(2) by (simp add: cap_ok_def r(4,5))
  moreover have "\<forall>x \<in> set (cap_invocations d'). final_status (ci_status x) \<longrightarrow>
      (\<exists>r \<in> set (cap_results d'). cpr_invocation_id r = ci_id x \<and> cpr_status r = ci_status x)"
    using assms(2) c(3) by (simp add: cap_ok_def r(4,5))
  moreover have "distinct (map cpr_invocation_id (cap_results d'))" using assms(2) by (simp add: cap_ok_def r(5))
  ultimately show ?thesis unfolding cap_ok_def by blast
qed

lemma cap_step_ok: "cap_step d d' \<Longrightarrow> cap_ok d \<Longrightarrow> cap_ok d'"
proof (induction rule: cap_step.induct)
  case (receipt c d r d')
  then show ?case by (intro result_ok [OF receipt(7,1-3) _ receipt(5)]) (simp_all add: final_status_def)
qed (blast intro: reserved_ok settlement_ok finish_settlement reconcile_settlement effect_settlement stale_settlement cap_ok_cong)+

interpretation effects: invariant_steps cap_step cap_ok
  by unfold_locales (rule cap_step_ok)

text \<open>No step removes a result or an invocation, changes its scope, or changes a settled invocation.\<close>

definition cap_grows :: "db \<Rightarrow> db \<Rightarrow> bool" where
  "cap_grows d d' =
     (set (cap_results d) \<subseteq> set (cap_results d') \<and>
      (\<forall>c \<in> set (cap_invocations d). \<exists>c' \<in> set (cap_invocations d'). ci_id c' = ci_id c \<and>
         ci_tenant_id c' = ci_tenant_id c \<and> ci_effect_identity c' = ci_effect_identity c \<and>
         (final_status (ci_status c) \<longrightarrow> c' = c)))"

lemma cap_grows_refl [simp]: "cap_grows d d"
  by (auto simp: cap_grows_def)

lemma cap_grows_trans: "cap_grows d1 d2 \<Longrightarrow> cap_grows d2 d3 \<Longrightarrow> cap_grows d1 d3"
  unfolding cap_grows_def by (metis subset_trans)

lemma update_grows:
  assumes "cap_ok d" "c \<in> set (cap_invocations d)" "\<not> final_status (ci_status c)"
    "cap_invocations d' = update_by ci_id (ci_id c) (settled_cap_invocation w s err) (cap_invocations d)"
    "set (cap_results d) \<subseteq> set (cap_results d')"
  shows "cap_grows d d'"
  unfolding cap_grows_def
proof (intro conjI ballI)
  fix x assume x: "x \<in> set (cap_invocations d)"
  let ?x = "if ci_id x = ci_id c then settled_cap_invocation w s err x else x"
  have "?x \<in> set (cap_invocations d')" unfolding assms(4) in_update_by using x by blast
  moreover have "x = c" if "ci_id x = ci_id c"
    using x assms(1,2) that by (auto simp: cap_ok_def distinct_map dest: inj_onD)
  ultimately show "\<exists>c' \<in> set (cap_invocations d'). ci_id c' = ci_id x \<and> ci_tenant_id c' = ci_tenant_id x \<and>
      ci_effect_identity c' = ci_effect_identity x \<and> (final_status (ci_status x) \<longrightarrow> c' = x)"
    using assms(3) by (intro bexI [of _ ?x]) (auto simp: settled_cap_invocation_def)
qed (rule assms(5))

lemma settlement_grows: "settlement d d' \<Longrightarrow> cap_ok d \<Longrightarrow> cap_grows d d'"
proof (induction rule: settlement.induct)
  case (found c d r d' w)
  then show ?case by (intro update_grows [OF found(7,1,4,6)]) simp
next
  case (wrote c d r d' w err)
  then show ?case by (intro update_grows [OF wrote(9,1,6,8)]) auto
next
  case (unknown c d d' w err)
  then show ?case by (intro update_grows [OF unknown(5,1,2,4)]) simp
qed

lemma cap_step_grows: "cap_step d d' \<Longrightarrow> cap_ok d \<Longrightarrow> cap_grows d d'"
proof (induction rule: cap_step.induct)
  case (reserved w d l segment cap dec binding rc d')
  from reserved(1) obtain c where "cap_invocations d' = cap_invocations d @ [c]" "cap_results d' = cap_results d"
    by (rule reserve_capability_Inr)
  then show ?case unfolding cap_grows_def by auto
next
  case (receipt c d r d')
  then show ?case by (auto simp: cap_grows_def)
next
  case (other d' d)
  then show ?case by (auto simp: cap_grows_def)
qed (blast intro: settlement_grows finish_settlement reconcile_settlement effect_settlement stale_settlement)+

lemma cap_steps_grow:
  assumes "cap_step\<^sup>*\<^sup>* d d'" "cap_ok d"
  shows "cap_grows d d'"
  using effects.steps_keep [OF assms, where P = "cap_grows d"] cap_step_grows cap_grows_trans by auto

section \<open>Properties\<close>

text \<open>C38. An effect is reserved once: after a reservation, whatever the ledgers and other workers do, the same
  decision on the same evidence in the same segment of the run is never reserved again.\<close>

theorem effect_reserved_once:
  assumes "reserve_capability w d l segment cap dec binding = Inr (rc, d1)" "cap_ok d" "cap_step\<^sup>*\<^sup>* d1 d2"
    and "w_digest w' = w_digest w" "jl_tenant_id l' = jl_tenant_id l" "jl_run_id l' = jl_run_id l"
  shows "reserve_capability w' d2 l' segment cap dec binding =
    (case assert_fence (w_now w') d2 l' of Inl e \<Rightarrow> Inl e
     | Inr _ \<Rightarrow> Inl (RuntimeConflict ''policy_capability_already_reserved''))"
proof -
  from assms(1) obtain dh bh eid c where r: "canonical_json_hash (w_digest w) (PDict (decision_dump dec)) = Inr dh"
    "canonical_json_hash (w_digest w) binding = Inr bh"
    "canonical_json_hash (w_digest w) (PDict (effect_scope l segment cap dh bh)) = Inr eid"
    "c = new_cap_invocation w d l segment cap dh bh eid" "cap_invocations d1 = cap_invocations d @ [c]"
    by (rule reserve_capability_Inr)
  have guards: "dec \<noteq> UntypedDecision" "decision_capability dec = Some cap" "decision_binding dec = Some bh"
    using assms(1) r(1,2) unfolding reserve_capability_def guard_simps by auto
  have "cap_grows d1 d2" using cap_steps_grow [OF assms(3) reserved_ok [OF assms(1,2)]] .
  then obtain c' where "c' \<in> set (cap_invocations d2)" "ci_tenant_id c' = jl_tenant_id l" "ci_effect_identity c' = eid"
    unfolding cap_grows_def using r(4,5) by (force simp: new_cap_invocation_def)
  then have "select_first (\<lambda>c. ci_tenant_id c = jl_tenant_id l \<and> ci_effect_identity c = eid) (cap_invocations d2) \<noteq> None"
    by (auto simp: select_first_None simp del: not_None_eq)
  moreover have "effect_scope l' segment cap dh bh = effect_scope l segment cap dh bh"
    by (simp add: effect_scope_def assms(5,6))
  ultimately show ?thesis
    using guards r(1-3) by (auto simp: reserve_capability_def assms(4-6) split: sum.split)
qed

text \<open>C39. The recorded outcome of an effect is final.  Once a result is there, such as the receipt of an effect
  that was committed, it stays the only result of its invocation, and the invocation can only be
  settled with its status: a committed effect is never reported as failed.\<close>

theorem recorded_outcome_is_final:
  assumes "cap_step\<^sup>*\<^sup>* d d'" "cap_ok d" "r \<in> set (cap_results d)"
  shows "filter (\<lambda>x. cpr_invocation_id x = cpr_invocation_id r) (cap_results d') = [r] \<and>
    (\<forall>c \<in> set (cap_invocations d'). ci_id c = cpr_invocation_id r \<longrightarrow>
       ci_status c \<in> {''succeeded'', ''failed'', ''denied''} \<longrightarrow> ci_status c = cpr_status r)"
proof -
  have ok: "cap_ok d'" using effects.steps_inv assms(1,2) by blast
  have r: "r \<in> set (cap_results d')" using cap_steps_grow [OF assms(1,2)] assms(3) by (auto simp: cap_grows_def)
  have dist: "distinct (map cpr_invocation_id (cap_results d'))" using ok by (simp add: cap_ok_def)
  have one: "x = r" if "x \<in> set (cap_results d')" "cpr_invocation_id x = cpr_invocation_id r" for x
    using dist r that by (auto simp: distinct_map dest: inj_onD)
  have "length (filter (\<lambda>x. cpr_invocation_id x = cpr_invocation_id r) (cap_results d')) = 1"
    using filter_key_one [OF dist] r by blast
  moreover have "r \<in> set (filter (\<lambda>x. cpr_invocation_id x = cpr_invocation_id r) (cap_results d'))" using r by simp
  ultimately have "filter (\<lambda>x. cpr_invocation_id x = cpr_invocation_id r) (cap_results d') = [r]"
    by (metis One_nat_def empty_iff length_0_conv length_Suc_conv list.set(1) set_ConsD)
  moreover have "ci_status c = cpr_status r"
    if "c \<in> set (cap_invocations d')" "ci_id c = cpr_invocation_id r" "final_status (ci_status c)" for c
    using ok that one unfolding cap_ok_def by metis
  ultimately show ?thesis by (simp add: final_status_def)
qed

text \<open>C40. A worker with a newer lease always settles an effect its predecessor left open.  With a receipt the
  effect takes the receipt's status, without one it is recorded as failed and not applied; no attempt
  of it stays open.\<close>

theorem stale_effect_converges:
  assumes "assert_fence (w_now w) d l = Inr j" "lookup_by ci_id cid (cap_invocations d) = Some c"
    and "ci_tenant_id c = jl_tenant_id l" "ci_run_id c = jl_run_id l" "ci_job_id c = jl_job_id l"
    and "ci_fencing_token c < jl_fencing_token l" "ci_status c \<in> {''reserved'', ''executing'', ''unknown''}"
    and "w_new_id w ''capresult'' \<notin> cpr_id ` set (cap_results d)"
  shows "\<exists>r d'. reconcile_stale_active_effect w d l cid = Inr (r, d') \<and>
    cpr_status r = (case effect_receipt c d of Some x \<Rightarrow> cpr_status x | None \<Rightarrow> ''failed'') \<and>
    (effect_receipt c d = None \<longrightarrow> dget (cpr_payload r) ''effect_status'' = PStr ''not_applied'') \<and>
    r \<in> set (cap_results d') \<and>
    map_option ci_status (lookup_by ci_id cid (cap_invocations d')) = Some (cpr_status r) \<and>
    (\<forall>a \<in> set (cap_attempts d'). ca_invocation_id a = cid \<longrightarrow> ca_status a = attempt_status_of (cpr_status r))"
proof -
  have id: "ci_id c = cid" using lookup_by_Some [OF assms(2)] by simp
  have settled: "map_option ci_status (lookup_by ci_id cid (cap_invocations (settle_capability w cid s x))) = Some s \<and>
      (\<forall>a \<in> set (cap_attempts (settle_capability w cid s x)). ca_invocation_id a = cid \<longrightarrow> ca_status a = attempt_status_of s)"
    if "cap_invocations x = cap_invocations d" for s x
  proof -
    have "lookup_by ci_id cid (cap_invocations (settle_capability w cid s x)) = Some (settled_cap_invocation w s None c)"
      using that assms(2) by (simp add: lookup_by_update_by settled_cap_invocation_def)
    then show ?thesis using settle_attempts by (simp add: settled_cap_invocation_def)
  qed
  show ?thesis
  proof (cases "effect_receipt c d")
    case (Some x)
    have "reconcile_stale_active_effect w d l cid = Inr (x, settle_capability w cid (cpr_status x) d)"
      using assms id Some by (simp add: reconcile_stale_active_effect_def del: insert_iff)
    moreover have "x \<in> set (cap_results d)"
      using select_first_Some [OF Some [unfolded effect_receipt_def]] by blast
    ultimately show ?thesis using settled [of d "cpr_status x"] Some by simp
  next
    case None
    obtain h where h: "canonical_json_hash (w_digest w) (PDict (unprovable_payload c)) = Inr h"
      by (simp add: canonical_json_hash_def canonical_json_bytes_def json_project_id unprovable_payload_def)
    define r where "r = new_cap_result w (ci_tenant_id c) (ci_run_id c) (ci_job_id c) c ''failed'' h (unprovable_payload c) True"
    have r: "cpr_id r = w_new_id w ''capresult''" "cpr_status r = ''failed''" "cpr_payload r = unprovable_payload c"
      by (simp_all add: r_def new_cap_result_def)
    have "reconcile_stale_active_effect w d l cid =
        Inr (r, settle_capability w cid ''failed'' (d\<lparr>cap_results := cap_results d @ [r]\<rparr>))"
      using assms id None h r(1)
      by (simp add: reconcile_stale_active_effect_def insert_row_def r_def Let_def del: insert_iff)
    then show ?thesis using settled [of "d\<lparr>cap_results := cap_results d @ [r]\<rparr>" "''failed''"] None r
      by (simp add: unprovable_payload_def dget_def)
  qed
qed

section \<open>Evaluated examples\<close>

definition sample_escalation :: causal_decision where
  "sample_escalation = EscalationCausalDecisionV2
     \<lparr>fd_model_arguments = [], fd_observation_binding_hash = sample_digest [], fd_policy_version = ''v1'',
      ed_capability_name = ''create_support_escalation'', ed_ticket_id = ''t1'', ed_ticket_version = 1,
      ed_customer_id = ''c1''\<rparr>"

definition sample_capability :: policy_capability_invocation where
  "sample_capability = new_cap_invocation sample_world empty_db (sample_lease 1) ''s1'' ''create_support_escalation''
     (sample_digest []) (sample_digest []) (sample_digest [])"

definition reserved_db :: db where
  "reserved_db = refence 1 (empty_db\<lparr>cap_invocations := [sample_capability],
     cap_attempts := [new_cap_attempt sample_world (sample_lease 1) (ci_id sample_capability)]\<rparr>)"

definition sample_receipt :: policy_capability_result where
  "sample_receipt = new_cap_result sample_world ''acme'' ''r1'' ''j1'' sample_capability ''succeeded'' (sample_digest [])
     [(''escalation_id'', PStr ''x'')] False"

lemma sample_capability_fields:
  "ci_id sample_capability = ''capability_1''" "ci_tenant_id sample_capability = ''acme''"
  "ci_run_id sample_capability = ''r1''" "ci_job_id sample_capability = ''j1''"
  "ci_fencing_token sample_capability = 1" "ci_status sample_capability = ''reserved''"
  by (simp_all add: sample_capability_def new_cap_invocation_def sample_world_def)

lemma sample_hash: "json_ok v \<Longrightarrow> canonical_json_hash (w_digest sample_world) v = Inr (sample_digest [])"
  by (simp add: canonical_json_hash_def canonical_json_bytes_def json_project_id sample_world_def sample_digest_def)

lemma sample_reservation:
  "\<exists>rc. reserve_capability sample_world (refence 1 empty_db) (sample_lease 1) ''s1'' ''create_support_escalation''
     sample_escalation (PList []) = Inr (rc, reserved_db)"
proof -
  have "assert_fence (w_now sample_world) (refence 1 empty_db) (sample_lease 1) = Inr (sample_leased 1)"
    by (rule refence_fence) simp_all
  moreover have "new_cap_invocation sample_world (refence 1 empty_db) (sample_lease 1) ''s1'' ''create_support_escalation''
     (sample_digest []) (sample_digest []) (sample_digest []) = sample_capability"
    by (simp add: sample_capability_def new_cap_invocation_def)
  ultimately show ?thesis
    by (simp add: reserve_capability_def sample_escalation_def sample_hash frozen_dump_def effect_scope_def
        insert_row_def reserved_db_def refence_def empty_db_def select_first_def Let_def)
qed

lemma empty_cap_ok: "cap_ok (refence n empty_db)"
  by (simp add: cap_ok_def empty_db_def)

lemma reserved_db_ok: "cap_ok reserved_db"
  using sample_reservation reserved_ok empty_cap_ok by blast

theorem effect_reserved_once_witness:
  "reserve_capability sample_world reserved_db (sample_lease 1) ''s1'' ''create_support_escalation''
     sample_escalation (PList []) = Inl (RuntimeConflict ''policy_capability_already_reserved'')"
proof -
  obtain rc where rc: "reserve_capability sample_world (refence 1 empty_db) (sample_lease 1) ''s1''
      ''create_support_escalation'' sample_escalation (PList []) = Inr (rc, reserved_db)"
    using sample_reservation by blast
  have "assert_fence (w_now sample_world) reserved_db (sample_lease 1) = Inr (sample_leased 1)"
    by (rule refence_fence) (simp_all add: reserved_db_def refence_def)
  with effect_reserved_once [OF rc empty_cap_ok rtranclp.rtrancl_refl, of sample_world "sample_lease 1"]
  show ?thesis by simp
qed

lemma sample_takeover:
  assumes "cap_invocations d = [sample_capability]"
  shows "assert_fence (w_now sample_world) (refence 2 d) (sample_lease 2) = Inr (sample_leased 2)"
    "lookup_by ci_id ''capability_1'' (cap_invocations (refence 2 d)) = Some sample_capability"
  by (rule refence_fence, simp_all add: assms lookup_by_def sample_capability_fields)

theorem stale_effect_converges_witness:
  "\<exists>r d'. reconcile_stale_active_effect sample_world (refence 2 reserved_db) (sample_lease 2) ''capability_1'' = Inr (r, d') \<and>
     cpr_status r = ''failed'' \<and> dget (cpr_payload r) ''effect_status'' = PStr ''not_applied''"
proof -
  have none: "effect_receipt sample_capability (refence 2 reserved_db) = None" "cap_results (refence 2 reserved_db) = []"
    by (simp_all add: effect_receipt_def select_first_def reserved_db_def empty_db_def)
  have "cap_invocations reserved_db = [sample_capability]" by (simp add: reserved_db_def)
  note t = sample_takeover [OF this]
  from stale_effect_converges [OF t] none show ?thesis by (simp add: sample_capability_fields) blast
qed

theorem recorded_outcome_is_final_witness:
  "\<exists>r d'. reconcile_stale_active_effect sample_world (refence 2 (reserved_db\<lparr>cap_results := [sample_receipt]\<rparr>))
       (sample_lease 2) ''capability_1'' = Inr (r, d') \<and>
     (\<forall>c \<in> set (cap_invocations d'). ci_id c = ''capability_1'' \<longrightarrow> ci_status c \<noteq> ''failed'')"
proof -
  let ?d = "reserved_db\<lparr>cap_results := [sample_receipt]\<rparr>"
  have c: "sample_capability \<in> set (cap_invocations reserved_db)" "cap_results reserved_db = []"
    by (simp_all add: reserved_db_def empty_db_def)
  have r: "cpr_invocation_id sample_receipt = ''capability_1''" "cpr_status sample_receipt = ''succeeded''"
    "cpr_effect_identity sample_receipt = ci_effect_identity sample_capability"
    by (simp_all add: sample_receipt_def sample_capability_fields)
  have step: "cap_step reserved_db ?d"
    by (rule cap_step.receipt [OF c(1), of sample_receipt]) (simp_all add: c(2) r sample_capability_fields)
  then have ok: "cap_ok ?d" using cap_step_ok reserved_db_ok by blast
  have ivs: "cap_invocations ?d = [sample_capability]" by (simp add: reserved_db_def)
  have "effect_receipt sample_capability (refence 2 ?d) = Some sample_receipt"
    by (simp add: effect_receipt_def select_first_def r sample_capability_fields)
  then obtain d' where d': "reconcile_stale_active_effect sample_world (refence 2 ?d) (sample_lease 2) ''capability_1'' = Inr (sample_receipt, d')"
    using sample_takeover [OF ivs] by (simp add: reconcile_stale_active_effect_def sample_capability_fields)
  have "cap_step\<^sup>*\<^sup>* ?d d'"
    using cap_step.other [of "refence 2 ?d" ?d] cap_step.stale [OF d'] by (meson converse_rtranclp_into_rtranclp r_into_rtranclp refence_tables)
  from recorded_outcome_is_final [OF this ok, of sample_receipt] r d' show ?thesis by auto
qed

end
