(* ===== verification/Delivery_Guarantees.thy ===== *)
theory Delivery_Guarantees
  imports Job_Fencing Failure_Convergence
begin

text \<open>
  The guarantees of delivery over any interleaving of the queue operations, the dispatcher, the workers and the
  reconciler: a job has at most five deliveries, numbered without gaps or repetitions, so that redelivery ends;
  and a worker that has finished its delivery no longer holds its job.
\<close>

section \<open>The deliveries of a job\<close>

definition delivery_key :: "outbox_event \<Rightarrow> string \<times> string \<times> nat" where
  "delivery_key e = (ox_id e, ox_job_id e, ox_delivery_generation e)"

definition delivery_keys :: "db \<Rightarrow> (string \<times> string \<times> nat) list" where
  "delivery_keys d = map delivery_key (outbox d)"

definition job_ids :: "db \<Rightarrow> string set" where
  "job_ids d = job_id ` set (jobs d)"

definition deliveries_ok :: "db \<Rightarrow> bool" where
  "deliveries_ok d \<longleftrightarrow>
     (\<forall>(i, j, g) \<in> set (delivery_keys d). 1 \<le> g \<and> g \<le> MAX_DELIVERY_GENERATION \<and> j \<in> job_ids d) \<and>
     distinct (map fst (delivery_keys d)) \<and> distinct (map snd (delivery_keys d))"

text \<open>A step keeps the deliveries in order and removes none.\<close>

definition delivery_extends :: "db \<Rightarrow> db \<Rightarrow> bool" where
  "delivery_extends d d' \<longleftrightarrow> (deliveries_ok d \<longrightarrow> deliveries_ok d') \<and> set (delivery_keys d) \<subseteq> set (delivery_keys d')"

lemma delivery_extends_refl [simp]: "delivery_extends d d"
  by (simp add: delivery_extends_def)

lemma delivery_extends_trans [trans]: "delivery_extends d d1 \<Longrightarrow> delivery_extends d1 d2 \<Longrightarrow> delivery_extends d d2"
  by (auto simp: delivery_extends_def)

lemma delivery_extends_same:
  assumes "delivery_keys d' = delivery_keys d" "job_ids d \<subseteq> job_ids d'"
  shows "delivery_extends d d'"
  using assms by (auto simp: delivery_extends_def deliveries_ok_def)

lemma delivery_extends_snoc:
  assumes "delivery_keys d' = delivery_keys d @ [(i, j, g)]" "job_ids d \<subseteq> job_ids d'"
    and "deliveries_ok d \<Longrightarrow> 1 \<le> g \<and> g \<le> MAX_DELIVERY_GENERATION \<and> j \<in> job_ids d' \<and> i \<notin> fst ` set (delivery_keys d) \<and>
      (j, g) \<notin> snd ` set (delivery_keys d)"
  shows "delivery_extends d d'"
  using assms by (auto simp: delivery_extends_def deliveries_ok_def)

lemma grown_job_ids:
  assumes "\<And>j. j \<in> set (jobs d) \<Longrightarrow> \<exists>k \<in> set (jobs d'). job_grows j k"
  shows "job_ids d \<subseteq> job_ids d'"
proof
  fix i assume "i \<in> job_ids d"
  then obtain j where "j \<in> set (jobs d)" "i = job_id j" by (auto simp: job_ids_def)
  moreover from this obtain k where "k \<in> set (jobs d')" "job_id k = job_id j"
    using assms [of j] by (auto simp: job_grows_def same_job_def)
  ultimately show "i \<in> job_ids d'" unfolding job_ids_def by (metis imageI)
qed

lemma quiet_job_ids: "quiet_jobs (jobs d) (jobs d') \<Longrightarrow> job_ids d \<subseteq> job_ids d'"
  by (rule grown_job_ids) (rule quiet_jobs_grow)

lemma job_step_job_ids: "job_step d d' \<Longrightarrow> job_ids d \<subseteq> job_ids d'"
  by (rule grown_job_ids) (rule job_step_grow)

section \<open>Which operations add a delivery\<close>

text \<open>Starting a turn adds the first delivery of a new job; nothing but the reconciler adds another one.\<close>

definition opens :: "db \<Rightarrow> db \<Rightarrow> bool" where
  "opens d d' \<longleftrightarrow> delivery_keys d' = delivery_keys d \<or>
     (\<exists>i j. delivery_keys d' = delivery_keys d @ [(i, j, 1)] \<and> j \<notin> job_ids d \<and> j \<in> job_ids d' \<and>
        i \<notin> fst ` set (delivery_keys d))"

lemma opens_extends: "opens d d' \<Longrightarrow> job_ids d \<subseteq> job_ids d' \<Longrightarrow> delivery_extends d d'"
  unfolding opens_def
proof (elim disjE exE conjE)
  fix i j
  assume *: "delivery_keys d' = delivery_keys d @ [(i, j, 1)]" "j \<notin> job_ids d" "j \<in> job_ids d'"
    "i \<notin> fst ` set (delivery_keys d)" and sub: "job_ids d \<subseteq> job_ids d'"
  show ?thesis
    by (rule delivery_extends_snoc [OF *(1) sub])
      (use * in \<open>auto simp: deliveries_ok_def MAX_DELIVERY_GENERATION_def\<close>)
qed (rule delivery_extends_same)

lemma opens_cong:
  assumes "opens d1 d2" "outbox d1 = outbox d" "job_ids d1 = job_ids d" "outbox d' = outbox d2" "jobs d' = jobs d2"
  shows "opens d d'"
  using assms by (simp add: opens_def delivery_keys_def job_ids_def)

lemma upd_outbox [simp]:
  "outbox (upd_run i f d) = outbox d" "outbox (upd_turn i g d) = outbox d" "outbox (upd_ticket i h d) = outbox d"
  "outbox (upd_approval i k d) = outbox d" "outbox (upd_job i m d) = outbox d"
  by (simp_all add: upd_defs)

lemma job_ids_keys: "job_ids d = set (map job_id (jobs d))"
  by (simp add: job_ids_def)

lemma upd_job_ids:
  "(\<And>j. job_id (f j) = job_id j) \<Longrightarrow> job_ids (upd_job i f d) = job_ids d"
  "job_ids (upd_run i g d) = job_ids d"
  unfolding job_ids_keys by (simp_all add: upd_defs update_by_keys del: set_map)

lemma released_job_id [simp]: "job_id (released_job s j) = job_id j"
  by (simp add: released_job_def transition_runtime_job_status_def)

lemma transition_job_id [simp]: "job_id (transition_runtime_job_status s j) = job_id j"
  by (simp add: transition_runtime_job_status_def)

lemma activate_next_turn_opens:
  assumes "activate_next_turn w d tk trace = Inr (x, d')"
  shows "opens d d'"
proof (cases x)
  case None
  with assms activate_next_turn_None have "d' = d" by simp
  then show ?thesis by (simp add: opens_def)
next
  case (Some rj)
  then obtain r job where rj: "x = Some (r, job)" by (cases rj) simp
  obtain t r0 d1 ob where *: "ox_job_id ob = job_id job" "ox_delivery_generation ob = 1"
    "ox_id ob \<notin> ox_id ` set (outbox d)" "job_id job \<notin> job_id ` set (jobs d)"
    "d' = (bind_turn tk t r0 d1)\<lparr>jobs := jobs d @ [job], outbox := outbox d @ [ob]\<rparr>"
    by (rule activate_next_turn_Some [OF assms [unfolded rj]])
  then have "fst ` set (delivery_keys d) = ox_id ` set (outbox d)" "outbox d' = outbox d @ [ob]" "jobs d' = jobs d @ [job]"
    by (auto simp: delivery_keys_def delivery_key_def image_image)
  with * show ?thesis unfolding opens_def
    by (intro disjI2 exI [of _ "ox_id ob"] exI [of _ "job_id job"])
      (simp add: delivery_keys_def delivery_key_def job_ids_def)
qed

lemma converge_ticket_outbox: "converge_ticket d tk s = (st, d') \<Longrightarrow> outbox d' = outbox d"
  by (auto simp: converge_ticket_def Let_def split: if_splits)

lemma release_lane_opens:
  assumes "release_lane w job tid d = Inr d'"
  shows "opens d d'"
  using assms
proof (cases rule: release_lane_cases)
  case (released tk x d1 st tk1)
  show ?thesis
    by (rule opens_cong [OF activate_next_turn_opens [OF released(1)] refl refl
          converge_ticket_outbox [OF released(2)] converge_ticket_frame(2) [OF released(2)]])
qed (simp add: opens_def)

lemma failure_outbox:
  "publish_failure w job r c tk d = Inr d' \<Longrightarrow> outbox d' = outbox d"
  "fail_approval job d = Inr d' \<Longrightarrow> outbox d' = outbox d"
  "outbox (fail_run w r reason d) = outbox d" "outbox (abort_markers job d) = outbox d"
  by (auto simp: publish_failure_def fail_run_def abort_markers_def fail_approval_def Let_def
      dest!: transition_approval_Inr split: if_splits option.splits sum.splits prod.splits)

lemma converge_dead_aggregates_opens:
  assumes "converge_dead_aggregates w d job r reason = Inr d'"
  shows "opens d d'"
  using assms
proof (rule converge_dead_aggregates_Inr)
  fix d2 d3
  let ?d1 = "fail_run w r reason d"
  assume 2: "(case lookup_by tk_id (run_ticket_id r) (tickets ?d1) of None \<Rightarrow> Inr ?d1
      | Some tk \<Rightarrow> if tk_automation_mode tk \<noteq> ''human_queue'' then publish_failure w job r
          (case classify_public_failure (PStr reason) of None \<Rightarrow> Runtime | Some c \<Rightarrow> c) tk ?d1
          else Inr ?d1) = Inr d2"
    and 3: "fail_approval job d2 = Inr d3" and 4: "release_lane w job (run_ticket_id r) (abort_markers job d3) = Inr d'"
  have "outbox d2 = outbox d" "jobs d2 = jobs d"
    using 2 failure_outbox(1) publish_failure_jobs by (auto simp: failure_outbox split: option.splits if_splits)
  then have "outbox (abort_markers job d3) = outbox d" "job_ids (abort_markers job d3) = job_ids d"
    using failure_outbox(2) [OF 3] fail_approval_jobs [OF 3] by (simp_all add: failure_outbox job_ids_def)
  then show ?thesis by (rule opens_cong [OF release_lane_opens [OF 4] _ _ refl refl])
qed

lemma dead_opens:
  assumes "d' = d1 \<or> (\<exists>w job r reason. converge_dead_aggregates w d1 job r reason = Inr d')"
    and "outbox d1 = outbox d" "job_ids d1 = job_ids d"
  shows "opens d d'"
  using assms(1)
proof (elim disjE exE)
  fix w job r reason
  assume "converge_dead_aggregates w d1 job r reason = Inr d'"
  then show ?thesis using opens_cong [OF converge_dead_aggregates_opens assms(2,3) refl refl] by blast
qed (simp add: opens_def delivery_keys_def assms(2))

lemma fail_opens:
  assumes "fail w d l e ma mg = Inr (st, d')"
  shows "opens d d'"
proof -
  obtain job r dec where dec: "retry_decision_of (w_digest w) (job_id job) (job_attempt job) (job_created_at job)
      (w_now w) ma mg = Inr dec" and *: "assert_fence (w_now w) d l = Inr job"
    "lookup_by run_id (jl_run_id l) (runs d) = Some r"
    using assms by (auto simp: fail_def split: sum.splits option.splits)
  let ?d1 = "upd_job (job_id job) (\<lambda>j. (released_job (rd_next_status dec) j)
      \<lparr>job_last_error := Some (take_chars 128 e), job_available_at := rd_available_at dec\<rparr>) d"
  obtain f where "converge_dead_aggregates w (upd_run (run_id r) f ?d1) job r e = Inr d' \<or> d' = upd_run (run_id r) f ?d1"
    using assms dec * by (auto simp: fail_def Let_def split: sum.splits if_splits)
  moreover have "job_ids (upd_run i g ?d1) = job_ids d" "outbox (upd_run i g ?d1) = outbox d" for i g
    by (simp_all add: upd_job_ids)
  ultimately show ?thesis using dead_opens by blast
qed

lemma terminal_fail_opens:
  assumes "terminal_fail w d l e = Inr (st, d')"
  shows "opens d d'"
proof -
  obtain job r d2 f where c: "converge_dead_aggregates w (upd_job (job_id job)
      (\<lambda>j. (released_job ''dead'' j)\<lparr>job_last_error := Some (take_chars 128 e)\<rparr>) d) job r e = Inr d2"
    and d': "d' = upd_run (run_id r) f d2"
    using assms by (auto simp: terminal_fail_def Let_def split: sum.splits option.splits)
  show ?thesis
    by (rule opens_cong [OF converge_dead_aggregates_opens [OF c]]) (simp_all add: upd_job_ids d' upd_run_def)
qed

lemma settle_job_opens:
  assumes "settle_job w d l out f = Inr (out', d')"
  shows "opens d d'"
proof -
  have "outbox x = outbox d" if "complete w d l o' = Inr x" for x o'
    using that by (auto simp: complete_def split: sum.splits option.splits)
  with assms show ?thesis
    by (auto simp: settle_job_def Let_def opens_def [where d' = d] dest: fail_opens terminal_fail_opens
        split: option.splits if_splits handler_failure.splits sum.splits)
      (simp_all add: opens_def delivery_keys_def)
qed

lemma finish_delivery_opens:
  assumes "finish_delivery w grp adm out f d = Inr (r, d')"
  shows "opens d d'"
  by (rule finish_delivery_settles_job [OF assms]) (rule opens_cong [OF settle_job_opens refl refl])

lemma claim_outbox_keys [simp]: "delivery_keys (snd (claim_outbox now later n d)) = delivery_keys d"
  by (simp add: claim_outbox_def Let_def delivery_keys_def delivery_key_def)

lemma mark_published_keys [simp]: "delivery_keys (snd (mark_published now rid i d)) = delivery_keys d"
  by (simp add: mark_published_def delivery_keys_def delivery_key_def update_by_def split: option.splits)

lemma claim_outbox_same: "claim w d jid owner n = Inr (l, d') \<Longrightarrow> outbox d' = outbox d"
  by (erule claim_Inr) (simp add: claim_writes_def Let_def)

lemma accept_delivery_outbox:
  assumes "accept_delivery w grp consumer n env d = Inr (a, d')"
  shows "outbox d' = outbox d"
  using assms unfolding accept_delivery_def Let_def
  by (auto simp: add_queue_audit_Inr refuse_delivery_def Let_def
      dest!: record_delivery_frame(2) claim_outbox_same split: if_splits sum.splits error.splits)

section \<open>Redelivery\<close>

lemma latest_outbox_Some:
  assumes "latest_outbox d i = Some e"
  shows "e \<in> set (outbox d)" "ox_job_id e = i"
    "(k, i, g) \<in> set (delivery_keys d) \<Longrightarrow> g \<le> ox_delivery_generation e"
proof -
  let ?xs = "filter (\<lambda>e. ox_job_id e = i) (outbox d)"
  obtain ys where ys: "sort_desc ox_delivery_generation ?xs = e # ys"
    using assms by (auto simp: latest_outbox_def split: list.splits)
  then have "e \<in> set ?xs" using set_sort_desc [of ox_delivery_generation ?xs] by auto
  then show "e \<in> set (outbox d)" "ox_job_id e = i" by auto
  show "g \<le> ox_delivery_generation e" if "(k, i, g) \<in> set (delivery_keys d)"
    using that sort_desc_hd_max [OF _ ys] by (auto simp: delivery_keys_def delivery_key_def)
qed

lemma latest_outbox_None:
  assumes "latest_outbox d i = None"
  shows "(k, i, g) \<notin> set (delivery_keys d)"
proof -
  have "filter (\<lambda>e. ox_job_id e = i) (outbox d) = []"
    using assms by (auto simp: latest_outbox_def split: list.splits)
  then show ?thesis by (auto simp: delivery_keys_def delivery_key_def filter_empty_conv)
qed

lemma next_generation_above: "(k, i, g) \<in> set (delivery_keys d) \<Longrightarrow> g < next_generation (latest_outbox d i)"
  using latest_outbox_Some(3) latest_outbox_None
  by (fastforce simp: next_generation_def split: option.splits)

lemma redeliver_keys:
  assumes "redeliver now ws d job latest = Inr d'"
  shows "delivery_keys d' = delivery_keys d @ [(w_new_id (ws 0) ''outbox'', job_id job, next_generation latest)]"
    "w_new_id (ws 0) ''outbox'' \<notin> fst ` set (delivery_keys d)"
proof -
  obtain d1 rows where 1: "(case latest of None \<Rightarrow> Inr d
      | Some e \<Rightarrow> supersede_delivery now ws e (next_generation latest) (w_new_id (ws 0) ''outbox'') d) = Inr d1"
    and 2: "w_new_id (ws 0) ''outbox'' \<notin> ox_id ` set (outbox d1)"
      "outbox d' = outbox d1 @ [new_outbox (w_now (ws 0)) (w_new_id (ws 0) ''outbox'') (w_new_id (ws 0) ''delivery'')
         (job_tenant_id job) (job_id job) (job_run_id job) (next_generation latest) []]"
    using assms by (auto simp: redeliver_def Let_def insert_row_Inr split: sum.splits)
  have k: "delivery_keys d1 = delivery_keys d"
    using 1 supersede_delivery_frame(2)
    by (auto simp: delivery_keys_def delivery_key_def update_by_def split: option.splits)
  show "delivery_keys d' = delivery_keys d @ [(w_new_id (ws 0) ''outbox'', job_id job, next_generation latest)]"
    using 2(2) k by (simp add: delivery_keys_def delivery_key_def)
  have "fst ` set (delivery_keys d1) = ox_id ` set (outbox d1)"
    by (simp add: delivery_keys_def delivery_key_def image_image)
  with 2(1) k show "w_new_id (ws 0) ''outbox'' \<notin> fst ` set (delivery_keys d)" by simp
qed

text \<open>One job of a reconciler pass: it is left alone, reopened, closed as dead, or delivered once more.\<close>

lemma reconcile_job_cases:
  assumes "reconcile_job now grace max_age probe ws i (n, d) = Inr (n', d')"
  obtains (kept) "n' = n" "delivery_keys d' = delivery_keys d" "job_ids d' = job_ids d"
    | (dead) job d2 reason where "n' = n" "delivery_keys d2 = delivery_keys d" "job_ids d2 = job_ids d" "job_id job = i"
        "i \<in> job_ids d" "dead_letter (ws 0) d2 job reason = Inr d'"
    | (redelivered) k where "n' = Suc n" "job_ids d' = job_ids d" "i \<in> job_ids d"
        "delivery_keys d' = delivery_keys d @ [(k, i, next_generation (latest_outbox d i))]"
        "k \<notin> fst ` set (delivery_keys d)" "next_generation (latest_outbox d i) \<le> MAX_DELIVERY_GENERATION"
proof (cases "lookup_by job_id i (jobs d)")
  case None
  then show ?thesis using assms kept by (simp add: reconcile_job_def)
next
  case (Some job)
  let ?d1 = "reopen_expired job d"
  let ?d2 = "upd_job i (transition_runtime_job_status ''queued'') ?d1"
  let ?l = "latest_outbox ?d1 i"
  have job: "job_id job = i" "i \<in> job_ids d" using lookup_by_Some [OF Some] by (auto simp: job_ids_def)
  have o1: "outbox ?d1 = outbox d" by (simp add: reopen_expired_def)
  have k: "delivery_keys ?d1 = delivery_keys d" "delivery_keys ?d2 = delivery_keys d" "?l = latest_outbox d i"
    by (simp_all add: o1 delivery_keys_def latest_outbox_def)
  have j: "job_ids ?d1 = job_ids d" "job_ids ?d2 = job_ids d"
    by (simp_all add: upd_job_ids reopen_expired_def)
  show ?thesis
  proof (cases "lane_first d job = Some i \<and>
      \<not> delivery_pending grace probe ?d1 ?l (if job_status job = ''leased'' then ''queued'' else job_status job)")
    case False
    then have "n' = n" "d' = d \<or> d' = ?d1" using assms Some by (auto simp: reconcile_job_def Let_def split: if_splits)
    with k j show ?thesis by (intro kept) auto
  next
    case go: True
    show ?thesis
    proof (cases "MAX_DELIVERY_GENERATION < next_generation ?l \<or> max_age \<le> now - job_created_at job")
      case True
      then obtain reason where "n' = n" "dead_letter (ws 0) ?d2 (transition_runtime_job_status ''queued'' job) reason = Inr d'"
        using assms Some go by (auto simp: reconcile_job_def Let_def split: sum.splits)
      with k j job show ?thesis by (intro dead) auto
    next
      case False
      then have r: "n' = Suc n" "redeliver now ws ?d2 job ?l = Inr d'"
        using assms Some go by (auto simp: reconcile_job_def Let_def split: sum.splits)
      note rk = redeliver_keys [OF r(2)]
      have "job_ids d' = job_ids d" using redeliver_jobs [OF r(2)] j(2) by (simp add: job_ids_def)
      with rk k job r(1) False show ?thesis by (intro redelivered) auto
    qed
  qed
qed

lemma dead_letter_opens:
  assumes "dead_letter w d job reason = Inr d'"
  shows "opens d d'"
proof -
  let ?d1 = "upd_job (job_id job) (\<lambda>j. (released_job ''dead'' j)\<lparr>job_last_error := Some reason\<rparr>) d"
  have "d' = ?d1 \<or> (\<exists>j r. converge_dead_aggregates w ?d1 j r reason = Inr d')"
    using assms by (auto simp: dead_letter_def Let_def split: option.splits)
  moreover have "outbox ?d1 = outbox d" "job_ids ?d1 = job_ids d" by (simp_all add: upd_job_ids)
  ultimately show ?thesis using dead_opens by blast
qed

lemma reconcile_job_extends:
  assumes "reconcile_job now grace max_age probe ws i (n, d) = Inr (n', d')"
  shows "delivery_extends d d'"
  using assms
proof (cases rule: reconcile_job_cases)
  case kept
  then show ?thesis by (intro delivery_extends_same) simp_all
next
  case (dead job d2 reason)
  have "delivery_extends d d2" using dead by (intro delivery_extends_same) simp_all
  also have "delivery_extends d2 d'"
    using opens_extends dead_letter_opens quiet_job_ids dead_letter_quiet dead(6) by metis
  finally show ?thesis .
next
  case (redelivered k)
  let ?g = "next_generation (latest_outbox d i)"
  have "1 \<le> ?g" by (simp add: next_generation_def split: option.splits)
  moreover have "(i, ?g) \<notin> snd ` set (delivery_keys d)" using next_generation_above [of _ i ?g d] by force
  ultimately have "1 \<le> ?g \<and> ?g \<le> MAX_DELIVERY_GENERATION \<and> i \<in> job_ids d' \<and> k \<notin> fst ` set (delivery_keys d) \<and>
      (i, ?g) \<notin> snd ` set (delivery_keys d)" using redelivered by simp
  then show ?thesis by (intro delivery_extends_snoc [OF redelivered(4)]) (simp_all add: redelivered(2))
qed

lemma reconcile_once_extends:
  assumes "reconcile_once now g h probe ws d = Inr (n, d')"
  shows "delivery_extends d d'"
proof -
  have "delivery_extends (snd s) (snd s')"
    if "foldE (\<lambda>j. reconcile_job now grace max_age probe (ws j) j) js s = Inr s'" for js s s' grace max_age
    using that
  proof (induction js arbitrary: s)
    case (Cons j js)
    then obtain s1 where 1: "reconcile_job now grace max_age probe (ws j) j s = Inr s1"
      and 2: "foldE (\<lambda>j. reconcile_job now grace max_age probe (ws j) j) js s1 = Inr s'"
      by (auto split: sum.splits)
    have "delivery_extends (snd s) (snd s1)"
      using reconcile_job_extends [of now grace max_age probe "ws j" j "fst s" "snd s" "fst s1" "snd s1"] 1 by simp
    then show ?case using Cons.IH [OF 2] by (rule delivery_extends_trans)
  qed simp
  from this [OF assms [unfolded reconcile_once_def Let_def]] show ?thesis by simp
qed

lemma create_job_outbox:
  assumes "create_job w d tenant rid kind ap jid tid = Inr (j, d')"
  shows "outbox d' = outbox d"
  using assms unfolding create_job_def Let_def upd_ticket_def guard_simps by clarsimp

lemma job_step_extends:
  assumes "job_step d d'"
  shows "delivery_extends d d'"
proof -
  note ids = job_step_job_ids [OF assms]
  have same: "delivery_extends d d'" if "outbox d' = outbox d"
    using that ids by (intro delivery_extends_same) (simp_all add: delivery_keys_def)
  from assms show ?thesis
  proof (cases rule: job_step.cases)
    case (create w tenant rid kind ap jid tid job)
    then show ?thesis using create_job_outbox same by blast
  next
    case (claim w jid owner n l)
    then show ?thesis using claim_outbox_same same by blast
  next
    case (heartbeat w l n)
    then have "outbox d' = outbox d" unfolding heartbeat_def by (auto split: sum.splits)
    then show ?thesis by (rule same)
  next
    case (finalize l s out)
    then have "outbox d' = outbox d" unfolding finalize_control_def by (auto split: option.splits)
    then show ?thesis by (rule same)
  next
    case (complete w l out)
    then have "outbox d' = outbox d" unfolding complete_def by (auto split: option.splits sum.splits)
    then show ?thesis by (rule same)
  next
    case (dispatch now later n ids)
    then have "delivery_keys d' = delivery_keys d" using claim_outbox_keys [of now later n d] by simp
    then show ?thesis using ids by (rule delivery_extends_same)
  next
    case (publish now rid i b)
    then have "delivery_keys d' = delivery_keys d" using mark_published_keys [of now rid i d] by simp
    then show ?thesis using ids by (rule delivery_extends_same)
  next
    case (deliver w grp owner n env a)
    then show ?thesis using accept_delivery_outbox same by blast
  next
    case (reconcile now g h probe ws n)
    then show ?thesis by (rule reconcile_once_extends)
  qed (use ids opens_extends in \<open>blast intro: fail_opens terminal_fail_opens activate_next_turn_opens
      finish_delivery_opens\<close>)+
qed

interpretation deliveries: invariant_steps job_step deliveries_ok
  by unfold_locales (use job_step_extends delivery_extends_def in blast)

section \<open>The deliveries end\<close>

definition generation :: "db \<Rightarrow> string \<Rightarrow> nat" where
  "generation d i = next_generation (latest_outbox d i) - 1"

lemma generation_mono:
  assumes "set (delivery_keys d) \<subseteq> set (delivery_keys d')"
  shows "generation d i \<le> generation d' i"
proof (cases "latest_outbox d i")
  case (Some e)
  have "(ox_id e, i, ox_delivery_generation e) \<in> set (delivery_keys d)"
    using latest_outbox_Some(1,2) [OF Some] by (force simp: delivery_keys_def delivery_key_def)
  then have "ox_delivery_generation e < next_generation (latest_outbox d' i)" using assms next_generation_above by blast
  then show ?thesis by (simp add: generation_def Some next_generation_def)
qed (simp add: generation_def next_generation_def)

lemma generation_bounded: "deliveries_ok d \<Longrightarrow> generation d i \<le> MAX_DELIVERY_GENERATION"
  using latest_outbox_Some(1) [of d i]
  by (fastforce simp: generation_def next_generation_def deliveries_ok_def delivery_keys_def delivery_key_def
      split: option.splits)

lemma generation_snoc:
  assumes "delivery_keys d' = delivery_keys d @ [(k, i, Suc g)]"
  shows "Suc g \<le> generation d' i"
  using next_generation_above [of k i "Suc g" d'] assms by (simp add: generation_def)

text \<open>\<open>n\<close> redeliveries of job \<open>i\<close>, with any other steps between them.\<close>

inductive redeliveries :: "string \<Rightarrow> nat \<Rightarrow> db \<Rightarrow> db \<Rightarrow> bool" for i where
  start: "redeliveries i 0 d d"
| other: "redeliveries i n d d1 \<Longrightarrow> job_step d1 d2 \<Longrightarrow> redeliveries i n d d2"
| again: "redeliveries i n d d1 \<Longrightarrow> reconcile_job now grace max_age probe ws i (k, d1) = Inr (Suc k, d2) \<Longrightarrow>
    redeliveries i (Suc n) d d2"

lemma redeliveries_generation:
  assumes "redeliveries i n d d'"
  shows "delivery_extends d d'" "n + generation d i \<le> generation d' i"
proof -
  from assms have "delivery_extends d d' \<and> n + generation d i \<le> generation d' i"
  proof induction
    case (other n d d1 d2)
    note e = job_step_extends [OF other.hyps(2)]
    then have "generation d1 i \<le> generation d2 i" by (intro generation_mono) (simp add: delivery_extends_def)
    with other.IH have "n + generation d i \<le> generation d2 i" by linarith
    with other.IH delivery_extends_trans [OF _ e] show ?case by blast
  next
    case (again n d d1 now grace max_age probe ws k d2)
    have e: "delivery_extends d d2"
      using again.IH reconcile_job_extends [OF again.hyps(2)] delivery_extends_trans by blast
    from again.hyps(2) show ?case
    proof (cases rule: reconcile_job_cases)
      case (redelivered x)
      have "next_generation (latest_outbox d1 i) = Suc (generation d1 i)"
        by (simp add: generation_def next_generation_def split: option.splits)
      then have "Suc (generation d1 i) \<le> generation d2 i" using redelivered(4) generation_snoc by simp
      with again.IH e show ?thesis by simp
    qed simp_all
  qed simp
  then show "delivery_extends d d'" "n + generation d i \<le> generation d' i" by blast+
qed

text \<open>Closing a job only adds jobs, so that its row stays dead.\<close>

lemma activate_next_turn_appends:
  assumes "activate_next_turn w d tk trace = Inr (x, d')"
  shows "\<exists>new. jobs d' = jobs d @ new"
proof (cases x)
  case None
  with assms activate_next_turn_None have "d' = d" by simp
  then show ?thesis by simp
next
  case (Some rj)
  then obtain r job where rj: "x = Some (r, job)" by (cases rj) simp
  show ?thesis by (rule activate_next_turn_Some [OF assms [unfolded rj]]) simp
qed

lemma converge_dead_aggregates_appends:
  assumes "converge_dead_aggregates w d job r reason = Inr d'"
  shows "\<exists>new. jobs d' = jobs d @ new"
  using assms
proof (rule converge_dead_aggregates_Inr)
  fix d2 d3
  let ?d1 = "fail_run w r reason d"
  assume 2: "(case lookup_by tk_id (run_ticket_id r) (tickets ?d1) of None \<Rightarrow> Inr ?d1
      | Some tk \<Rightarrow> if tk_automation_mode tk \<noteq> ''human_queue'' then publish_failure w job r
          (case classify_public_failure (PStr reason) of None \<Rightarrow> Runtime | Some c \<Rightarrow> c) tk ?d1
          else Inr ?d1) = Inr d2"
    and 3: "fail_approval job d2 = Inr d3" and 4: "release_lane w job (run_ticket_id r) (abort_markers job d3) = Inr d'"
  have j: "jobs (abort_markers job d3) = jobs d"
    using 2 publish_failure_jobs fail_approval_jobs [OF 3] by (auto split: option.splits if_splits)
  from 4 show ?thesis
  proof (cases rule: release_lane_cases)
    case (released tk x d1 st tk1)
    then show ?thesis using activate_next_turn_appends converge_ticket_frame(2) j by metis
  next
    case same
    then show ?thesis using j by simp
  qed
qed

lemma dead_letter_dead:
  assumes "dead_letter w d job reason = Inr d'" "lookup_by job_id (job_id job) (jobs d) = Some j"
  shows "\<exists>j'. lookup_by job_id (job_id job) (jobs d') = Some j' \<and> job_status j' = ''dead''"
proof -
  let ?f = "\<lambda>j. (released_job ''dead'' j)\<lparr>job_last_error := Some reason\<rparr>"
  let ?d1 = "upd_job (job_id job) ?f d"
  have 1: "lookup_by job_id (job_id job) (jobs ?d1) = Some (?f j)"
    using assms(2) lookup_by_update_by [of job_id ?f "job_id job" "job_id job" "jobs d"] by (simp add: upd_job_def)
  have "\<exists>new. jobs d' = jobs ?d1 @ new"
    using assms(1) converge_dead_aggregates_appends by (auto simp: dead_letter_def Let_def split: option.splits)
  with 1 show ?thesis
    by (auto simp: lookup_by_append released_job_def transition_runtime_job_status_def)
qed

lemma reconcile_job_exhausted:
  assumes "reconcile_job now grace max_age probe ws i (k, d) = Inr (k', d')"
    and "lookup_by job_id i (jobs d) = Some job" "lane_first d job = Some i"
    and "\<not> delivery_pending grace probe (reopen_expired job d) (latest_outbox d i)
      (if job_status job = ''leased'' then ''queued'' else job_status job)"
    and "generation d i = MAX_DELIVERY_GENERATION"
  shows "\<exists>j. lookup_by job_id i (jobs d') = Some j \<and> job_status j = ''dead''"
proof -
  let ?d1 = "reopen_expired job d"
  let ?d2 = "upd_job i (transition_runtime_job_status ''queued'') ?d1"
  have job: "job_id job = i" using lookup_by_Some [OF assms(2)] by simp
  have l: "latest_outbox ?d1 i = latest_outbox d i" by (simp add: latest_outbox_def reopen_expired_def)
  have "MAX_DELIVERY_GENERATION < next_generation (latest_outbox d i)"
    using assms(5) by (auto simp: generation_def MAX_DELIVERY_GENERATION_def)
  then obtain reason where dl: "dead_letter (ws 0) ?d2 (transition_runtime_job_status ''queued'' job) reason = Inr d'"
    using assms(1-4) l by (auto simp: reconcile_job_def Let_def split: sum.splits)
  have "\<exists>j. lookup_by job_id i (jobs ?d1) = Some j"
    using assms(2) job lookup_by_update_by [of job_id "released_job ''queued''" i i "jobs d"]
    by (auto simp: reopen_expired_def upd_job_def)
  then have "\<exists>j. lookup_by job_id i (jobs ?d2) = Some j"
    using lookup_by_update_by [of job_id "transition_runtime_job_status ''queued''" i i "jobs ?d1"]
    by (auto simp: upd_job_def)
  with dead_letter_dead [OF dl] job show ?thesis by auto
qed

lemma delivery_row:
  assumes "deliveries_ok d" "e \<in> set (outbox d)"
  shows "1 \<le> ox_delivery_generation e" "ox_delivery_generation e \<le> 5" "ox_job_id e \<in> job_ids d"
  using assms by (force simp: deliveries_ok_def delivery_keys_def delivery_key_def MAX_DELIVERY_GENERATION_def)+

lemma delivery_generations:
  assumes "deliveries_ok d"
  shows "distinct (map ox_delivery_generation (filter (\<lambda>e. ox_job_id e = i) (outbox d)))"
proof -
  have "distinct (map (\<lambda>e. (ox_job_id e, ox_delivery_generation e)) (outbox d))"
    using assms by (simp add: deliveries_ok_def delivery_keys_def delivery_key_def comp_def)
  then have "distinct (map (\<lambda>e. (ox_job_id e, ox_delivery_generation e)) (filter (\<lambda>e. ox_job_id e = i) (outbox d)))"
    by (rule distinct_map_filter)
  then show ?thesis by (auto simp: distinct_map inj_on_def)
qed

section \<open>Properties\<close>


text \<open>C26. redelivery ends: whatever happens between them, a job that has had \<open>g\<close> deliveries is delivered again at
  most \<open>5 - g\<close> times, and when the reconciler finds the fifth delivery of the job at the head of its lane lost, it
  closes the job as dead.\<close>

theorem redelivery_ends:
  assumes "redeliveries i n d d'" "deliveries_ok d"
  shows "n + generation d i \<le> 5 \<and>
    (\<forall>now grace max_age probe ws k k' d'' job. lookup_by job_id i (jobs d') = Some job \<and> lane_first d' job = Some i \<and>
       \<not> delivery_pending grace probe (reopen_expired job d') (latest_outbox d' i)
         (if job_status job = ''leased'' then ''queued'' else job_status job) \<and>
       generation d' i = 5 \<and> reconcile_job now grace max_age probe ws i (k, d') = Inr (k', d'') \<longrightarrow>
       (\<exists>j. lookup_by job_id i (jobs d'') = Some j \<and> job_status j = ''dead''))"
proof -
  have "deliveries_ok d'" using redeliveries_generation(1) [OF assms(1)] assms(2) by (simp add: delivery_extends_def)
  then have "generation d' i \<le> 5" using generation_bounded [of d' i] by (simp add: MAX_DELIVERY_GENERATION_def)
  with redeliveries_generation(2) [OF assms(1)] have "n + generation d i \<le> 5" by linarith
  then show ?thesis using reconcile_job_exhausted unfolding MAX_DELIVERY_GENERATION_def by blast
qed

text \<open>C28. a worker that has finished its delivery with a failure or an outcome other than an interruption has lost
  its job for good: its lease, once valid, is refused in every later state.\<close>

theorem finished_delivery_loses_lease:
  assumes "assert_fence now0 d0 l = Inr job0" "job_step\<^sup>*\<^sup>* d0 d" "ids_ok d0" "da_lease adm = Some l"
    and "finish_delivery w grp adm out f d = Inr (r, d1)" "f \<noteq> None \<or> out \<noteq> ''interrupted''"
    and "job_step\<^sup>*\<^sup>* d1 d2"
  shows "assert_fence now d2 l = Inl stale"
proof -
  have ids: "ids_ok d" by (rule job_steps_ids [OF assms(2,3)])
  note f0 = assert_fence_Inr [OF assms(1)]
  obtain k where k: "k \<in> set (jobs d)" "job_grows job0 k" using job_steps_grow [OF assms(2)] f0 by blast
  then have kid: "job_id k = jl_job_id l" "jl_fencing_token l \<le> job_fencing_token k"
    using f0 by (auto simp: job_grows_def same_job_def)
  have look: "lookup_by job_id (jl_job_id l) (jobs d) = Some k"
    using lookup_by_distinct [OF ids [unfolded ids_ok_def] k(1)] kid by simp
  obtain out' e1 where st: "settle_job w d l out f = Inr (out', e1)" and e1: "jobs d1 = jobs e1"
    using finish_delivery_settles_job [OF assms(5)] assms(4) by (metis option.inject)
  have "lease_settled d1 l"
  proof (cases "job_status k = ''leased''")
    case True
    then have "lease_settled e1 l"
      using st look assms(6) complete_settles fail_settles terminal_fail_settles
      by (auto simp: settle_job_def Let_def split: option.splits handler_failure.splits sum.splits if_splits)
    with e1 show ?thesis by (simp add: lease_settled_def)
  next
    case False
    with kid k(1) have "lease_settled d l" unfolding lease_settled_def by (metis le_neq_implies_less)
    then show ?thesis using lease_settled_steps [OF r_into_rtranclp [of job_step, OF job_step.settle [OF assms(5)]]] by blast
  qed
  moreover have "ids_ok d2" using job_steps_ids [OF assms(7) job_step_ids [OF job_step.settle [OF assms(5)] ids]] .
  ultimately show ?thesis using lease_settled_steps [OF assms(7)] lease_settled_stale by blast
qed

section \<open>Evaluated examples\<close>

text \<open>A queued job whose delivery was sent at time 0 and is lost: the fourth, and the fifth.\<close>

definition lost_event :: "nat \<Rightarrow> outbox_event" where
  "lost_event g = (new_outbox 0 ''o1'' ''x1'' ''acme'' ''j1'' ''r1'' g [])
     \<lparr>ox_published_at := Some 0, ox_last_delivery_at := Some 0\<rparr>"

definition lost_db :: "nat \<Rightarrow> db" where
  "lost_db g = sample_db\<lparr>outbox := [lost_event g]\<rparr>"

lemma lost_fields:
  "jobs (lost_db g) = [sample_job]" "outbox (lost_db g) = [lost_event g]" "inbox (lost_db g) = []"
  "queue_audits (lost_db g) = []" "delivery_keys (lost_db g) = [(''o1'', ''j1'', g)]"
  "latest_outbox (lost_db g) ''j1'' = Some (lost_event g)" "generation (lost_db g) ''j1'' = g"
  "lane_first (lost_db g) sample_job = Some ''j1''" "reopen_expired sample_job (lost_db g) = lost_db g"
  by (simp_all add: lost_db_def lost_event_def delivery_keys_def delivery_key_def latest_outbox_def sort_desc_def
      generation_def next_generation_def lane_first_def live_statuses_def reopen_expired_def sample_defs)

lemma lost_job_fields:
  "job_id sample_job = ''j1''" "job_status sample_job = ''queued''" "job_created_at sample_job = 0"
  "ox_delivery_generation (lost_event g) = g"
  by (simp_all add: sample_job_def lost_event_def)

lemma lost_ok: "1 \<le> g \<Longrightarrow> g \<le> 5 \<Longrightarrow> deliveries_ok (lost_db g)"
  by (simp add: deliveries_ok_def lost_fields job_ids_def MAX_DELIVERY_GENERATION_def sample_job_def)

definition gone :: "string \<Rightarrow> bool option" where
  "gone _ = Some False"

lemma lost_not_pending:
  "\<not> delivery_pending 50000000 gone (lost_db g) (Some (lost_event g)) ''queued''"
  by (simp add: delivery_pending_def lost_event_def delivery_is_recoverable_def latest_inbox_def lost_fields
      sort_desc_def latest_delivery_still_exists_def new_outbox_def gone_def)

lemma fourth_redelivered:
  "\<exists>d'. reconcile_job 100000000 50000000 600000000 gone (\<lambda>_. sample_world) ''j1'' (0, lost_db 4) = Inr (1, d')"
proof -
  have "redeliver 100000000 (\<lambda>_. sample_world) (upd_job ''j1'' (transition_runtime_job_status ''queued'') (lost_db 4))
      sample_job (Some (lost_event 4)) \<noteq> Inl e" for e
    by (simp add: redeliver_def Let_def supersede_delivery_def lost_fields add_queue_audit_def insert_row_def upd_job_def
        lost_event_def superseded_audit_def sample_world_def new_outbox_def update_by_def)
  then obtain d' where "redeliver 100000000 (\<lambda>_. sample_world)
      (upd_job ''j1'' (transition_runtime_job_status ''queued'') (lost_db 4)) sample_job (Some (lost_event 4)) = Inr d'"
    by (metis sum.exhaust)
  then show ?thesis using lost_not_pending [of 4]
    by (simp add: reconcile_job_def Let_def lost_fields lookup_by_def lost_job_fields next_generation_def
        MAX_DELIVERY_GENERATION_def)
qed

lemma fifth_closed:
  "\<exists>k d'. reconcile_job 100000000 50000000 600000000 gone (\<lambda>_. sample_world) ''j1'' (0, lost_db 5) = Inr (k, d')"
proof -
  have "\<exists>d'. dead_letter sample_world (upd_job ''j1'' (transition_runtime_job_status ''queued'') (lost_db 5))
      (transition_runtime_job_status ''queued'' sample_job) reason = Inr d'" for reason
    by (simp add: dead_letter_def released_job_def transition_runtime_job_status_def
      converge_dead_aggregates_def fail_run_def publish_failure_def fail_approval_def release_lane_def
      activate_next_turn_and_converge_ticket_def activate_next_turn_def accepted_turn_def turn_active_def
      abort_markers_def failure_message_def failure_key_def insert_row_def lookup_by_def update_by_def
      select_first_def upd_defs falsy_str_def Let_def sample_world_def lost_db_def sample_defs
      advance_conversation_activity_def split: prod.split)
  then obtain d' where "dead_letter sample_world (upd_job ''j1'' (transition_runtime_job_status ''queued'') (lost_db 5))
      (transition_runtime_job_status ''queued'' sample_job) ''delivery_generation_exhausted'' = Inr d'" by blast
  then show ?thesis using lost_not_pending [of 5]
    by (simp add: reconcile_job_def Let_def lost_fields lookup_by_def lost_job_fields next_generation_def
        MAX_DELIVERY_GENERATION_def)
qed

lemma fourth_pass:
  obtains d' where "reconcile_once 100000000 50000000 None gone (\<lambda>_ _. sample_world) (lost_db 4) = Inr (1, d')"
proof -
  obtain d' where "reconcile_job 100000000 50000000 600000000 gone (\<lambda>_. sample_world) ''j1'' (0, lost_db 4) = Inr (1, d')"
    using fourth_redelivered by blast
  then have "reconcile_once 100000000 50000000 None gone (\<lambda>_ _. sample_world) (lost_db 4) = Inr (1, d')"
    by (simp add: reconcile_once_def Let_def lost_fields reconcile_due_def lost_job_fields seconds_def)
  then show ?thesis by (rule that)
qed


theorem redelivery_ends_witness:
  "(\<exists>d'. redeliveries ''j1'' 1 (lost_db 4) d' \<and> 1 + generation (lost_db 4) ''j1'' \<le> 5) \<and>
   (\<exists>k d' j. reconcile_job 100000000 50000000 600000000 gone (\<lambda>_. sample_world) ''j1'' (0, lost_db 5) = Inr (k, d') \<and>
     lookup_by job_id ''j1'' (jobs d') = Some j \<and> job_status j = ''dead'')"
proof
  obtain d' where d': "reconcile_job 100000000 50000000 600000000 gone (\<lambda>_. sample_world) ''j1'' (0, lost_db 4) = Inr (1, d')"
    using fourth_redelivered by blast
  have r: "redeliveries ''j1'' 1 (lost_db 4) d'"
    using redeliveries.again [OF redeliveries.start d' [unfolded One_nat_def]] by simp
  have "1 + generation (lost_db 4) ''j1'' \<le> 5" using redelivery_ends [OF r lost_ok] by simp
  with r show "\<exists>d'. redeliveries ''j1'' 1 (lost_db 4) d' \<and> 1 + generation (lost_db 4) ''j1'' \<le> 5" by blast
next
  obtain k d' where d': "reconcile_job 100000000 50000000 600000000 gone (\<lambda>_. sample_world) ''j1'' (0, lost_db 5) = Inr (k, d')"
    using fifth_closed by blast
  have l: "lookup_by job_id ''j1'' (jobs (lost_db 5)) = Some sample_job"
    by (simp add: lost_fields lookup_by_def lost_job_fields)
  have "\<exists>j. lookup_by job_id ''j1'' (jobs d') = Some j \<and> job_status j = ''dead''"
    by (rule conjunct2 [OF redelivery_ends [OF redeliveries.start [of "''j1''" "lost_db 5"] lost_ok], rule_format,
          where now = 100000000 and grace = 50000000 and probe = gone and k' = k and job = sample_job])
      (use d' l lost_not_pending [of 5] in \<open>auto simp: lost_fields lost_job_fields\<close>)
  with d' show "\<exists>k d' j. reconcile_job 100000000 50000000 600000000 gone (\<lambda>_. sample_world) ''j1'' (0, lost_db 5) = Inr (k, d') \<and>
     lookup_by job_id ''j1'' (jobs d') = Some j \<and> job_status j = ''dead''" by blast
qed

text \<open>A delivery is accepted, its job is completed, and the lease is refused from then on.\<close>

definition sample_envelope :: delivery_envelope where
  "sample_envelope = \<lparr>de_redis_id = ''0-1'', de_payload_hash = ''h'', de_message =
     \<lparr>rm_event_id = ''o1'', rm_delivery_id = ''x1'', rm_job_id = ''j1'', rm_run_id = ''r1'', rm_tenant_id = ''acme'',
      rm_delivery_generation = 1, rm_traceparent = None\<rparr>\<rparr>"

lemma sample_accepted:
  obtains a l d' where "accept_delivery sample_world ''g'' ''w1'' 30 sample_envelope sample_db = Inr (a, d')"
    "da_lease a = Some l" "assert_fence 0 d' l = Inr (leased_job 0 ''w1'' 30 sample_job)"
    "jl_run_id l = ''r1''" "jl_job_id l = ''j1''" "\<exists>r. lookup_by run_id ''r1'' (runs d') = Some r"
    "jobs d' = [leased_job 0 ''w1'' 30 sample_job]" "map ib_delivery_id (inbox d') = [''x1'']"
    "map ib_consumer_group (inbox d') = [''g'']" "rm_delivery_id (da_message a) = ''x1''" "rm_run_id (da_message a) = ''r1''"
  by (simp add: accept_delivery_def Let_def sample_envelope_def envelope_trusted_def record_delivery_def
      settle_inbox_def claim_def claim_writes_def lookup_by_def select_first_def insert_row_def lane_head_def
      lane_leased_def in_lane_def live_statuses_def min_of_def upd_defs update_by_def leased_job_def lease_of_def
      transition_runtime_job_status_def assert_fence_def lease_ticket_def falsy_str_def sample_world_def sample_defs
      seconds_def)

theorem finished_delivery_loses_lease_witness:
  "\<exists>a l d' r d1. accept_delivery sample_world ''g'' ''w1'' 30 sample_envelope sample_db = Inr (a, d') \<and>
     da_lease a = Some l \<and> finish_delivery sample_world ''g'' a ''completed'' None d' = Inr (r, d1) \<and>
     assert_fence 1 d1 l = Inl stale"
proof -
  obtain a l d' where a: "accept_delivery sample_world ''g'' ''w1'' 30 sample_envelope sample_db = Inr (a, d')"
    "da_lease a = Some l" "assert_fence 0 d' l = Inr (leased_job 0 ''w1'' 30 sample_job)"
    and l: "jl_run_id l = ''r1''" "jl_job_id l = ''j1''" "\<exists>r. lookup_by run_id ''r1'' (runs d') = Some r"
      "jobs d' = [leased_job 0 ''w1'' 30 sample_job]" "map ib_delivery_id (inbox d') = [''x1'']"
      "map ib_consumer_group (inbox d') = [''g'']" "rm_delivery_id (da_message a) = ''x1''"
    by (rule sample_accepted)
  obtain x where x: "inbox d' = [x]" "ib_delivery_id x = ''x1''" "ib_consumer_group x = ''g''"
    using l(5,6) by (auto simp: map_eq_Cons_conv)
  obtain e where e: "complete sample_world d' l ''completed'' = Inr e" "inbox e = [x]"
    using a(3) l(1,3) x(1) by (auto simp: complete_def sample_world_def upd_defs)
  have "settle_job sample_world d' l ''completed'' None = Inr (''completed'', e)"
    using e(1) l(2,4) by (simp add: settle_job_def Let_def lookup_by_def lost_job_fields)
  then obtain r d1 where f: "finish_delivery sample_world ''g'' a ''completed'' None d' = Inr (r, d1)"
    using a(2) e(2) x l(7) by (simp add: finish_delivery_def select_first_def)
  have "ids_ok d'" by (simp add: ids_ok_def l(4))
  from finished_delivery_loses_lease [OF a(3) rtranclp.rtrancl_refl this a(2) f _ rtranclp.rtrancl_refl, of 1]
  show ?thesis using a(1,2) f by auto
qed

end
