(* ===== verification/Business_Store.thy ===== *)
theory Business_Store
  imports Approval_Lifecycle Refund_Policy
begin

text \<open>
  The business side of the database, beside the runtime tables: business actions, human decisions, action
  revisions and withdrawals (\<open>db/entities/action.py\<close>), the resources the actions change (billing records, API
  keys, subscriptions and the plan catalogue, \<open>db/entities/evidence.py\<close>), approver memberships and
  scopes (\<open>db/entities/auth.py\<close>), kill switches and audit events (\<open>db/entities/audit.py\<close>).  The store
  is the runtime database with these tables.  Rows keep the columns that the action executor and the
  approval and customer commands read or write.
\<close>

section \<open>Rows\<close>

record business_action =
  ba_id :: string
  ba_tenant_id :: string
  ba_ticket_id :: string
  ba_customer_id :: string
  ba_action_type :: string
  ba_resource_id :: "string option"
  ba_resource_version :: "int option"
  ba_action_hash :: "string option"
  ba_approval_id :: "string option"
  ba_human_decision_id :: "string option"
  ba_action_revision_id :: "string option"
  ba_decision_hash :: "string option"
  ba_effect_identity :: "string option"
  ba_canonical_event_id :: "string option"
  ba_canonical_event_hash :: "string option"
  ba_status :: string
  ba_idempotency_key :: string
  ba_result :: pydict

record human_decision =
  hd_id :: string
  hd_tenant_id :: string
  hd_approval_id :: string
  hd_action_revision_id :: "string option"
  hd_actor_id :: string
  hd_decision :: string
  hd_reason :: string
  hd_action_hash :: "string option"
  hd_decision_hash :: "string option"
  hd_canonical_event_id :: "string option"
  hd_canonical_event_hash :: "string option"
  hd_audit_metadata :: pydict
  hd_created_at :: int

record approval_action_revision =
  rv_id :: string
  rv_tenant_id :: string
  rv_approval_id :: string
  rv_proposal_id :: string
  rv_snapshot_id :: string
  rv_revision_number :: int
  rv_action_payload :: pydict
  rv_action_hash :: string
  rv_resource_version :: int
  rv_created_by_ref :: string
  rv_revision_reason :: string

record api_key_metadata =
  km_id :: string
  km_tenant_id :: string
  km_customer_id :: string
  km_key_id :: string
  km_fingerprint :: string
  km_status :: string
  km_version :: int

record subscription =
  sb_id :: string
  sb_tenant_id :: string
  sb_customer_id :: string
  sb_plan :: string
  sb_rpm_limit :: int
  sb_concurrency_limit :: int
  sb_version :: int

record plan_catalog =
  pc_id :: string
  pc_plan :: string
  pc_min_rpm :: int
  pc_max_rpm :: int
  pc_min_concurrency :: int
  pc_max_concurrency :: int
  pc_version :: int

record membership =
  mb_tenant_id :: string
  mb_user_id :: string
  mb_role :: string
  mb_status :: string

record approver_tenant_scope =
  as_user_id :: string
  as_tenant_id :: string

record mutation_kill_switch =
  ks_tenant_id :: string
  ks_action_type :: string
  ks_enabled :: bool

record audit_event =
  au_id :: string
  au_tenant_id :: string
  au_ticket_id :: string
  au_customer_id :: string
  au_event_type :: string
  au_actor_type :: string
  au_actor_id :: "string option"
  au_payload :: pydict
  au_trace_id :: string
  au_run_id :: "string option"
  au_created_at :: pydatetime

record proposal_withdrawal =
  pw_id :: string
  pw_tenant_id :: string
  pw_ticket_id :: string
  pw_customer_id :: string
  pw_approval_id :: string
  pw_proposal_id :: string
  pw_actor_id :: string
  pw_reason :: string
  pw_idempotency_key :: string
  pw_created_at :: int

record store =
  st_db :: db
  st_actions :: "business_action list"
  st_decisions :: "human_decision list"
  st_revisions :: "approval_action_revision list"
  st_billing :: billing_table
  st_keys :: "api_key_metadata list"
  st_subscriptions :: "subscription list"
  st_catalog :: "plan_catalog list"
  st_memberships :: "membership list"
  st_scopes :: "approver_tenant_scope list"
  st_switches :: "mutation_kill_switch list"
  st_audit :: "audit_event list"
  st_withdrawals :: "proposal_withdrawal list"

text \<open>\<open>x or ""\<close> on a nullable reference.\<close>

definition ref_or_empty :: "string option \<Rightarrow> string" where
  "ref_or_empty x = (case x of None \<Rightarrow> [] | Some s \<Rightarrow> s)"

lemma ref_or_empty_Some [simp]: "ref_or_empty (Some x) = x"
  by (simp add: ref_or_empty_def)

section \<open>Constrained inserts and updates\<close>

text \<open>
  An insert into \<open>business_actions\<close> checks the primary key and the three unique constraints
  \<open>uq_action_type_idempotency\<close>, \<open>uq_business_action_resource_effect\<close> and
  \<open>uq_business_action_effect_identity\<close>; a row with a NULL in a constrained column is outside the
  constraint.
\<close>

definition same_resource_effect :: "business_action \<Rightarrow> business_action \<Rightarrow> bool" where
  "same_resource_effect a b =
     (ba_resource_id a \<noteq> None \<and> ba_resource_version a \<noteq> None \<and> ba_tenant_id a = ba_tenant_id b \<and>
      ba_action_type a = ba_action_type b \<and> ba_resource_id a = ba_resource_id b \<and>
      ba_resource_version a = ba_resource_version b)"

definition same_effect_identity :: "business_action \<Rightarrow> business_action \<Rightarrow> bool" where
  "same_effect_identity a b =
     (ba_effect_identity a \<noteq> None \<and> ba_tenant_id a = ba_tenant_id b \<and>
      ba_effect_identity a = ba_effect_identity b)"

definition insert_action :: "business_action \<Rightarrow> store \<Rightarrow> store result" where
  "insert_action a s =
     (if list_ex (\<lambda>b. ba_action_type b = ba_action_type a \<and> ba_idempotency_key b = ba_idempotency_key a)
           (st_actions s) then Inl (IntegrityError ''uq_action_type_idempotency'')
      else if list_ex (same_resource_effect a) (st_actions s) then
        Inl (IntegrityError ''uq_business_action_resource_effect'')
      else if list_ex (same_effect_identity a) (st_actions s) then
        Inl (IntegrityError ''uq_business_action_effect_identity'')
      else (case insert_row ba_id a (st_actions s) of
          Inl e \<Rightarrow> Inl e | Inr rows \<Rightarrow> Inr (s\<lparr>st_actions := rows\<rparr>)))"

text \<open>\<open>proposal.status = "stale"\<close>: the mapper's version column moves only when the value changes.\<close>

definition stale_proposal :: "proposal_record \<Rightarrow> proposal_record" where
  "stale_proposal p =
     (if pr_status p = ''stale'' then p
      else p\<lparr>pr_status := ''stale'', pr_status_version := Suc (pr_status_version p)\<rparr>)"

definition stale_proposals :: "(proposal_record \<Rightarrow> bool) \<Rightarrow> db \<Rightarrow> db" where
  "stale_proposals P d = d\<lparr>proposals := map (\<lambda>p. if P p then stale_proposal p else p) (proposals d)\<rparr>"

text \<open>\<open>approval.consumed_at = now\<close>, flushed after a transition: the version column moves again.\<close>

definition consume_approval :: "pydatetime \<Rightarrow> string \<Rightarrow> db \<Rightarrow> db" where
  "consume_approval now i d =
     upd_approval i (\<lambda>a. a\<lparr>ap_consumed_at := Some now, ap_status_version := Suc (ap_status_version a)\<rparr>) d"

definition proposal_binding :: "proposal_record \<Rightarrow> refund_binding" where
  "proposal_binding p =
     \<lparr>rb_original_resource_id = pr_refund_original_resource_id p,
      rb_original_version = pr_refund_original_version p, rb_pair_hash = pr_refund_pair_hash p\<rparr>"

definition decision_of :: "store \<Rightarrow> approval_request \<Rightarrow> human_decision option" where
  "decision_of s ap = select_first (\<lambda>h. hd_approval_id h = ap_id ap) (st_decisions s)"

definition revision_of :: "store \<Rightarrow> approval_request \<Rightarrow> approval_action_revision option" where
  "revision_of s ap = lookup_by rv_id (ref_or_empty (ap_selected_revision_id ap)) (st_revisions s)"

definition proposal_of :: "store \<Rightarrow> approval_request \<Rightarrow> proposal_record option" where
  "proposal_of s ap = lookup_by pr_id (ref_or_empty (ap_proposal_id ap)) (proposals (st_db s))"

section \<open>Frames\<close>

text \<open>The tables that hold business effects.\<close>

definition same_effects :: "store \<Rightarrow> store \<Rightarrow> bool" where
  "same_effects s s' \<longleftrightarrow> st_actions s' = st_actions s \<and> st_billing s' = st_billing s \<and>
     st_keys s' = st_keys s \<and> st_subscriptions s' = st_subscriptions s"

lemma same_effects_refl [simp]: "same_effects s s"
  by (simp add: same_effects_def)

lemma same_effects_db [simp]: "same_effects s (s\<lparr>st_db := d\<rparr>)"
  by (simp add: same_effects_def)

lemma stale_proposals_frame [simp]:
  "approvals (stale_proposals P d) = approvals d" "runs (stale_proposals P d) = runs d"
  "tickets (stale_proposals P d) = tickets d" "events (stale_proposals P d) = events d"
  "jobs (stale_proposals P d) = jobs d"
  by (simp_all add: stale_proposals_def)

lemma insert_action_Inr:
  "insert_action a s = Inr s' \<longleftrightarrow>
     (\<forall>b \<in> set (st_actions s). \<not> (ba_action_type b = ba_action_type a \<and> ba_idempotency_key b = ba_idempotency_key a) \<and>
        \<not> same_resource_effect a b \<and> \<not> same_effect_identity a b \<and> ba_id b \<noteq> ba_id a) \<and>
     s' = s\<lparr>st_actions := st_actions s @ [a]\<rparr>"
proof -
  have "ba_id a \<notin> ba_id ` set (st_actions s) \<longleftrightarrow> (\<forall>b \<in> set (st_actions s). ba_id b \<noteq> ba_id a)"
    by (metis image_iff)
  then show ?thesis
    unfolding insert_action_def guard_simps list_ex_iff by blast
qed

end
