(* ===== verification/Action_Executor.thy ===== *)
theory Action_Executor
  imports Business_Store Runtime_Jobs
begin

text \<open>
  \<open>services/actions.py\<close> with \<open>services/approver_scope.py\<close> and \<open>services/kill_switches.py\<close>: the runtime
  command that turns an approved, decided and still current approval into one business effect.  The
  branch modelled is the one for a database that is not PostgreSQL, where the executor itself owns the
  effect; the PostgreSQL capability is a function of the database.  An exception rolls the whole
  transaction back.  Bound identifiers inside JSON columns are strings; another JSON value selects no
  row.
\<close>

section \<open>Python values\<close>

text \<open>\<open>str(Decimal)\<close>: plain notation while the exponent is not positive and at most six zeros follow
  the point, scientific notation otherwise.\<close>

definition str_decimal :: "pydecimal \<Rightarrow> string" where
  "str_decimal d =
     (case d of
        DNaN \<Rightarrow> ''NaN''
      | DInf neg \<Rightarrow> (if neg then ''-Infinity'' else ''Infinity'')
      | DFin c e \<Rightarrow>
          (let ds = show_nat (nat \<bar>c\<bar>); left = e + int (length ds);
               dot = (if e \<le> 0 \<and> left > -6 then left else 1);
               body = (if dot \<le> 0 then ''0.'' @ replicate (nat (- dot)) (CHR ''0'') @ ds
                       else if int (length ds) \<le> dot then ds @ replicate (nat dot - length ds) (CHR ''0'')
                       else take (nat dot) ds @ ''.'' @ drop (nat dot) ds);
               ex = (if left = dot then ''''
                     else ''E'' @ (if left < dot then '''' else ''+'') @ show_int (left - dot))
           in (if c < 0 then ''-'' else '''') @ body @ ex))"

text \<open>\<open>dict(v)\<close> of a JSON value: a mapping is copied, an empty sequence is the empty mapping, and the
  other values raise.\<close>

definition py_dict :: "pyval \<Rightarrow> pydict result" where
  "py_dict v =
     (case v of PDict d \<Rightarrow> Inr d | PList [] \<Rightarrow> Inr [] | PStr [] \<Rightarrow> Inr []
      | PStr _ \<Rightarrow> Inl (ValueError ''dict'') | _ \<Rightarrow> Inl TypeError)"

text \<open>\<open>[x for x in xs if p(x)]\<close> where evaluating \<open>p\<close> may raise.\<close>

fun filterE :: "('a \<Rightarrow> 'e + bool) \<Rightarrow> 'a list \<Rightarrow> 'e + 'a list" where
  "filterE p [] = Inr []"
| "filterE p (x # xs) =
     (case p x of Inl e \<Rightarrow> Inl e
      | Inr b \<Rightarrow> (case filterE p xs of Inl e \<Rightarrow> Inl e | Inr ys \<Rightarrow> Inr (if b then x # ys else ys)))"

definition dget_field :: "pydict \<Rightarrow> string option \<Rightarrow> pyval \<Rightarrow> pyval" where
  "dget_field d k v = (case k of None \<Rightarrow> v | Some f \<Rightarrow> dget_default d f v)"

section \<open>Results\<close>

record action_result =
  ar_business_action_id :: "string option"
  ar_action_type :: string
  ar_resource_id :: string
  ar_reused :: bool
  ar_status :: string
  ar_reason :: "string option"

definition succeeded_result :: "string \<Rightarrow> string \<Rightarrow> string \<Rightarrow> bool \<Rightarrow> action_result" where
  "succeeded_result i ty res reused =
     \<lparr>ar_business_action_id = Some i, ar_action_type = ty, ar_resource_id = res, ar_reused = reused,
      ar_status = ''succeeded'', ar_reason = None\<rparr>"

definition stale_result :: "string \<Rightarrow> string \<Rightarrow> string \<Rightarrow> action_result" where
  "stale_result ty res reason =
     \<lparr>ar_business_action_id = None, ar_action_type = ty, ar_resource_id = res, ar_reused = False,
      ar_status = ''stale'', ar_reason = Some reason\<rparr>"

definition action_hash :: "(string \<Rightarrow> string) \<Rightarrow> pydict \<Rightarrow> string result" where
  "action_hash H payload = canonical_json_hash H (PDict payload)"

definition action_resource_id :: "string \<Rightarrow> pydict \<Rightarrow> string result" where
  "action_resource_id action_type payload =
     (case get_action_spec_or_none action_type of
        None \<Rightarrow> Inl (RuntimeConflict ''approval_resource_missing'')
      | Some sp \<Rightarrow>
          (let v = dget_field payload (resource_field sp) PNone in
           if \<not> truthy v then Inl (RuntimeConflict ''approval_resource_missing'') else Inr (py_str v)))"

section \<open>Guards\<close>

definition assert_active_approver_scope :: "store \<Rightarrow> string \<Rightarrow> string \<Rightarrow> unit result" where
  "assert_active_approver_scope s tenant actor =
     (if select_first (\<lambda>m. mb_tenant_id m = tenant \<and> mb_user_id m = actor \<and>
           mb_role m = ''support_approver'' \<and> mb_status m = ''active'') (st_memberships s) = None \<or>
         select_first (\<lambda>a. as_user_id a = actor \<and> as_tenant_id a = tenant) (st_scopes s) = None
      then Inl (RuntimeConflict ''approver_scope_invalid'') else Inr ())"

definition assert_mutation_enabled :: "store \<Rightarrow> string \<Rightarrow> string \<Rightarrow> mutation_kill_switch result" where
  "assert_mutation_enabled s tenant action_type =
     (case select_first (\<lambda>k. ks_tenant_id k = tenant \<and> ks_action_type k = action_type) (st_switches s) of
        None \<Rightarrow> Inl (RuntimeConflict (''mutation_disabled:'' @ action_type))
      | Some k \<Rightarrow>
          if \<not> ks_enabled k then Inl (RuntimeConflict (''mutation_disabled:'' @ action_type)) else Inr k)"

text \<open>The proposal and the revision bind the same action.\<close>

definition check_proposal_binding ::
  "(string \<Rightarrow> string) \<Rightarrow> approval_request \<Rightarrow> approval_action_revision \<Rightarrow> proposal_record \<Rightarrow> unit result" where
  "check_proposal_binding H ap rvn p =
     (if pr_tenant_id p \<noteq> ap_tenant_id ap \<or> Some (pr_run_id p) \<noteq> ap_run_id ap \<or>
         pr_action_type p \<noteq> ap_action_type ap \<or> pr_resource_version p \<noteq> rv_resource_version rvn then
        Inl (RuntimeConflict ''proposal_snapshot_binding_conflict'')
      else if rv_revision_number rvn = 0 then
        (if \<not> py_eq (PDict (rv_action_payload rvn)) (PDict (pr_action_payload p)) \<or>
            rv_action_hash rvn \<noteq> pr_action_hash p
         then Inl (RuntimeConflict ''proposal_snapshot_binding_conflict'') else Inr ())
      else if rv_revision_number rvn \<noteq> 1 \<or>
          \<not> revision_matches_approval_edit (ap_action_type ap) (pr_action_payload p) (rv_action_payload rvn)
        then Inl (RuntimeConflict ''proposal_revision_binding_conflict'')
      else (case action_hash H (rv_action_payload rvn) of
          Inl e \<Rightarrow> Inl e
        | Inr h \<Rightarrow> if h \<noteq> rv_action_hash rvn
            then Inl (RuntimeConflict ''proposal_revision_binding_conflict'') else Inr ()))"

definition business_item ::
  "string option \<Rightarrow> string \<Rightarrow> int \<Rightarrow> pydict \<Rightarrow> bool result" where
  "business_item tool resource version item =
     (if Some (dget item ''tool_name'') \<noteq> map_option PStr tool \<or> dget item ''status'' \<noteq> PStr ''ok'' \<or>
         dget item ''resource_id'' \<noteq> PStr resource then Inr False
      else (case py_int (dget_default item ''resource_version'' (PInt (- 1))) of
          Inl e \<Rightarrow> Inl e | Inr v \<Rightarrow> Inr (v = version)))"

definition policy_item :: "pydict \<Rightarrow> bool" where
  "policy_item item =
     (dget item ''tool_name'' = PStr ''search_knowledge'' \<and> dget item ''status'' = PStr ''ok'' \<and>
      truthy (dget item ''source_refs''))"

text \<open>The closed observation a binding item names, with its terminal invocation in a closed turn.\<close>

definition bound_observation :: "store \<Rightarrow> approval_request \<Rightarrow> pydict \<Rightarrow> tool_observation option" where
  "bound_observation s ap item =
     select_first (\<lambda>o'. PStr (obs_id o') = dget item ''observation_id'' \<and>
         PStr (obs_invocation_id o') = dget item ''invocation_id'' \<and>
         PStr (obs_content_hash o') = dget item ''observation_content_hash'' \<and>
         obs_tenant_id o' = ap_tenant_id ap \<and> Some (obs_run_id o') = ap_run_id ap \<and>
         obs_status o' = ''ok'' \<and>
         list_ex (\<lambda>i. iv_id i = obs_invocation_id o' \<and> PStr (iv_tool_name i) = dget item ''tool_name'' \<and>
             iv_lifecycle i = ''terminal'' \<and> iv_outcome i = Some ''succeeded'' \<and>
             list_ex (\<lambda>g. tg_id g = iv_turn_group_id i \<and> PStr (tg_id g) = dget item ''turn_group_id'' \<and>
               tg_status g = ''closed'') (turn_groups (st_db s))) (invocations (st_db s)))
       (observations (st_db s))"

definition check_bound_item ::
  "store \<Rightarrow> approval_request \<Rightarrow> string option \<Rightarrow> string option \<Rightarrow> string \<Rightarrow> int \<Rightarrow> pydict \<Rightarrow> unit result" where
  "check_bound_item s ap tool field resource version item =
     (case bound_observation s ap item of
        None \<Rightarrow> Inl (RuntimeConflict ''proposal_observation_ledger_conflict'')
      | Some row \<Rightarrow>
          if Some (dget item ''tool_name'') = map_option PStr tool then
            (case py_dict (dget_default (obs_payload row) ''data'' (PDict [])) of
               Inl e \<Rightarrow> Inl e
             | Inr data \<Rightarrow>
                 if py_str (dget_field data field (PStr [])) \<noteq> resource then
                   Inl (RuntimeConflict ''proposal_business_observation_conflict'')
                 else (case py_int (dget_default data ''version'' (PInt (- 1))) of
                     Inl e \<Rightarrow> Inl e
                   | Inr v \<Rightarrow> if v \<noteq> version
                       then Inl (RuntimeConflict ''proposal_business_observation_conflict'') else Inr ()))
          else if \<not> truthy (dget (obs_payload row) ''source_refs'') then
            Inl (RuntimeConflict ''proposal_policy_evidence_conflict'')
          else Inr ())"

definition validate_execution_binding ::
  "(string \<Rightarrow> string) \<Rightarrow> store \<Rightarrow> approval_request \<Rightarrow> approval_action_revision \<Rightarrow> proposal_record result" where
  "validate_execution_binding H s ap rvn =
     (case proposal_of s ap of
        None \<Rightarrow> Inl (RuntimeConflict ''proposal_snapshot_binding_conflict'')
      | Some p \<Rightarrow>
        (case check_proposal_binding H ap rvn p of Inl e \<Rightarrow> Inl e | Inr _ \<Rightarrow>
        (case get_action_spec_or_none (ap_action_type ap) of
           None \<Rightarrow> Inl (RuntimeConflict ''unsupported_runtime_action'')
         | Some sp \<Rightarrow>
           (let tool = primary_read_capability sp; field = resource_field sp;
                resource = py_str (dget_field (rv_action_payload rvn) field (PStr []));
                version = rv_resource_version rvn
            in (case filterE (business_item tool resource version) (pr_observation_binding p) of
                  Inl e \<Rightarrow> Inl e
                | Inr business \<Rightarrow>
                    (let policy = filter policy_item (pr_observation_binding p) in
                     if length business \<noteq> 1 \<or> policy = [] then
                       Inl (RuntimeConflict ''proposal_observation_binding_conflict'')
                     else (case check_bound_item s ap tool field resource version (hd business) of
                         Inl e \<Rightarrow> Inl e
                       | Inr _ \<Rightarrow>
                           (case check_bound_item s ap tool field resource version (last policy) of
                              Inl e \<Rightarrow> Inl e | Inr _ \<Rightarrow> Inr p))))))))"

section \<open>Identity of an effect\<close>

definition resource_id_of :: "approval_request \<Rightarrow> approval_action_revision \<Rightarrow> string result" where
  "resource_id_of ap rvn =
     (case get_action_spec_or_none (ap_action_type ap) of
        None \<Rightarrow> Inl (RuntimeConflict ''approval_resource_missing'')
      | Some sp \<Rightarrow>
          if Some (ap_resource_type ap) \<noteq> resource_field sp \<or> ap_resource_id ap = [] \<or>
             rv_resource_version rvn \<noteq> ap_business_version ap
          then Inl (RuntimeConflict ''approval_resource_missing'') else Inr (ap_resource_id ap))"

definition effect_identity ::
  "(string \<Rightarrow> string) \<Rightarrow> approval_request \<Rightarrow> approval_action_revision option \<Rightarrow> string \<Rightarrow> string result" where
  "effect_identity H ap rvn resource_id =
     canonical_json_hash H (PDict
       [(''tenant_id'', PStr (ap_tenant_id ap)), (''action_type'', PStr (ap_action_type ap)),
        (''resource_id'', PStr resource_id),
        (''resource_version'', PInt (case rvn of Some r \<Rightarrow> rv_resource_version r
           | None \<Rightarrow> ap_business_version ap))])"

definition action_idempotency_key ::
  "approval_request \<Rightarrow> approval_action_revision \<Rightarrow> string \<Rightarrow> string" where
  "action_idempotency_key ap rvn resource_id =
     (if ap_action_type ap = ''refund'' then ap_idempotency_key ap
      else ''effect:'' @ ap_tenant_id ap @ '':'' @ ap_action_type ap @ '':'' @ resource_id @ '':'' @
        show_int (rv_resource_version rvn))"

definition new_action ::
  "world \<Rightarrow> approval_request \<Rightarrow> approval_action_revision \<Rightarrow> string \<Rightarrow> pydict \<Rightarrow> business_action result" where
  "new_action w ap rvn resource_id res =
     (case effect_identity (w_digest w) ap (Some rvn) resource_id of
        Inl e \<Rightarrow> Inl e
      | Inr ident \<Rightarrow> Inr
          \<lparr>ba_id = w_new_id w ''action'', ba_tenant_id = ap_tenant_id ap, ba_ticket_id = ap_ticket_id ap,
           ba_customer_id = ap_customer_id ap, ba_action_type = ap_action_type ap,
           ba_resource_id = Some resource_id, ba_resource_version = Some (rv_resource_version rvn),
           ba_action_hash = Some (rv_action_hash rvn), ba_approval_id = Some (ap_id ap),
           ba_human_decision_id = None, ba_action_revision_id = Some (rv_id rvn),
           ba_decision_hash = None, ba_effect_identity = Some ident, ba_canonical_event_id = None,
           ba_canonical_event_hash = None, ba_status = ''succeeded'',
           ba_idempotency_key = action_idempotency_key ap rvn resource_id,
           ba_result = (''approval_id'', PStr (ap_id ap)) # res\<rparr>)"

section \<open>Events of the executor\<close>

definition executor_event :: "string \<Rightarrow> pydict \<Rightarrow> human_decision \<Rightarrow> event_request" where
  "executor_event event_type payload dec =
     \<lparr>rq_event_type = event_type, rq_payload = PDict payload, rq_visibility = ''approver'',
      rq_status = ''completed'', rq_tool_call_id = None, rq_step_index = None, rq_tool_round = None,
      rq_idempotency_id = None, rq_expected_head_id = Expect (hd_canonical_event_id dec),
      rq_expected_sequence = None, rq_expected_hash = Expect (hd_canonical_event_hash dec)\<rparr>"

definition head_conflict_as_runtime :: "error \<Rightarrow> error" where
  "head_conflict_as_runtime e =
     (case e of CanonicalEventHeadConflict _ \<Rightarrow> RuntimeConflict ''action_expected_head_conflict'' | _ \<Rightarrow> e)"

definition append_executor_event ::
  "world \<Rightarrow> db \<Rightarrow> string \<Rightarrow> event_request \<Rightarrow> (agent_event \<times> db) result" where
  "append_executor_event w d rid rq =
     (case append_event (w_digest w) (w_redact w) (w_worker w) (w_new_id w ''event'') (w_clock w) d rid rq of
        Inl e \<Rightarrow> Inl (head_conflict_as_runtime e)
      | Inr x \<Rightarrow> Inr x)"

definition mark_stale ::
  "world \<Rightarrow> store \<Rightarrow> approval_request \<Rightarrow> string \<Rightarrow> string \<Rightarrow> (action_result \<times> store) result" where
  "mark_stale w s ap resource_id reason =
     (case transition_approval (st_db s) ap ''stale'' (ap_status ap) (Some (ap_status_version ap)) None of
        Inl e \<Rightarrow> Inl e
      | Inr (_, d1) \<Rightarrow>
        (let d2 = (if falsy_ref (ap_proposal_id ap) then d1
                   else stale_proposals (\<lambda>p. Some (pr_id p) = ap_proposal_id ap) d1);
             out = stale_result (ap_action_type ap) resource_id reason
         in (case lookup_by run_id (ref_or_empty (ap_run_id ap)) (runs d2) of
               None \<Rightarrow> Inr (out, s\<lparr>st_db := d2\<rparr>)
             | Some r \<Rightarrow>
               (case decision_of s ap of
                  None \<Rightarrow> Inl (RuntimeConflict ''action_decision_event_binding_missing'')
                | Some dec \<Rightarrow>
                    if falsy_ref (hd_canonical_event_id dec) \<or> falsy_ref (hd_canonical_event_hash dec) then
                      Inl (RuntimeConflict ''action_decision_event_binding_missing'')
                    else (case append_executor_event w d2 (run_id r)
                            (executor_event ''runtime_action_reconciliation''
                               [(''approval_id'', PStr (ap_id ap)), (''status'', PStr ''stale''),
                                (''reason'', PStr reason)] dec) of
                        Inl e \<Rightarrow> Inl e
                      | Inr (_, d3) \<Rightarrow> Inr (out, s\<lparr>st_db := d3\<rparr>))))))"

definition bind_action_event ::
  "world \<Rightarrow> store \<Rightarrow> approval_request \<Rightarrow> human_decision \<Rightarrow> business_action \<Rightarrow> store result" where
  "bind_action_event w s ap dec act =
     (if falsy_ref (hd_decision_hash dec) then Inl (RuntimeConflict ''decision_hash_missing'')
      else (case lookup_by run_id (ref_or_empty (ap_run_id ap)) (runs (st_db s)) of
          None \<Rightarrow> Inl (RuntimeConflict ''action_run_missing'')
        | Some r \<Rightarrow>
            (case append_executor_event w (st_db s) (run_id r)
                    (executor_event ''runtime_action_committed''
                       [(''approval_id'', PStr (ap_id ap)), (''human_decision_id'', PStr (hd_id dec)),
                        (''decision_hash'', opt_str (hd_decision_hash dec)),
                        (''business_action_id'', PStr (ba_id act)),
                        (''effect_identity'', opt_str (ba_effect_identity act)),
                        (''action_hash'', opt_str (ba_action_hash act))] dec) of
               Inl e \<Rightarrow> Inl e
             | Inr (ev, d1) \<Rightarrow>
                 Inr (s\<lparr>st_db := d1, st_actions := update_by ba_id (ba_id act)
                   (\<lambda>a. a\<lparr>ba_human_decision_id := Some (hd_id dec), ba_decision_hash := hd_decision_hash dec,
                      ba_canonical_event_id := Some (ev_id ev),
                      ba_canonical_event_hash := Some (ev_event_hash ev)\<rparr>) (st_actions s)\<rparr>))))"

section \<open>The three effects\<close>

text \<open>Pending refund approvals of the same charge become stale.\<close>

definition competing_refund :: "approval_request \<Rightarrow> string \<Rightarrow> approval_request \<Rightarrow> bool" where
  "competing_refund ap bill a =
     (ap_id a \<noteq> ap_id ap \<and> ap_tenant_id a = ap_tenant_id ap \<and> ap_customer_id a = ap_customer_id ap \<and>
      ap_status a = ''pending'' \<and> ap_action_type a = ''refund'' \<and>
      dget (ap_action_payload a) ''billing_record_id'' = PStr bill)"

definition stale_competing_refund_approvals :: "db \<Rightarrow> approval_request \<Rightarrow> string \<Rightarrow> db result" where
  "stale_competing_refund_approvals d ap bill =
     foldE (\<lambda>a d. case transition_approval d a ''stale'' ''pending'' (Some (ap_status_version a)) None of
              Inl e \<Rightarrow> Inl e | Inr (_, d') \<Rightarrow> Inr d')
       (filter (competing_refund ap bill) (approvals d)) d"

definition refund_audit :: "world \<Rightarrow> approval_request \<Rightarrow> string \<Rightarrow> string \<Rightarrow> audit_event" where
  "refund_audit w ap action_id trace_id =
     \<lparr>au_id = w_new_id w ''audit'', au_tenant_id = ap_tenant_id ap, au_ticket_id = ap_ticket_id ap,
      au_customer_id = ap_customer_id ap, au_event_type = ''refund_executed'', au_actor_type = ''runtime'',
      au_actor_id = None,
      au_payload = [(''approval_id'', PStr (ap_id ap)), (''business_action_id'', PStr action_id)],
      au_trace_id = trace_id, au_run_id = ap_run_id ap, au_created_at = w_clock w\<rparr>"

definition refund_snapshot_valid ::
  "approval_request \<Rightarrow> int \<Rightarrow> pydict \<Rightarrow> refund_charge_facts \<Rightarrow> refund_pair_evaluation \<Rightarrow>
   proposal_record option \<Rightarrow> bool" where
  "refund_snapshot_valid ap version payload billing pair p =
     (rc_customer_id billing = ap_customer_id ap \<and>
      py_eq (PStr (ap_customer_id ap)) (dget payload ''customer_id'') \<and>
      rc_status billing = ''charged'' \<and> rc_version billing = version \<and>
      py_eq (PInt version) (dget payload ''business_version'') \<and>
      str_decimal (rc_amount billing) = py_str (dget payload ''amount'') \<and>
      py_eq (PStr (rc_currency billing)) (dget payload ''currency'') \<and>
      (case p of None \<Rightarrow> False | Some q \<Rightarrow> refund_pair_matches_proposal pair (proposal_binding q)))"

definition refund_billing :: "string \<Rightarrow> billing_table \<Rightarrow> billing_table" where
  "refund_billing i rows =
     update_by rc_billing_record_id i
       (\<lambda>b. b\<lparr>rc_status := ''refunded'', rc_version := rc_version b + 1\<rparr>) rows"

definition refund_result :: "refund_charge_facts \<Rightarrow> pydict" where
  "refund_result b = [(''billing_record_id'', PStr (rc_billing_record_id b)),
     (''amount'', PStr (str_decimal (rc_amount b))), (''currency'', PStr (rc_currency b))]"

definition add_audit :: "audit_event \<Rightarrow> store \<Rightarrow> store result" where
  "add_audit a s =
     (case insert_row au_id a (st_audit s) of Inl e \<Rightarrow> Inl e | Inr rows \<Rightarrow> Inr (s\<lparr>st_audit := rows\<rparr>))"

definition execute_refund ::
  "world \<Rightarrow> store \<Rightarrow> approval_request \<Rightarrow> approval_action_revision \<Rightarrow> string \<Rightarrow> string \<Rightarrow>
   (action_result \<times> store) result" where
  "execute_refund w s ap rvn resource_id trace_id =
     (case lock_and_evaluate_billing_refund_pair (w_digest w) (st_billing s) (ap_tenant_id ap)
             (ap_customer_id ap) resource_id (w_clock w) of
        Inl e \<Rightarrow> Inl e
      | Inr None \<Rightarrow> mark_stale w s ap resource_id ''refund_snapshot_stale''
      | Inr (Some (billing, pair)) \<Rightarrow>
          if \<not> refund_snapshot_valid ap (rv_resource_version rvn) (rv_action_payload rvn) billing pair
                (proposal_of s ap)
          then mark_stale w s ap resource_id ''refund_snapshot_stale''
          else (case new_action w ap rvn resource_id (refund_result billing) of Inl e \<Rightarrow> Inl e | Inr act \<Rightarrow>
            (case insert_action act (s\<lparr>st_billing := refund_billing (rc_billing_record_id billing) (st_billing s)\<rparr>) of
               Inl e \<Rightarrow> Inl e
             | Inr s1 \<Rightarrow>
               (case stale_competing_refund_approvals (st_db s1) ap (rc_billing_record_id billing) of
                  Inl e \<Rightarrow> Inl e
                | Inr d2 \<Rightarrow>
                  (case add_audit (refund_audit w ap (ba_id act) trace_id) (s1\<lparr>st_db := d2\<rparr>) of
                     Inl e \<Rightarrow> Inl e
                   | Inr s2 \<Rightarrow>
                       Inr (succeeded_result (ba_id act) (ba_action_type act) resource_id False, s2))))))"

definition revoke_key ::
  "world \<Rightarrow> store \<Rightarrow> approval_request \<Rightarrow> approval_action_revision \<Rightarrow> string \<Rightarrow>
   (action_result \<times> store) result" where
  "revoke_key w s ap rvn resource_id =
     (case select_first (\<lambda>k. km_tenant_id k = ap_tenant_id ap \<and> km_customer_id k = ap_customer_id ap \<and>
             km_key_id k = resource_id) (st_keys s) of
        None \<Rightarrow> mark_stale w s ap resource_id ''api_key_snapshot_stale''
      | Some key \<Rightarrow>
          if km_status key \<noteq> ''active'' \<or> km_version key \<noteq> rv_resource_version rvn \<or>
             \<not> py_eq (PStr (km_fingerprint key)) (dget (rv_action_payload rvn) ''fingerprint'')
          then mark_stale w s ap resource_id ''api_key_snapshot_stale''
          else (case new_action w ap rvn resource_id [(''status'', PStr ''revoked'')] of Inl e \<Rightarrow> Inl e | Inr act \<Rightarrow>
            (case insert_action act (s\<lparr>st_keys := update_by km_id (km_id key)
                 (\<lambda>k. k\<lparr>km_status := ''revoked'', km_version := km_version k + 1\<rparr>) (st_keys s)\<rparr>) of
               Inl e \<Rightarrow> Inl e
             | Inr s1 \<Rightarrow>
                 Inr (succeeded_result (ba_id act) (ba_action_type act) resource_id False, s1))))"

text \<open>The newest catalogue row of a plan: the first of the highest version.\<close>

definition newest_catalog :: "store \<Rightarrow> string \<Rightarrow> plan_catalog option" where
  "newest_catalog s plan =
     (case sort_desc pc_version (filter (\<lambda>c. pc_plan c = plan) (st_catalog s)) of
        [] \<Rightarrow> None | c # _ \<Rightarrow> Some c)"

definition int_between :: "int \<Rightarrow> pyval \<Rightarrow> int \<Rightarrow> bool result" where
  "int_between lo v hi = (case py_int v of Inl e \<Rightarrow> Inl e | Inr n \<Rightarrow> Inr (lo \<le> n \<and> n \<le> hi))"

definition quota_valid :: "plan_catalog option \<Rightarrow> pydict \<Rightarrow> bool result" where
  "quota_valid catalog target =
     (case catalog of None \<Rightarrow> Inr False
      | Some c \<Rightarrow>
          if set (map fst target) = {''rpm_limit''} then
            int_between (pc_min_rpm c) (dget target ''rpm_limit'') (pc_max_rpm c)
          else if set (map fst target) = {''concurrency_limit''} then
            int_between (pc_min_concurrency c) (dget target ''concurrency_limit'') (pc_max_concurrency c)
          else Inr False)"

text \<open>The policy recheck: \<open>None\<close> when the change is still allowed, otherwise why it is stale.\<close>

definition entitlement_stale_reason ::
  "store \<Rightarrow> subscription \<Rightarrow> string \<Rightarrow> pydict \<Rightarrow> string option result" where
  "entitlement_stale_reason s sub change_type target =
     (if change_type = ''quota_change'' then
        (case quota_valid (newest_catalog s (sb_plan sub)) target of
           Inl e \<Rightarrow> Inl e
         | Inr ok \<Rightarrow> Inr (if ok then None else Some ''entitlement_policy_stale''))
      else if change_type = ''plan_change'' then
        (let plan = py_str (dget_default target ''plan'' (PStr [])) in
         Inr (if plan = [] \<or> select_first (\<lambda>c. pc_plan c = plan) (st_catalog s) = None
              then Some ''entitlement_plan_stale'' else None))
      else Inr (Some ''entitlement_change_type_stale''))"

definition opt_int :: "pydict \<Rightarrow> string \<Rightarrow> int \<Rightarrow> int result" where
  "opt_int target k old = (if dhas target k then py_int (dget target k) else Inr old)"

definition apply_target :: "pydict \<Rightarrow> subscription \<Rightarrow> subscription result" where
  "apply_target target sub =
     (let plan = (if dhas target ''plan'' then py_str (dget target ''plan'') else sb_plan sub) in
      case opt_int target ''rpm_limit'' (sb_rpm_limit sub) of Inl e \<Rightarrow> Inl e | Inr rpm \<Rightarrow>
      (case opt_int target ''concurrency_limit'' (sb_concurrency_limit sub) of Inl e \<Rightarrow> Inl e | Inr conc \<Rightarrow>
         Inr (sub\<lparr>sb_plan := plan, sb_rpm_limit := rpm, sb_concurrency_limit := conc,
              sb_version := sb_version sub + 1\<rparr>)))"

definition entitlement_result :: "subscription \<Rightarrow> pydict \<Rightarrow> pydict" where
  "entitlement_result sub target =
     [(''before'', PDict [(''plan'', PStr (sb_plan sub)), (''rpm_limit'', PInt (sb_rpm_limit sub)),
         (''concurrency_limit'', PInt (sb_concurrency_limit sub))]),
      (''after'', PDict target)]"

definition change_entitlement ::
  "world \<Rightarrow> store \<Rightarrow> approval_request \<Rightarrow> approval_action_revision \<Rightarrow> string \<Rightarrow>
   (action_result \<times> store) result" where
  "change_entitlement w s ap rvn resource_id =
     (case select_first (\<lambda>u. sb_tenant_id u = ap_tenant_id ap \<and> sb_customer_id u = ap_customer_id ap \<and>
             sb_id u = resource_id) (st_subscriptions s) of
        None \<Rightarrow> mark_stale w s ap resource_id ''entitlement_snapshot_stale''
      | Some sub \<Rightarrow>
          if sb_version sub \<noteq> rv_resource_version rvn
          then mark_stale w s ap resource_id ''entitlement_snapshot_stale''
          else (case py_dict (dget_default (rv_action_payload rvn) ''target'' (PDict [])) of
              Inl e \<Rightarrow> Inl e
            | Inr target \<Rightarrow>
              (case entitlement_stale_reason s sub
                      (py_str (dget_default (rv_action_payload rvn) ''change_type'' (PStr []))) target of
                 Inl e \<Rightarrow> Inl e
               | Inr (Some reason) \<Rightarrow> mark_stale w s ap resource_id reason
               | Inr None \<Rightarrow>
                 (case apply_target target sub of Inl e \<Rightarrow> Inl e | Inr sub' \<Rightarrow>
                 (case new_action w ap rvn resource_id (entitlement_result sub target) of
                    Inl e \<Rightarrow> Inl e
                  | Inr act \<Rightarrow>
                    (case insert_action act (s\<lparr>st_subscriptions :=
                           update_by sb_id (sb_id sub) (\<lambda>_. sub') (st_subscriptions s)\<rparr>) of
                       Inl e \<Rightarrow> Inl e
                     | Inr s1 \<Rightarrow>
                         Inr (succeeded_result (ba_id act) (ba_action_type act) resource_id False, s1)))))))"

section \<open>Execution\<close>

definition existing_effect :: "store \<Rightarrow> approval_request \<Rightarrow> string \<Rightarrow> int \<Rightarrow> business_action option" where
  "existing_effect s ap resource_id version =
     select_first (\<lambda>a. ba_tenant_id a = ap_tenant_id ap \<and> ba_action_type a = ap_action_type ap \<and>
       ba_resource_id a = Some resource_id \<and> ba_resource_version a = Some version) (st_actions s)"

definition effect_bound ::
  "(string \<Rightarrow> string) \<Rightarrow> approval_request \<Rightarrow> human_decision \<Rightarrow> approval_action_revision \<Rightarrow> string \<Rightarrow>
   business_action \<Rightarrow> bool" where
  "effect_bound H ap dec rvn resource_id ex =
     (ba_action_hash ex = Some (rv_action_hash rvn) \<and> dget (ba_result ex) ''approval_id'' = PStr (ap_id ap) \<and>
      ba_approval_id ex = Some (ap_id ap) \<and> ba_human_decision_id ex = Some (hd_id dec) \<and>
      ba_decision_hash ex = hd_decision_hash dec \<and> ba_action_revision_id ex = Some (rv_id rvn) \<and>
      Inr (ba_effect_identity ex) = map_sum id Some (effect_identity H ap (Some rvn) resource_id) \<and>
      \<not> falsy_ref (ba_canonical_event_id ex) \<and> \<not> falsy_ref (ba_canonical_event_hash ex))"

definition reuse_effect ::
  "world \<Rightarrow> store \<Rightarrow> approval_request \<Rightarrow> human_decision \<Rightarrow> approval_action_revision \<Rightarrow> string \<Rightarrow>
   business_action \<Rightarrow> (action_result \<times> store) result" where
  "reuse_effect w s ap dec rvn resource_id ex =
     (if \<not> effect_bound (w_digest w) ap dec rvn resource_id ex then
        Inl (RuntimeConflict ''action_effect_binding_conflict'')
      else if ap_status ap \<notin> {''approved'', ''executed''} then
        Inl (RuntimeConflict ''approval_not_executable'')
      else (case (if ap_status ap = ''approved'' then
                    (case transition_approval (st_db s) ap ''executed'' ''approved''
                            (Some (ap_status_version ap)) None of
                       Inl e \<Rightarrow> Inl e
                     | Inr (_, d1) \<Rightarrow> Inr (consume_approval (w_clock w) (ap_id ap) d1))
                  else Inr (st_db s)) of
          Inl e \<Rightarrow> Inl e
        | Inr d1 \<Rightarrow>
            Inr (succeeded_result (ba_id ex) (ba_action_type ex) resource_id True,
              s\<lparr>st_db := (if falsy_ref (ap_proposal_id ap) then d1
                 else stale_proposals (\<lambda>p. Some (pr_id p) = ap_proposal_id ap) d1)\<rparr>)))"

definition run_effect ::
  "world \<Rightarrow> store \<Rightarrow> approval_request \<Rightarrow> approval_action_revision \<Rightarrow> string \<Rightarrow> string \<Rightarrow>
   (action_result \<times> store) result" where
  "run_effect w s ap rvn resource_id trace_id =
     (if ap_action_type ap = ''refund'' then execute_refund w s ap rvn resource_id trace_id
      else if ap_action_type ap = ''api_key_revocation'' then revoke_key w s ap rvn resource_id
      else if ap_action_type ap = ''entitlement_change'' then change_entitlement w s ap rvn resource_id
      else Inl (RuntimeConflict ''unsupported_runtime_action''))"

definition commit_effect ::
  "world \<Rightarrow> store \<Rightarrow> approval_request \<Rightarrow> human_decision \<Rightarrow> string \<Rightarrow> action_result \<Rightarrow>
   (action_result \<times> store) result" where
  "commit_effect w s ap dec resource_id res =
     (case lookup_by ba_id (ref_or_empty (ar_business_action_id res)) (st_actions s) of
        None \<Rightarrow> Inl (RuntimeConflict ''business_action_missing'')
      | Some act \<Rightarrow>
        (case bind_action_event w s ap dec act of
           Inl e \<Rightarrow> Inl e
         | Inr s1 \<Rightarrow>
           (case transition_approval (st_db s1) ap ''executed'' ''approved'' (Some (ap_status_version ap)) None of
              Inl e \<Rightarrow> Inl e
            | Inr (_, d2) \<Rightarrow>
                Inr (res, s1\<lparr>st_db :=
                  stale_proposals (\<lambda>p. pr_tenant_id p = ap_tenant_id ap \<and> pr_action_type p = ap_action_type ap \<and>
                      pr_resource_id p = resource_id \<and> pr_status p \<in> {''draft'', ''bound''})
                    (consume_approval (w_clock w) (ap_id ap) d2)\<rparr>))))"

definition execute_new ::
  "world \<Rightarrow> store \<Rightarrow> approval_request \<Rightarrow> human_decision \<Rightarrow> approval_action_revision \<Rightarrow> string \<Rightarrow> string \<Rightarrow>
   (action_result \<times> store) result" where
  "execute_new w s ap dec rvn resource_id trace_id =
     (case (case assert_active_approver_scope s (ap_tenant_id ap) (hd_actor_id dec) of
              Inl e \<Rightarrow> Inl e | Inr _ \<Rightarrow> validate_execution_binding (w_digest w) s ap rvn) of
        Inl (RuntimeConflict _) \<Rightarrow> mark_stale w s ap resource_id ''action_snapshot_stale''
      | Inl e \<Rightarrow> Inl e
      | Inr _ \<Rightarrow>
        (case assert_mutation_enabled s (ap_tenant_id ap) (ap_action_type ap) of
           Inl e \<Rightarrow> Inl e
         | Inr _ \<Rightarrow>
             if ap_status ap \<noteq> ''approved'' \<or> ap_consumed_at ap \<noteq> None then
               Inl (RuntimeConflict ''approval_not_executable'')
             else (case action_hash (w_digest w) (rv_action_payload rvn) of
                 Inl e \<Rightarrow> Inl e
               | Inr h \<Rightarrow>
                   if h \<noteq> rv_action_hash rvn then mark_stale w s ap resource_id ''action_snapshot_stale''
                   else (case run_effect w s ap rvn resource_id trace_id of
                       Inl e \<Rightarrow> Inl e
                     | Inr (res, s1) \<Rightarrow>
                         if ar_status res = ''stale'' then Inr (res, s1)
                         else commit_effect w s1 ap dec resource_id res))))"

definition decision_binds :: "human_decision \<Rightarrow> approval_action_revision \<Rightarrow> bool" where
  "decision_binds dec rvn =
     (hd_action_revision_id dec = Some (rv_id rvn) \<and> hd_decision dec \<in> {''approve'', ''edit_and_approve''} \<and>
      hd_action_hash dec = Some (rv_action_hash rvn))"

definition execute_action ::
  "world \<Rightarrow> store \<Rightarrow> job_lease \<Rightarrow> string \<Rightarrow> string option \<Rightarrow> (action_result \<times> store) result" where
  "execute_action w s l approval_id trace_id =
     (case assert_fence (w_now w) (st_db s) l of Inl e \<Rightarrow> Inl e | Inr _ \<Rightarrow>
     (case lookup_by ap_id approval_id (approvals (st_db s)) of
        None \<Rightarrow> Inl (RuntimeConflict ''approval_not_found'')
      | Some ap \<Rightarrow>
          if ap_run_id ap \<noteq> Some (jl_run_id l) then Inl (RuntimeConflict ''approval_not_found'')
          else (case decision_of s ap of
              None \<Rightarrow> Inl (RuntimeConflict ''action_decision_binding_conflict'')
            | Some dec \<Rightarrow>
              (case revision_of s ap of
                 None \<Rightarrow> Inl (RuntimeConflict ''action_decision_binding_conflict'')
               | Some rvn \<Rightarrow>
                   if \<not> decision_binds dec rvn then
                     Inl (RuntimeConflict ''action_decision_binding_conflict'')
                   else (case resource_id_of ap rvn of
                       Inl e \<Rightarrow> Inl e
                     | Inr resource_id \<Rightarrow>
                         (case existing_effect s ap resource_id (rv_resource_version rvn) of
                            Some ex \<Rightarrow> reuse_effect w s ap dec rvn resource_id ex
                          | None \<Rightarrow> execute_new w s ap dec rvn resource_id
                              (if falsy_ref trace_id then ''runtime:'' @ jl_job_id l else the trace_id)))))))"

interpretation action_executions: fenced_operation "\<lambda>s. assert_fence (w_now w) (st_db s)"
    "\<lambda>s l (approval_id, trace_id). execute_action w s l approval_id trace_id" for w
  by unfold_locales (auto simp: execute_action_def)

end
