(* ===== verification/Action_Effects.thy ===== *)
theory Action_Effects
  imports Action_Executor
begin

text \<open>
  What executing an approval can do.  Every successful execution is one of three: the replay of an
  effect that is already recorded, the staling of the approval, or one authorised effect.  The lemmas
  below give these three shapes.
\<close>

section \<open>Frames\<close>

lemma transition_frame:
  assumes "transition_approval d ap to_s exp_s v dec = Inr (tr, d')"
  shows "runs d' = runs d" "tickets d' = tickets d" "jobs d' = jobs d" "events d' = events d"
    "proposals d' = proposals d" "turns d' = turns d"
    "map ap_id (approvals d') = map ap_id (approvals d)"
  using transition_approval_Inr [OF assms] by (auto simp: upd_approval_def update_by_def)

text \<open>The tables beside the runtime database that an execution reads and never writes.\<close>

definition same_authority :: "store \<Rightarrow> store \<Rightarrow> bool" where
  "same_authority s s' \<longleftrightarrow> st_decisions s' = st_decisions s \<and> st_revisions s' = st_revisions s \<and>
     st_catalog s' = st_catalog s \<and> st_memberships s' = st_memberships s \<and> st_scopes s' = st_scopes s \<and>
     st_switches s' = st_switches s \<and> st_withdrawals s' = st_withdrawals s"

lemma same_authority_refl [simp]: "same_authority s s"
  by (simp add: same_authority_def)

lemma same_authority_trans: "same_authority s s1 \<Longrightarrow> same_authority s1 s2 \<Longrightarrow> same_authority s s2"
  by (simp add: same_authority_def)

lemma same_authority_updates [simp]:
  "same_authority s (s\<lparr>st_db := d\<rparr>)" "same_authority s (s\<lparr>st_db := d, st_actions := x\<rparr>)"
  by (simp_all add: same_authority_def)

lemma append_executor_event_Inr:
  "append_executor_event w d rid rq = Inr (e, d') \<longleftrightarrow>
     append_event (w_digest w) (w_redact w) (w_worker w) (w_new_id w ''event'') (w_clock w) d rid rq = Inr (e, d')"
  by (simp add: append_executor_event_def split: sum.split)

lemma append_executor_event_frame:
  assumes "append_executor_event w d rid rq = Inr (e, d')"
  shows "approvals d' = approvals d" "proposals d' = proposals d" "ev_id e = w_new_id w ''event''"
    "events d' = events d @ [e]" "\<exists>x. ev_event_hash e = w_digest w x"
proof -
  note a = assms [unfolded append_executor_event_Inr]
  show "approvals d' = approvals d" "proposals d' = proposals d" by (rule append_event_frame [OF a])+
  from a show "ev_id e = w_new_id w ''event''" "events d' = events d @ [e]"
    by (rule append_event_Inr, simp add: new_event_fields)+
  from a show "\<exists>x. ev_event_hash e = w_digest w x"
    by (rule append_event_Inr) (auto simp: new_event_def Let_def event_hash_def)
qed

section \<open>Staling\<close>

lemma mark_stale_Inr:
  assumes "mark_stale w s ap rid reason = Inr (r, s')"
    and "lookup_by ap_id (ap_id ap) (approvals (st_db s)) = Some ap"
  shows "r = stale_result (ap_action_type ap) rid reason" "same_effects s s'" "same_authority s s'"
    "\<exists>a. lookup_by ap_id (ap_id ap) (approvals (st_db s')) = Some a \<and> ap_status a = ''stale''"
    "st_audit s' = st_audit s"
proof -
  let ?tr = "transition_approval (st_db s) ap ''stale'' (ap_status ap) (Some (ap_status_version ap)) None"
  obtain tr d1 where t: "?tr = Inr (tr, d1)"
    using assms(1) by (cases ?tr) (auto simp: mark_stale_def)
  have d3: "s' = s\<lparr>st_db := st_db s'\<rparr> \<and> r = stale_result (ap_action_type ap) rid reason \<and>
      approvals (st_db s') = approvals d1"
    using assms(1) t unfolding mark_stale_def Let_def
    by (auto split: option.splits if_splits sum.splits dest: append_executor_event_frame)
  then show "r = stale_result (ap_action_type ap) rid reason" by simp
  from d3 show "same_effects s s'" "same_authority s s'"
    by (metis same_effects_db, metis same_authority_updates(1))
  from d3 have "st_audit s' = st_audit (s\<lparr>st_db := st_db s'\<rparr>)" by simp
  then show "st_audit s' = st_audit s" by simp
  show "\<exists>a. lookup_by ap_id (ap_id ap) (approvals (st_db s')) = Some a \<and> ap_status a = ''stale''"
    using transition_approval_Inr [OF t] assms(2) d3
    by (auto simp: upd_approval_def lookup_by_update_by)
qed

section \<open>Effects\<close>

text \<open>An effect is recorded as one new action of the approval's resource version.\<close>

lemma effect_identity_Inr:
  "effect_identity H ap rv rid = Inr (H (json_dumps (PDict
     [(''tenant_id'', PStr (ap_tenant_id ap)), (''action_type'', PStr (ap_action_type ap)),
      (''resource_id'', PStr rid),
      (''resource_version'', PInt (case rv of Some r \<Rightarrow> rv_resource_version r
           | None \<Rightarrow> ap_business_version ap))])))"
  by (simp add: effect_identity_def canonical_json_hash_def canonical_json_bytes_def)

lemma new_action_Inr:
  assumes "new_action w ap rvn rid res = Inr act"
  shows "ba_id act = w_new_id w ''action''" "ba_tenant_id act = ap_tenant_id ap"
    "ba_action_type act = ap_action_type ap" "ba_resource_id act = Some rid"
    "ba_resource_version act = Some (rv_resource_version rvn)"
    "ba_action_hash act = Some (rv_action_hash rvn)" "ba_approval_id act = Some (ap_id ap)"
    "ba_action_revision_id act = Some (rv_id rvn)"
    "Inr (ba_effect_identity act) = map_sum id Some (effect_identity (w_digest w) ap (Some rvn) rid)"
    "dget (ba_result act) ''approval_id'' = PStr (ap_id ap)"
  using assms by (auto simp: new_action_def dget_def split: sum.splits)

definition recorded_effect ::
  "world \<Rightarrow> store \<Rightarrow> approval_request \<Rightarrow> approval_action_revision \<Rightarrow> string \<Rightarrow> action_result \<Rightarrow> store \<Rightarrow>
   business_action \<Rightarrow> bool" where
  "recorded_effect w s ap rvn rid res s' act \<longleftrightarrow>
     (\<exists>x. new_action w ap rvn rid x = Inr act) \<and> w_new_id w ''action'' \<notin> ba_id ` set (st_actions s) \<and>
     st_actions s' = st_actions s @ [act] \<and>
     res = succeeded_result (ba_id act) (ap_action_type ap) rid False \<and> same_authority s s' \<and>
     lookup_by ap_id (ap_id ap) (approvals (st_db s')) = lookup_by ap_id (ap_id ap) (approvals (st_db s)) \<and>
     runs (st_db s') = runs (st_db s)"

lemma insert_action_recorded:
  assumes "new_action w ap rvn rid x = Inr act" "insert_action act s1 = Inr s2"
    and "st_actions s1 = st_actions s" "same_authority s s1" "st_db s1 = st_db s"
  shows "recorded_effect w s ap rvn rid (succeeded_result (ba_id act) (ba_action_type act) rid False) s2 act"
    "s2 = s1\<lparr>st_actions := st_actions s @ [act]\<rparr>"
proof -
  from assms(2,3) have i: "\<forall>b \<in> set (st_actions s). ba_id b \<noteq> ba_id act"
    "s2 = s1\<lparr>st_actions := st_actions s @ [act]\<rparr>" by (simp_all add: insert_action_Inr)
  then show "s2 = s1\<lparr>st_actions := st_actions s @ [act]\<rparr>" by simp
  from i(1) new_action_Inr(1) [OF assms(1)] have "w_new_id w ''action'' \<notin> ba_id ` set (st_actions s)"
    by (metis image_iff)
  with i assms new_action_Inr [OF assms(1)]
  show "recorded_effect w s ap rvn rid (succeeded_result (ba_id act) (ba_action_type act) rid False) s2 act"
    unfolding recorded_effect_def by (auto simp: same_authority_def)
qed

text \<open>Staling competing approvals leaves every other row.\<close>

lemma stale_fold_frame:
  assumes "foldE (\<lambda>a d. case transition_approval d a ''stale'' ''pending'' (Some (ap_status_version a)) None of
              Inl e \<Rightarrow> Inl e | Inr (_, d') \<Rightarrow> Inr d') xs d = Inr d'"
    and "i \<notin> ap_id ` set xs"
  shows "lookup_by ap_id i (approvals d') = lookup_by ap_id i (approvals d) \<and> runs d' = runs d \<and>
    tickets d' = tickets d \<and> events d' = events d \<and> proposals d' = proposals d \<and> jobs d' = jobs d"
  using assms
proof (induction xs arbitrary: d)
  case (Cons a xs)
  then obtain tr d1 where t: "transition_approval d a ''stale'' ''pending'' (Some (ap_status_version a)) None = Inr (tr, d1)"
    and r: "foldE (\<lambda>a d. case transition_approval d a ''stale'' ''pending'' (Some (ap_status_version a)) None of
              Inl e \<Rightarrow> Inl e | Inr (_, d') \<Rightarrow> Inr d') xs d1 = Inr d'"
    by (auto split: sum.splits)
  have "lookup_by ap_id i (approvals d1) = lookup_by ap_id i (approvals d)"
    using transition_approval_Inr [OF t] Cons.prems(2) by (auto simp: upd_approval_def lookup_by_update_by)
  with Cons.IH [OF r] Cons.prems(2) transition_frame [OF t] show ?case by simp
qed simp

lemma stale_competing_frame:
  assumes "stale_competing_refund_approvals d ap bill = Inr d'"
  shows "lookup_by ap_id (ap_id ap) (approvals d') = lookup_by ap_id (ap_id ap) (approvals d)"
    "runs d' = runs d" "tickets d' = tickets d" "events d' = events d" "proposals d' = proposals d"
    "jobs d' = jobs d"
proof -
  have "ap_id ap \<notin> ap_id ` set (filter (competing_refund ap bill) (approvals d))"
    by (auto simp: competing_refund_def)
  from stale_fold_frame [OF assms [unfolded stale_competing_refund_approvals_def] this]
  show "lookup_by ap_id (ap_id ap) (approvals d') = lookup_by ap_id (ap_id ap) (approvals d)"
    "runs d' = runs d" "tickets d' = tickets d" "events d' = events d" "proposals d' = proposals d"
    "jobs d' = jobs d" by simp_all
qed

section \<open>The shape of each effect\<close>

lemma lock_and_evaluate_row:
  assumes "lock_and_evaluate_billing_refund_pair H rows tenant customer bill now = Inr (Some (b, ev))"
  shows "b \<in> set rows" "rc_billing_record_id b = bill" "rc_tenant_id b = tenant" "rc_customer_id b = customer"
proof -
  have "b \<in> set rows \<and> rc_billing_record_id b = bill \<and> rc_tenant_id b = tenant \<and> rc_customer_id b = customer"
    using assms unfolding lock_and_evaluate_billing_refund_pair_def Let_def
    by (simp split: option.splits sum.splits) (drule lookup_by_Some, simp)+
  then show "b \<in> set rows" "rc_billing_record_id b = bill" "rc_tenant_id b = tenant" "rc_customer_id b = customer"
    by simp_all
qed

lemma execute_refund_cases:
  assumes "execute_refund w s ap rvn rid tr = Inr (res, s1)"
  shows "(\<exists>reason. mark_stale w s ap rid reason = Inr (res, s1)) \<or>
    (\<exists>act b. recorded_effect w s ap rvn rid res s1 act \<and> b \<in> set (st_billing s) \<and> rc_billing_record_id b = rid \<and>
       rc_tenant_id b = ap_tenant_id ap \<and> rc_status b = ''charged'' \<and> rc_version b = rv_resource_version rvn \<and>
       st_billing s1 = refund_billing rid (st_billing s) \<and> st_keys s1 = st_keys s \<and>
       st_subscriptions s1 = st_subscriptions s)"
proof (cases "\<exists>reason. mark_stale w s ap rid reason = Inr (res, s1)")
  case False
  let ?le = "lock_and_evaluate_billing_refund_pair (w_digest w) (st_billing s) (ap_tenant_id ap)
             (ap_customer_id ap) rid (w_clock w)"
  from assms False obtain b ev where le: "?le = Inr (Some (b, ev))"
    by (auto simp: execute_refund_def split: sum.splits option.splits)
  note row = lock_and_evaluate_row [OF le]
  have "execute_refund w s ap rvn rid tr \<noteq> mark_stale w s ap rid ''refund_snapshot_stale''"
    using assms False by auto
  then have valid: "refund_snapshot_valid ap (rv_resource_version rvn) (rv_action_payload rvn) b ev (proposal_of s ap)"
    by (rule contrapos_np) (simp add: execute_refund_def le)
  let ?s0 = "s\<lparr>st_billing := refund_billing rid (st_billing s)\<rparr>"
  from assms le valid row(2) obtain act s2 d2 where n: "new_action w ap rvn rid (refund_result b) = Inr act"
    and i: "insert_action act ?s0 = Inr s2"
    and c: "stale_competing_refund_approvals (st_db s2) ap rid = Inr d2"
    and a: "add_audit (refund_audit w ap (ba_id act) tr) (s2\<lparr>st_db := d2\<rparr>) = Inr s1"
    and r: "res = succeeded_result (ba_id act) (ba_action_type act) rid False"
    by (auto simp: execute_refund_def split: sum.splits)
  note rec = insert_action_recorded [OF n i, of s, unfolded r [symmetric]]
  have "same_authority s ?s0" by (simp add: same_authority_def)
  then have rec': "recorded_effect w s ap rvn rid res s2 act" "s2 = ?s0\<lparr>st_actions := st_actions s @ [act]\<rparr>"
    using rec by simp_all
  from a have s1: "s1 = s2\<lparr>st_db := d2, st_audit := st_audit s @ [refund_audit w ap (ba_id act) tr]\<rparr>"
    by (auto simp: add_audit_def rec'(2) insert_row_Inr split: sum.splits)
  have "recorded_effect w s ap rvn rid res s1 act"
    using rec'(1) stale_competing_frame [OF c] unfolding recorded_effect_def s1
    by (simp add: same_authority_def)
  moreover have "st_billing s1 = refund_billing rid (st_billing s)" "st_keys s1 = st_keys s"
    "st_subscriptions s1 = st_subscriptions s" by (simp_all add: s1 rec'(2))
  ultimately show ?thesis using row valid unfolding refund_snapshot_valid_def by blast
qed blast

lemma revoke_key_cases:
  assumes "revoke_key w s ap rvn rid = Inr (res, s1)"
  shows "(\<exists>reason. mark_stale w s ap rid reason = Inr (res, s1)) \<or>
    (\<exists>act k. recorded_effect w s ap rvn rid res s1 act \<and> k \<in> set (st_keys s) \<and> km_key_id k = rid \<and>
       km_tenant_id k = ap_tenant_id ap \<and> km_status k = ''active'' \<and> km_version k = rv_resource_version rvn \<and>
       st_keys s1 = update_by km_id (km_id k)
         (\<lambda>k. k\<lparr>km_status := ''revoked'', km_version := km_version k + 1\<rparr>) (st_keys s) \<and>
       st_billing s1 = st_billing s \<and> st_subscriptions s1 = st_subscriptions s)"
proof (cases "\<exists>reason. mark_stale w s ap rid reason = Inr (res, s1)")
  case False
  let ?P = "\<lambda>k. km_tenant_id k = ap_tenant_id ap \<and> km_customer_id k = ap_customer_id ap \<and> km_key_id k = rid"
  from assms False obtain k where k: "select_first ?P (st_keys s) = Some k"
    by (auto simp: revoke_key_def split: option.splits)
  let ?s0 = "s\<lparr>st_keys := update_by km_id (km_id k)
         (\<lambda>k. k\<lparr>km_status := ''revoked'', km_version := km_version k + 1\<rparr>) (st_keys s)\<rparr>"
  have "revoke_key w s ap rvn rid \<noteq> mark_stale w s ap rid ''api_key_snapshot_stale''"
    using assms False by auto
  then have valid: "km_status k = ''active'' \<and> km_version k = rv_resource_version rvn \<and>
      py_eq (PStr (km_fingerprint k)) (dget (rv_action_payload rvn) ''fingerprint'')"
    by (rule contrapos_np) (auto simp: revoke_key_def k)
  from assms k valid obtain act where n: "new_action w ap rvn rid [(''status'', PStr ''revoked'')] = Inr act"
    and i: "insert_action act ?s0 = Inr s1"
    and r: "res = succeeded_result (ba_id act) (ba_action_type act) rid False"
    by (auto simp: revoke_key_def split: sum.splits)
  have "same_authority s ?s0" by (simp add: same_authority_def)
  with insert_action_recorded [OF n i, of s, unfolded r [symmetric]]
  have "recorded_effect w s ap rvn rid res s1 act" "s1 = ?s0\<lparr>st_actions := st_actions s @ [act]\<rparr>" by simp_all
  with select_first_Some [OF k] valid show ?thesis by auto
qed blast

lemma apply_target_Inr:
  "apply_target target sub = Inr sub' \<Longrightarrow> sb_id sub' = sb_id sub \<and> sb_tenant_id sub' = sb_tenant_id sub \<and>
     sb_customer_id sub' = sb_customer_id sub \<and> sb_version sub' = sb_version sub + 1 \<and>
     (\<not> dhas target ''plan'' \<longrightarrow> sb_plan sub' = sb_plan sub) \<and>
     opt_int target ''rpm_limit'' (sb_rpm_limit sub) = Inr (sb_rpm_limit sub') \<and>
     opt_int target ''concurrency_limit'' (sb_concurrency_limit sub) = Inr (sb_concurrency_limit sub')"
  by (auto simp: apply_target_def Let_def split: sum.splits)

definition changed_entitlement ::
  "store \<Rightarrow> approval_request \<Rightarrow> approval_action_revision \<Rightarrow> string \<Rightarrow> subscription \<Rightarrow> subscription \<Rightarrow> bool" where
  "changed_entitlement s ap rvn rid sub sub' \<longleftrightarrow>
     (\<exists>target. py_dict (dget_default (rv_action_payload rvn) ''target'' (PDict [])) = Inr target \<and>
        entitlement_stale_reason s sub
          (py_str (dget_default (rv_action_payload rvn) ''change_type'' (PStr []))) target = Inr None \<and>
        apply_target target sub = Inr sub') \<and>
     sub \<in> set (st_subscriptions s) \<and> sb_id sub = rid \<and> sb_tenant_id sub = ap_tenant_id ap \<and>
     sb_customer_id sub = ap_customer_id ap \<and> sb_version sub = rv_resource_version rvn"

lemma change_entitlement_cases:
  assumes "change_entitlement w s ap rvn rid = Inr (res, s1)"
  shows "(\<exists>reason. mark_stale w s ap rid reason = Inr (res, s1)) \<or>
    (\<exists>act sub sub'. recorded_effect w s ap rvn rid res s1 act \<and> changed_entitlement s ap rvn rid sub sub' \<and>
       st_subscriptions s1 = update_by sb_id rid (\<lambda>_. sub') (st_subscriptions s) \<and>
       st_billing s1 = st_billing s \<and> st_keys s1 = st_keys s)"
proof (cases "\<exists>reason. mark_stale w s ap rid reason = Inr (res, s1)")
  case False
  let ?P = "\<lambda>u. sb_tenant_id u = ap_tenant_id ap \<and> sb_customer_id u = ap_customer_id ap \<and> sb_id u = rid"
  from assms False obtain sub where k: "select_first ?P (st_subscriptions s) = Some sub"
    by (auto simp: change_entitlement_def split: option.splits)
  note row = select_first_Some [OF k]
  have "change_entitlement w s ap rvn rid \<noteq> mark_stale w s ap rid ''entitlement_snapshot_stale''"
    using assms False by auto
  then have ver: "sb_version sub = rv_resource_version rvn"
    by (rule contrapos_np) (simp add: change_entitlement_def k)
  let ?t = "py_dict (dget_default (rv_action_payload rvn) ''target'' (PDict []))"
  obtain target where target: "?t = Inr target"
    using assms k ver by (cases ?t) (auto simp: change_entitlement_def)
  let ?r = "entitlement_stale_reason s sub (py_str (dget_default (rv_action_payload rvn) ''change_type'' (PStr []))) target"
  have reason: "?r = Inr None"
    using assms k ver target False by (auto simp: change_entitlement_def split: sum.splits option.splits)
  from assms k ver target reason row obtain sub' act where a: "apply_target target sub = Inr sub'"
    and n: "new_action w ap rvn rid (entitlement_result sub target) = Inr act"
    and i: "insert_action act (s\<lparr>st_subscriptions := update_by sb_id rid (\<lambda>_. sub') (st_subscriptions s)\<rparr>) = Inr s1"
    and r: "res = succeeded_result (ba_id act) (ba_action_type act) rid False"
    by (auto simp: change_entitlement_def split: sum.splits)
  have "same_authority s (s\<lparr>st_subscriptions := update_by sb_id rid (\<lambda>_. sub') (st_subscriptions s)\<rparr>)"
    by (simp add: same_authority_def)
  with insert_action_recorded [OF n i, of s, unfolded r [symmetric]]
  have "recorded_effect w s ap rvn rid res s1 act"
    "s1 = s\<lparr>st_subscriptions := update_by sb_id rid (\<lambda>_. sub') (st_subscriptions s), st_actions := st_actions s @ [act]\<rparr>"
    by simp_all
  moreover have "changed_entitlement s ap rvn rid sub sub'"
    using target reason a row ver unfolding changed_entitlement_def by blast
  ultimately show ?thesis by auto
qed blast

text \<open>The whole effect of an action type: the one row that changes and how.\<close>

definition effect_on_resource ::
  "store \<Rightarrow> approval_request \<Rightarrow> approval_action_revision \<Rightarrow> string \<Rightarrow> store \<Rightarrow> bool" where
  "effect_on_resource s ap rvn rid s1 \<longleftrightarrow>
     (ap_action_type ap = ''refund'' \<and>
        (\<exists>b \<in> set (st_billing s). rc_billing_record_id b = rid \<and> rc_tenant_id b = ap_tenant_id ap \<and>
           rc_status b = ''charged'' \<and> rc_version b = rv_resource_version rvn) \<and>
        st_billing s1 = refund_billing rid (st_billing s) \<and> st_keys s1 = st_keys s \<and>
        st_subscriptions s1 = st_subscriptions s) \<or>
     (ap_action_type ap = ''api_key_revocation'' \<and>
        (\<exists>k \<in> set (st_keys s). km_key_id k = rid \<and> km_tenant_id k = ap_tenant_id ap \<and>
           km_status k = ''active'' \<and> km_version k = rv_resource_version rvn \<and>
           st_keys s1 = update_by km_id (km_id k)
             (\<lambda>k. k\<lparr>km_status := ''revoked'', km_version := km_version k + 1\<rparr>) (st_keys s)) \<and>
        st_billing s1 = st_billing s \<and> st_subscriptions s1 = st_subscriptions s) \<or>
     (ap_action_type ap = ''entitlement_change'' \<and>
        (\<exists>sub sub'. changed_entitlement s ap rvn rid sub sub' \<and>
           st_subscriptions s1 = update_by sb_id rid (\<lambda>_. sub') (st_subscriptions s)) \<and>
        st_billing s1 = st_billing s \<and> st_keys s1 = st_keys s)"

lemma run_effect_cases:
  assumes "run_effect w s ap rvn rid tr = Inr (res, s1)"
  shows "(\<exists>reason. mark_stale w s ap rid reason = Inr (res, s1)) \<or>
    (\<exists>act. recorded_effect w s ap rvn rid res s1 act \<and> effect_on_resource s ap rvn rid s1)"
proof -
  consider "ap_action_type ap = ''refund''" "execute_refund w s ap rvn rid tr = Inr (res, s1)"
    | "ap_action_type ap = ''api_key_revocation''" "revoke_key w s ap rvn rid = Inr (res, s1)"
    | "ap_action_type ap = ''entitlement_change''" "change_entitlement w s ap rvn rid = Inr (res, s1)"
    using assms unfolding run_effect_def by (auto split: if_splits)
  then show ?thesis
  proof cases
    case 1
    show ?thesis using execute_refund_cases [OF 1(2)] 1(1) unfolding effect_on_resource_def by blast
  next
    case 2
    show ?thesis using revoke_key_cases [OF 2(2)] 2(1) unfolding effect_on_resource_def by blast
  next
    case 3
    show ?thesis using change_entitlement_cases [OF 3(2)] 3(1) unfolding effect_on_resource_def by blast
  qed
qed

section \<open>The shape of an execution\<close>

definition committed :: "world \<Rightarrow> human_decision \<Rightarrow> business_action \<Rightarrow> business_action \<Rightarrow> bool" where
  "committed w dec act act' \<longleftrightarrow>
     (\<exists>x. act' = act\<lparr>ba_human_decision_id := Some (hd_id dec), ba_decision_hash := hd_decision_hash dec,
        ba_canonical_event_id := Some (w_new_id w ''event''), ba_canonical_event_hash := Some (w_digest w x)\<rparr>)"

lemma update_by_snoc:
  "key x \<notin> key ` set xs \<Longrightarrow> update_by key (key x) f (xs @ [x]) = xs @ [f x]"
  unfolding update_by_def by (induction xs) auto

lemma bind_action_event_Inr:
  assumes "bind_action_event w s ap dec act = Inr s2"
    and "st_actions s = xs @ [act]" "ba_id act \<notin> ba_id ` set xs"
  shows "\<exists>act'. committed w dec act act' \<and> st_actions s2 = xs @ [act']"
    "st_billing s2 = st_billing s" "st_keys s2 = st_keys s" "st_subscriptions s2 = st_subscriptions s"
    "same_authority s s2" "approvals (st_db s2) = approvals (st_db s)"
proof -
  obtain rid' rq ev d1 where ev: "append_executor_event w (st_db s) rid' rq = Inr (ev, d1)"
    and s2: "s2 = s\<lparr>st_db := d1, st_actions := update_by ba_id (ba_id act)
       (\<lambda>a. a\<lparr>ba_human_decision_id := Some (hd_id dec), ba_decision_hash := hd_decision_hash dec,
          ba_canonical_event_id := Some (ev_id ev), ba_canonical_event_hash := Some (ev_event_hash ev)\<rparr>) (st_actions s)\<rparr>"
    using assms(1) by (auto simp: bind_action_event_def split: if_splits option.splits sum.splits)
  note fr = append_executor_event_frame [OF ev]
  show "\<exists>act'. committed w dec act act' \<and> st_actions s2 = xs @ [act']"
    using update_by_snoc [of ba_id act xs] assms(2,3) fr(3,5) by (auto simp: s2 committed_def)
  show "st_billing s2 = st_billing s" "st_keys s2 = st_keys s" "st_subscriptions s2 = st_subscriptions s"
    "same_authority s s2" "approvals (st_db s2) = approvals (st_db s)" using fr(1) by (simp_all add: s2)
qed

lemma commit_effect_Inr:
  assumes "commit_effect w s1 ap dec rid res = Inr (r, s2)" "recorded_effect w s ap rvn rid res s1 act"
    and "lookup_by ap_id (ap_id ap) (approvals (st_db s)) = Some ap" "ap_status ap = ''approved''"
  shows "r = res" "\<exists>act'. committed w dec act act' \<and> st_actions s2 = st_actions s @ [act']"
    "st_billing s2 = st_billing s1" "st_keys s2 = st_keys s1" "st_subscriptions s2 = st_subscriptions s1"
    "same_authority s s2"
    "lookup_by ap_id (ap_id ap) (approvals (st_db s2)) = Some (ap\<lparr>ap_status := ''executed'',
       ap_status_version := ap_status_version ap + 2, ap_consumed_at := Some (w_clock w)\<rparr>)"
proof -
  note rc = assms(2) [unfolded recorded_effect_def]
  then obtain x where x: "new_action w ap rvn rid x = Inr act" by blast
  note na = new_action_Inr [OF x]
  have id: "ar_business_action_id res = Some (ba_id act)" "ba_id act \<notin> ba_id ` set (st_actions s)"
    "st_actions s1 = st_actions s @ [act]"
    using rc na(1) by (simp_all add: succeeded_result_def)
  then have "lookup_by ba_id (ba_id act) (st_actions s1) = Some act"
    by (simp add: lookup_by_append lookup_by_None [THEN iffD2]) (simp add: lookup_by_def)
  with assms(1) id(1) obtain s3 tr d2 where b: "bind_action_event w s1 ap dec act = Inr s3"
    and t: "transition_approval (st_db s3) ap ''executed'' ''approved'' (Some (ap_status_version ap)) None = Inr (tr, d2)"
    and r: "r = res" and s2: "s2 = s3\<lparr>st_db :=
        stale_proposals (\<lambda>p. pr_tenant_id p = ap_tenant_id ap \<and> pr_action_type p = ap_action_type ap \<and>
            pr_resource_id p = rid \<and> pr_status p \<in> {''draft'', ''bound''})
          (consume_approval (w_clock w) (ap_id ap) d2)\<rparr>"
    by (auto simp: commit_effect_def split: sum.splits)
  show "r = res" by (rule r)
  note be = bind_action_event_Inr [OF b id(3,2)]
  show "\<exists>act'. committed w dec act act' \<and> st_actions s2 = st_actions s @ [act']" using be(1) by (simp add: s2)
  show "st_billing s2 = st_billing s1" "st_keys s2 = st_keys s1" "st_subscriptions s2 = st_subscriptions s1"
    using be by (simp_all add: s2)
  show "same_authority s s2" using rc be(5) by (simp add: same_authority_def s2)
  have "lookup_by ap_id (ap_id ap) (approvals (st_db s3)) = Some ap"
    using rc assms(3) be(6) by simp
  then have "lookup_by ap_id (ap_id ap) (approvals d2) =
      Some (ap\<lparr>ap_status := ''executed'', ap_status_version := Suc (ap_status_version ap)\<rparr>)"
    using transition_approval_Inr [OF t] assms(4) by (auto simp: upd_approval_def lookup_by_update_by)
  then show "lookup_by ap_id (ap_id ap) (approvals (st_db s2)) = Some (ap\<lparr>ap_status := ''executed'',
       ap_status_version := ap_status_version ap + 2, ap_consumed_at := Some (w_clock w)\<rparr>)"
    by (simp add: s2 consume_approval_def upd_approval_def lookup_by_update_by)
qed

text \<open>Everything that must hold before an effect.\<close>

definition authorised ::
  "world \<Rightarrow> store \<Rightarrow> approval_request \<Rightarrow> human_decision \<Rightarrow> approval_action_revision \<Rightarrow> bool" where
  "authorised w s ap dec rvn \<longleftrightarrow>
     ap_status ap = ''approved'' \<and> ap_consumed_at ap = None \<and> decision_binds dec rvn \<and>
     assert_active_approver_scope s (ap_tenant_id ap) (hd_actor_id dec) = Inr () \<and>
     (\<exists>p. validate_execution_binding (w_digest w) s ap rvn = Inr p) \<and>
     (\<exists>k. assert_mutation_enabled s (ap_tenant_id ap) (ap_action_type ap) = Inr k) \<and>
     action_hash (w_digest w) (rv_action_payload rvn) = Inr (rv_action_hash rvn)"

lemma execute_new_cases:
  assumes "execute_new w s ap dec rvn rid tr = Inr (r, s')" "decision_binds dec rvn"
    and "lookup_by ap_id (ap_id ap) (approvals (st_db s)) = Some ap"
  shows "(\<exists>reason. mark_stale w s ap rid reason = Inr (r, s')) \<or>
    (authorised w s ap dec rvn \<and>
     (\<exists>s1 act. recorded_effect w s ap rvn rid r s1 act \<and> effect_on_resource s ap rvn rid s1 \<and>
        commit_effect w s1 ap dec rid r = Inr (r, s')))"
proof (cases "\<exists>reason. mark_stale w s ap rid reason = Inr (r, s')")
  case False
  let ?g = "case assert_active_approver_scope s (ap_tenant_id ap) (hd_actor_id dec) of
              Inl e \<Rightarrow> Inl e | Inr _ \<Rightarrow> validate_execution_binding (w_digest w) s ap rvn"
  obtain p where g: "?g = Inr p"
    using assms(1) False by (cases ?g) (auto simp: execute_new_def split: error.splits)
  then have g': "assert_active_approver_scope s (ap_tenant_id ap) (hd_actor_id dec) = Inr ()"
    "validate_execution_binding (w_digest w) s ap rvn = Inr p"
    by (auto split: sum.splits)
  from assms(1) False obtain k res s1 where
    k: "assert_mutation_enabled s (ap_tenant_id ap) (ap_action_type ap) = Inr k"
    and st: "ap_status ap = ''approved''" "ap_consumed_at ap = None"
    and h: "action_hash (w_digest w) (rv_action_payload rvn) = Inr (rv_action_hash rvn)"
    and re: "run_effect w s ap rvn rid tr = Inr (res, s1)"
    and fin: "(ar_status res = ''stale'' \<and> r = res \<and> s' = s1) \<or>
       (ar_status res \<noteq> ''stale'' \<and> commit_effect w s1 ap dec rid res = Inr (r, s'))"
    unfolding execute_new_def g by (auto split: sum.splits if_splits)
  have auth: "authorised w s ap dec rvn"
    unfolding authorised_def using st assms(2) g' k h by blast
  from run_effect_cases [OF re] show ?thesis
  proof
    assume "\<exists>reason. mark_stale w s ap rid reason = Inr (res, s1)"
    then obtain reason where m: "mark_stale w s ap rid reason = Inr (res, s1)" by blast
    have "ar_status res = ''stale''" using mark_stale_Inr(1) [OF m assms(3)] by (simp add: stale_result_def)
    with fin m False show ?thesis by blast
  next
    assume "\<exists>act. recorded_effect w s ap rvn rid res s1 act \<and> effect_on_resource s ap rvn rid s1"
    then obtain act where rec: "recorded_effect w s ap rvn rid res s1 act" and eff: "effect_on_resource s ap rvn rid s1"
      by blast
    then have "ar_status res \<noteq> ''stale''" by (auto simp: recorded_effect_def succeeded_result_def)
    with fin have c: "commit_effect w s1 ap dec rid res = Inr (r, s')" by blast
    have "r = res" by (rule commit_effect_Inr(1) [OF c rec assms(3) st(1)])
    with c rec eff auth show ?thesis by blast
  qed
qed blast

lemma execute_Inr:
  assumes "execute_action w s l i tr = Inr (r, s')"
  obtains j ap dec rvn rid tr' where "assert_fence (w_now w) (st_db s) l = Inr j"
    "lookup_by ap_id i (approvals (st_db s)) = Some ap" "ap_id ap = i" "ap_run_id ap = Some (jl_run_id l)"
    "decision_of s ap = Some dec" "revision_of s ap = Some rvn" "decision_binds dec rvn"
    "resource_id_of ap rvn = Inr rid"
    "(\<exists>ex. existing_effect s ap rid (rv_resource_version rvn) = Some ex \<and>
        reuse_effect w s ap dec rvn rid ex = Inr (r, s')) \<or>
     (existing_effect s ap rid (rv_resource_version rvn) = None \<and>
        execute_new w s ap dec rvn rid tr' = Inr (r, s'))"
proof -
  let ?tr = "if falsy_ref tr then ''runtime:'' @ jl_job_id l else the tr"
  have "\<exists>j ap dec rvn rid. assert_fence (w_now w) (st_db s) l = Inr j \<and>
    lookup_by ap_id i (approvals (st_db s)) = Some ap \<and> ap_run_id ap = Some (jl_run_id l) \<and>
    decision_of s ap = Some dec \<and> revision_of s ap = Some rvn \<and> decision_binds dec rvn \<and>
    resource_id_of ap rvn = Inr rid \<and>
    (case existing_effect s ap rid (rv_resource_version rvn) of
       Some ex \<Rightarrow> reuse_effect w s ap dec rvn rid ex = Inr (r, s')
     | None \<Rightarrow> execute_new w s ap dec rvn rid ?tr = Inr (r, s'))"
    using assms unfolding execute_action_def guard_simps not_not by (fastforce split: option.splits)
  then obtain j ap dec rvn rid where *: "assert_fence (w_now w) (st_db s) l = Inr j"
    "lookup_by ap_id i (approvals (st_db s)) = Some ap" "ap_run_id ap = Some (jl_run_id l)"
    "decision_of s ap = Some dec" "revision_of s ap = Some rvn" "decision_binds dec rvn"
    "resource_id_of ap rvn = Inr rid"
    and c: "case existing_effect s ap rid (rv_resource_version rvn) of
       Some ex \<Rightarrow> reuse_effect w s ap dec rvn rid ex = Inr (r, s')
     | None \<Rightarrow> execute_new w s ap dec rvn rid ?tr = Inr (r, s')" by blast
  have "(\<exists>ex. existing_effect s ap rid (rv_resource_version rvn) = Some ex \<and>
        reuse_effect w s ap dec rvn rid ex = Inr (r, s')) \<or>
     (existing_effect s ap rid (rv_resource_version rvn) = None \<and>
        execute_new w s ap dec rvn rid ?tr = Inr (r, s'))"
    using c by (cases "existing_effect s ap rid (rv_resource_version rvn)") auto
  moreover have "ap_id ap = i" using lookup_by_Some [OF *(2)] by simp
  ultimately show ?thesis using that * by blast
qed

lemma reuse_effect_Inr:
  assumes "reuse_effect w s ap dec rvn rid ex = Inr (r, s')"
  shows "r = succeeded_result (ba_id ex) (ba_action_type ex) rid True" "same_effects s s'" "same_authority s s'"
    "effect_bound (w_digest w) ap dec rvn rid ex" "ap_status ap \<in> {''approved'', ''executed''}"
proof -
  have "r = succeeded_result (ba_id ex) (ba_action_type ex) rid True \<and> s' = s\<lparr>st_db := st_db s'\<rparr> \<and>
    effect_bound (w_digest w) ap dec rvn rid ex \<and> ap_status ap \<in> {''approved'', ''executed''}"
    using assms unfolding reuse_effect_def by (auto split: if_splits sum.splits)
  then show "r = succeeded_result (ba_id ex) (ba_action_type ex) rid True" "same_effects s s'" "same_authority s s'"
    "effect_bound (w_digest w) ap dec rvn rid ex" "ap_status ap \<in> {''approved'', ''executed''}"
    by (simp_all, metis same_effects_db, metis same_authority_updates(1))
qed

lemma resource_id_of_Inr: "resource_id_of ap rvn = Inr rid \<Longrightarrow> rid = ap_resource_id ap"
  by (auto simp: resource_id_of_def split: option.splits if_splits)

text \<open>The three outcomes of an execution.\<close>

lemma execute_outcomes:
  assumes "execute_action w s l i tr = Inr (r, s')"
  obtains
    (reused) ap ex where "lookup_by ap_id i (approvals (st_db s)) = Some ap"
      "ex \<in> set (st_actions s)" "r = succeeded_result (ba_id ex) (ap_action_type ap) (ap_resource_id ap) True"
      "same_effects s s'" "same_authority s s'"
  | (stale) ap reason where "lookup_by ap_id i (approvals (st_db s)) = Some ap" "ap_id ap = i"
      "mark_stale w s ap (ap_resource_id ap) reason = Inr (r, s')"
  | (effect) ap dec rvn act act' s1 where "lookup_by ap_id i (approvals (st_db s)) = Some ap" "ap_id ap = i"
      "ap_run_id ap = Some (jl_run_id l)"
      "decision_of s ap = Some dec" "revision_of s ap = Some rvn" "authorised w s ap dec rvn"
      "resource_id_of ap rvn = Inr (ap_resource_id ap)"
      "existing_effect s ap (ap_resource_id ap) (rv_resource_version rvn) = None"
      "recorded_effect w s ap rvn (ap_resource_id ap) r s1 act" "effect_on_resource s ap rvn (ap_resource_id ap) s1"
      "commit_effect w s1 ap dec (ap_resource_id ap) r = Inr (r, s')"
      "committed w dec act act'" "st_actions s' = st_actions s @ [act']"
      "effect_on_resource s ap rvn (ap_resource_id ap) s'"
proof -
  from assms show ?thesis
  proof (rule execute_Inr)
    fix j ap dec rvn rid tr'
    assume *: "lookup_by ap_id i (approvals (st_db s)) = Some ap" "ap_id ap = i" "ap_run_id ap = Some (jl_run_id l)"
      "decision_of s ap = Some dec" "revision_of s ap = Some rvn" "decision_binds dec rvn"
      "resource_id_of ap rvn = Inr rid"
      "(\<exists>ex. existing_effect s ap rid (rv_resource_version rvn) = Some ex \<and>
          reuse_effect w s ap dec rvn rid ex = Inr (r, s')) \<or>
       (existing_effect s ap rid (rv_resource_version rvn) = None \<and>
          execute_new w s ap dec rvn rid tr' = Inr (r, s'))"
    have rid: "rid = ap_resource_id ap" using *(7) by (rule resource_id_of_Inr)
    have ap: "lookup_by ap_id (ap_id ap) (approvals (st_db s)) = Some ap" using *(1,2) by simp
    from *(8) show thesis
    proof (elim disjE exE conjE)
      fix ex assume ex: "existing_effect s ap rid (rv_resource_version rvn) = Some ex"
        and u: "reuse_effect w s ap dec rvn rid ex = Inr (r, s')"
      from ex have "ex \<in> set (st_actions s)" "ba_action_type ex = ap_action_type ap"
        unfolding existing_effect_def by (auto dest: select_first_Some)
      with reuse_effect_Inr [OF u] *(1) rid show thesis by (intro reused) auto
    next
      assume none: "existing_effect s ap rid (rv_resource_version rvn) = None"
        and n: "execute_new w s ap dec rvn rid tr' = Inr (r, s')"
      from execute_new_cases [OF n *(6) ap] show thesis
      proof (elim disjE exE conjE)
        fix reason assume "mark_stale w s ap rid reason = Inr (r, s')"
        with *(1,2) rid show thesis by (intro stale) auto
      next
        fix s1 act assume auth: "authorised w s ap dec rvn"
          and rec: "recorded_effect w s ap rvn rid r s1 act" and eff: "effect_on_resource s ap rvn rid s1"
          and c: "commit_effect w s1 ap dec rid r = Inr (r, s')"
        have st: "ap_status ap = ''approved''" using auth by (simp add: authorised_def)
        note ce = commit_effect_Inr [OF c rec ap st]
        obtain act' where act': "committed w dec act act'" "st_actions s' = st_actions s @ [act']"
          using ce(2) by blast
        have "effect_on_resource s ap rvn rid s'"
          using eff unfolding effect_on_resource_def ce(3,4,5) .
        with effect [of ap dec rvn s1 act act'] *(1-7) none auth rec eff c act' rid show thesis by simp
      qed
    qed
  qed
qed

end
