(* ===== verification/Approval_Commands.thy ===== *)
theory Approval_Commands
  imports Action_Effects
begin

text \<open>
  \<open>services/approval_commands.py\<close>: the command by which a human approver decides a pending approval.  A
  decision is accepted once per idempotency key; it checks that the approval, its run, proposal, checkpoint
  marker and event chain are still the ones that were frozen when the approval was requested, selects the
  action revision, moves the approval, records the decision with the event that carries it, and either
  queues the job that will execute the action or closes the run.  The branch modelled is the one for a
  database that is not PostgreSQL; \<open>created_at\<close> is filled by the database clock and read back without a time
  zone.
\<close>

section \<open>Requests and responses\<close>

record decision_request =
  dq_tenant_id :: string
  dq_approval_id :: string
  dq_decision :: string
  dq_actor_id :: string
  dq_idempotency_key :: string
  dq_reason :: string
  dq_trace_id :: string
  dq_approver_note :: "string option"
  dq_edited_payload :: "pydict option"

record decision_accepted =
  dc_approval_id :: string
  dc_ticket_id :: string
  dc_run_id :: string
  dc_job_id :: "string option"
  dc_decision :: string
  dc_accepted_at :: pydatetime
  dc_reused :: bool

definition edited_or_empty :: "decision_request \<Rightarrow> pydict" where
  "edited_or_empty q = (case dq_edited_payload q of None \<Rightarrow> [] | Some e \<Rightarrow> e)"

text \<open>\<open>DecisionAccepted.response\<close>, and the snapshot stored with the idempotency record.\<close>

definition decision_fields :: "decision_accepted \<Rightarrow> string \<Rightarrow> pyval \<Rightarrow> bool \<Rightarrow> pydict" where
  "decision_fields a at status_url reused =
     [(''schema_version'', PStr ''decision-accepted.v1''), (''approval_id'', PStr (dc_approval_id a)),
      (''ticket_id'', PStr (dc_ticket_id a)), (''run_id'', PStr (dc_run_id a)),
      (''job_id'', opt_str_val (dc_job_id a)), (''decision'', PStr (dc_decision a)),
      (''accepted_at'', PStr at), (''status'', PStr ''decision_accepted''), (''status_url'', status_url),
      (''events_url'', PStr (''/api/tickets/'' @ dc_ticket_id a @ ''/events/stream'')),
      (''reused'', PBool reused)]"

definition decision_response :: "decision_accepted \<Rightarrow> pydict result" where
  "decision_response a =
     (case format_canonical_utc_timestamp (dc_accepted_at a) of Inl e \<Rightarrow> Inl e
      | Inr at \<Rightarrow> Inr (decision_fields a at
          (if falsy_ref (dc_job_id a) then PNone else PStr (''/api/runs/'' @ dc_run_id a)) (dc_reused a)))"

definition store_decision_response ::
  "string \<Rightarrow> decision_accepted \<Rightarrow> db \<Rightarrow> db result" where
  "store_decision_response record_id a d =
     (case format_canonical_utc_timestamp (dc_accepted_at a) of Inl e \<Rightarrow> Inl e
      | Inr at \<Rightarrow>
          Inr (d\<lparr>idempotency := update_by idm_id record_id
            (\<lambda>r. r\<lparr>idm_resource_ids :=
                 [(''approval_id'', PStr (dc_approval_id a)), (''ticket_id'', PStr (dc_ticket_id a)),
                  (''run_id'', PStr (dc_run_id a))] @
                 (case dc_job_id a of None \<Rightarrow> [] | Some j \<Rightarrow> [(''job_id'', PStr j)]),
               idm_response_snapshot := decision_fields a at
                 (if dc_job_id a = None then PNone else PStr (''/api/runs/'' @ dc_run_id a)) False,
               idm_completed_at := Some (instant (dc_accepted_at a)),
               idm_retention_class := ''protected_action''\<rparr>) (idempotency d)\<rparr>))"

text \<open>\<open>snapshot[k]\<close>, and the strict timestamp parser on a JSON value.\<close>

definition ditem :: "pydict \<Rightarrow> string \<Rightarrow> pyval result" where
  "ditem d k = (case map_of d k of None \<Rightarrow> Inl (KeyError k) | Some v \<Rightarrow> Inr v)"

definition parse_timestamp_value :: "pyval \<Rightarrow> pydatetime result" where
  "parse_timestamp_value v =
     (case v of PStr s \<Rightarrow> parse_canonical_utc_timestamp s
      | _ \<Rightarrow> Inl (ValueError ''canonical_timestamp_invalid''))"

definition replayed_decision :: "approval_request \<Rightarrow> pydict \<Rightarrow> decision_accepted result" where
  "replayed_decision ap snapshot =
     (case ditem snapshot ''approval_id'' of Inl e \<Rightarrow> Inl e | Inr i \<Rightarrow>
     (case ditem snapshot ''run_id'' of Inl e \<Rightarrow> Inl e | Inr r \<Rightarrow>
     (case ditem snapshot ''decision'' of Inl e \<Rightarrow> Inl e | Inr dec \<Rightarrow>
     (case ditem snapshot ''accepted_at'' of Inl e \<Rightarrow> Inl e | Inr v \<Rightarrow>
     (case parse_timestamp_value v of Inl e \<Rightarrow> Inl e | Inr at \<Rightarrow>
        Inr \<lparr>dc_approval_id = py_str i, dc_ticket_id = ap_ticket_id ap, dc_run_id = py_str r,
             dc_job_id = (if dget snapshot ''job_id'' = PNone then None
               else Some (py_str (dget snapshot ''job_id''))),
             dc_decision = py_str dec, dc_accepted_at = at, dc_reused = True\<rparr>)))))"

text \<open>A timestamp column as SQLite returns it: without a time zone.\<close>

definition read_timestamp :: "int \<Rightarrow> pydatetime" where
  "read_timestamp t = (of_wall_utc t)\<lparr>dt_offset := None\<rparr>"

definition recorded_decision ::
  "approval_request \<Rightarrow> string \<Rightarrow> human_decision \<Rightarrow> runtime_job option \<Rightarrow> decision_accepted result" where
  "recorded_decision ap decision h job =
     (if hd_decision h \<noteq> decision \<or> (decision \<noteq> ''reject'' \<and> job = None) then
        Inl (RuntimeConflict ''approval_decision_conflict'')
      else Inr \<lparr>dc_approval_id = ap_id ap, dc_ticket_id = ap_ticket_id ap,
             dc_run_id = py_str (opt_str_val (ap_run_id ap)),
             dc_job_id = (if decision \<noteq> ''reject'' then map_option job_id job else None),
             dc_decision = decision, dc_accepted_at = replace_utc (read_timestamp (hd_created_at h)),
             dc_reused = True\<rparr>)"

section \<open>The frozen binding\<close>

record decision_binding =
  db_run :: agent_run
  db_ticket :: support_ticket
  db_proposal :: proposal_record
  db_marker :: checkpoint_commit_marker

definition checkpoint_bound ::
  "approval_request \<Rightarrow> agent_run \<Rightarrow> proposal_record \<Rightarrow> checkpoint_commit_marker \<Rightarrow> bool" where
  "checkpoint_bound ap r p m =
     (ap_status ap = ''pending'' \<and> pr_status p = ''bound'' \<and> mk_status m = ''finalized'' \<and>
      run_status r = ''interrupted'' \<and> run_canonical_checkpoint_ns r = ap_canonical_checkpoint_ns ap \<and>
      run_canonical_checkpoint_id r = ap_checkpoint_id ap \<and>
      run_canonical_checkpoint_hash r = ap_canonical_checkpoint_hash ap \<and>
      mk_final_checkpoint_id m = ap_checkpoint_id ap \<and>
      mk_final_checkpoint_hash m = ap_canonical_checkpoint_hash ap \<and>
      run_canonical_checkpoint_version r = ap_checkpoint_version ap \<and>
      mk_final_checkpoint_version m = Some (ap_checkpoint_version ap) \<and>
      ap_expected_ticket_sequence ap \<noteq> None)"

definition frozen_head :: "db \<Rightarrow> support_ticket \<Rightarrow> approval_request \<Rightarrow> agent_event option" where
  "frozen_head d tk ap =
     select_first (\<lambda>e. ev_ticket_id e = tk_id tk \<and> Some (ev_id e) = ap_expected_ticket_head_event_id ap \<and>
       Some (ev_ticket_sequence e) = ap_expected_ticket_sequence ap \<and>
       Some (ev_event_hash e) = ap_expected_ticket_event_hash ap) (events d)"

definition validate_binding ::
  "(string \<Rightarrow> string) \<Rightarrow> db \<Rightarrow> approval_request \<Rightarrow> decision_binding result" where
  "validate_binding H d ap =
     (let conflict = Inl (RuntimeConflict ''checkpoint_binding_conflict'') in
      if falsy_ref (ap_run_id ap) \<or> falsy_ref (ap_proposal_id ap) \<or> falsy_ref (ap_marker_id ap) then conflict
      else (case (select_first (\<lambda>r. Some (run_id r) = ap_run_id ap \<and> run_tenant_id r = ap_tenant_id ap) (runs d),
             select_first (\<lambda>t. tk_id t = ap_ticket_id ap \<and> tk_tenant_id t = ap_tenant_id ap) (tickets d),
             select_first (\<lambda>p. Some (pr_id p) = ap_proposal_id ap \<and> pr_tenant_id p = ap_tenant_id ap) (proposals d),
             select_first (\<lambda>m. Some (mk_id m) = ap_marker_id ap \<and> mk_tenant_id m = ap_tenant_id ap) (markers d)) of
          (Some r, Some tk, Some p, Some m) \<Rightarrow>
            if \<not> checkpoint_bound ap r p m then conflict
            else (case verify_ticket_event_chain H d (tk_id tk) of
                Inl (RuntimeError _) \<Rightarrow> Inl (RuntimeConflict ''event_chain_conflict'')
              | Inl e \<Rightarrow> Inl e
              | Inr _ \<Rightarrow>
                  if frozen_head d tk ap = None then Inl (RuntimeConflict ''approval_expected_head_conflict'')
                  else Inr \<lparr>db_run = r, db_ticket = tk, db_proposal = p, db_marker = m\<rparr>)
        | _ \<Rightarrow> conflict))"

section \<open>The revision that is decided\<close>

definition revision_bound ::
  "approval_request \<Rightarrow> proposal_record \<Rightarrow> approval_action_revision \<Rightarrow> bool" where
  "revision_bound ap p rvn =
     (rv_approval_id rvn = ap_id ap \<and> Some (rv_revision_number rvn) = ap_selected_revision_number ap \<and>
      rv_revision_number rvn = 0 \<and> pr_action_type p = ap_action_type ap \<and>
      py_eq (PDict (rv_action_payload rvn)) (PDict (pr_action_payload p)) \<and>
      rv_action_hash rvn = pr_action_hash p \<and> ap_action_hash ap = pr_action_hash p)"

definition insert_revision :: "approval_action_revision \<Rightarrow> store \<Rightarrow> store result" where
  "insert_revision rvn s =
     (if list_ex (\<lambda>r. rv_approval_id r = rv_approval_id rvn \<and> rv_revision_number r = rv_revision_number rvn)
           (st_revisions s) then Inl (IntegrityError ''uq_approval_action_revision_number'')
      else (case insert_row rv_id rvn (st_revisions s) of
          Inl e \<Rightarrow> Inl e | Inr rows \<Rightarrow> Inr (s\<lparr>st_revisions := rows\<rparr>)))"

definition edited_revision ::
  "world \<Rightarrow> decision_request \<Rightarrow> approval_request \<Rightarrow> proposal_record \<Rightarrow> approval_action_revision \<Rightarrow>
   approval_action_revision result" where
  "edited_revision w q ap p base =
     (case apply_approval_edit (ap_action_type ap) (rv_action_payload base) (edited_or_empty q) of
        Inl e \<Rightarrow> Inl (if e = ApprovalEditNotAllowed then RuntimeConflict ''approval_edit_not_allowed'' else e)
      | Inr payload \<Rightarrow>
          (case action_hash (w_digest w) payload of
             Inl e \<Rightarrow> Inl e
           | Inr h \<Rightarrow> Inr
               \<lparr>rv_id = w_new_id w ''revision'', rv_tenant_id = ap_tenant_id ap, rv_approval_id = ap_id ap,
                rv_proposal_id = pr_id p, rv_snapshot_id = rv_snapshot_id base,
                rv_revision_number = rv_revision_number base + 1, rv_action_payload = payload,
                rv_action_hash = h, rv_resource_version = rv_resource_version base,
                rv_created_by_ref = dq_actor_id q, rv_revision_reason = ''edit_and_approve''\<rparr>))"

text \<open>
  Selecting the new revision dirties the approval.  A refund reads the charges before the transition, which
  flushes the selection on its own and moves the mapper's version column; otherwise the transition's flush
  writes both at once.
\<close>

definition select_revision :: "approval_action_revision \<Rightarrow> approval_request \<Rightarrow> approval_request" where
  "select_revision rvn a =
     a\<lparr>ap_selected_revision_id := Some (rv_id rvn), ap_selected_revision_number := Some (rv_revision_number rvn),
       ap_status_version := (if ap_action_type a = ''refund'' then Suc (ap_status_version a)
         else ap_status_version a)\<rparr>"

definition choose_revision ::
  "world \<Rightarrow> store \<Rightarrow> decision_request \<Rightarrow> approval_request \<Rightarrow> proposal_record \<Rightarrow>
   (approval_request \<times> approval_action_revision \<times> store) result" where
  "choose_revision w s q ap p =
     (case revision_of s ap of
        None \<Rightarrow> Inl (RuntimeConflict ''approval_revision_binding_conflict'')
      | Some base \<Rightarrow>
          if \<not> revision_bound ap p base then Inl (RuntimeConflict ''approval_revision_binding_conflict'')
          else if (dq_decision q = ''edit_and_approve'') \<noteq> (edited_or_empty q \<noteq> []) then
            Inl (RuntimeConflict ''approval_edit_not_allowed'')
          else if edited_or_empty q = [] then Inr (ap, base, s)
          else (case edited_revision w q ap p base of
              Inl e \<Rightarrow> Inl e
            | Inr rvn \<Rightarrow>
                (case insert_revision rvn s of
                   Inl e \<Rightarrow> Inl e
                 | Inr s1 \<Rightarrow> Inr (select_revision rvn ap, rvn,
                     s1\<lparr>st_db := upd_approval (ap_id ap) (select_revision rvn) (st_db s1)\<rparr>))))"

text \<open>\<open>bind_refund_pair_to_proposal\<close> on the row: the version column moves when a value changes.\<close>

definition write_refund_binding :: "refund_binding \<Rightarrow> proposal_record \<Rightarrow> proposal_record" where
  "write_refund_binding b p =
     (if proposal_binding p = b then p
      else p\<lparr>pr_refund_original_resource_id := rb_original_resource_id b,
             pr_refund_original_version := rb_original_version b, pr_refund_pair_hash := rb_pair_hash b,
             pr_status_version := Suc (pr_status_version p)\<rparr>)"

definition recheck_refund :: "world \<Rightarrow> store \<Rightarrow> approval_request \<Rightarrow> proposal_record \<Rightarrow> store result" where
  "recheck_refund w s ap p =
     (case lock_and_evaluate_billing_refund_pair (w_digest w) (st_billing s) (ap_tenant_id ap)
             (ap_customer_id ap) (ap_resource_id ap) (w_clock w) of
        Inl e \<Rightarrow> Inl e
      | Inr None \<Rightarrow> Inl (RuntimeConflict ''refund_pair_approval_stale'')
      | Inr (Some (_, pair)) \<Rightarrow>
          if \<not> pair_eligible pair \<or> \<not> refund_pair_matches_proposal pair (proposal_binding p) then
            Inl (RuntimeConflict ''refund_pair_approval_stale'')
          else (case bind_refund_pair_to_proposal (proposal_binding p) pair of
              Inl e \<Rightarrow> Inl e
            | Inr b \<Rightarrow> Inr (s\<lparr>st_db := (st_db s)\<lparr>proposals :=
                update_by pr_id (pr_id p) (write_refund_binding b) (proposals (st_db s))\<rparr>\<rparr>)))"

section \<open>Recording the decision\<close>

definition decision_digest ::
  "(string \<Rightarrow> string) \<Rightarrow> decision_request \<Rightarrow> approval_request \<Rightarrow> approval_action_revision \<Rightarrow> string result" where
  "decision_digest H q ap rvn =
     canonical_json_hash H (PDict
       [(''approval_id'', PStr (ap_id ap)), (''actor_id'', PStr (dq_actor_id q)),
        (''decision'', PStr (dq_decision q)), (''reason'', PStr (dq_reason q)),
        (''approver_note'', PStr (ref_or_empty (dq_approver_note q))),
        (''action_hash'', PStr (rv_action_hash rvn)), (''revision_id'', PStr (rv_id rvn)),
        (''revision_number'', PInt (rv_revision_number rvn))])"

definition decision_event_request ::
  "world \<Rightarrow> decision_request \<Rightarrow> approval_request \<Rightarrow> approval_action_revision \<Rightarrow> string \<Rightarrow> agent_event \<Rightarrow>
   event_request" where
  "decision_event_request w q ap rvn h head =
     \<lparr>rq_event_type = ''human_decision_accepted'',
      rq_payload = PDict
        [(''approval_id'', PStr (ap_id ap)), (''human_decision_id'', PStr (w_new_id w ''decision'')),
         (''decision'', PStr (dq_decision q)), (''decision_hash'', PStr h),
         (''action_hash'', PStr (rv_action_hash rvn)), (''revision_id'', PStr (rv_id rvn)),
         (''revision_number'', PInt (rv_revision_number rvn))],
      rq_visibility = ''approver'', rq_status = ''completed'', rq_tool_call_id = None, rq_step_index = None,
      rq_tool_round = None, rq_idempotency_id = Some (dq_idempotency_key q),
      rq_expected_head_id = Expect (Some (ev_id head)), rq_expected_sequence = Some (ev_ticket_sequence head),
      rq_expected_hash = Expect (Some (ev_event_hash head))\<rparr>"

definition append_decision_event ::
  "world \<Rightarrow> db \<Rightarrow> decision_request \<Rightarrow> approval_request \<Rightarrow> approval_action_revision \<Rightarrow> string \<Rightarrow>
   decision_binding \<Rightarrow> (agent_event \<times> db) result" where
  "append_decision_event w d q ap rvn h b =
     (case head_event d (tk_id (db_ticket b)) of
        None \<Rightarrow> Inl (RuntimeConflict ''event_chain_conflict'')
      | Some head \<Rightarrow>
          (case append_event (w_digest w) (w_redact w) (w_worker w) (w_new_id w ''event'') (w_clock w) d
                  (run_id (db_run b)) (decision_event_request w q ap rvn h head) of
             Inl (CanonicalEventHeadConflict _) \<Rightarrow> Inl (RuntimeConflict ''approval_expected_head_conflict'')
           | Inl e \<Rightarrow> Inl e
           | Inr x \<Rightarrow> Inr x))"

definition new_human_decision ::
  "world \<Rightarrow> decision_request \<Rightarrow> approval_request \<Rightarrow> approval_action_revision \<Rightarrow> string \<Rightarrow> agent_event \<Rightarrow>
   human_decision" where
  "new_human_decision w q ap rvn h e =
     \<lparr>hd_id = w_new_id w ''decision'', hd_tenant_id = ap_tenant_id ap, hd_approval_id = ap_id ap,
      hd_action_revision_id = Some (rv_id rvn), hd_actor_id = dq_actor_id q, hd_decision = dq_decision q,
      hd_reason = dq_reason q, hd_action_hash = Some (rv_action_hash rvn), hd_decision_hash = Some h,
      hd_canonical_event_id = Some (ev_id e), hd_canonical_event_hash = Some (ev_event_hash e),
      hd_audit_metadata = [(''approver_note'', PStr (ref_or_empty (dq_approver_note q)))],
      hd_created_at = w_now w\<rparr>"

definition insert_decision :: "human_decision \<Rightarrow> store \<Rightarrow> store result" where
  "insert_decision h s =
     (if list_ex (\<lambda>x. hd_approval_id x = hd_approval_id h) (st_decisions s) then
        Inl (IntegrityError ''uq_human_decision_approval'')
      else (case insert_row hd_id h (st_decisions s) of
          Inl e \<Rightarrow> Inl e | Inr rows \<Rightarrow> Inr (s\<lparr>st_decisions := rows\<rparr>)))"

section \<open>What follows from the decision\<close>

definition resume_job :: "world \<Rightarrow> approval_request \<Rightarrow> decision_binding \<Rightarrow> runtime_job" where
  "resume_job w ap b =
     new_runtime_job (w_now w) (w_new_id w ''job'') (ap_tenant_id ap) (ap_ticket_id ap) (run_id (db_run b))
       (Suc (tk_next_dispatch_sequence (db_ticket b))) ''approval_resume'' (Some (ap_id ap))"

definition queue_resume :: "world \<Rightarrow> db \<Rightarrow> approval_request \<Rightarrow> decision_binding \<Rightarrow> db result" where
  "queue_resume w d ap b =
     (case insert_row job_id (resume_job w ap b) (jobs d) of
        Inl e \<Rightarrow> Inl e
      | Inr js \<Rightarrow> Inr (upd_ticket (tk_id (db_ticket b))
          (\<lambda>t. t\<lparr>tk_next_dispatch_sequence := Suc (tk_next_dispatch_sequence t)\<rparr>) (d\<lparr>jobs := js\<rparr>)))"

definition announce_resume ::
  "world \<Rightarrow> db \<Rightarrow> approval_request \<Rightarrow> decision_binding \<Rightarrow> string \<Rightarrow> db result" where
  "announce_resume w d ap b trace_id =
     (case insert_row ox_id
             (new_outbox (w_now w) (w_new_id w ''outbox'') (w_new_id w ''delivery'') (ap_tenant_id ap)
                (w_new_id w ''job'') (run_id (db_run b)) 1 [(''traceparent'', PStr trace_id)])
             (outbox d) of
        Inl e \<Rightarrow> Inl e
      | Inr obs \<Rightarrow> Inr
          (upd_ticket (tk_id (db_ticket b)) (\<lambda>t. t\<lparr>tk_status := ''queued'', tk_version := Suc (tk_version t)\<rparr>)
            (upd_run (run_id (db_run b))
              (\<lambda>r. r\<lparr>run_status := ''queued'', run_status_version := Suc (run_status_version r)\<rparr>)
              (d\<lparr>outbox := obs\<rparr>))))"

definition rejected_reply :: string where
  "rejected_reply =
     utf8
        [229, 174, 161, 230, 137, 185, 232, 128, 133, 229, 183, 178, 230, 139, 146, 231,
         187, 157, 232, 191, 153, 233, 161, 185, 231, 148, 179, 232, 175, 183, 239, 188,
         140, 229, 155, 160, 230, 173, 164, 230, 178, 161, 230, 156, 137, 230, 137, 167,
         232, 161, 140, 228, 187, 187, 228, 189, 149, 228, 184, 154, 229, 138, 161, 230,
         147, 141, 228, 189, 156, 227, 128, 130, 228, 189, 160, 228, 187, 141, 229, 143,
         175, 228, 187, 165, 229, 156, 168, 229, 189, 147, 229, 137, 141, 229, 175, 185,
         232, 175, 157, 231, 187, 167, 231, 187, 173, 229, 146, 168, 232, 175, 162, 227,
         128, 130]"

text \<open>The run and its turn end with a decision that executes nothing.\<close>

definition finish_run :: "int \<Rightarrow> string \<Rightarrow> agent_run \<Rightarrow> agent_run" where
  "finish_run now reason r =
     r\<lparr>run_status := ''completed'', run_checkpoint_stage := ''completed'',
       run_agent_finish_reason := Some reason, run_active_job_id := None, run_active_fencing_token := None,
       run_completed_at := Some now, run_status_version := Suc (run_status_version r)\<rparr>"

definition finish_turn :: "int \<Rightarrow> string \<Rightarrow> conversation_turn \<Rightarrow> conversation_turn" where
  "finish_turn now state t =
     t\<lparr>tn_activity_state := ''completed'', tn_result_state := Some state, tn_completed_at := Some now\<rparr>"

definition finish_run_and_turn :: "int \<Rightarrow> string \<Rightarrow> agent_run \<Rightarrow> db \<Rightarrow> db" where
  "finish_run_and_turn now state r d =
     (let d1 = upd_run (run_id r) (finish_run now state) d in
      if falsy_ref (run_turn_id r) then d1 else upd_turn (the (run_turn_id r)) (finish_turn now state) d1)"

definition action_update ::
  "world \<Rightarrow> approval_request \<Rightarrow> support_ticket \<Rightarrow> agent_run option \<Rightarrow> string \<Rightarrow> string \<Rightarrow> ticket_message" where
  "action_update w ap tk r key content =
     \<lparr>msg_id = w_new_id w ''msg'', msg_tenant_id = ap_tenant_id ap, msg_ticket_id = tk_id tk,
      msg_turn_id = (case r of None \<Rightarrow> None | Some x \<Rightarrow> run_turn_id x), msg_run_id = map_option run_id r,
      msg_approval_id = Some (ap_id ap),
      msg_conversation_sequence = Some (Suc (tk_next_message_sequence tk)), msg_kind = ''action_update'',
      msg_publication_key = Some key, msg_role = ''action'', msg_content = content,
      msg_source_refs = PList []\<rparr>"

definition publish_update :: "world \<Rightarrow> support_ticket \<Rightarrow> ticket_message \<Rightarrow> db \<Rightarrow> db result" where
  "publish_update w tk m d =
     (case insert_row msg_id m (messages d) of
        Inl e \<Rightarrow> Inl e
      | Inr ms \<Rightarrow> Inr (upd_ticket (tk_id tk)
          (\<lambda>t. advance_conversation_activity (instant (w_clock w))
             (t\<lparr>tk_next_message_sequence := Suc (tk_next_message_sequence t)\<rparr>)) (d\<lparr>messages := ms\<rparr>)))"

definition next_turn ::
  "world \<Rightarrow> db \<Rightarrow> support_ticket \<Rightarrow> string \<Rightarrow> string \<Rightarrow> db result" where
  "next_turn w d tk trace_id default_status =
     (case lookup_by tk_id (tk_id tk) (tickets d) of
        None \<Rightarrow> Inl AttributeError
      | Some now_tk \<Rightarrow>
          (case activate_next_turn_and_converge_ticket w d now_tk (trace_id @ '':next-turn'') default_status of
             Inl e \<Rightarrow> Inl e | Inr (_, d1) \<Rightarrow> Inr d1))"

definition rejected_key :: "approval_request \<Rightarrow> string" where
  "rejected_key ap = ''approval:'' @ ap_id ap @ '':rejected''"

definition close_rejected ::
  "world \<Rightarrow> db \<Rightarrow> approval_request \<Rightarrow> decision_binding \<Rightarrow> db" where
  "close_rejected w d ap b =
     upd_ticket (tk_id (db_ticket b))
       (\<lambda>t. t\<lparr>tk_status := ''rejected'', tk_final_response := Some rejected_reply,
          tk_version := Suc (tk_version t)\<rparr>)
       (finish_run_and_turn (instant (w_clock w)) ''rejected'' (db_run b)
         (upd_run (run_id (db_run b)) (\<lambda>r. r\<lparr>run_error_code := None\<rparr>)
           (stale_proposals (\<lambda>p. pr_id p = pr_id (db_proposal b)) d)))"

definition converge_rejected_decision ::
  "world \<Rightarrow> world \<Rightarrow> db \<Rightarrow> approval_request \<Rightarrow> decision_binding \<Rightarrow> string \<Rightarrow> db result" where
  "converge_rejected_decision w w2 d ap b trace_id =
     (let d1 = close_rejected w d ap b in
      case (if select_first (\<lambda>m. msg_tenant_id m = ap_tenant_id ap \<and>
                 msg_publication_key m = Some (rejected_key ap)) (messages d) \<noteq> None then Inr d1
            else publish_update w (db_ticket b)
              (action_update w ap (db_ticket b) (Some (db_run b)) (rejected_key ap) rejected_reply) d1) of
        Inl e \<Rightarrow> Inl e
      | Inr d2 \<Rightarrow> next_turn w2 d2 (db_ticket b) trace_id ''rejected'')"

section \<open>The command\<close>

definition decision_audit ::
  "world \<Rightarrow> decision_request \<Rightarrow> approval_request \<Rightarrow> decision_binding \<Rightarrow> string option \<Rightarrow> audit_event" where
  "decision_audit w q ap b job =
     \<lparr>au_id = w_new_id w ''audit'', au_tenant_id = ap_tenant_id ap, au_ticket_id = tk_id (db_ticket b),
      au_customer_id = ap_customer_id ap, au_event_type = ''approval_decision_accepted'',
      au_actor_type = ''approver'', au_actor_id = Some (dq_actor_id q),
      au_payload = [(''approval_id'', PStr (ap_id ap)), (''decision'', PStr (dq_decision q)),
        (''proposal_id'', PStr (pr_id (db_proposal b))), (''marker_id'', PStr (mk_id (db_marker b))),
        (''job_id'', opt_str_val job), (''approver_note'', PStr (ref_or_empty (dq_approver_note q)))],
      au_trace_id = dq_trace_id q, au_run_id = Some (run_id (db_run b)),
      au_created_at = of_wall_utc (w_now w)\<rparr>"

definition decided_status :: "string \<Rightarrow> string" where
  "decided_status decision = (if decision = ''reject'' then ''rejected'' else ''approved'')"

definition resumed_job_id :: "world \<Rightarrow> decision_request \<Rightarrow> string option" where
  "resumed_job_id w q = (if dq_decision q = ''reject'' then None else Some (w_new_id w ''job''))"

text \<open>From the transition of the approval to the audit row.\<close>

definition commit_decision ::
  "world \<Rightarrow> world \<Rightarrow> store \<Rightarrow> decision_request \<Rightarrow> approval_request \<Rightarrow> approval_action_revision \<Rightarrow>
   decision_binding \<Rightarrow> store result" where
  "commit_decision w w2 s q ap rvn b =
     (case transition_approval (st_db s) ap (decided_status (dq_decision q)) ''pending''
             (Some (ap_status_version ap)) (Some (instant (w_clock w))) of Inl e \<Rightarrow> Inl e | Inr (_, d1) \<Rightarrow>
     (case decision_digest (w_digest w) q ap rvn of Inl e \<Rightarrow> Inl e | Inr h \<Rightarrow>
     (case (if dq_decision q = ''reject'' then Inr d1 else queue_resume w d1 ap b) of Inl e \<Rightarrow> Inl e | Inr d2 \<Rightarrow>
     (case append_decision_event w d2 q ap rvn h b of Inl e \<Rightarrow> Inl e | Inr (ev, d3) \<Rightarrow>
     (case insert_decision (new_human_decision w q ap rvn h ev) s of Inl e \<Rightarrow> Inl e | Inr s1 \<Rightarrow>
     (case (if dq_decision q = ''reject'' then converge_rejected_decision w w2 d3 ap b (dq_trace_id q)
            else announce_resume w d3 ap b (dq_trace_id q)) of Inl e \<Rightarrow> Inl e | Inr d4 \<Rightarrow>
        add_audit (decision_audit w q ap b (resumed_job_id w q)) (s1\<lparr>st_db := d4\<rparr>)))))))"

definition new_accepted ::
  "world \<Rightarrow> decision_request \<Rightarrow> approval_request \<Rightarrow> decision_binding \<Rightarrow> decision_accepted" where
  "new_accepted w q ap b =
     \<lparr>dc_approval_id = ap_id ap, dc_ticket_id = tk_id (db_ticket b), dc_run_id = run_id (db_run b),
      dc_job_id = resumed_job_id w q, dc_decision = dq_decision q,
      dc_accepted_at = replace_utc (read_timestamp (w_now w)), dc_reused = False\<rparr>"

definition new_decision ::
  "world \<Rightarrow> world \<Rightarrow> store \<Rightarrow> decision_request \<Rightarrow> approval_request \<Rightarrow> (decision_accepted \<times> store) result" where
  "new_decision w w2 s q ap =
     (case validate_binding (w_digest w) (st_db s) ap of Inl e \<Rightarrow> Inl e | Inr b \<Rightarrow>
      if dq_decision q \<notin> {''approve'', ''edit_and_approve'', ''reject''} then
        Inl (RuntimeConflict ''invalid_approval_decision'')
      else (case choose_revision w s q ap (db_proposal b) of Inl e \<Rightarrow> Inl e | Inr (ap1, rvn, s1) \<Rightarrow>
        (case (if dq_decision q \<noteq> ''reject'' \<and> ap_action_type ap1 = ''refund''
               then recheck_refund w s1 ap1 (db_proposal b) else Inr s1) of Inl e \<Rightarrow> Inl e | Inr s2 \<Rightarrow>
        (case commit_decision w w2 s2 q ap1 rvn b of Inl e \<Rightarrow> Inl e | Inr s3 \<Rightarrow>
           Inr (new_accepted w q ap1 b, s3)))))"

definition decision_route :: "decision_request \<Rightarrow> string" where
  "decision_route q = ''POST /api/approvals/'' @ dq_approval_id q @ ''/decision''"

definition decision_payload :: "decision_request \<Rightarrow> pydict" where
  "decision_payload q =
     [(''decision'', PStr (dq_decision q)), (''reason'', PStr (dq_reason q)),
      (''approver_note'', opt_str_val (dq_approver_note q)), (''edited_payload'', PDict (edited_or_empty q))]"

definition decide ::
  "world \<Rightarrow> world \<Rightarrow> store \<Rightarrow> decision_request \<Rightarrow> (decision_accepted \<times> store) result" where
  "decide w w2 s q =
     (if dq_decision q = ''manual_takeover'' then Inl (RuntimeConflict ''manual_takeover_public_unsupported'')
      else (case select_first (\<lambda>a. ap_id a = dq_approval_id q \<and> ap_tenant_id a = dq_tenant_id q)
              (approvals (st_db s)) of
        None \<Rightarrow> Inl (RuntimeConflict ''approval_not_found'')
      | Some ap \<Rightarrow>
        (case assert_active_approver_scope s (ap_tenant_id ap) (dq_actor_id q) of Inl e \<Rightarrow> Inl e | Inr _ \<Rightarrow>
        (case accept w (st_db s) (ap_tenant_id ap) (dq_actor_id q) (decision_route q) (dq_idempotency_key q)
                (decision_payload q) [] [] None of Inl e \<Rightarrow> Inl e | Inr (c, d1) \<Rightarrow>
         if ac_reused c \<and> idm_response_snapshot (ac_record c) \<noteq> [] then
           (case replayed_decision ap (idm_response_snapshot (ac_record c)) of
              Inl e \<Rightarrow> Inl e | Inr a \<Rightarrow> Inr (a, s\<lparr>st_db := d1\<rparr>))
         else
           (case (case decision_of s ap of
                    Some h \<Rightarrow>
                      (case recorded_decision ap (dq_decision q) h
                              (select_first (\<lambda>j. job_approval_id j = Some (ap_id ap)) (jobs d1)) of
                         Inl e \<Rightarrow> Inl e | Inr a \<Rightarrow> Inr (a, s\<lparr>st_db := d1\<rparr>))
                  | None \<Rightarrow> new_decision w w2 (s\<lparr>st_db := d1\<rparr>) q ap) of
              Inl e \<Rightarrow> Inl e
            | Inr (a, s1) \<Rightarrow>
                (case store_decision_response (idm_id (ac_record c)) a (st_db s1) of
                   Inl e \<Rightarrow> Inl e | Inr d2 \<Rightarrow> Inr (a, s1\<lparr>st_db := d2\<rparr>)))))))"

section \<open>Closing a broken binding\<close>

definition binding_stale_response :: "string \<Rightarrow> bool \<Rightarrow> pydict" where
  "binding_stale_response approval_id reused =
     [(''schema_version'', PStr ''checkpoint-binding-stale.v1''), (''approval_id'', PStr approval_id),
      (''status'', PStr ''stale''), (''reused'', PBool reused)]"

definition mark_binding_stale :: "store \<Rightarrow> string \<Rightarrow> string \<Rightarrow> (pydict \<times> store) result" where
  "mark_binding_stale s tenant approval_id =
     (case select_first (\<lambda>a. ap_id a = approval_id \<and> ap_tenant_id a = tenant \<and> ap_status a = ''pending'')
             (approvals (st_db s)) of
        None \<Rightarrow> Inr (binding_stale_response approval_id True, s)
      | Some ap \<Rightarrow>
          (case transition_approval (st_db s) ap ''stale'' ''pending'' (Some (ap_status_version ap)) None of
             Inl e \<Rightarrow> Inl e
           | Inr (_, d1) \<Rightarrow>
               Inr (binding_stale_response approval_id False,
                 s\<lparr>st_db := (if falsy_ref (ap_proposal_id ap) then d1
                    else stale_proposals (\<lambda>p. Some (pr_id p) = ap_proposal_id ap \<and> pr_tenant_id p = tenant \<and>
                      pr_status p \<in> {''draft'', ''bound''}) d1)\<rparr>)))"

end
