(* ===== verification/Customer_Commands.thy ===== *)
theory Customer_Commands
  imports Approval_Commands
begin

text \<open>
  \<open>services/proposal_withdrawals.py\<close> and \<open>services/conversation_lifecycle.py\<close>: the two commands by which a
  customer closes something: withdrawing a pending proposal, and archiving or restoring a conversation.  The
  branch modelled is the one for a database that is not PostgreSQL.
\<close>

section \<open>Withdrawal of a proposal\<close>

record withdrawal_request =
  wq_tenant_id :: string
  wq_customer_id :: string
  wq_principal_id :: string
  wq_approval_id :: string
  wq_idempotency_key :: string
  wq_reason :: string
  wq_trace_id :: string

record withdrawal_accepted =
  wa_approval_id :: string
  wa_ticket_id :: string
  wa_withdrawal_id :: string
  wa_accepted_at :: pydatetime
  wa_reused :: bool

definition withdrawal_fields :: "withdrawal_accepted \<Rightarrow> string \<Rightarrow> bool \<Rightarrow> pydict" where
  "withdrawal_fields a at reused =
     [(''schema_version'', PStr ''withdrawal-accepted.v1''), (''approval_id'', PStr (wa_approval_id a)),
      (''ticket_id'', PStr (wa_ticket_id a)), (''withdrawal_id'', PStr (wa_withdrawal_id a)),
      (''accepted_at'', PStr at), (''action_status'', PStr ''withdrawn''), (''reused'', PBool reused)]"

definition withdrawal_response :: "withdrawal_accepted \<Rightarrow> pydict result" where
  "withdrawal_response a =
     (case format_canonical_utc_timestamp (wa_accepted_at a) of Inl e \<Rightarrow> Inl e
      | Inr at \<Rightarrow> Inr (withdrawal_fields a at (wa_reused a)))"

definition store_withdrawal_response :: "string \<Rightarrow> withdrawal_accepted \<Rightarrow> db \<Rightarrow> db result" where
  "store_withdrawal_response record_id a d =
     (case withdrawal_response a of Inl e \<Rightarrow> Inl e
      | Inr resp \<Rightarrow>
          Inr (d\<lparr>idempotency := update_by idm_id record_id
            (\<lambda>r. r\<lparr>idm_resource_ids := [(''approval_id'', PStr (wa_approval_id a)),
                  (''ticket_id'', PStr (wa_ticket_id a)), (''withdrawal_id'', PStr (wa_withdrawal_id a))],
               idm_response_snapshot := dset resp ''reused'' (PBool False),
               idm_completed_at := Some (instant (wa_accepted_at a)),
               idm_retention_class := ''protected_action''\<rparr>) (idempotency d)\<rparr>))"

definition replayed_withdrawal ::
  "approval_request \<Rightarrow> support_ticket \<Rightarrow> pydict \<Rightarrow> withdrawal_accepted result" where
  "replayed_withdrawal ap tk snapshot =
     (case ditem snapshot ''withdrawal_id'' of Inl e \<Rightarrow> Inl e | Inr i \<Rightarrow>
     (case ditem snapshot ''accepted_at'' of Inl e \<Rightarrow> Inl e | Inr v \<Rightarrow>
     (case parse_timestamp_value v of Inl e \<Rightarrow> Inl e | Inr at \<Rightarrow>
        Inr \<lparr>wa_approval_id = ap_id ap, wa_ticket_id = tk_id tk, wa_withdrawal_id = py_str i,
             wa_accepted_at = at, wa_reused = True\<rparr>)))"

definition withdrawn_reply :: string where
  "withdrawn_reply =
     utf8
        [228, 189, 160, 229, 183, 178, 230, 146, 164, 229, 155, 158, 232, 175, 165, 230,
         147, 141, 228, 189, 156, 231, 148, 179, 232, 175, 183, 239, 188, 155, 231, 179,
         187, 231, 187, 159, 230, 156, 170, 230, 137, 167, 232, 161, 140, 228, 187, 187,
         228, 189, 149, 228, 184, 154, 229, 138, 161, 229, 138, 168, 228, 189, 156, 227,
         128, 130]"

definition new_withdrawal ::
  "world \<Rightarrow> withdrawal_request \<Rightarrow> approval_request \<Rightarrow> support_ticket \<Rightarrow> proposal_record \<Rightarrow> proposal_withdrawal" where
  "new_withdrawal w q ap tk p =
     \<lparr>pw_id = w_new_id w ''withdrawal'', pw_tenant_id = wq_tenant_id q, pw_ticket_id = tk_id tk,
      pw_customer_id = wq_customer_id q, pw_approval_id = ap_id ap, pw_proposal_id = pr_id p,
      pw_actor_id = wq_principal_id q, pw_reason = wq_reason q, pw_idempotency_key = wq_idempotency_key q,
      pw_created_at = instant (w_clock w)\<rparr>"

definition insert_withdrawal :: "proposal_withdrawal \<Rightarrow> store \<Rightarrow> store result" where
  "insert_withdrawal x s =
     (if list_ex (\<lambda>y. pw_approval_id y = pw_approval_id x) (st_withdrawals s) then
        Inl (IntegrityError ''uq_proposal_withdrawal_approval'')
      else (case insert_row pw_id x (st_withdrawals s) of
          Inl e \<Rightarrow> Inl e | Inr rows \<Rightarrow> Inr (s\<lparr>st_withdrawals := rows\<rparr>)))"

definition withdrawal_audit ::
  "world \<Rightarrow> withdrawal_request \<Rightarrow> approval_request \<Rightarrow> support_ticket \<Rightarrow> proposal_record \<Rightarrow> audit_event" where
  "withdrawal_audit w q ap tk p =
     \<lparr>au_id = w_new_id w ''audit'', au_tenant_id = wq_tenant_id q, au_ticket_id = tk_id tk,
      au_customer_id = wq_customer_id q, au_event_type = ''proposal_withdrawn'', au_actor_type = ''customer'',
      au_actor_id = Some (wq_principal_id q),
      au_payload = [(''approval_id'', PStr (ap_id ap)), (''proposal_id'', PStr (pr_id p)),
        (''withdrawal_id'', PStr (w_new_id w ''withdrawal''))],
      au_trace_id = wq_trace_id q, au_run_id = ap_run_id ap, au_created_at = of_wall_utc (w_now w)\<rparr>"

definition run_of :: "db \<Rightarrow> approval_request \<Rightarrow> agent_run option" where
  "run_of d ap = (if falsy_ref (ap_run_id ap) then None else lookup_by run_id (the (ap_run_id ap)) (runs d))"

definition withdrawn_key :: "approval_request \<Rightarrow> string" where
  "withdrawn_key ap = ''action:'' @ ap_id ap @ '':withdrawn:1''"

definition close_withdrawn ::
  "world \<Rightarrow> db \<Rightarrow> approval_request \<Rightarrow> support_ticket \<Rightarrow> proposal_record \<Rightarrow> db result" where
  "close_withdrawn w d ap tk p =
     (let d1 = stale_proposals (\<lambda>x. pr_id x = pr_id p) d; r = run_of d ap;
          d2 = (case r of None \<Rightarrow> d1 | Some x \<Rightarrow> finish_run_and_turn (instant (w_clock w)) ''withdrawn'' x d1);
          d3 = upd_ticket (tk_id tk) (\<lambda>t. t\<lparr>tk_status := ''open'', tk_version := Suc (tk_version t)\<rparr>) d2
      in publish_update w tk (action_update w ap tk r (withdrawn_key ap) withdrawn_reply) d3)"

definition commit_withdrawal ::
  "world \<Rightarrow> store \<Rightarrow> withdrawal_request \<Rightarrow> approval_request \<Rightarrow> support_ticket \<Rightarrow> proposal_record \<Rightarrow>
   store result" where
  "commit_withdrawal w s q ap tk p =
     (case transition_approval (st_db s) ap ''withdrawn'' ''pending'' (Some (ap_status_version ap))
             (Some (instant (w_clock w))) of Inl e \<Rightarrow> Inl e | Inr (_, d1) \<Rightarrow>
     (case close_withdrawn w d1 ap tk p of Inl e \<Rightarrow> Inl e | Inr d2 \<Rightarrow>
     (case insert_withdrawal (new_withdrawal w q ap tk p) s of Inl e \<Rightarrow> Inl e | Inr s1 \<Rightarrow>
        add_audit (withdrawal_audit w q ap tk p) (s1\<lparr>st_db := d2\<rparr>))))"

definition withdrawal_of :: "store \<Rightarrow> withdrawal_request \<Rightarrow> approval_request \<Rightarrow> proposal_withdrawal option" where
  "withdrawal_of s q ap =
     select_first (\<lambda>x. pw_approval_id x = ap_id ap \<and> pw_tenant_id x = wq_tenant_id q) (st_withdrawals s)"

definition withdrawable ::
  "store \<Rightarrow> withdrawal_request \<Rightarrow> approval_request \<Rightarrow> proposal_record result" where
  "withdrawable s q ap =
     (if ap_status ap \<noteq> ''pending'' \<or> decision_of s ap \<noteq> None \<or> falsy_ref (ap_proposal_id ap) then
        Inl (RuntimeConflict ''proposal_withdrawal_conflict'')
      else (case select_first (\<lambda>p. Some (pr_id p) = ap_proposal_id ap \<and> pr_tenant_id p = wq_tenant_id q \<and>
                  pr_status p = ''bound'') (proposals (st_db s)) of
          None \<Rightarrow> Inl (RuntimeConflict ''proposal_withdrawal_conflict'')
        | Some p \<Rightarrow> Inr p))"

definition withdrawal_route :: "support_ticket \<Rightarrow> approval_request \<Rightarrow> string" where
  "withdrawal_route tk ap =
     ''POST /api/conversations/'' @ tk_id tk @ ''/actions/'' @ ap_id ap @ ''/withdraw''"

definition new_withdrawal_accepted ::
  "world \<Rightarrow> approval_request \<Rightarrow> support_ticket \<Rightarrow> withdrawal_accepted" where
  "new_withdrawal_accepted w ap tk =
     \<lparr>wa_approval_id = ap_id ap, wa_ticket_id = tk_id tk, wa_withdrawal_id = w_new_id w ''withdrawal'',
      wa_accepted_at = w_clock w, wa_reused = False\<rparr>"

definition fresh_withdrawal ::
  "world \<Rightarrow> world \<Rightarrow> store \<Rightarrow> withdrawal_request \<Rightarrow> string \<Rightarrow> approval_request \<Rightarrow> support_ticket \<Rightarrow>
   (withdrawal_accepted \<times> store) result" where
  "fresh_withdrawal w w2 s q record_id ap tk =
     (case withdrawable s q ap of Inl e \<Rightarrow> Inl e | Inr p \<Rightarrow>
     (case commit_withdrawal w s q ap tk p of Inl e \<Rightarrow> Inl e | Inr s1 \<Rightarrow>
     (case store_withdrawal_response record_id (new_withdrawal_accepted w ap tk) (st_db s1) of
        Inl e \<Rightarrow> Inl e
      | Inr d2 \<Rightarrow>
          (case next_turn w2 d2 tk (wq_trace_id q) ''open'' of
             Inl e \<Rightarrow> Inl e
           | Inr d3 \<Rightarrow> Inr (new_withdrawal_accepted w ap tk, s1\<lparr>st_db := d3\<rparr>)))))"

definition withdraw ::
  "world \<Rightarrow> world \<Rightarrow> store \<Rightarrow> withdrawal_request \<Rightarrow> (withdrawal_accepted \<times> store) result" where
  "withdraw w w2 s q =
     (case select_first (\<lambda>a. ap_id a = wq_approval_id q \<and> ap_tenant_id a = wq_tenant_id q)
             (approvals (st_db s)) of
        None \<Rightarrow> Inl (RuntimeConflict ''approval_not_found'')
      | Some ap \<Rightarrow>
        if ap_customer_id ap \<noteq> wq_customer_id q then Inl (RuntimeConflict ''approval_not_found'')
        else (case select_first (\<lambda>t. tk_id t = ap_ticket_id ap \<and> tk_tenant_id t = wq_tenant_id q \<and>
                tk_customer_id t = wq_customer_id q) (tickets (st_db s)) of
          None \<Rightarrow> Inl (RuntimeConflict ''approval_not_found'')
        | Some tk \<Rightarrow>
          (case accept w (st_db s) (wq_tenant_id q) (wq_principal_id q) (withdrawal_route tk ap)
                  (wq_idempotency_key q) [(''reason'', PStr (wq_reason q))] [] [] None of
             Inl e \<Rightarrow> Inl e
           | Inr (c, d1) \<Rightarrow>
             if ac_reused c \<and> idm_response_snapshot (ac_record c) \<noteq> [] then
               (case replayed_withdrawal ap tk (idm_response_snapshot (ac_record c)) of
                  Inl e \<Rightarrow> Inl e | Inr a \<Rightarrow> Inr (a, s\<lparr>st_db := d1\<rparr>))
             else (case withdrawal_of s q ap of
                 Some x \<Rightarrow>
                   (let a = \<lparr>wa_approval_id = ap_id ap, wa_ticket_id = tk_id tk, wa_withdrawal_id = pw_id x,
                         wa_accepted_at = read_timestamp (pw_created_at x), wa_reused = True\<rparr>
                    in (case store_withdrawal_response (idm_id (ac_record c)) a d1 of
                          Inl e \<Rightarrow> Inl e | Inr d2 \<Rightarrow> Inr (a, s\<lparr>st_db := d2\<rparr>)))
               | None \<Rightarrow> fresh_withdrawal w w2 (s\<lparr>st_db := d1\<rparr>) q (idm_id (ac_record c)) ap tk))))"

section \<open>Archiving and restoring a conversation\<close>

record lifecycle_request =
  lq_tenant_id :: string
  lq_customer_id :: string
  lq_principal_id :: string
  lq_conversation_id :: string
  lq_lifecycle :: string
  lq_idempotency_key :: string
  lq_trace_id :: string

record lifecycle_accepted =
  la_conversation_id :: string
  la_lifecycle :: string
  la_accepted_at :: pydatetime
  la_reused :: bool

definition lifecycle_response :: "lifecycle_accepted \<Rightarrow> pydict result" where
  "lifecycle_response a =
     (case format_canonical_utc_timestamp (la_accepted_at a) of Inl e \<Rightarrow> Inl e
      | Inr at \<Rightarrow> Inr
          [(''schema_version'', PStr ''conversation-lifecycle.v1''),
           (''conversation_id'', PStr (la_conversation_id a)), (''lifecycle'', PStr (la_lifecycle a)),
           (''accepted_at'', PStr at), (''reused'', PBool (la_reused a))])"

definition store_lifecycle_response :: "string \<Rightarrow> lifecycle_accepted \<Rightarrow> db \<Rightarrow> db result" where
  "store_lifecycle_response record_id a d =
     (case lifecycle_response a of Inl e \<Rightarrow> Inl e
      | Inr resp \<Rightarrow>
          Inr (d\<lparr>idempotency := update_by idm_id record_id
            (\<lambda>r. r\<lparr>idm_resource_ids := [(''conversation_id'', PStr (la_conversation_id a))],
               idm_response_snapshot := dset resp ''reused'' (PBool False),
               idm_completed_at := Some (instant (la_accepted_at a)),
               idm_retention_class := ''low_risk_non_action''\<rparr>) (idempotency d)\<rparr>))"

definition replayed_lifecycle :: "lifecycle_request \<Rightarrow> pydict \<Rightarrow> lifecycle_accepted result" where
  "replayed_lifecycle q snapshot =
     (case ditem snapshot ''lifecycle'' of Inl e \<Rightarrow> Inl e | Inr v \<Rightarrow>
     (case ditem snapshot ''accepted_at'' of Inl e \<Rightarrow> Inl e | Inr t \<Rightarrow>
     (case parse_timestamp_value t of Inl e \<Rightarrow> Inl e | Inr at \<Rightarrow>
        Inr \<lparr>la_conversation_id = lq_conversation_id q, la_lifecycle = py_str v, la_accepted_at = at,
             la_reused = True\<rparr>)))"

definition lifecycle_action :: "string \<Rightarrow> string" where
  "lifecycle_action lifecycle = (if lifecycle = ''active'' then ''restore'' else ''archive'')"

definition lifecycle_audit :: "world \<Rightarrow> lifecycle_request \<Rightarrow> support_ticket \<Rightarrow> audit_event" where
  "lifecycle_audit w q tk =
     \<lparr>au_id = w_new_id w ''audit'', au_tenant_id = lq_tenant_id q, au_ticket_id = tk_id tk,
      au_customer_id = lq_customer_id q,
      au_event_type = ''conversation_'' @ lifecycle_action (lq_lifecycle q) @ ''d'',
      au_actor_type = ''customer'', au_actor_id = Some (lq_principal_id q),
      au_payload = [(''lifecycle'', PStr (lq_lifecycle q))], au_trace_id = lq_trace_id q, au_run_id = None,
      au_created_at = of_wall_utc (w_now w)\<rparr>"

text \<open>The ticket's \<open>updated_at\<close> column, which the database maintains, is an argument.\<close>

definition change_lifecycle ::
  "world \<Rightarrow> pydatetime \<Rightarrow> store \<Rightarrow> lifecycle_request \<Rightarrow> support_ticket \<Rightarrow> (pydatetime \<times> store) result" where
  "change_lifecycle w updated_at s q tk =
     (if tk_lifecycle tk = lq_lifecycle q then
        Inr (if dt_offset updated_at = None then replace_utc updated_at else updated_at, s)
      else (case add_audit (lifecycle_audit w q tk) (s\<lparr>st_db := upd_ticket (tk_id tk)
                (\<lambda>t. t\<lparr>tk_lifecycle := lq_lifecycle q, tk_version := Suc (tk_version t)\<rparr>) (st_db s)\<rparr>) of
          Inl e \<Rightarrow> Inl e | Inr s1 \<Rightarrow> Inr (w_clock w, s1)))"

definition transition_conversation ::
  "world \<Rightarrow> pydatetime \<Rightarrow> store \<Rightarrow> lifecycle_request \<Rightarrow> (lifecycle_accepted \<times> store) result" where
  "transition_conversation w updated_at s q =
     (if lq_lifecycle q \<notin> {''active'', ''archived''} then
        Inl (RuntimeConflict ''conversation_lifecycle_invalid'')
      else (case select_first (\<lambda>t. tk_id t = lq_conversation_id q \<and> tk_tenant_id t = lq_tenant_id q \<and>
                tk_customer_id t = lq_customer_id q) (tickets (st_db s)) of
        None \<Rightarrow> Inl (RuntimeConflict ''conversation_not_found'')
      | Some tk \<Rightarrow>
        (case accept w (st_db s) (lq_tenant_id q) (lq_principal_id q)
                (''POST /api/conversations/'' @ lq_conversation_id q @ ''/'' @ lifecycle_action (lq_lifecycle q))
                (lq_idempotency_key q) [(''lifecycle'', PStr (lq_lifecycle q))] [] [] None of
           Inl e \<Rightarrow> Inl e
         | Inr (c, d1) \<Rightarrow>
           if ac_reused c \<and> idm_response_snapshot (ac_record c) \<noteq> [] then
             (case replayed_lifecycle q (idm_response_snapshot (ac_record c)) of
                Inl e \<Rightarrow> Inl e | Inr a \<Rightarrow> Inr (a, s\<lparr>st_db := d1\<rparr>))
           else (case change_lifecycle w updated_at (s\<lparr>st_db := d1\<rparr>) q tk of
               Inl e \<Rightarrow> Inl e
             | Inr (now, s1) \<Rightarrow>
                 (let a = \<lparr>la_conversation_id = tk_id tk, la_lifecycle = lq_lifecycle q,
                       la_accepted_at = now, la_reused = False\<rparr>
                  in (case store_lifecycle_response (idm_id (ac_record c)) a (st_db s1) of
                        Inl e \<Rightarrow> Inl e | Inr d2 \<Rightarrow> Inr (a, s1\<lparr>st_db := d2\<rparr>)))))))"

end
