(* ===== verification/Legacy_Refund.thy ===== *)
theory Legacy_Refund
  imports Action_Effects
begin

text \<open>
  The synchronous refund entry that predates the worker, \<open>RuntimeActionExecutor.execute_legacy_refund\<close> of
  \<open>services/actions.py\<close>, and the guarantee over both refund paths together: whatever executions succeed,
  in whatever order and through whichever entry, a charge is refunded at most once.  The ticket converges
  after the effect with identifiers drawn later in the same transaction; they are the second world
  argument.
\<close>

section \<open>Binding\<close>

record legacy_refund_binding =
  lb_approval :: approval_request
  lb_decision :: human_decision
  lb_revision :: "approval_action_revision option"
  lb_payload :: pydict
  lb_payload_hash :: string
  lb_resource_version :: int
  lb_resource_id :: string

definition load_legacy_refund_binding :: "store \<Rightarrow> string \<Rightarrow> string \<Rightarrow> legacy_refund_binding result" where
  "load_legacy_refund_binding s approval_id key =
     (case lookup_by ap_id approval_id (approvals (st_db s)) of
        None \<Rightarrow> Inl (DomainError ''approval_not_found'')
      | Some ap \<Rightarrow>
          if ap_idempotency_key ap \<noteq> key then Inl (DomainError ''idempotency_conflict'')
          else if ap_status ap \<notin> {''approved'', ''executed''} then Inl (DomainError ''approval_state_conflict'')
          else
            (let rvn = revision_of s ap;
                 payload = (case rvn of Some r \<Rightarrow> rv_action_payload r | None \<Rightarrow> ap_action_payload ap);
                 payload_hash = (case rvn of Some r \<Rightarrow> rv_action_hash r | None \<Rightarrow> ap_action_hash ap);
                 version = (case rvn of Some r \<Rightarrow> rv_resource_version r | None \<Rightarrow> ap_business_version ap)
             in (case decision_of s ap of
                   None \<Rightarrow> Inl (DomainError ''approval_snapshot_mismatch'')
                 | Some dec \<Rightarrow>
                     if hd_decision dec \<notin> {''approve'', ''edit_and_approve''} \<or>
                        hd_action_hash dec \<noteq> Some payload_hash
                     then Inl (DomainError ''approval_snapshot_mismatch'')
                     else Inr \<lparr>lb_approval = ap, lb_decision = dec, lb_revision = rvn, lb_payload = payload,
                       lb_payload_hash = payload_hash, lb_resource_version = version,
                       lb_resource_id = py_str (dget_default payload ''billing_record_id'' (PStr []))\<rparr>)))"

definition load_legacy_refund_billing :: "world \<Rightarrow> store \<Rightarrow> legacy_refund_binding \<Rightarrow> refund_charge_facts result" where
  "load_legacy_refund_billing w s b =
     (let ap = lb_approval b in
      case lock_and_evaluate_billing_refund_pair (w_digest w) (st_billing s) (ap_tenant_id ap)
             (ap_customer_id ap) (lb_resource_id b) (w_clock w) of
        Inl e \<Rightarrow> Inl e
      | Inr None \<Rightarrow> Inl (DomainError ''billing_record_not_found'')
      | Inr (Some (billing, pair)) \<Rightarrow>
          if \<not> refund_snapshot_valid ap (lb_resource_version b) (lb_payload b) billing pair (proposal_of s ap)
          then Inl (DomainError ''approval_snapshot_mismatch'') else Inr billing)"

section \<open>Convergence\<close>

definition stale_bound_proposals :: "approval_request \<Rightarrow> string \<Rightarrow> db \<Rightarrow> db" where
  "stale_bound_proposals ap resource_id d =
     stale_proposals (\<lambda>p. pr_tenant_id p = ap_tenant_id ap \<and> pr_action_type p = ''refund'' \<and>
       pr_resource_id p = resource_id \<and> pr_status p \<in> {''draft'', ''bound''}) d"

definition complete_run :: "int \<Rightarrow> agent_run \<Rightarrow> agent_run" where
  "complete_run now r =
     (if run_status r \<noteq> ''completed'' \<or> run_checkpoint_stage r \<noteq> ''action_committed'' \<or> run_completed_at r = None then
        r\<lparr>run_status := ''completed'', run_checkpoint_stage := ''action_committed'',
          run_agent_finish_reason := Some ''executed'', run_error_code := None, run_active_job_id := None,
          run_active_fencing_token := None, run_completed_at := Some now,
          run_status_version := Suc (run_status_version r)\<rparr>
      else r)"

definition complete_turn :: "int option \<Rightarrow> conversation_turn \<Rightarrow> conversation_turn" where
  "complete_turn completed t =
     (if tn_activity_state t \<noteq> ''completed'' then
        t\<lparr>tn_activity_state := ''completed'', tn_result_state := Some ''answered'', tn_completed_at := completed\<rparr>
      else t)"

definition converge_legacy_refund :: "world \<Rightarrow> db \<Rightarrow> approval_request \<Rightarrow> string \<Rightarrow> db result" where
  "converge_legacy_refund w d ap trace_id =
     (case (lookup_by tk_id (ap_ticket_id ap) (tickets d),
            if falsy_ref (ap_run_id ap) then None
            else lookup_by run_id (ref_or_empty (ap_run_id ap)) (runs d)) of
        (Some tk, Some r) \<Rightarrow>
          (let r' = complete_run (instant (w_clock w)) r;
               d1 = upd_run (run_id r) (\<lambda>_. r') d;
               d2 = (if falsy_ref (run_turn_id r) then d1
                     else upd_turn (ref_or_empty (run_turn_id r)) (complete_turn (run_completed_at r')) d1)
           in (case activate_next_turn_and_converge_ticket w d2 tk trace_id ''resolved'' of
                 Inl e \<Rightarrow> Inl e | Inr (_, d3) \<Rightarrow> Inr d3))
      | _ \<Rightarrow> Inl (DomainError ''approval_binding_invalid''))"

section \<open>The two outcomes\<close>

definition legacy_effect_bound ::
  "(string \<Rightarrow> string) \<Rightarrow> legacy_refund_binding \<Rightarrow> business_action \<Rightarrow> bool" where
  "legacy_effect_bound H b act =
     (let ap = lb_approval b; dec = lb_decision b in
      ba_action_hash act = Some (lb_payload_hash b) \<and> ba_idempotency_key act = ap_idempotency_key ap \<and>
      dget (ba_result act) ''approval_id'' = PStr (ap_id ap) \<and> ba_approval_id act = Some (ap_id ap) \<and>
      ba_human_decision_id act = Some (hd_id dec) \<and> ba_decision_hash act = hd_decision_hash dec \<and>
      (case lb_revision b of None \<Rightarrow> True | Some r \<Rightarrow> ba_action_revision_id act = Some (rv_id r)) \<and>
      Inr (ba_effect_identity act) = map_sum id Some (effect_identity H ap (lb_revision b) (lb_resource_id b)) \<and>
      \<not> falsy_ref (ba_canonical_event_id act) \<and> \<not> falsy_ref (ba_canonical_event_hash act))"

definition reuse_legacy_refund ::
  "world \<Rightarrow> world \<Rightarrow> store \<Rightarrow> legacy_refund_binding \<Rightarrow> business_action \<Rightarrow> string \<Rightarrow>
   (action_result \<times> store) result" where
  "reuse_legacy_refund w w2 s b act trace_id =
     (let ap = lb_approval b in
      if \<not> legacy_effect_bound (w_digest w) b act then Inl (DomainError ''approval_snapshot_mismatch'')
      else (case transition_approval (st_db s) ap ''executed'' ''approved'' (Some (ap_status_version ap)) None of
          Inl e \<Rightarrow> Inl e
        | Inr (_, d1) \<Rightarrow>
            (let d2 = (if ap_consumed_at ap = None then consume_approval (w_clock w) (ap_id ap) d1 else d1);
                 d3 = stale_bound_proposals ap (lb_resource_id b) d2
             in (case converge_legacy_refund w2 d3 ap trace_id of
                   Inl e \<Rightarrow> Inl e
                 | Inr d4 \<Rightarrow>
                     Inr (succeeded_result (ba_id act) ''refund'' (lb_resource_id b) True, s\<lparr>st_db := d4\<rparr>)))))"

definition legacy_action :: "world \<Rightarrow> legacy_refund_binding \<Rightarrow> refund_charge_facts \<Rightarrow> business_action result" where
  "legacy_action w b billing =
     (let ap = lb_approval b; dec = lb_decision b; bill = rc_billing_record_id billing in
      case effect_identity (w_digest w) ap (lb_revision b) bill of
        Inl e \<Rightarrow> Inl e
      | Inr ident \<Rightarrow> Inr
          \<lparr>ba_id = w_new_id w ''action'', ba_tenant_id = ap_tenant_id ap, ba_ticket_id = ap_ticket_id ap,
           ba_customer_id = ap_customer_id ap, ba_action_type = ''refund'', ba_resource_id = Some bill,
           ba_resource_version = Some (lb_resource_version b), ba_action_hash = Some (lb_payload_hash b),
           ba_approval_id = Some (ap_id ap), ba_human_decision_id = Some (hd_id dec),
           ba_action_revision_id = map_option rv_id (lb_revision b),
           ba_decision_hash = hd_decision_hash dec, ba_effect_identity = Some ident,
           ba_canonical_event_id = None, ba_canonical_event_hash = None, ba_status = ''succeeded'',
           ba_idempotency_key = ap_idempotency_key ap,
           ba_result = (''approval_id'', PStr (ap_id ap)) # refund_result billing\<rparr>)"

definition conflict_as_mismatch :: "error \<Rightarrow> error" where
  "conflict_as_mismatch e =
     (case e of RuntimeConflict _ \<Rightarrow> DomainError ''approval_snapshot_mismatch'' | _ \<Rightarrow> e)"

definition commit_legacy_refund ::
  "world \<Rightarrow> world \<Rightarrow> store \<Rightarrow> legacy_refund_binding \<Rightarrow> refund_charge_facts \<Rightarrow> string \<Rightarrow>
   (action_result \<times> store) result" where
  "commit_legacy_refund w w2 s b billing trace_id =
     (let ap = lb_approval b; bill = rc_billing_record_id billing in
      case legacy_action w b billing of Inl e \<Rightarrow> Inl e | Inr act \<Rightarrow>
      (case insert_action act s of Inl e \<Rightarrow> Inl e | Inr s1 \<Rightarrow>
      (case bind_action_event w s1 ap (lb_decision b) act of
         Inl e \<Rightarrow> Inl (conflict_as_mismatch e)
       | Inr s2 \<Rightarrow>
         (case transition_approval (st_db s2) ap ''executed'' ''approved'' (Some (ap_status_version ap)) None of
            Inl e \<Rightarrow> Inl e
          | Inr (_, d3) \<Rightarrow>
            (case stale_competing_refund_approvals (consume_approval (w_clock w) (ap_id ap) d3) ap bill of
               Inl e \<Rightarrow> Inl e
             | Inr d4 \<Rightarrow>
               (case converge_legacy_refund w2 (stale_bound_proposals ap bill d4) ap
                       (trace_id @ '':effect-committed'') of
                  Inl e \<Rightarrow> Inl e
                | Inr d5 \<Rightarrow>
                  (case add_audit (refund_audit w ap (ba_id act) trace_id)
                          (s2\<lparr>st_db := d5, st_billing := refund_billing bill (st_billing s2)\<rparr>) of
                     Inl e \<Rightarrow> Inl e
                   | Inr s3 \<Rightarrow> Inr (succeeded_result (ba_id act) ''refund'' bill False, s3))))))))"

definition execute_legacy_refund ::
  "world \<Rightarrow> world \<Rightarrow> store \<Rightarrow> string \<Rightarrow> string \<Rightarrow> string \<Rightarrow> (action_result \<times> store) result" where
  "execute_legacy_refund w w2 s approval_id key trace_id =
     (case load_legacy_refund_binding s approval_id key of Inl e \<Rightarrow> Inl e | Inr b \<Rightarrow>
      (let ap = lb_approval b in
       case select_first (\<lambda>a. ba_tenant_id a = ap_tenant_id ap \<and> ba_action_type a = ''refund'' \<and>
              ba_resource_id a = Some (lb_resource_id b) \<and>
              ba_resource_version a = Some (lb_resource_version b)) (st_actions s) of
         Some act \<Rightarrow> reuse_legacy_refund w w2 s b act (trace_id @ '':effect-replay'')
       | None \<Rightarrow>
           (case assert_mutation_enabled s (ap_tenant_id ap) ''refund'' of
              Inl _ \<Rightarrow> Inl (DomainError ''approval_state_conflict'')
            | Inr _ \<Rightarrow>
                if ap_status ap \<noteq> ''approved'' \<or> ap_consumed_at ap \<noteq> None then
                  Inl (DomainError ''approval_state_conflict'')
                else (case action_hash (w_digest w) (lb_payload b) of
                    Inl e \<Rightarrow> Inl e
                  | Inr h \<Rightarrow>
                      if h \<noteq> lb_payload_hash b then Inl (DomainError ''approval_snapshot_mismatch'')
                      else (case load_legacy_refund_billing w s b of
                          Inl e \<Rightarrow> Inl e
                        | Inr billing \<Rightarrow> commit_legacy_refund w w2 s b billing trace_id)))))"

section \<open>What a legacy refund does\<close>

definition refunded_once :: "store \<Rightarrow> store \<Rightarrow> string \<Rightarrow> string \<Rightarrow> bool" where
  "refunded_once s s' tenant bill \<longleftrightarrow>
     (\<exists>b \<in> set (st_billing s). rc_billing_record_id b = bill \<and> rc_tenant_id b = tenant \<and> rc_status b = ''charged'') \<and>
     st_billing s' = refund_billing bill (st_billing s) \<and>
     (\<exists>act. st_actions s' = st_actions s @ [act] \<and> ba_action_type act = ''refund'' \<and> ba_tenant_id act = tenant \<and>
        ba_resource_id act = Some bill)"

lemma reuse_legacy_refund_Inr:
  "reuse_legacy_refund w w2 s b act tr = Inr (r, s') \<Longrightarrow> \<exists>d. s' = s\<lparr>st_db := d\<rparr>"
  by (auto simp: reuse_legacy_refund_def Let_def split: if_splits sum.splits)

lemma legacy_action_Inr:
  "legacy_action w b billing = Inr act \<Longrightarrow> ba_action_type act = ''refund'' \<and>
     ba_tenant_id act = ap_tenant_id (lb_approval b) \<and> ba_resource_id act = Some (rc_billing_record_id billing)"
  by (auto simp: legacy_action_def Let_def split: sum.splits)

lemma commit_legacy_refund_Inr:
  assumes "commit_legacy_refund w w2 s b billing tr = Inr (r, s')"
  shows "(\<exists>act. st_actions s' = st_actions s @ [act] \<and> ba_action_type act = ''refund'' \<and>
      ba_tenant_id act = ap_tenant_id (lb_approval b) \<and> ba_resource_id act = Some (rc_billing_record_id billing)) \<and>
    st_billing s' = refund_billing (rc_billing_record_id billing) (st_billing s)"
proof -
  from assms obtain act s1 s2 d5 where l: "legacy_action w b billing = Inr act" and i: "insert_action act s = Inr s1"
    and e: "bind_action_event w s1 (lb_approval b) (lb_decision b) act = Inr s2"
    and a: "add_audit (refund_audit w (lb_approval b) (ba_id act) tr)
      (s2\<lparr>st_db := d5, st_billing := refund_billing (rc_billing_record_id billing) (st_billing s2)\<rparr>) = Inr s'"
    unfolding commit_legacy_refund_def Let_def by (auto split: sum.splits)
  from i have s1: "s1 = s\<lparr>st_actions := st_actions s @ [act]\<rparr>" and f: "\<forall>x \<in> set (st_actions s). ba_id x \<noteq> ba_id act"
    by (simp_all add: insert_action_Inr)
  from f have "ba_id act \<notin> ba_id ` set (st_actions s)" by (metis image_iff)
  then have be: "\<exists>act'. committed w (lb_decision b) act act' \<and> st_actions s2 = st_actions s @ [act']"
    "st_billing s2 = st_billing s"
    using bind_action_event_Inr(1,2) [OF e, of "st_actions s"] by (simp_all add: s1)
  have s': "st_actions s' = st_actions s2" "st_billing s' = refund_billing (rc_billing_record_id billing) (st_billing s2)"
    using a by (auto simp: add_audit_def split: sum.splits)
  from be legacy_action_Inr [OF l] show ?thesis by (auto simp: s' committed_def)
qed

lemma execute_legacy_refund_cases:
  assumes "execute_legacy_refund w w2 s i key tr = Inr (r, s')"
  shows "(st_actions s' = st_actions s \<and> st_billing s' = st_billing s) \<or> (\<exists>tenant bill. refunded_once s s' tenant bill)"
proof -
  from assms obtain b where "(\<exists>act tr'. reuse_legacy_refund w w2 s b act tr' = Inr (r, s')) \<or>
      (\<exists>billing. load_legacy_refund_billing w s b = Inr billing \<and> commit_legacy_refund w w2 s b billing tr = Inr (r, s'))"
    unfolding execute_legacy_refund_def Let_def by (auto split: sum.splits option.splits if_splits)
  then show ?thesis
  proof (elim disjE exE conjE)
    fix act tr' assume "reuse_legacy_refund w w2 s b act tr' = Inr (r, s')"
    from reuse_legacy_refund_Inr [OF this] show ?thesis by auto
  next
    fix billing assume load: "load_legacy_refund_billing w s b = Inr billing"
      and c: "commit_legacy_refund w w2 s b billing tr = Inr (r, s')"
    from load obtain ev where
      le: "lock_and_evaluate_billing_refund_pair (w_digest w) (st_billing s) (ap_tenant_id (lb_approval b))
         (ap_customer_id (lb_approval b)) (lb_resource_id b) (w_clock w) = Inr (Some (billing, ev))"
      and v: "rc_status billing = ''charged''"
      unfolding load_legacy_refund_billing_def Let_def
      by (auto simp: refund_snapshot_valid_def split: sum.splits option.splits if_splits)
    from lock_and_evaluate_row [OF le] v commit_legacy_refund_Inr [OF c]
    have "refunded_once s s' (ap_tenant_id (lb_approval b)) (rc_billing_record_id billing)"
      unfolding refunded_once_def by blast
    then show ?thesis by blast
  qed
qed

section \<open>At most one refund\<close>

definition refunds_of :: "store \<Rightarrow> string \<Rightarrow> string \<Rightarrow> business_action list" where
  "refunds_of s tenant bill = filter (\<lambda>a. ba_action_type a = ''refund'' \<and> ba_tenant_id a = tenant \<and>
     ba_resource_id a = Some bill) (st_actions s)"

text \<open>A successful execution through either entry.\<close>

inductive refund_step :: "store \<Rightarrow> store \<Rightarrow> bool" where
  worker: "execute_action w s l i tr = Inr (r, s') \<Longrightarrow> refund_step s s'"
| legacy: "execute_legacy_refund w w2 s i key tr = Inr (r, s') \<Longrightarrow> refund_step s s'"

text \<open>No charge with a recorded refund is still charged, and none has two.\<close>

definition refunds_settled :: "store \<Rightarrow> bool" where
  "refunds_settled s \<longleftrightarrow> (\<forall>tenant bill. length (refunds_of s tenant bill) \<le> 1 \<and>
     (refunds_of s tenant bill \<noteq> [] \<longrightarrow>
        (\<forall>b \<in> set (st_billing s). rc_billing_record_id b = bill \<and> rc_tenant_id b = tenant \<longrightarrow> rc_status b \<noteq> ''charged'')))"

text \<open>A step refunds one charge that was charged, or refunds nothing.\<close>

lemma refund_step_cases:
  assumes "refund_step s s'"
  shows "((\<forall>tenant bill. refunds_of s' tenant bill = refunds_of s tenant bill) \<and> st_billing s' = st_billing s) \<or>
    (\<exists>tenant bill. refunded_once s s' tenant bill)"
  using assms
proof cases
  case (worker w l i tr r)
  then show ?thesis
  proof (cases rule: execute_outcomes)
    case (reused ap ex)
    then show ?thesis by (simp add: same_effects_def refunds_of_def)
  next
    case (stale ap reason)
    then have "lookup_by ap_id (ap_id ap) (approvals (st_db s)) = Some ap" by simp
    from mark_stale_Inr(2) [OF stale(3) this] show ?thesis by (simp add: same_effects_def refunds_of_def)
  next
    case (effect ap dec rvn act act' s1)
    obtain x where "new_action w ap rvn (ap_resource_id ap) x = Inr act"
      using effect(9) unfolding recorded_effect_def by blast
    note na = new_action_Inr [OF this]
    have a: "ba_action_type act' = ap_action_type ap" "ba_tenant_id act' = ap_tenant_id ap"
      "ba_resource_id act' = Some (ap_resource_id ap)"
      using effect(12) na by (auto simp: committed_def)
    show ?thesis
    proof (cases "ap_action_type ap = ''refund''")
      case True
      with effect(13,14) a show ?thesis by (auto simp: effect_on_resource_def refunded_once_def)
    next
      case False
      with effect(13,14) a show ?thesis by (auto simp: effect_on_resource_def refunds_of_def)
    qed
  qed
next
  case (legacy w w2 i key tr r)
  then show ?thesis using execute_legacy_refund_cases [OF legacy] by (auto simp: refunds_of_def)
qed

lemma refunded_once_settled:
  assumes "refunded_once s s' tenant bill" "refunds_settled s"
  shows "refunds_settled s'"
proof -
  obtain b act where b: "b \<in> set (st_billing s)" "rc_billing_record_id b = bill" "rc_tenant_id b = tenant"
    "rc_status b = ''charged''" and s': "st_billing s' = refund_billing bill (st_billing s)"
    and act: "st_actions s' = st_actions s @ [act]" "ba_action_type act = ''refund''" "ba_tenant_id act = tenant"
      "ba_resource_id act = Some bill"
    using assms(1) unfolding refunded_once_def by blast
  have none: "refunds_of s tenant bill = []" using assms(2) b unfolding refunds_settled_def by blast
  have r: "refunds_of s' t i = (if (t, i) = (tenant, bill) then [act] else refunds_of s t i)" for t i
    using none act by (auto simp: refunds_of_def)
  have charged: "rc_billing_record_id c \<noteq> bill \<and> c \<in> set (st_billing s)"
    if c: "c \<in> set (st_billing s')" "rc_status c = ''charged''" for c
  proof -
    obtain c0 where c0: "c0 \<in> set (st_billing s)" "c = (if rc_billing_record_id c0 = bill
        then c0\<lparr>rc_status := ''refunded'', rc_version := rc_version c0 + 1\<rparr> else c0)"
      using c(1) unfolding s' refund_billing_def in_update_by by blast
    with c(2) show ?thesis by (cases "rc_billing_record_id c0 = bill") auto
  qed
  show ?thesis
    unfolding refunds_settled_def r using assms(2) charged by (auto simp: refunds_settled_def)
qed

lemma refund_step_settled:
  assumes "refund_step s s'" "refunds_settled s"
  shows "refunds_settled s'"
  using refund_step_cases [OF assms(1)]
proof
  assume "(\<forall>tenant bill. refunds_of s' tenant bill = refunds_of s tenant bill) \<and> st_billing s' = st_billing s"
  then show ?thesis using assms(2) by (simp add: refunds_settled_def)
qed (use refunded_once_settled assms(2) in blast)

interpretation refunds: invariant_steps refund_step refunds_settled
  by unfold_locales (rule refund_step_settled)

text \<open>C2. a charge is refunded at most once: whatever successful executions follow each other, through
  the worker or the legacy entry, under any approvals, leases and clocks, no charge ever has two refund
  actions, and a charge with a refund action is no longer in the charged state.\<close>

theorem charge_refunded_at_most_once:
  assumes "refund_step\<^sup>*\<^sup>* s s'" "refunds_settled s"
  shows "length (refunds_of s' tenant bill) \<le> 1 \<and>
    (refunds_of s' tenant bill \<noteq> [] \<longrightarrow>
      (\<forall>b \<in> set (st_billing s'). rc_billing_record_id b = bill \<and> rc_tenant_id b = tenant \<longrightarrow> rc_status b \<noteq> ''charged''))"
  using refunds.steps_inv [OF assms] unfolding refunds_settled_def by blast

section \<open>Evaluated example\<close>

text \<open>The duplicate of the worked example, refunded through the legacy entry.\<close>

definition refund_world :: world where
  "refund_world = sample_world\<lparr>w_clock := sample_time 7 20 0\<rparr>"

definition charge_pair :: "refund_charge_facts list" where
  "charge_pair = [sample_charge ''b2'' 9 (Some ''b1''), sample_charge ''b1'' 8 None]"

definition refund_payload :: pydict where
  "refund_payload = [(''billing_record_id'', PStr ''b2''), (''customer_id'', PStr ''c''),
     (''business_version'', PInt 1), (''amount'', PStr ''19.90''), (''currency'', PStr ''CNY'')]"

definition refund_approval :: approval_request where
  "refund_approval = sample_approval\<lparr>ap_tenant_id := ''t'', ap_customer_id := ''c'', ap_resource_id := ''b2'',
     ap_status := ''approved'', ap_status_version := 2, ap_action_payload := refund_payload,
     ap_action_hash := replicate 64 (CHR ''a'')\<rparr>"

definition refund_proposal :: proposal_record where
  "refund_proposal =
     \<lparr>pr_id = ''p1'', pr_tenant_id = ''t'', pr_run_id = ''r1'', pr_action_type = ''refund'',
      pr_resource_id = ''b2'', pr_resource_version = 1, pr_status = ''bound'', pr_status_version = 2,
      pr_action_payload = refund_payload, pr_observation_binding = [],
      pr_action_hash = replicate 64 (CHR ''a''), pr_refund_original_resource_id = Some ''b1'',
      pr_refund_original_version = Some 1, pr_refund_pair_hash = Some (replicate 64 (CHR ''a''))\<rparr>"

definition refund_decision :: human_decision where
  "refund_decision =
     \<lparr>hd_id = ''h1'', hd_tenant_id = ''t'', hd_approval_id = ''a1'', hd_action_revision_id = None,
      hd_actor_id = ''boss'', hd_decision = ''approve'', hd_reason = ''ok'', hd_action_hash = Some (replicate 64 (CHR ''a'')),
      hd_decision_hash = Some ''dh'', hd_canonical_event_id = None, hd_canonical_event_hash = None,
      hd_audit_metadata = [], hd_created_at = 0\<rparr>"

definition refund_db :: db where
  "refund_db = empty_db\<lparr>tickets := [sample_ticket\<lparr>tk_tenant_id := ''t'', tk_customer_id := ''c''\<rparr>],
     runs := [sample_run\<lparr>run_tenant_id := ''t'', run_customer_id := ''c'', run_turn_id := None\<rparr>],
     approvals := [refund_approval], proposals := [refund_proposal]\<rparr>"

definition refund_store :: store where
  "refund_store =
     \<lparr>st_db = refund_db, st_actions = [], st_decisions = [refund_decision], st_revisions = [],
      st_billing = charge_pair, st_keys = [], st_subscriptions = [], st_catalog = [], st_memberships = [],
      st_scopes = [], st_switches = [\<lparr>ks_tenant_id = ''t'', ks_action_type = ''refund'', ks_enabled = True\<rparr>],
      st_audit = [], st_withdrawals = []\<rparr>"

definition refund_bound :: legacy_refund_binding where
  "refund_bound =
     \<lparr>lb_approval = refund_approval, lb_decision = refund_decision, lb_revision = None, lb_payload = refund_payload,
      lb_payload_hash = replicate 64 (CHR ''a''), lb_resource_version = 1, lb_resource_id = ''b2''\<rparr>"

lemmas refund_rows = refund_approval_def sample_approval_def refund_decision_def refund_payload_def refund_store_def
  refund_db_def refund_bound_def

lemma refund_binds: "load_legacy_refund_binding refund_store ''a1'' ''k1'' = Inr refund_bound"
  by (simp add: load_legacy_refund_binding_def refund_rows lookup_by_def Let_def revision_of_def decision_of_def
      select_first_def dget_default_def)

lemma refund_amount: "str_decimal (DFin 1990 (- 2)) = ''19.90''"
  by code_simp

lemma refund_billing_loads:
  "load_legacy_refund_billing refund_world refund_store refund_bound = Inr (sample_charge ''b2'' 9 (Some ''b1''))"
proof -
  let ?t = "sample_charge ''b2'' 9 (Some ''b1'')" and ?o = "sample_charge ''b1'' 8 None"
  obtain ev where ev: "evaluate_refund_pair sample_digest ?t (Some ?o) (sample_time 7 20 0) = Inr ev"
    using sample_evaluates by blast
  then obtain p where p: "ev = \<lparr>pe_target = ?t, pe_original = Some ?o,
      pe_checks = evaluate_checks ?t (Some ?o) (sample_time 7 20 0), pe_pair_hash = Some (sample_digest p)\<rparr>"
    unfolding evaluate_refund_pair_Some by blast
  have "pair_eligible ev" using pair_eligible_refundable [OF ev] sample_refundable by blast
  then have m: "refund_pair_matches_proposal ev (proposal_binding refund_proposal)"
    by (simp add: refund_pair_matches_proposal_def p proposal_binding_def refund_proposal_def sample_digest_def)
      (simp add: sample_charge_def)
  have "sort_key rc_billing_record_id charge_pair = [?o, ?t]" by (simp add: charge_pair_def)
  then have le: "lock_and_evaluate_billing_refund_pair sample_digest charge_pair ''t'' ''c'' ''b2'' (sample_time 7 20 0) = Inr (Some (?t, ev))"
    using ev by (simp add: lock_and_evaluate_billing_refund_pair_def charge_pair_def falsy_ref_def Let_def lookup_by_def)
  have pr: "proposal_of refund_store refund_approval = Some refund_proposal"
    by (simp add: proposal_of_def refund_rows lookup_by_def refund_proposal_def)
  have f: "lb_approval refund_bound = refund_approval" "lb_resource_id refund_bound = ''b2''"
    "lb_resource_version refund_bound = 1" "lb_payload refund_bound = refund_payload"
    "ap_tenant_id refund_approval = ''t''" "ap_customer_id refund_approval = ''c''" "st_billing refund_store = charge_pair"
    "w_digest refund_world = sample_digest" "w_clock refund_world = sample_time 7 20 0"
    by (simp_all add: refund_rows refund_world_def sample_world_def)
  have v: "refund_snapshot_valid refund_approval 1 refund_payload ?t ev (Some refund_proposal)"
    using m refund_amount by (simp add: refund_snapshot_valid_def f(6) refund_payload_def dget_def sample_charge_def)
  show ?thesis by (simp add: load_legacy_refund_billing_def Let_def f le pr v)
qed

lemma refund_converges:
  "\<exists>d'. converge_legacy_refund refund_world d refund_approval tr = Inr d'"
  if "tickets d = [sample_ticket\<lparr>tk_tenant_id := ''t'', tk_customer_id := ''c'', tk_next_event_sequence := n\<rparr>]"
    "runs d = [sample_run\<lparr>run_tenant_id := ''t'', run_customer_id := ''c'', run_turn_id := None, run_next_run_sequence := n\<rparr>]"
    "turns d = []"
  using that
  by (simp add: converge_legacy_refund_def refund_rows falsy_ref_def lookup_by_def Let_def sample_ticket_def
      sample_run_def activate_next_turn_and_converge_ticket_def activate_next_turn_def upd_run_def accepted_turn_def
      split: prod.split)

lemma refund_appends:
  "\<exists>ev d1. append_executor_event refund_world refund_db ''r1'' (executor_event ty payload refund_decision) = Inr (ev, d1) \<and>
     tickets d1 = [sample_ticket\<lparr>tk_tenant_id := ''t'', tk_customer_id := ''c'', tk_next_event_sequence := 1\<rparr>] \<and>
     runs d1 = [sample_run\<lparr>run_tenant_id := ''t'', run_customer_id := ''c'', run_turn_id := None, run_next_run_sequence := 1\<rparr>] \<and>
     turns d1 = [] \<and> approvals d1 = [refund_approval]"
  by (simp add: append_executor_event_Inr append_event_def executor_event_def lookup_by_def head_event_def
      ticket_events_def head_conflict_def insert_row_def Let_def max_of_def refund_db_def refund_world_def
      sample_world_def refund_decision_def sample_run_def sample_ticket_def upd_defs update_by_def new_event_def empty_db_def)

lemma refund_commits:
  "\<exists>r s'. commit_legacy_refund refund_world refund_world refund_store refund_bound
     (sample_charge ''b2'' 9 (Some ''b1'')) ''tr'' = Inr (r, s')"
proof -
  let ?c = "sample_charge ''b2'' 9 (Some ''b1'')"
  obtain act where act: "legacy_action refund_world refund_bound ?c = Inr act" "ba_id act = ''action_1''"
    by (simp add: legacy_action_def Let_def effect_identity_Inr refund_world_def sample_world_def)
  have i: "insert_action act refund_store = Inr (refund_store\<lparr>st_actions := [act]\<rparr>)"
    by (simp add: insert_action_Inr refund_store_def)
  define pl where "pl = [(''approval_id'', PStr (ap_id refund_approval)), (''human_decision_id'', PStr (hd_id refund_decision)),
    (''decision_hash'', opt_str (hd_decision_hash refund_decision)), (''business_action_id'', PStr (ba_id act)),
    (''effect_identity'', opt_str (ba_effect_identity act)), (''action_hash'', opt_str (ba_action_hash act))]"
  obtain ev d1 where ev: "append_executor_event refund_world refund_db ''r1'' (executor_event ''runtime_action_committed'' pl refund_decision) = Inr (ev, d1)"
    and d1: "tickets d1 = [sample_ticket\<lparr>tk_tenant_id := ''t'', tk_customer_id := ''c'', tk_next_event_sequence := 1\<rparr>]"
     "runs d1 = [sample_run\<lparr>run_tenant_id := ''t'', run_customer_id := ''c'', run_turn_id := None, run_next_run_sequence := 1\<rparr>]"
     "turns d1 = []" "approvals d1 = [refund_approval]" using refund_appends by blast
  have b: "\<exists>s2. bind_action_event refund_world (refund_store\<lparr>st_actions := [act]\<rparr>) refund_approval refund_decision act = Inr s2 \<and>
      st_db s2 = d1 \<and> st_audit s2 = []"
    using ev unfolding pl_def by (simp add: bind_action_event_def falsy_ref_def lookup_by_def refund_store_def refund_db_def
        refund_decision_def refund_approval_def sample_approval_def sample_run_def)
  then obtain s2 where s2: "bind_action_event refund_world (refund_store\<lparr>st_actions := [act]\<rparr>) refund_approval refund_decision act = Inr s2"
    "st_db s2 = d1" "st_audit s2 = []" by blast
  obtain tr d3 where t: "transition_approval d1 refund_approval ''executed'' ''approved'' (Some (ap_status_version refund_approval)) None = Inr (tr, d3)"
    "approvals d3 = [refund_approval\<lparr>ap_status := ''executed'', ap_status_version := 3\<rparr>]"
    using d1(4) by (simp add: transition_approval_def Let_def refund_approval_def sample_approval_def lookup_by_def
        NEW_APPROVAL_STATUSES_def ACTIVE_APPROVAL_STATUSES_def TERMINAL_APPROVAL_STATUSES_def APPROVAL_TRANSITIONS_def
        upd_approval_def update_by_def)
  let ?d4 = "consume_approval (w_clock refund_world) (ap_id refund_approval) d3"
  have comp: "stale_competing_refund_approvals ?d4 refund_approval ''b2'' = Inr ?d4"
    by (simp add: stale_competing_refund_approvals_def consume_approval_def upd_approval_def t(2) update_by_def
        competing_refund_def)
  have "tickets (stale_bound_proposals refund_approval ''b2'' ?d4) = tickets d1"
    "runs (stale_bound_proposals refund_approval ''b2'' ?d4) = runs d1"
    "turns (stale_bound_proposals refund_approval ''b2'' ?d4) = turns d1"
    using transition_frame [OF t(1)]
    by (simp_all add: stale_bound_proposals_def stale_proposals_def consume_approval_def upd_approval_def)
  with refund_converges [of _ 1] d1(1-3) obtain d5 where
    d5: "converge_legacy_refund refund_world (stale_bound_proposals refund_approval ''b2'' ?d4) refund_approval (''tr'' @ '':effect-committed'') = Inr d5"
    by metis
  have f: "lb_approval refund_bound = refund_approval" "lb_decision refund_bound = refund_decision"
    by (simp_all add: refund_bound_def)
  have "\<exists>s3. add_audit (refund_audit refund_world refund_approval (ba_id act) ''tr'')
      (s2\<lparr>st_db := d5, st_billing := refund_billing ''b2'' (st_billing s2)\<rparr>) = Inr s3"
    using s2(3) by (simp add: add_audit_def insert_row_def)
  then obtain s3 where a: "add_audit (refund_audit refund_world refund_approval (ba_id act) ''tr'')
      (s2\<lparr>st_db := d5, st_billing := refund_billing ''b2'' (st_billing s2)\<rparr>) = Inr s3" by blast
  show ?thesis
    using d5 by (simp add: commit_legacy_refund_def Let_def f act(1) i s2(1,2) t(1) comp a)
qed

lemma refund_executes: "\<exists>r s'. execute_legacy_refund refund_world refund_world refund_store ''a1'' ''k1'' ''tr'' = Inr (r, s')"
proof -
  have f: "lb_approval refund_bound = refund_approval" "lb_payload refund_bound = refund_payload"
    "lb_payload_hash refund_bound = replicate 64 (CHR ''a'')" "ap_tenant_id refund_approval = ''t''"
    "ap_status refund_approval = ''approved''" "ap_consumed_at refund_approval = None" "st_actions refund_store = []"
    by (simp_all add: refund_rows)
  have k: "\<exists>k. assert_mutation_enabled refund_store ''t'' ''refund'' = Inr k"
    by (simp add: assert_mutation_enabled_def refund_store_def select_first_def)
  have h: "action_hash (w_digest refund_world) refund_payload = Inr (replicate 64 (CHR ''a''))"
    by (simp add: action_hash_def canonical_json_hash_def canonical_json_bytes_def refund_payload_def
        refund_world_def sample_world_def sample_digest_def)
  show ?thesis
    using k refund_commits by (auto simp: execute_legacy_refund_def refund_binds f h select_first_def refund_billing_loads)
qed

theorem charge_refunded_at_most_once_witness:
  "\<exists>r s'. execute_legacy_refund refund_world refund_world refund_store ''a1'' ''k1'' ''tr'' = Inr (r, s') \<and>
     length (refunds_of s' ''t'' ''b2'') \<le> 1"
proof -
  obtain r s' where e: "execute_legacy_refund refund_world refund_world refund_store ''a1'' ''k1'' ''tr'' = Inr (r, s')"
    using refund_executes by blast
  then have "refund_step\<^sup>*\<^sup>* refund_store s'" by (blast intro: refund_step.legacy)
  moreover have "refunds_settled refund_store" by (simp add: refunds_settled_def refunds_of_def refund_store_def)
  ultimately show ?thesis using charge_refunded_at_most_once e by blast
qed

end
