(* ===== verification/Approval_Consent.thy ===== *)
theory Approval_Consent
  imports Customer_Commands Legacy_Refund Failure_Convergence
begin

text \<open>
  What the decision and withdrawal commands guarantee together with the executor: an approving decision
  prepares exactly what the executor will ask for, repeating a command repeats its answer, and over any
  interleaving of commands and executions an approval that was rejected or withdrawn never has an effect.
\<close>

section \<open>No approval becomes pending again\<close>

definition pending_ids :: "db \<Rightarrow> string set" where
  "pending_ids d = ap_id ` {a \<in> set (approvals d). ap_status a = ''pending''}"

lemma pending_ids_cong: "approvals d' = approvals d \<Longrightarrow> pending_ids d' = pending_ids d"
  by (simp add: pending_ids_def)

lemma pending_ids_frame [simp]:
  "pending_ids (stale_proposals P d) = pending_ids d" "pending_ids (upd_ticket i f d) = pending_ids d"
  "pending_ids (upd_run i g d) = pending_ids d" "pending_ids (upd_turn i h d) = pending_ids d"
  by (simp_all add: pending_ids_def upd_defs)

lemma pending_ids_upd:
  assumes "\<And>a. ap_id (f a) = ap_id a" "\<And>a. ap_status (f a) = ''pending'' \<Longrightarrow> ap_status a = ''pending''"
  shows "pending_ids (upd_approval i f d) \<subseteq> pending_ids d"
  using assms by (fastforce simp: pending_ids_def upd_approval_def update_by_def)

lemma transition_pending:
  assumes "transition_approval d ap to_s exp_s v dec = Inr (tr, d')"
  shows "pending_ids d' \<subseteq> pending_ids d"
  using transition_approval_Inr [OF assms]
proof (elim disjE exE conjE)
  fix row assume e: "approval_edge (ap_status ap) to_s" and d': "d' = upd_approval (ap_id ap) (\<lambda>a. a\<lparr>ap_status := to_s, ap_status_version := Suc (ap_status_version ap),
        ap_decided_at := (case dec of None \<Rightarrow> ap_decided_at a | Some t \<Rightarrow> Some t)\<rparr>) d"
  from e have "to_s \<noteq> ''pending''" by (auto simp: approval_edge_def)
  then show ?thesis unfolding d' by (intro pending_ids_upd) simp_all
qed simp

lemma consume_pending: "pending_ids (consume_approval now i d) \<subseteq> pending_ids d"
  unfolding consume_approval_def by (rule pending_ids_upd) simp_all

lemma stale_competing_pending:
  assumes "stale_competing_refund_approvals d ap bill = Inr d'"
  shows "pending_ids d' \<subseteq> pending_ids d"
proof -
  have "foldE (\<lambda>a d. case transition_approval d a ''stale'' ''pending'' (Some (ap_status_version a)) None of
              Inl e \<Rightarrow> Inl e | Inr (_, d') \<Rightarrow> Inr d') xs d = Inr d' \<Longrightarrow> pending_ids d' \<subseteq> pending_ids d" for xs
  proof (induction xs arbitrary: d)
    case (Cons a xs)
    then show ?case using transition_pending by (fastforce split: sum.splits)
  qed simp
  with assms show ?thesis by (simp add: stale_competing_refund_approvals_def)
qed

lemma append_executor_event_pending:
  "append_executor_event w d rid rq = Inr (e, d') \<Longrightarrow> pending_ids d' = pending_ids d"
  by (rule pending_ids_cong) (rule append_executor_event_frame(1))

lemma mark_stale_pending:
  assumes "mark_stale w s ap rid reason = Inr (r, s')"
  shows "pending_ids (st_db s') \<subseteq> pending_ids (st_db s)"
proof -
  let ?tr = "transition_approval (st_db s) ap ''stale'' (ap_status ap) (Some (ap_status_version ap)) None"
  obtain tr d1 where t: "?tr = Inr (tr, d1)" using assms by (cases ?tr) (auto simp: mark_stale_def)
  have "pending_ids (st_db s') = pending_ids d1"
    using assms t append_executor_event_pending unfolding mark_stale_def Let_def
    by (auto split: option.splits if_splits sum.splits)
  with transition_pending [OF t] show ?thesis by simp
qed

lemma insert_action_db: "insert_action a s = Inr s' \<Longrightarrow> st_db s' = st_db s"
  by (simp add: insert_action_Inr)

lemma add_audit_Inr: "add_audit a s = Inr s' \<longleftrightarrow>
    au_id a \<notin> au_id ` set (st_audit s) \<and> s' = s\<lparr>st_audit := st_audit s @ [a]\<rparr>"
  unfolding add_audit_def guard_simps by auto

lemma execute_refund_pending:
  assumes "execute_refund w s ap rvn rid tr = Inr (r, s')"
  shows "pending_ids (st_db s') \<subseteq> pending_ids (st_db s)"
  using assms mark_stale_pending stale_competing_pending insert_action_db unfolding execute_refund_def
  by (fastforce simp: add_audit_Inr split: if_splits sum.splits option.splits)

lemma revoke_key_pending:
  assumes "revoke_key w s ap rvn rid = Inr (r, s')"
  shows "pending_ids (st_db s') \<subseteq> pending_ids (st_db s)"
  using assms mark_stale_pending insert_action_db unfolding revoke_key_def
  by (fastforce split: if_splits sum.splits option.splits)

lemma change_entitlement_pending:
  assumes "change_entitlement w s ap rvn rid = Inr (r, s')"
  shows "pending_ids (st_db s') \<subseteq> pending_ids (st_db s)"
  using assms mark_stale_pending insert_action_db unfolding change_entitlement_def
  by (fastforce split: if_splits sum.splits option.splits)

lemma run_effect_pending:
  assumes "run_effect w s ap rvn rid tr = Inr (r, s')"
  shows "pending_ids (st_db s') \<subseteq> pending_ids (st_db s)"
  using assms execute_refund_pending revoke_key_pending change_entitlement_pending unfolding run_effect_def
  by (auto split: if_splits)

lemma bind_action_event_pending:
  assumes "bind_action_event w s ap dec act = Inr s'"
  shows "pending_ids (st_db s') = pending_ids (st_db s)"
  using assms append_executor_event_pending
  by (auto simp: bind_action_event_def split: if_splits option.splits sum.splits)

lemma commit_effect_pending:
  assumes "commit_effect w s ap dec rid res = Inr (r, s')"
  shows "pending_ids (st_db s') \<subseteq> pending_ids (st_db s)"
proof -
  obtain act s1 tr d2 where "bind_action_event w s ap dec act = Inr s1"
    and t: "transition_approval (st_db s1) ap ''executed'' ''approved'' (Some (ap_status_version ap)) None = Inr (tr, d2)"
    and "pending_ids (st_db s') = pending_ids (consume_approval (w_clock w) (ap_id ap) d2)"
    using assms unfolding commit_effect_def guard_simps by (auto simp: guard_simps)
  with bind_action_event_pending transition_pending [OF t] consume_pending [of "w_clock w" "ap_id ap" d2]
  show ?thesis by blast
qed

lemma execute_new_pending:
  assumes "execute_new w s ap dec rvn rid tr = Inr (r, s')"
  shows "pending_ids (st_db s') \<subseteq> pending_ids (st_db s)"
  using assms mark_stale_pending run_effect_pending commit_effect_pending unfolding execute_new_def
  by (fastforce split: if_splits sum.splits error.splits)

lemma reuse_effect_pending:
  assumes "reuse_effect w s ap dec rvn rid ex = Inr (r, s')"
  shows "pending_ids (st_db s') \<subseteq> pending_ids (st_db s)"
  using assms transition_pending consume_pending unfolding reuse_effect_def
  by (fastforce split: if_splits sum.splits)

lemma execute_action_pending:
  assumes "execute_action w s l i tr = Inr (r, s')"
  shows "pending_ids (st_db s') \<subseteq> pending_ids (st_db s)"
  using assms execute_new_pending reuse_effect_pending unfolding execute_action_def guard_simps
  by (fastforce split: option.splits)

section \<open>What the commands leave alone\<close>

lemma append_event_idempotency:
  "append_event H redact worker eid clock d rid rq = Inr (e, d') \<Longrightarrow> idempotency d' = idempotency d"
  by (auto simp: append_event_def Let_def upd_defs split: option.splits if_splits sum.splits)

lemma create_run_idempotency:
  assumes "create_run H redact worker prov rid eid clock d q = Inr (r, d')"
  shows "idempotency d' = idempotency d"
  using assms append_event_idempotency
  by (fastforce simp: create_run_def Let_def insert_row_Inr split: option.splits if_splits sum.splits)

lemma activate_next_turn_idempotency:
  assumes "activate_next_turn w d tk trace = Inr (x, d')"
  shows "idempotency d' = idempotency d"
  using assms create_run_idempotency
  by (fastforce simp: activate_next_turn_def Let_def bind_turn_def upd_defs split: option.splits if_splits sum.splits)

lemma next_turn_frame:
  assumes "next_turn w d tk trace def = Inr d'"
  shows "approvals d' = approvals d" "idempotency d' = idempotency d"
proof -
  obtain tk1 x d1 tk2 st where a: "activate_next_turn w d tk1 (trace @ '':next-turn'') = Inr (x, d1)"
    and c': "converge_ticket d1 tk2 def = (st, d')"
    using assms unfolding next_turn_def activate_next_turn_and_converge_ticket_def guard_simps
    by (auto simp: guard_simps)
  show "approvals d' = approvals d"
    using converge_ticket_frame(3) [OF c'] activate_next_turn_frame [OF a] by simp
  have "idempotency d1 = idempotency d"
    using a by (rule activate_next_turn_idempotency)
  then show "idempotency d' = idempotency d"
    using c' by (auto simp: converge_ticket_def Let_def upd_defs split: if_splits)
qed

lemma converge_rejected_frame:
  assumes "converge_rejected_decision w w2 d ap b trace = Inr d'"
  shows "approvals d' = approvals d" "idempotency d' = idempotency d"
proof -
  obtain d2 where n: "next_turn w2 d2 (db_ticket b) trace ''rejected'' = Inr d'"
    and d2: "approvals d2 = approvals d \<and> idempotency d2 = idempotency d"
    using assms
    by (auto simp: converge_rejected_decision_def Let_def publish_update_def close_rejected_def
        finish_run_and_turn_def stale_proposals_def upd_defs split: if_splits sum.splits)
  with next_turn_frame [OF n] show "approvals d' = approvals d" "idempotency d' = idempotency d" by simp_all
qed

lemma announce_resume_Inr:
  assumes "announce_resume w d ap b trace = Inr d'"
  shows "approvals d' = approvals d" "idempotency d' = idempotency d" "jobs d' = jobs d" "events d' = events d"
  using assms by (auto simp: announce_resume_def guard_simps upd_defs)

lemma queue_resume_Inr:
  assumes "queue_resume w d ap b = Inr d'"
  shows "approvals d' = approvals d" "idempotency d' = idempotency d" "events d' = events d"
    "jobs d' = jobs d @ [resume_job w ap b]" "runs d' = runs d"
  using assms by (auto simp: queue_resume_def guard_simps upd_defs)

lemma append_decision_event_Inr:
  assumes "append_decision_event w d q ap rvn h b = Inr (ev, d')"
  shows "approvals d' = approvals d" "idempotency d' = idempotency d" "jobs d' = jobs d"
    "events d' = events d @ [ev]" "ev_event_type ev = ''human_decision_accepted''"
proof -
  obtain head where a: "append_event (w_digest w) (w_redact w) (w_worker w) (w_new_id w ''event'') (w_clock w) d
      (run_id (db_run b)) (decision_event_request w q ap rvn h head) = Inr (ev, d')"
    using assms by (auto simp: append_decision_event_def split: option.splits sum.splits error.splits)
  show "approvals d' = approvals d" "jobs d' = jobs d" by (rule append_event_frame [OF a])+
  show "idempotency d' = idempotency d" by (rule append_event_idempotency [OF a])
  from a show "events d' = events d @ [ev]" by (rule append_event_Inr)
  from a show "ev_event_type ev = ''human_decision_accepted''"
    by (rule append_event_Inr) (simp add: new_event_def Let_def decision_event_request_def)
qed

lemma insert_decision_Inr:
  "insert_decision h s = Inr s' \<longleftrightarrow>
     hd_approval_id h \<notin> hd_approval_id ` set (st_decisions s) \<and> hd_id h \<notin> hd_id ` set (st_decisions s) \<and>
     s' = s\<lparr>st_decisions := st_decisions s @ [h]\<rparr>"
proof -
  have "list_ex (\<lambda>x. hd_approval_id x = hd_approval_id h) (st_decisions s) \<longleftrightarrow>
      hd_approval_id h \<in> hd_approval_id ` set (st_decisions s)"
    unfolding list_ex_iff by (metis image_iff)
  then show ?thesis unfolding insert_decision_def guard_simps by auto
qed

text \<open>A committed decision: the row, its event, the approval's transition, and nothing of the business.\<close>

lemma commit_decision_Inr:
  assumes "commit_decision w w2 s q ap rvn b = Inr s'"
  obtains tr d1 h ev where
    "transition_approval (st_db s) ap (decided_status (dq_decision q)) ''pending''
       (Some (ap_status_version ap)) (Some (instant (w_clock w))) = Inr (tr, d1)"
    "ap_id ap \<notin> hd_approval_id ` set (st_decisions s)"
    "s' = s\<lparr>st_decisions := st_decisions s @ [new_human_decision w q ap rvn h ev], st_db := st_db s',
       st_audit := st_audit s'\<rparr>"
    "approvals (st_db s') = approvals d1" "idempotency (st_db s') = idempotency (st_db s)"
    "dq_decision q \<noteq> ''reject'' \<Longrightarrow> events (st_db s') = events d1 @ [ev] \<and>
       ev_event_type ev = ''human_decision_accepted'' \<and> jobs (st_db s') = jobs d1 @ [resume_job w ap b]"
proof -
  obtain tr d1 h d2 ev d3 s1 d4 where
    t: "transition_approval (st_db s) ap (decided_status (dq_decision q)) ''pending''
       (Some (ap_status_version ap)) (Some (instant (w_clock w))) = Inr (tr, d1)"
    and d2: "(if dq_decision q = ''reject'' then Inr d1 else queue_resume w d1 ap b) = Inr d2"
    and ev: "append_decision_event w d2 q ap rvn h b = Inr (ev, d3)"
    and s1: "insert_decision (new_human_decision w q ap rvn h ev) s = Inr s1"
    and d4: "(if dq_decision q = ''reject'' then converge_rejected_decision w w2 d3 ap b (dq_trace_id q)
            else announce_resume w d3 ap b (dq_trace_id q)) = Inr d4"
    and au: "add_audit (decision_audit w q ap b (resumed_job_id w q)) (s1\<lparr>st_db := d4\<rparr>) = Inr s'"
    using assms unfolding commit_decision_def guard_simps by (auto simp: guard_simps)
  have s': "s' = s\<lparr>st_decisions := st_decisions s @ [new_human_decision w q ap rvn h ev], st_db := st_db s',
       st_audit := st_audit s'\<rparr>" "st_db s' = d4" "ap_id ap \<notin> hd_approval_id ` set (st_decisions s)"
    using au s1 by (auto simp: add_audit_Inr insert_decision_Inr new_human_decision_def)
  have i1: "idempotency d1 = idempotency (st_db s)"
    using transition_approval_Inr [OF t] by (auto simp: upd_approval_def)
  note e = append_decision_event_Inr [OF ev]
  show ?thesis
  proof (cases "dq_decision q = ''reject''")
    case True
    with d2 d4 have "d2 = d1" "approvals d4 = approvals d3" "idempotency d4 = idempotency d3"
      using converge_rejected_frame by auto
    with True t s' e i1 show ?thesis by (intro that) auto
  next
    case False
    with d2 d4 have "queue_resume w d1 ap b = Inr d2" "announce_resume w d3 ap b (dq_trace_id q) = Inr d4"
      by simp_all
    note f = queue_resume_Inr [OF this(1)] announce_resume_Inr [OF this(2)]
    show ?thesis by (rule that [OF t s'(3,1)]) (use f e s'(2) i1 in auto)
  qed
qed

lemma insert_revision_Inr:
  assumes "insert_revision rvn s = Inr s'"
  shows "s' = s\<lparr>st_revisions := st_revisions s @ [rvn]\<rparr>" "rv_id rvn \<notin> rv_id ` set (st_revisions s)"
  using assms unfolding insert_revision_def guard_simps by auto

lemma select_revision_sel [simp]:
  "ap_id (select_revision rvn a) = ap_id a" "ap_tenant_id (select_revision rvn a) = ap_tenant_id a"
  "ap_status (select_revision rvn a) = ap_status a" "ap_ticket_id (select_revision rvn a) = ap_ticket_id a"
  "ap_run_id (select_revision rvn a) = ap_run_id a"
  "ap_selected_revision_id (select_revision rvn a) = Some (rv_id rvn)"
  by (simp_all add: select_revision_def)

lemma choose_revision_Inr:
  assumes "choose_revision w s q ap p = Inr (ap1, rvn, s1)"
  shows "s1 = s\<lparr>st_revisions := st_revisions s1, st_db := (st_db s)\<lparr>approvals := approvals (st_db s1)\<rparr>\<rparr>"
    "ap1 = ap \<and> s1 = s \<or> ap1 = select_revision rvn ap \<and>
       approvals (st_db s1) = update_by ap_id (ap_id ap) (select_revision rvn) (approvals (st_db s))"
    "revision_of s1 ap1 = Some rvn"
proof -
  obtain base where b: "revision_of s ap = Some base"
    and c: "(ap1 = ap \<and> rvn = base \<and> s1 = s) \<or>
      (\<exists>s2. insert_revision rvn s = Inr s2 \<and> ap1 = select_revision rvn ap \<and>
         s1 = s2\<lparr>st_db := upd_approval (ap_id ap) (select_revision rvn) (st_db s2)\<rparr>)"
    using assms by (auto simp: choose_revision_def split: option.splits if_splits sum.splits)
  from c have "s1 = s\<lparr>st_revisions := st_revisions s1, st_db := (st_db s)\<lparr>approvals := approvals (st_db s1)\<rparr>\<rparr> \<and>
      (ap1 = ap \<and> s1 = s \<or> ap1 = select_revision rvn ap \<and>
         approvals (st_db s1) = update_by ap_id (ap_id ap) (select_revision rvn) (approvals (st_db s))) \<and>
      revision_of s1 ap1 = Some rvn"
  proof (elim disjE exE conjE)
    fix s2 assume i: "insert_revision rvn s = Inr s2" and *: "ap1 = select_revision rvn ap"
      "s1 = s2\<lparr>st_db := upd_approval (ap_id ap) (select_revision rvn) (st_db s2)\<rparr>"
    have "lookup_by rv_id (rv_id rvn) (st_revisions s @ [rvn]) = Some rvn"
      using insert_revision_Inr(2) [OF i]
      by (simp add: lookup_by_append lookup_by_None [THEN iffD2]) (simp add: lookup_by_def)
    with * insert_revision_Inr(1) [OF i] show ?thesis by (auto simp: upd_approval_def revision_of_def)
  qed (use b in auto)
  then show "s1 = s\<lparr>st_revisions := st_revisions s1, st_db := (st_db s)\<lparr>approvals := approvals (st_db s1)\<rparr>\<rparr>"
    "ap1 = ap \<and> s1 = s \<or> ap1 = select_revision rvn ap \<and>
       approvals (st_db s1) = update_by ap_id (ap_id ap) (select_revision rvn) (approvals (st_db s))"
    "revision_of s1 ap1 = Some rvn" by blast+
qed

lemma recheck_refund_Inr:
  "recheck_refund w s ap p = Inr s' \<Longrightarrow> s' = s\<lparr>st_db := (st_db s)\<lparr>proposals := proposals (st_db s')\<rparr>\<rparr>"
  by (auto simp: recheck_refund_def split: sum.splits option.splits if_splits)

lemma validate_binding_Inr:
  assumes "validate_binding H d ap = Inr b"
  shows "Some (run_id (db_run b)) = ap_run_id ap" "tk_id (db_ticket b) = ap_ticket_id ap"
    "ap_status ap = ''pending''" "checkpoint_bound ap (db_run b) (db_proposal b) (db_marker b)"
    "\<exists>h. verify_ticket_event_chain H d (ap_ticket_id ap) = Inr h"
  using assms unfolding validate_binding_def Let_def
  by (auto split: if_splits option.splits sum.splits error.splits dest!: select_first_Some
      simp: checkpoint_bound_def)

text \<open>A fresh decision: what it found and what it leaves.\<close>

definition decided ::
  "world \<Rightarrow> store \<Rightarrow> decision_request \<Rightarrow> approval_request \<Rightarrow> approval_request \<Rightarrow> approval_action_revision \<Rightarrow>
   human_decision \<Rightarrow> store \<Rightarrow> bool" where
  "decided w s q ap ap1 rvn h s' \<longleftrightarrow>
     ap_status ap = ''pending'' \<and> decision_of s ap = None \<and>
     (ap1 = ap \<or> ap1 = select_revision rvn ap) \<and> (\<exists>x ev. h = new_human_decision w q ap1 rvn x ev) \<and>
     ap_id ap \<notin> hd_approval_id ` set (st_decisions s) \<and> st_decisions s' = st_decisions s @ [h] \<and>
     revision_of s' ap1 = Some rvn \<and> same_effects s s' \<and> st_withdrawals s' = st_withdrawals s \<and>
     st_memberships s' = st_memberships s \<and> st_scopes s' = st_scopes s \<and>
     (\<exists>f. approvals (st_db s') = update_by ap_id (ap_id ap) f (approvals (st_db s)) \<and>
        f ap = ap1\<lparr>ap_status := decided_status (dq_decision q), ap_status_version := Suc (ap_status_version ap1),
          ap_decided_at := Some (instant (w_clock w))\<rparr> \<and>
        (\<forall>a. ap_id (f a) = ap_id a \<and> ap_tenant_id (f a) = ap_tenant_id a \<and> ap_ticket_id (f a) = ap_ticket_id a \<and>
           ap_status (f a) = decided_status (dq_decision q)))"

lemma update_by_id: "update_by key k id rows = rows"
  unfolding update_by_def by (rule map_idI) simp

lemma update_by_compose:
  assumes "\<And>a. key (f a) = key a"
  shows "update_by key k g (update_by key k f rows) = update_by key k (g \<circ> f) rows"
  using assms by (simp add: update_by_def)

lemma new_decision_Inr:
  assumes "new_decision w w2 s q ap = Inr (a, s')" "decision_of s ap = None"
  obtains b ap1 rvn h where "validate_binding (w_digest w) (st_db s) ap = Inr b"
    "dq_decision q \<in> {''approve'', ''edit_and_approve'', ''reject''}"
    "a = new_accepted w q ap1 b" "decided w s q ap ap1 rvn h s'"
    "idempotency (st_db s') = idempotency (st_db s)"
    "dq_decision q \<noteq> ''reject'' \<Longrightarrow> jobs (st_db s') = jobs (st_db s) @ [resume_job w ap1 b] \<and>
       (\<exists>e. events (st_db s') = events (st_db s) @ [e] \<and> ev_event_type e = ''human_decision_accepted'' \<and>
         hd_canonical_event_id h = Some (ev_id e) \<and> hd_canonical_event_hash h = Some (ev_event_hash e))"
proof -
  obtain b ap1 rvn s1 s2 where v: "validate_binding (w_digest w) (st_db s) ap = Inr b"
    and dq: "dq_decision q \<in> {''approve'', ''edit_and_approve'', ''reject''}"
    and c: "choose_revision w s q ap (db_proposal b) = Inr (ap1, rvn, s1)"
    and r: "(if dq_decision q \<noteq> ''reject'' \<and> ap_action_type ap1 = ''refund''
               then recheck_refund w s1 ap1 (db_proposal b) else Inr s1) = Inr s2"
    and k: "commit_decision w w2 s2 q ap1 rvn b = Inr s'" and a: "a = new_accepted w q ap1 b"
    using assms(1) unfolding new_decision_def guard_simps by (auto simp: guard_simps)
  note c' = choose_revision_Inr [OF c]
  have s2: "s2 = s1\<lparr>st_db := (st_db s1)\<lparr>proposals := proposals (st_db s2)\<rparr>\<rparr>"
    using r recheck_refund_Inr by (auto split: if_splits)
  have ap1: "ap_id ap1 = ap_id ap" "ap_status ap1 = ''pending''"
    using c'(2) validate_binding_Inr(3) [OF v] by auto
  from k show ?thesis
  proof (rule commit_decision_Inr)
    fix tr d1 h ev
    assume t: "transition_approval (st_db s2) ap1 (decided_status (dq_decision q)) ''pending''
       (Some (ap_status_version ap1)) (Some (instant (w_clock w))) = Inr (tr, d1)"
      and n: "ap_id ap1 \<notin> hd_approval_id ` set (st_decisions s2)"
      and s': "s' = s2\<lparr>st_decisions := st_decisions s2 @ [new_human_decision w q ap1 rvn h ev], st_db := st_db s',
         st_audit := st_audit s'\<rparr>"
      and fr: "approvals (st_db s') = approvals d1" "idempotency (st_db s') = idempotency (st_db s2)"
      and ne: "dq_decision q \<noteq> ''reject'' \<Longrightarrow> events (st_db s') = events d1 @ [ev] \<and>
         ev_event_type ev = ''human_decision_accepted'' \<and> jobs (st_db s') = jobs d1 @ [resume_job w ap1 b]"
    have d1: "d1 = upd_approval (ap_id ap1)
        (\<lambda>a. a\<lparr>ap_status := decided_status (dq_decision q), ap_status_version := Suc (ap_status_version ap1),
           ap_decided_at := Some (instant (w_clock w))\<rparr>) (st_db s2)"
      using transition_approval_Inr [OF t] ap1(2) by (auto simp: decided_status_def split: if_splits)
    let ?g = "\<lambda>a. a\<lparr>ap_status := decided_status (dq_decision q), ap_status_version := Suc (ap_status_version ap1),
           ap_decided_at := Some (instant (w_clock w))\<rparr>"
    obtain f where f: "approvals (st_db s1) = update_by ap_id (ap_id ap) f (approvals (st_db s))" "f ap = ap1"
      "\<And>a. ap_id (f a) = ap_id a \<and> ap_tenant_id (f a) = ap_tenant_id a \<and> ap_ticket_id (f a) = ap_ticket_id a"
      using c'(2)
    proof (elim disjE conjE)
      assume "ap1 = ap" "s1 = s"
      then show thesis by (intro that [of id]) (simp_all add: update_by_id)
    next
      assume "ap1 = select_revision rvn ap"
        "approvals (st_db s1) = update_by ap_id (ap_id ap) (select_revision rvn) (approvals (st_db s))"
      then show thesis by (intro that [of "select_revision rvn"]) simp_all
    qed
    have "approvals d1 = update_by ap_id (ap_id ap) (?g \<circ> f) (approvals (st_db s))"
      using d1 f(1,3) ap1(1) arg_cong [OF s2, of "\<lambda>s. approvals (st_db s)"]
      by (simp add: upd_approval_def update_by_compose)
    then have A: "\<exists>f. approvals (st_db s') = update_by ap_id (ap_id ap) f (approvals (st_db s)) \<and> f ap = ?g ap1 \<and>
        (\<forall>a. ap_id (f a) = ap_id a \<and> ap_tenant_id (f a) = ap_tenant_id a \<and> ap_ticket_id (f a) = ap_ticket_id a \<and>
           ap_status (f a) = decided_status (dq_decision q))"
      using f(2,3) fr(1) by (intro exI [of _ "?g \<circ> f"]) simp
    have S: "st_decisions s2 = st_decisions s" "st_withdrawals s2 = st_withdrawals s" "st_memberships s2 = st_memberships s"
      "st_scopes s2 = st_scopes s" "same_effects s s2" "st_revisions s2 = st_revisions s1"
      "idempotency (st_db s2) = idempotency (st_db s)" "jobs (st_db s2) = jobs (st_db s)" "events (st_db s2) = events (st_db s)"
      by (subst s2, subst c'(1), simp add: same_effects_def)+
    have R: "revision_of s' ap1 = Some rvn"
      using c'(3) S(6) by (subst s') (simp add: revision_of_def)
    have D: "decided w s q ap ap1 rvn (new_human_decision w q ap1 rvn h ev) s'"
      unfolding decided_def
      using A R S n ap1 assms(2) validate_binding_Inr(3) [OF v] c'(2) arg_cong [OF s', of st_decisions]
        arg_cong [OF s', of st_withdrawals] arg_cong [OF s', of st_memberships] arg_cong [OF s', of st_scopes]
        arg_cong [OF s', of st_actions] arg_cong [OF s', of st_billing] arg_cong [OF s', of st_keys]
        arg_cong [OF s', of st_subscriptions]
      by (simp add: same_effects_def) blast
    show ?thesis
      by (rule that [OF v dq a D]) (use fr(2) S(7-9) ne d1 in \<open>auto simp: upd_approval_def new_human_decision_def\<close>)
  qed
qed

lemma select_first_snoc: "select_first P rows = None \<Longrightarrow> P x \<Longrightarrow> select_first P (rows @ [x]) = Some x"
  by (induction rows) (auto simp: select_first_def split: if_splits)

lemma select_first_update_by:
  assumes "select_first P rows = Some r" "\<And>x. P (f x) = P x"
  shows "select_first P (update_by key k f rows) = Some (if key r = k then f r else r)"
  using assms by (induction rows) (auto simp: select_first_def update_by_def split: if_splits)

lemma accept_Inr:
  assumes "accept w d tenant who route key payload [] [] None = Inr (c, d1)"
  shows "d1 = d\<lparr>idempotency := idempotency d1\<rparr>"
    "select_first (\<lambda>r. idm_tenant_id r = tenant \<and> idm_principal_id r = who \<and> idm_route r = route \<and> idm_key r = key)
       (idempotency d1) = Some (ac_record c)"
    "idm_request_hash (ac_record c) = canonical_request_hash (w_digest w) payload"
proof -
  let ?P = "\<lambda>r. idm_tenant_id r = tenant \<and> idm_principal_id r = who \<and> idm_route r = route \<and> idm_key r = key"
  have "d1 = d\<lparr>idempotency := idempotency d1\<rparr> \<and> select_first ?P (idempotency d1) = Some (ac_record c) \<and>
      idm_request_hash (ac_record c) = canonical_request_hash (w_digest w) payload"
  proof (cases "select_first ?P (idempotency d)")
    case None
    from assms None obtain r where "ac_record c = r" "d1 = d\<lparr>idempotency := idempotency d @ [r]\<rparr>" "?P r"
      "idm_request_hash r = canonical_request_hash (w_digest w) payload"
      unfolding accept_def Let_def by (auto simp: insert_row_Inr split: sum.splits)
    with select_first_snoc [of ?P, OF None] show ?thesis by simp
  qed (use assms in \<open>auto simp: accept_def Let_def split: if_splits\<close>)
  then show "d1 = d\<lparr>idempotency := idempotency d1\<rparr>" "select_first ?P (idempotency d1) = Some (ac_record c)"
    "idm_request_hash (ac_record c) = canonical_request_hash (w_digest w) payload" by blast+
qed

lemma store_decision_response_Inr:
  assumes "store_decision_response i a d = Inr d'"
  shows "d' = d\<lparr>idempotency := idempotency d'\<rparr>"
  using assms by (auto simp: store_decision_response_def split: sum.splits)

lemma decide_cases:
  assumes "decide w w2 s q = Inr (a, s')"
  obtains ap c d1 where
    "select_first (\<lambda>x. ap_id x = dq_approval_id q \<and> ap_tenant_id x = dq_tenant_id q) (approvals (st_db s)) = Some ap"
    "assert_active_approver_scope s (ap_tenant_id ap) (dq_actor_id q) = Inr ()"
    "accept w (st_db s) (ap_tenant_id ap) (dq_actor_id q) (decision_route q) (dq_idempotency_key q)
       (decision_payload q) [] [] None = Inr (c, d1)"
    "ac_reused c" "idm_response_snapshot (ac_record c) \<noteq> []"
    "replayed_decision ap (idm_response_snapshot (ac_record c)) = Inr a" "s' = s\<lparr>st_db := d1\<rparr>"
  | ap c d1 h d2 where
    "select_first (\<lambda>x. ap_id x = dq_approval_id q \<and> ap_tenant_id x = dq_tenant_id q) (approvals (st_db s)) = Some ap"
    "assert_active_approver_scope s (ap_tenant_id ap) (dq_actor_id q) = Inr ()"
    "accept w (st_db s) (ap_tenant_id ap) (dq_actor_id q) (decision_route q) (dq_idempotency_key q)
       (decision_payload q) [] [] None = Inr (c, d1)"
    "decision_of s ap = Some h"
    "recorded_decision ap (dq_decision q) h (select_first (\<lambda>j. job_approval_id j = Some (ap_id ap)) (jobs d1)) = Inr a"
    "store_decision_response (idm_id (ac_record c)) a d1 = Inr d2" "s' = s\<lparr>st_db := d2\<rparr>"
  | ap c d1 s1 d2 where
    "select_first (\<lambda>x. ap_id x = dq_approval_id q \<and> ap_tenant_id x = dq_tenant_id q) (approvals (st_db s)) = Some ap"
    "assert_active_approver_scope s (ap_tenant_id ap) (dq_actor_id q) = Inr ()"
    "accept w (st_db s) (ap_tenant_id ap) (dq_actor_id q) (decision_route q) (dq_idempotency_key q)
       (decision_payload q) [] [] None = Inr (c, d1)"
    "decision_of s ap = None" "new_decision w w2 (s\<lparr>st_db := d1\<rparr>) q ap = Inr (a, s1)"
    "store_decision_response (idm_id (ac_record c)) a (st_db s1) = Inr d2" "s' = s1\<lparr>st_db := d2\<rparr>"
proof -
  obtain ap where ap: "select_first (\<lambda>x. ap_id x = dq_approval_id q \<and> ap_tenant_id x = dq_tenant_id q)
      (approvals (st_db s)) = Some ap"
    using assms unfolding decide_def guard_simps by blast
  obtain c d1 where sc: "assert_active_approver_scope s (ap_tenant_id ap) (dq_actor_id q) = Inr ()"
    and ac: "accept w (st_db s) (ap_tenant_id ap) (dq_actor_id q) (decision_route q) (dq_idempotency_key q)
       (decision_payload q) [] [] None = Inr (c, d1)"
    using assms ap unfolding decide_def guard_simps by (auto split: prod.splits)
  have man: "dq_decision q \<noteq> ''manual_takeover''" using assms by (auto simp: decide_def)
  show ?thesis
  proof (cases "ac_reused c \<and> idm_response_snapshot (ac_record c) \<noteq> []")
    case True
    with assms man ap sc ac show ?thesis
      by (intro that(1) [OF ap sc ac]) (auto simp: decide_def split: sum.splits)
  next
    case False
    note rest = assms [unfolded decide_def] man ap sc ac False
    show ?thesis
    proof (cases "decision_of s ap")
      case None
      with rest show ?thesis by (auto split: sum.splits intro: that(3) [OF ap sc ac])
    next
      case (Some h)
      with rest show ?thesis by (auto split: sum.splits intro: that(2) [OF ap sc ac])
    qed
  qed
qed

section \<open>Fresh decisions\<close>

lemma reused_decisions:
  "replayed_decision ap snap = Inr a \<Longrightarrow> dc_reused a" "recorded_decision ap dec h j = Inr a \<Longrightarrow> dc_reused a"
  by (auto simp: replayed_decision_def recorded_decision_def split: sum.splits if_splits)

lemma fresh_decision:
  assumes "decide w w2 s q = Inr (a, s')" "\<not> dc_reused a"
  obtains ap ap1 rvn h b c d1 where
    "select_first (\<lambda>x. ap_id x = dq_approval_id q \<and> ap_tenant_id x = dq_tenant_id q) (approvals (st_db s)) = Some ap"
    "accept w (st_db s) (ap_tenant_id ap) (dq_actor_id q) (decision_route q) (dq_idempotency_key q)
       (decision_payload q) [] [] None = Inr (c, d1)"
    "validate_binding (w_digest w) d1 ap = Inr b" "decided w s q ap ap1 rvn h s'" "a = new_accepted w q ap1 b"
    "dq_decision q \<in> {''approve'', ''edit_and_approve'', ''reject''}"
    "dq_decision q \<noteq> ''reject'' \<Longrightarrow> jobs (st_db s') = jobs (st_db s) @ [resume_job w ap1 b] \<and>
       (\<exists>e. events (st_db s') = events (st_db s) @ [e] \<and> ev_event_type e = ''human_decision_accepted'' \<and>
         hd_canonical_event_id h = Some (ev_id e) \<and> hd_canonical_event_hash h = Some (ev_event_hash e))"
  using assms(1)
proof (cases rule: decide_cases)
  case (3 ap c d1 s1 d2)
  note ac = accept_Inr(1) [OF 3(3)] and st = store_decision_response_Inr [OF 3(6)]
  have "decision_of (s\<lparr>st_db := d1\<rparr>) ap = None" using 3(4) by (simp add: decision_of_def)
  from 3(5) this show ?thesis
  proof (rule new_decision_Inr)
    fix b ap1 rvn h
    assume *: "validate_binding (w_digest w) (st_db (s\<lparr>st_db := d1\<rparr>)) ap = Inr b"
      "dq_decision q \<in> {''approve'', ''edit_and_approve'', ''reject''}" "a = new_accepted w q ap1 b"
      "decided w (s\<lparr>st_db := d1\<rparr>) q ap ap1 rvn h s1"
      "dq_decision q \<noteq> ''reject'' \<Longrightarrow> jobs (st_db s1) = jobs (st_db (s\<lparr>st_db := d1\<rparr>)) @ [resume_job w ap1 b] \<and>
       (\<exists>e. events (st_db s1) = events (st_db (s\<lparr>st_db := d1\<rparr>)) @ [e] \<and> ev_event_type e = ''human_decision_accepted'' \<and>
         hd_canonical_event_id h = Some (ev_id e) \<and> hd_canonical_event_hash h = Some (ev_event_hash e))"
    have d1: "approvals d1 = approvals (st_db s)" "jobs d1 = jobs (st_db s)" "events d1 = events (st_db s)"
      by (subst ac, simp)+
    have d2: "approvals d2 = approvals (st_db s1)" "jobs d2 = jobs (st_db s1)" "events d2 = events (st_db s1)"
      by (subst st, simp)+
    have "decided w s q ap ap1 rvn h s'"
      using *(4) d1 d2 by (simp add: decided_def 3(7) decision_of_def revision_of_def same_effects_def)
    then show ?thesis using * d1 d2 by (intro that [OF 3(1,3), of b]) (auto simp: 3(7))
  qed
qed (use assms(2) reused_decisions in blast)+

section \<open>Withdrawals\<close>

lemma insert_withdrawal_Inr:
  "insert_withdrawal x s = Inr s' \<longleftrightarrow>
     pw_approval_id x \<notin> pw_approval_id ` set (st_withdrawals s) \<and> pw_id x \<notin> pw_id ` set (st_withdrawals s) \<and>
     s' = s\<lparr>st_withdrawals := st_withdrawals s @ [x]\<rparr>"
proof -
  have "list_ex (\<lambda>y. pw_approval_id y = pw_approval_id x) (st_withdrawals s) \<longleftrightarrow>
      pw_approval_id x \<in> pw_approval_id ` set (st_withdrawals s)"
    unfolding list_ex_iff by (metis image_iff)
  then show ?thesis unfolding insert_withdrawal_def guard_simps by auto
qed

lemma close_withdrawn_frame:
  "close_withdrawn w d ap tk p = Inr d' \<Longrightarrow> approvals d' = approvals d \<and> idempotency d' = idempotency d"
  by (auto simp: close_withdrawn_def Let_def publish_update_def finish_run_and_turn_def stale_proposals_def upd_defs
      split: sum.splits option.splits if_splits)

text \<open>A withdrawal that was accepted now.\<close>

definition withdrawn_now :: "store \<Rightarrow> approval_request \<Rightarrow> proposal_withdrawal \<Rightarrow> store \<Rightarrow> bool" where
  "withdrawn_now s ap x s' \<longleftrightarrow>
     ap_status ap = ''pending'' \<and> decision_of s ap = None \<and> pw_approval_id x = ap_id ap \<and>
     ap_id ap \<notin> pw_approval_id ` set (st_withdrawals s) \<and> st_withdrawals s' = st_withdrawals s @ [x] \<and>
     st_decisions s' = st_decisions s \<and> same_effects s s' \<and>
     (\<exists>f. approvals (st_db s') = update_by ap_id (ap_id ap) f (approvals (st_db s)) \<and>
        (\<forall>a. ap_id (f a) = ap_id a \<and> ap_tenant_id (f a) = ap_tenant_id a \<and> ap_ticket_id (f a) = ap_ticket_id a \<and>
           ap_customer_id (f a) = ap_customer_id a \<and> ap_status (f a) = ''withdrawn''))"

lemma fresh_withdrawal_Inr:
  assumes "fresh_withdrawal w w2 s q rid ap tk = Inr (a, s')"
  obtains p x s1 d2 where "withdrawable s q ap = Inr p" "x = new_withdrawal w q ap tk p" "withdrawn_now s ap x s'"
    "a = new_withdrawal_accepted w ap tk" "commit_withdrawal w s q ap tk p = Inr s1"
    "idempotency (st_db s1) = idempotency (st_db s)"
    "store_withdrawal_response rid a (st_db s1) = Inr d2" "idempotency (st_db s') = idempotency d2"
proof -
  obtain p s1 d2 d3 where p: "withdrawable s q ap = Inr p" and c: "commit_withdrawal w s q ap tk p = Inr s1"
    and st: "store_withdrawal_response rid (new_withdrawal_accepted w ap tk) (st_db s1) = Inr d2"
    and n: "next_turn w2 d2 tk (wq_trace_id q) ''open'' = Inr d3"
    and r: "a = new_withdrawal_accepted w ap tk" "s' = s1\<lparr>st_db := d3\<rparr>"
    using assms unfolding fresh_withdrawal_def guard_simps by auto
  obtain tr d1 dd s2 where t: "transition_approval (st_db s) ap ''withdrawn'' ''pending'' (Some (ap_status_version ap))
        (Some (instant (w_clock w))) = Inr (tr, d1)"
    and cl: "close_withdrawn w d1 ap tk p = Inr dd"
    and i: "insert_withdrawal (new_withdrawal w q ap tk p) s = Inr s2"
    and au: "add_audit (withdrawal_audit w q ap tk p) (s2\<lparr>st_db := dd\<rparr>) = Inr s1"
    using c unfolding commit_withdrawal_def guard_simps by (auto simp: guard_simps)
  have pend: "ap_status ap = ''pending''" "decision_of s ap = None"
    using p by (auto simp: withdrawable_def split: if_splits)
  let ?f = "\<lambda>x. x\<lparr>ap_status := ''withdrawn'', ap_status_version := Suc (ap_status_version ap),
      ap_decided_at := Some (instant (w_clock w))\<rparr>"
  have d1: "approvals d1 = update_by ap_id (ap_id ap) ?f (approvals (st_db s))" "idempotency d1 = idempotency (st_db s)"
    using transition_approval_Inr [OF t] pend(1) by (auto simp: upd_approval_def)
  have s1: "st_db s1 = dd" "st_withdrawals s1 = st_withdrawals s @ [new_withdrawal w q ap tk p]"
    "st_decisions s1 = st_decisions s" "same_effects s s1"
    "ap_id ap \<notin> pw_approval_id ` set (st_withdrawals s)"
    using au i by (auto simp: add_audit_Inr insert_withdrawal_Inr same_effects_def new_withdrawal_def)
  have d2: "approvals d2 = approvals dd" using st s1(1) by (auto simp: store_withdrawal_response_def split: sum.splits)
  have "approvals d3 = update_by ap_id (ap_id ap) ?f (approvals (st_db s))"
    using next_turn_frame(1) [OF n] d2 close_withdrawn_frame [OF cl] d1 by simp
  then have "\<exists>f. approvals d3 = update_by ap_id (ap_id ap) f (approvals (st_db s)) \<and>
        (\<forall>a. ap_id (f a) = ap_id a \<and> ap_tenant_id (f a) = ap_tenant_id a \<and> ap_ticket_id (f a) = ap_ticket_id a \<and>
           ap_customer_id (f a) = ap_customer_id a \<and> ap_status (f a) = ''withdrawn'')"
    by (intro exI [of _ ?f]) simp
  with s1 pend have W: "withdrawn_now s ap (new_withdrawal w q ap tk p) s'"
    unfolding withdrawn_now_def r(2) by (simp add: same_effects_def) (simp add: new_withdrawal_def)
  show ?thesis
    by (rule that [OF p refl W r(1) c]) (use st r n next_turn_frame(2) [OF n] close_withdrawn_frame [OF cl] d1 s1(1) in simp_all)
qed

lemma withdraw_cases:
  assumes "withdraw w w2 s q = Inr (a, s')"
  obtains ap tk c d1 where
    "select_first (\<lambda>x. ap_id x = wq_approval_id q \<and> ap_tenant_id x = wq_tenant_id q) (approvals (st_db s)) = Some ap"
    "ap_customer_id ap = wq_customer_id q"
    "select_first (\<lambda>t. tk_id t = ap_ticket_id ap \<and> tk_tenant_id t = wq_tenant_id q \<and> tk_customer_id t = wq_customer_id q)
       (tickets (st_db s)) = Some tk"
    "accept w (st_db s) (wq_tenant_id q) (wq_principal_id q) (withdrawal_route tk ap) (wq_idempotency_key q)
       [(''reason'', PStr (wq_reason q))] [] [] None = Inr (c, d1)"
    "ac_reused c" "idm_response_snapshot (ac_record c) \<noteq> []"
    "replayed_withdrawal ap tk (idm_response_snapshot (ac_record c)) = Inr a" "s' = s\<lparr>st_db := d1\<rparr>"
  | ap tk c d1 where
    "select_first (\<lambda>x. ap_id x = wq_approval_id q \<and> ap_tenant_id x = wq_tenant_id q) (approvals (st_db s)) = Some ap"
    "ap_customer_id ap = wq_customer_id q"
    "select_first (\<lambda>t. tk_id t = ap_ticket_id ap \<and> tk_tenant_id t = wq_tenant_id q \<and> tk_customer_id t = wq_customer_id q)
       (tickets (st_db s)) = Some tk"
    "accept w (st_db s) (wq_tenant_id q) (wq_principal_id q) (withdrawal_route tk ap) (wq_idempotency_key q)
       [(''reason'', PStr (wq_reason q))] [] [] None = Inr (c, d1)"
    "withdrawal_of s q ap = None"
    "fresh_withdrawal w w2 (s\<lparr>st_db := d1\<rparr>) q (idm_id (ac_record c)) ap tk = Inr (a, s')"
proof -
  obtain ap tk c d1 where *:
    "select_first (\<lambda>x. ap_id x = wq_approval_id q \<and> ap_tenant_id x = wq_tenant_id q) (approvals (st_db s)) = Some ap"
    "ap_customer_id ap = wq_customer_id q"
    "select_first (\<lambda>t. tk_id t = ap_ticket_id ap \<and> tk_tenant_id t = wq_tenant_id q \<and> tk_customer_id t = wq_customer_id q)
       (tickets (st_db s)) = Some tk"
    "accept w (st_db s) (wq_tenant_id q) (wq_principal_id q) (withdrawal_route tk ap) (wq_idempotency_key q)
       [(''reason'', PStr (wq_reason q))] [] [] None = Inr (c, d1)"
    using assms unfolding withdraw_def guard_simps by (auto split: prod.splits)
  have naive: "store_withdrawal_response i \<lparr>wa_approval_id = x, wa_ticket_id = y, wa_withdrawal_id = z,
      wa_accepted_at = read_timestamp t, wa_reused = True\<rparr> d = Inl (ValueError ''canonical_timestamp_requires_aware_datetime'')"
    for i x y z t d
    by (simp add: store_withdrawal_response_def withdrawal_response_def format_canonical_utc_timestamp_def read_timestamp_def)
  show ?thesis
  proof (cases "ac_reused c \<and> idm_response_snapshot (ac_record c) \<noteq> []")
    case True
    with assms * show ?thesis
      by (intro that(1) [OF *]) (auto simp: withdraw_def split: sum.splits)
  next
    case False
    with assms * naive show ?thesis
      by (intro that(2) [OF *]) (auto simp: withdraw_def Let_def split: sum.splits option.splits)
  qed
qed

end
