(* ===== verification/Command_Guarantees.thy ===== *)
theory Command_Guarantees
  imports Approval_Consent
begin

text \<open>
  Guarantees over sequences of commands.  Human decisions, withdrawals, the closing of broken bindings,
  conversation changes, executions by a worker and legacy refunds interleave in any order; an approval has one
  decision or one withdrawal and an effect only after an approving decision.
\<close>

section \<open>Interleavings of commands and executions\<close>

inductive consent_step :: "store \<Rightarrow> store \<Rightarrow> bool" where
  decision: "decide w w2 s q = Inr (a, s') \<Longrightarrow> consent_step s s'"
| withdrawal: "withdraw w w2 s wq = Inr (wa, s') \<Longrightarrow> consent_step s s'"
| broken: "mark_binding_stale s tenant i = Inr (r, s') \<Longrightarrow> consent_step s s'"
| lifecycle: "transition_conversation w t s lq = Inr (la, s') \<Longrightarrow> consent_step s s'"
| execution: "execute_action w s l i tr = Inr (res, s') \<Longrightarrow> consent_step s s'"
| legacy: "execute_legacy_refund w w2 s i key tr = Inr (res, s') \<Longrightarrow> consent_step s s'"
| other: "st_decisions s' = st_decisions s \<Longrightarrow> st_withdrawals s' = st_withdrawals s \<Longrightarrow>
    st_actions s' = st_actions s \<Longrightarrow>
    pending_ids (st_db s') \<subseteq> pending_ids (st_db s) \<union> - pw_approval_id ` set (st_withdrawals s) \<Longrightarrow> consent_step s s'"

definition approves :: "store \<Rightarrow> string \<Rightarrow> bool" where
  "approves s i \<longleftrightarrow> (\<exists>h \<in> set (st_decisions s). hd_approval_id h = i \<and>
     hd_decision h \<in> {''approve'', ''edit_and_approve''})"

text \<open>
  One decision or one withdrawal per approval, never both; a withdrawn approval is not pending; an effect has an
  approving decision.
\<close>

definition consent_ok :: "store \<Rightarrow> bool" where
  "consent_ok s \<longleftrightarrow> distinct (map hd_approval_id (st_decisions s)) \<and>
     distinct (map pw_approval_id (st_withdrawals s)) \<and>
     hd_approval_id ` set (st_decisions s) \<inter> pw_approval_id ` set (st_withdrawals s) = {} \<and>
     pending_ids (st_db s) \<inter> pw_approval_id ` set (st_withdrawals s) = {} \<and>
     (\<forall>a \<in> set (st_actions s). \<forall>i. ba_approval_id a = Some i \<longrightarrow> approves s i)"

text \<open>The three things a step can do.\<close>

definition settles_nothing :: "store \<Rightarrow> store \<Rightarrow> bool" where
  "settles_nothing s s' \<longleftrightarrow> st_decisions s' = st_decisions s \<and> st_withdrawals s' = st_withdrawals s \<and>
     pending_ids (st_db s') \<subseteq> pending_ids (st_db s) \<union> - pw_approval_id ` set (st_withdrawals s) \<and>
     (st_actions s' = st_actions s \<or>
      (\<exists>act i. st_actions s' = st_actions s @ [act] \<and> ba_approval_id act = Some i \<and> approves s i))"

definition settles_decision :: "store \<Rightarrow> store \<Rightarrow> bool" where
  "settles_decision s s' \<longleftrightarrow> (\<exists>h. st_decisions s' = st_decisions s @ [h] \<and> st_withdrawals s' = st_withdrawals s \<and>
     st_actions s' = st_actions s \<and> hd_approval_id h \<in> pending_ids (st_db s) \<and>
     hd_approval_id h \<notin> hd_approval_id ` set (st_decisions s) \<and> pending_ids (st_db s') \<subseteq> pending_ids (st_db s))"

definition settles_withdrawal :: "store \<Rightarrow> store \<Rightarrow> bool" where
  "settles_withdrawal s s' \<longleftrightarrow> (\<exists>x. st_withdrawals s' = st_withdrawals s @ [x] \<and> st_decisions s' = st_decisions s \<and>
     st_actions s' = st_actions s \<and> pw_approval_id x \<notin> hd_approval_id ` set (st_decisions s) \<and>
     pw_approval_id x \<notin> pw_approval_id ` set (st_withdrawals s) \<and>
     pending_ids (st_db s') \<subseteq> pending_ids (st_db s) - {pw_approval_id x})"

lemma pending_ids_update:
  assumes "approvals d' = update_by ap_id i f (approvals d)" "\<And>a. ap_id (f a) = ap_id a"
    and "\<And>a. ap_status (f a) \<noteq> ''pending''"
  shows "pending_ids d' \<subseteq> pending_ids d - {i}"
proof
  fix j assume "j \<in> pending_ids d'"
  then obtain a where a: "a \<in> set (approvals d')" "ap_status a = ''pending''" "ap_id a = j"
    by (auto simp: pending_ids_def)
  then obtain b where b: "b \<in> set (approvals d)" "a = (if ap_id b = i then f b else b)"
    by (auto simp: assms(1) update_by_def)
  with a assms(3) have "ap_id b \<noteq> i" by auto
  with a b show "j \<in> pending_ids d - {i}" by (auto simp: pending_ids_def)
qed

lemma decision_settles:
  assumes "decide w w2 s q = Inr (a, s')"
  shows "settles_nothing s s' \<or> settles_decision s s'"
proof (cases "dc_reused a")
  case False
  with assms show ?thesis
  proof (rule fresh_decision)
    fix ap ap1 rvn h
    assume ap: "select_first (\<lambda>x. ap_id x = dq_approval_id q \<and> ap_tenant_id x = dq_tenant_id q)
        (approvals (st_db s)) = Some ap" and d: "decided w s q ap ap1 rvn h s'"
    obtain f where f: "approvals (st_db s') = update_by ap_id (ap_id ap) f (approvals (st_db s))"
      "\<And>x. ap_id (f x) = ap_id x" "\<And>x. ap_status (f x) = decided_status (dq_decision q)"
      using d unfolding decided_def by blast
    have "pending_ids (st_db s') \<subseteq> pending_ids (st_db s) - {ap_id ap}"
      by (rule pending_ids_update [OF f(1,2)]) (simp add: f(3) decided_status_def)
    moreover have "ap_id ap \<in> pending_ids (st_db s)"
      using select_first_Some [OF ap] d unfolding pending_ids_def decided_def by (intro imageI) blast
    moreover have "hd_approval_id h = ap_id ap" using d by (auto simp: decided_def new_human_decision_def)
    ultimately have "settles_decision s s'"
      using d unfolding settles_decision_def decided_def same_effects_def by auto
    then show ?thesis by simp
  qed
next
  case True
  have same: "settles_nothing s (s\<lparr>st_db := d\<rparr>)" if "approvals d = approvals (st_db s)" for d
    using pending_ids_cong [OF that] by (simp add: settles_nothing_def)
  from assms show ?thesis
  proof (cases rule: decide_cases)
    case (1 ap c d1)
    have "approvals d1 = approvals (st_db s)" by (subst accept_Inr(1) [OF 1(3)]) simp
    with 1 same show ?thesis by simp
  next
    case (2 ap c d1 h d2)
    have "approvals d2 = approvals (st_db s)"
      by (subst store_decision_response_Inr [OF 2(6)], subst accept_Inr(1) [OF 2(3)]) simp
    with 2 same show ?thesis by simp
  next
    case (3 ap c d1 s1 d2)
    from 3(5) have "\<not> dc_reused a"
      unfolding new_decision_def guard_simps by (auto simp: guard_simps new_accepted_def)
    with True show ?thesis by simp
  qed
qed

lemma withdrawal_settles:
  assumes "withdraw w w2 s q = Inr (a, s')"
  shows "settles_nothing s s' \<or> settles_withdrawal s s'"
  using assms
proof (cases rule: withdraw_cases)
  case (1 ap tk c d1)
  have "approvals d1 = approvals (st_db s)" by (subst accept_Inr(1) [OF 1(4)]) simp
  from pending_ids_cong [OF this] 1(8) show ?thesis by (simp add: settles_nothing_def)
next
  case (2 ap tk c d1)
  have ap: "approvals d1 = approvals (st_db s)" by (subst accept_Inr(1) [OF 2(4)]) simp
  from 2(6) show ?thesis
  proof (rule fresh_withdrawal_Inr)
    fix p x assume n: "withdrawn_now (s\<lparr>st_db := d1\<rparr>) ap x s'"
    then obtain f where f: "approvals (st_db s') = update_by ap_id (ap_id ap) f (approvals d1)"
      "\<And>a. ap_id (f a) = ap_id a" "\<And>a. ap_status (f a) = ''withdrawn''"
      unfolding withdrawn_now_def by auto
    have "pending_ids (st_db s') \<subseteq> pending_ids d1 - {ap_id ap}"
      by (rule pending_ids_update [OF f(1,2)]) (simp add: f(3))
    moreover have "ap_id ap \<notin> hd_approval_id ` set (st_decisions s)"
      using n by (auto simp: withdrawn_now_def decision_of_def select_first_None)
    ultimately have "settles_withdrawal s s'"
      using n pending_ids_cong [OF ap]
      unfolding settles_withdrawal_def withdrawn_now_def same_effects_def by auto
    then show ?thesis by simp
  qed
qed

lemma execution_settles:
  assumes "execute_action w s l i tr = Inr (r, s')"
  shows "settles_nothing s s'"
proof -
  note p = execute_action_pending [OF assms]
  from assms show ?thesis
  proof (cases rule: execute_outcomes)
    case (reused ap ex)
    with p show ?thesis by (auto simp: settles_nothing_def same_effects_def same_authority_def)
  next
    case (stale ap reason)
    then have "lookup_by ap_id (ap_id ap) (approvals (st_db s)) = Some ap" by simp
    from mark_stale_Inr(2,3) [OF stale(3) this] p show ?thesis
      by (auto simp: settles_nothing_def same_effects_def same_authority_def)
  next
    case (effect ap dec rvn act act' s1)
    obtain x where x: "new_action w ap rvn (ap_resource_id ap) x = Inr act"
      using effect(9) unfolding recorded_effect_def by blast
    have i: "ba_approval_id act' = Some (ap_id ap)"
      using effect(12) new_action_Inr(7) [OF x] by (auto simp: committed_def)
    have "approves s (ap_id ap)"
      using effect(4,6) select_first_Some
      unfolding decision_of_def approves_def authorised_def decision_binds_def by fastforce
    moreover have "same_authority s s'"
      using commit_effect_Inr(6) [OF effect(11) effect(9)] effect(1,2,6) by (simp add: authorised_def)
    ultimately show ?thesis using p effect(13) i by (auto simp: settles_nothing_def same_authority_def)
  qed
qed

lemma broken_settles:
  assumes "mark_binding_stale s tenant i = Inr (r, s')"
  shows "settles_nothing s s'"
  using assms transition_pending
  by (fastforce simp: mark_binding_stale_def settles_nothing_def split: option.splits sum.splits if_splits)

lemma lifecycle_settles:
  assumes "transition_conversation w t s q = Inr (a, s')"
  shows "settles_nothing s s'"
proof -
  obtain c d1 key who route pl tenant where
    ac: "accept w (st_db s) tenant who route key pl [] [] None = Inr (c, d1)"
    and s': "st_decisions s' = st_decisions s \<and> st_withdrawals s' = st_withdrawals s \<and> st_actions s' = st_actions s \<and>
      approvals (st_db s') = approvals d1"
    using assms
    by (auto simp: transition_conversation_def change_lifecycle_def store_lifecycle_response_def Let_def add_audit_Inr
        upd_defs split: option.splits sum.splits if_splits)
  have "approvals d1 = approvals (st_db s)" by (subst accept_Inr(1) [OF ac]) simp
  with s' pending_ids_cong [of "st_db s'" "st_db s"] show ?thesis by (simp add: settles_nothing_def)
qed

lemma converge_legacy_pending:
  assumes "converge_legacy_refund w d ap tr = Inr d'"
  shows "pending_ids d' = pending_ids d"
proof -
  obtain tk d2 st where a: "activate_next_turn_and_converge_ticket w d2 tk tr ''resolved'' = Inr (st, d')"
    and d2: "approvals d2 = approvals d"
    using assms by (auto simp: converge_legacy_refund_def Let_def upd_defs split: option.splits sum.splits if_splits)
  obtain x d3 tk1 where n: "activate_next_turn w d2 tk tr = Inr (x, d3)" and c: "converge_ticket d3 tk1 ''resolved'' = (st, d')"
    using a by (auto simp: activate_next_turn_and_converge_ticket_def split: option.splits sum.splits)
  from converge_ticket_frame(3) [OF c] activate_next_turn_frame [OF n] d2 show ?thesis by (simp add: pending_ids_def)
qed

lemma legacy_commit_settles:
  assumes "commit_legacy_refund w w2 s b billing tr = Inr (r, s')"
  shows "st_decisions s' = st_decisions s \<and> st_withdrawals s' = st_withdrawals s \<and>
    pending_ids (st_db s') \<subseteq> pending_ids (st_db s) \<and>
    (\<exists>act. st_actions s' = st_actions s @ [act] \<and> ba_approval_id act = Some (ap_id (lb_approval b)))"
proof -
  let ?ap = "lb_approval b" and ?bill = "rc_billing_record_id billing"
  obtain act s1 s2 t d3 d4 d5 where act: "legacy_action w b billing = Inr act" and i: "insert_action act s = Inr s1"
    and be: "bind_action_event w s1 ?ap (lb_decision b) act = Inr s2"
    and t: "transition_approval (st_db s2) ?ap ''executed'' ''approved'' (Some (ap_status_version ?ap)) None = Inr (t, d3)"
    and c: "stale_competing_refund_approvals (consume_approval (w_clock w) (ap_id ?ap) d3) ?ap ?bill = Inr d4"
    and v: "converge_legacy_refund w2 (stale_bound_proposals ?ap ?bill d4) ?ap (tr @ '':effect-committed'') = Inr d5"
    and au: "add_audit (refund_audit w ?ap (ba_id act) tr)
        (s2\<lparr>st_db := d5, st_billing := refund_billing ?bill (st_billing s2)\<rparr>) = Inr s'"
    using assms by (auto simp: commit_legacy_refund_def Let_def split: sum.splits)
  have i': "st_actions s1 = st_actions s @ [act]" "ba_id act \<notin> ba_id ` set (st_actions s)" "same_authority s s1"
      "st_db s1 = st_db s"
    using i unfolding insert_action_Inr by (auto simp: same_authority_def image_iff)
  note b' = bind_action_event_Inr [OF be i'(1,2)]
  have ap: "ba_approval_id act = Some (ap_id ?ap)"
    using act by (auto simp: legacy_action_def Let_def split: sum.splits)
  have "pending_ids d5 \<subseteq> pending_ids (st_db s)"
    using converge_legacy_pending [OF v] stale_competing_pending [OF c] consume_pending [of "w_clock w" "ap_id ?ap" d3]
      transition_pending [OF t] bind_action_event_pending [OF be] i'(4)
    by (auto simp: stale_bound_proposals_def)
  moreover have "same_authority s s2" using same_authority_trans [OF i'(3) b'(5)] .
  moreover obtain act' where "st_actions s2 = st_actions s @ [act']" "ba_approval_id act' = Some (ap_id ?ap)"
    using b'(1) ap by (auto simp: committed_def)
  ultimately show ?thesis using au by (auto simp: add_audit_Inr same_authority_def)
qed

lemma legacy_settles:
  assumes "execute_legacy_refund w w2 s i key tr = Inr (r, s')"
  shows "settles_nothing s s'"
proof -
  obtain b where b: "load_legacy_refund_binding s i key = Inr b"
    and c: "(\<exists>act t. reuse_legacy_refund w w2 s b act t = Inr (r, s')) \<or>
      (\<exists>billing. commit_legacy_refund w w2 s b billing tr = Inr (r, s'))"
    using assms unfolding execute_legacy_refund_def Let_def by (auto split: sum.splits option.splits if_splits)
  have ok: "approves s (ap_id (lb_approval b))"
    using b select_first_Some unfolding load_legacy_refund_binding_def Let_def decision_of_def approves_def
    by (fastforce split: option.splits if_splits)
  from c show ?thesis
  proof (elim disjE exE)
    fix act t assume "reuse_legacy_refund w w2 s b act t = Inr (r, s')"
    then obtain x d1 d3 d4 where *: "transition_approval (st_db s) (lb_approval b) ''executed'' ''approved''
        (Some (ap_status_version (lb_approval b))) None = Inr (x, d1)" "converge_legacy_refund w2 d3 (lb_approval b) t = Inr d4"
      "s' = s\<lparr>st_db := d4\<rparr>" "pending_ids d3 \<subseteq> pending_ids d1"
      using consume_pending
      by (fastforce simp: reuse_legacy_refund_def Let_def stale_bound_proposals_def split: sum.splits if_splits)
    with transition_pending [OF *(1)] converge_legacy_pending [OF *(2)] show ?thesis
      by (auto simp: settles_nothing_def)
  next
    fix billing assume "commit_legacy_refund w w2 s b billing tr = Inr (r, s')"
    from legacy_commit_settles [OF this] ok show ?thesis by (auto simp: settles_nothing_def)
  qed
qed

lemma consent_step_settles:
  assumes "consent_step s s'"
  shows "settles_nothing s s' \<or> settles_decision s s' \<or> settles_withdrawal s s'"
  using assms
proof cases
  case (decision w w2 q a)
  from decision_settles [OF this] show ?thesis by blast
next
  case (withdrawal w w2 wq wa)
  from withdrawal_settles [OF this] show ?thesis by blast
next
  case (broken tenant i r)
  from broken_settles [OF this] show ?thesis ..
next
  case (lifecycle w t lq la)
  from lifecycle_settles [OF this] show ?thesis ..
next
  case (execution w l i tr res)
  from execution_settles [OF this] show ?thesis ..
next
  case (legacy w w2 i key tr res)
  from legacy_settles [OF this] show ?thesis ..
next
  case other
  then show ?thesis by (simp add: settles_nothing_def)
qed

lemma consent_step_ok:
  assumes "consent_step s s'" "consent_ok s"
  shows "consent_ok s'"
  using consent_step_settles [OF assms(1)]
proof (elim disjE)
  assume "settles_nothing s s'"
  with assms(2) show ?thesis
    unfolding settles_nothing_def consent_ok_def approves_def by (auto 0 3)
next
  assume "settles_decision s s'"
  then obtain h where h: "st_decisions s' = st_decisions s @ [h]" "st_withdrawals s' = st_withdrawals s"
    "st_actions s' = st_actions s" "hd_approval_id h \<in> pending_ids (st_db s)"
    "hd_approval_id h \<notin> hd_approval_id ` set (st_decisions s)" "pending_ids (st_db s') \<subseteq> pending_ids (st_db s)"
    unfolding settles_decision_def by blast
  with assms(2) show ?thesis unfolding consent_ok_def approves_def by (auto 0 3)
next
  assume "settles_withdrawal s s'"
  then obtain x where "st_withdrawals s' = st_withdrawals s @ [x]" "st_decisions s' = st_decisions s"
    "st_actions s' = st_actions s" "pw_approval_id x \<notin> hd_approval_id ` set (st_decisions s)"
    "pw_approval_id x \<notin> pw_approval_id ` set (st_withdrawals s)"
    "pending_ids (st_db s') \<subseteq> pending_ids (st_db s) - {pw_approval_id x}"
    unfolding settles_withdrawal_def by blast
  with assms(2) show ?thesis unfolding consent_ok_def approves_def by (auto 0 3)
qed

interpretation consent: invariant_steps consent_step consent_ok
  by unfold_locales (rule consent_step_ok)

definition refused :: "store \<Rightarrow> string \<Rightarrow> bool" where
  "refused s i \<longleftrightarrow> i \<in> pw_approval_id ` set (st_withdrawals s) \<or>
     (\<exists>h \<in> set (st_decisions s). hd_approval_id h = i \<and> hd_decision h = ''reject'')"

lemma refused_step:
  assumes "consent_step s s'" "refused s i"
  shows "refused s' i"
proof -
  have "set (st_withdrawals s) \<subseteq> set (st_withdrawals s') \<and> set (st_decisions s) \<subseteq> set (st_decisions s')"
    using consent_step_settles [OF assms(1)]
    unfolding settles_nothing_def settles_decision_def settles_withdrawal_def by auto
  with assms(2) show ?thesis unfolding refused_def by blast
qed

lemma refused_approves:
  assumes "consent_ok s" "refused s i"
  shows "\<not> approves s i"
proof
  assume "approves s i"
  then obtain h where h: "h \<in> set (st_decisions s)" "hd_approval_id h = i"
    "hd_decision h \<in> {''approve'', ''edit_and_approve''}" unfolding approves_def by blast
  have inj: "inj_on hd_approval_id (set (st_decisions s))" using assms(1) by (simp add: consent_ok_def distinct_map)
  from assms(2) show False unfolding refused_def
  proof (elim disjE bexE conjE)
    assume "i \<in> pw_approval_id ` set (st_withdrawals s)"
    moreover have "i \<in> hd_approval_id ` set (st_decisions s)" using h(1,2) by blast
    ultimately show False using assms(1) unfolding consent_ok_def by blast
  next
    fix h' assume "h' \<in> set (st_decisions s)" "hd_approval_id h' = i" and r: "hd_decision h' = ''reject''"
    then have "h' = h" using inj_onD [OF inj, of h' h] h(1,2) by simp
    with r h(3) show False by simp
  qed
qed

end
