(* ===== verification/Command_Repeats.thy ===== *)
theory Command_Repeats
  imports Approval_Consent
begin

text \<open>
  The commands of approvers and customers carry an idempotency key.  Each stores its answer with the key and
  replays it: sent again, a decision, a withdrawal or a conversation change answers the same and writes nothing.
\<close>

section \<open>Repeating a command\<close>

text \<open>
  The contract of a command with an idempotency key: repeated on the state it left, at another time and with
  other identifiers at hand (another \<open>'w\<close>, alike in the digest function), it gives the same answer, marked as
  reused, and leaves the state alone.  The answer carries a timestamp; it must be one the calendar has.
\<close>

locale repeatable_command =
  fixes command :: "'w \<Rightarrow> 's \<Rightarrow> 'q \<Rightarrow> 'e + 'a \<times> 's"
    and alike :: "'w \<Rightarrow> 'w \<Rightarrow> bool"
    and again :: "'a \<Rightarrow> 'a"
    and stamped :: "'a \<Rightarrow> bool"
  assumes repeats: "command w s q = Inr (a, s') \<Longrightarrow> stamped a \<Longrightarrow> alike w w' \<Longrightarrow>
    command w' s' q = Inr (again a, s')"
    and stamped_again: "stamped a \<Longrightarrow> stamped (again a)"
begin

definition retried :: "'q \<Rightarrow> 'w list \<Rightarrow> 's \<Rightarrow> 's" where
  "retried q ws s = fold (\<lambda>w s. case command w s q of Inl _ \<Rightarrow> s | Inr (_, s') \<Rightarrow> s') ws s"

lemma retries_settle:
  assumes "command w s q = Inr (a, s')" "stamped a"
  shows "list_all (alike w) ws \<Longrightarrow> retried q ws s' = s'"
proof (induction ws)
  case (Cons w' ws)
  then show ?case using repeats [OF assms, of w'] by (simp add: retried_def)
qed (simp add: retried_def)

lemma retry_answers:
  assumes "command w s q = Inr (a, s')" "stamped a" "list_all (alike w) (ws @ [w'])"
  shows "command w' (retried q ws s') q = Inr (again a, s')"
  using retries_settle [OF assms(1,2), of ws] repeats [OF assms(1,2), of w'] assms(3) by simp

end

lemma accept_again:
  assumes "accept w d tenant who route key payload [] [] None = Inr (c, d1)"
    and "idempotency d2 = update_by idm_id (idm_id (ac_record c)) f (idempotency d1)"
    and "\<And>r. idm_tenant_id (f r) = idm_tenant_id r \<and> idm_principal_id (f r) = idm_principal_id r \<and>
       idm_route (f r) = idm_route r \<and> idm_key (f r) = idm_key r \<and> idm_request_hash (f r) = idm_request_hash r"
    and "w_digest w' = w_digest w"
  shows "accept w' d2 tenant who route key payload [] [] None =
    Inr (\<lparr>ac_record = f (ac_record c), ac_reused = True\<rparr>, d2)"
proof -
  note a = accept_Inr [OF assms(1)]
  let ?P = "\<lambda>r. idm_tenant_id r = tenant \<and> idm_principal_id r = who \<and> idm_route r = route \<and> idm_key r = key"
  have "select_first ?P (idempotency d2) = Some (f (ac_record c))"
    unfolding assms(2) using select_first_update_by [OF a(2), of f idm_id "idm_id (ac_record c)"] assms(3) by simp
  then show ?thesis using a(3) assms(3,4) by (simp add: accept_def Let_def)
qed

lemma accept_reused_same:
  assumes "accept w d tenant who route key payload [] [] None = Inr (c, d1)" "ac_reused c"
    and "w_digest w' = w_digest w"
  shows "d1 = d" "accept w' d tenant who route key payload [] [] None = Inr (c, d)"
  using assms by (auto simp: accept_def Let_def split: option.splits if_splits sum.splits)

lemma ditem_simps [simp]:
  "ditem ((k, v) # d) k' = (if k' = k then Inr v else ditem d k')"
  by (simp add: ditem_def)

lemma opt_str_val_PNone [simp]: "opt_str_val x = PNone \<longleftrightarrow> x = None"
  by (cases x) (simp_all add: opt_str_val_def)

lemma parse_of_format:
  assumes "format_canonical_utc_timestamp t = Inr at" "valid_datetime t" "dt_offset t = Some 0"
  shows "parse_timestamp_value (PStr at) = Inr t"
proof -
  have "at = isoformat_utc_micros t" using assms(1,3) by simp
  with assms(2,3) show ?thesis
    by (simp add: parse_timestamp_value_def parse_canonical_utc_timestamp_def matches_canonical_isoformat
        fromisoformat_canonical)
qed

lemma replayed_fields:
  assumes "format_canonical_utc_timestamp (dc_accepted_at a) = Inr at" "valid_datetime (dc_accepted_at a)"
    and "dt_offset (dc_accepted_at a) = Some 0" "ap_ticket_id ap = dc_ticket_id a"
  shows "replayed_decision ap (decision_fields a at url False) = Inr (a\<lparr>dc_reused := True\<rparr>)"
  using parse_of_format [OF assms(1-3)] assms(4)
  by (cases "dc_job_id a")
    (simp_all add: replayed_decision_def decision_fields_def dget_def opt_str_val_def)

lemma stored_decision_response:
  assumes "store_decision_response i a d = Inr d'"
  obtains at f where "format_canonical_utc_timestamp (dc_accepted_at a) = Inr at"
    "idempotency d' = update_by idm_id i f (idempotency d)"
    "\<And>r. idm_tenant_id (f r) = idm_tenant_id r \<and> idm_principal_id (f r) = idm_principal_id r \<and>
       idm_route (f r) = idm_route r \<and> idm_key (f r) = idm_key r \<and> idm_request_hash (f r) = idm_request_hash r"
    "\<And>r. \<exists>url. idm_response_snapshot (f r) = decision_fields a at url False"
proof -
  obtain at where at: "format_canonical_utc_timestamp (dc_accepted_at a) = Inr at"
    using assms by (cases "format_canonical_utc_timestamp (dc_accepted_at a)") (auto simp: store_decision_response_def)
  let ?f = "\<lambda>r. r\<lparr>idm_resource_ids := [(''approval_id'', PStr (dc_approval_id a)), (''ticket_id'', PStr (dc_ticket_id a)),
        (''run_id'', PStr (dc_run_id a))] @ (case dc_job_id a of None \<Rightarrow> [] | Some j \<Rightarrow> [(''job_id'', PStr j)]),
      idm_response_snapshot := decision_fields a at
        (if dc_job_id a = None then PNone else PStr (''/api/runs/'' @ dc_run_id a)) False,
      idm_completed_at := Some (instant (dc_accepted_at a)), idm_retention_class := ''protected_action''\<rparr>"
  show ?thesis
    by (rule that [OF at, of ?f]) (use assms at in \<open>auto simp: store_decision_response_def\<close>)
qed

lemma decision_fields_not_Nil [simp]: "decision_fields a at url r \<noteq> []"
  by (simp add: decision_fields_def)

text \<open>The second run finds the record of the first and replays it.\<close>

lemma decide_replays:
  assumes ap: "select_first (\<lambda>x. ap_id x = dq_approval_id q \<and> ap_tenant_id x = dq_tenant_id q) (approvals d2) = Some ap"
    and sc: "assert_active_approver_scope s1 (ap_tenant_id ap) (dq_actor_id q) = Inr ()"
    and ac: "accept w d (ap_tenant_id ap) (dq_actor_id q) (decision_route q) (dq_idempotency_key q)
       (decision_payload q) [] [] None = Inr (c, d1)"
    and st: "store_decision_response (idm_id (ac_record c)) a d1' = Inr d2" "idempotency d1' = idempotency d1"
    and ok: "valid_datetime (dc_accepted_at a)" "dt_offset (dc_accepted_at a) = Some 0" "ap_ticket_id ap = dc_ticket_id a"
    and m: "dq_decision q \<noteq> ''manual_takeover''" and w: "w_digest w' = w_digest w"
  shows "decide w' w2 (s1\<lparr>st_db := d2\<rparr>) q = Inr (a\<lparr>dc_reused := True\<rparr>, s1\<lparr>st_db := d2\<rparr>)"
  using st(1)
proof (rule stored_decision_response)
  fix at f
  assume at: "format_canonical_utc_timestamp (dc_accepted_at a) = Inr at"
    and i: "idempotency d2 = update_by idm_id (idm_id (ac_record c)) f (idempotency d1')"
    and f: "\<And>r. idm_tenant_id (f r) = idm_tenant_id r \<and> idm_principal_id (f r) = idm_principal_id r \<and>
       idm_route (f r) = idm_route r \<and> idm_key (f r) = idm_key r \<and> idm_request_hash (f r) = idm_request_hash r"
    and snap: "\<And>r. \<exists>url. idm_response_snapshot (f r) = decision_fields a at url False"
  obtain url where url: "idm_response_snapshot (f (ac_record c)) = decision_fields a at url False" using snap by blast
  note again = accept_again [OF ac i [unfolded st(2)] f w]
  have "assert_active_approver_scope (s1\<lparr>st_db := d2\<rparr>) (ap_tenant_id ap) (dq_actor_id q) = Inr ()"
    using sc by (simp add: assert_active_approver_scope_def)
  with m ap again url replayed_fields [OF at ok] show ?thesis by (simp add: decide_def)
qed

lemma replace_utc_offset [simp]: "dt_offset (replace_utc t) = Some 0"
  by (simp add: replace_utc_def)

lemma decide_repeats:
  assumes "decide w w2 s q = Inr (a, s')" "valid_datetime (dc_accepted_at a)" and w: "w_digest w' = w_digest w"
  shows "decide w' w2' s' q = Inr (a\<lparr>dc_reused := True\<rparr>, s')"
proof -
  have m: "dq_decision q \<noteq> ''manual_takeover''" using assms(1) by (auto simp: decide_def)
  from assms(1) show ?thesis
  proof (cases rule: decide_cases)
    case (1 ap c d1)
    note same = accept_reused_same [OF 1(3,4) w]
    have "a\<lparr>dc_reused := True\<rparr> = a" using reused_decisions(1) [OF 1(6)] by simp
    then show ?thesis using 1 same m by (simp add: decide_def)
  next
    case (2 ap c d1 h d2)
    have "approvals d2 = approvals (st_db s)"
      by (subst store_decision_response_Inr [OF 2(6)], subst accept_Inr(1) [OF 2(3)]) simp
    moreover have "dt_offset (dc_accepted_at a) = Some 0" "ap_ticket_id ap = dc_ticket_id a"
      using 2(5) by (auto simp: recorded_decision_def split: if_splits)
    ultimately show ?thesis using decide_replays [OF _ 2(2,3,6) refl assms(2) _ _ m w] 2(1,7) by simp
  next
    case (3 ap c d1 s1 d2)
    have "decision_of (s\<lparr>st_db := d1\<rparr>) ap = None" using 3(4) by (simp add: decision_of_def)
    from 3(5) this show ?thesis
    proof (rule new_decision_Inr)
      fix b ap1 rvn h
      assume *: "validate_binding (w_digest w) (st_db (s\<lparr>st_db := d1\<rparr>)) ap = Inr b" "a = new_accepted w q ap1 b"
        "decided w (s\<lparr>st_db := d1\<rparr>) q ap ap1 rvn h s1" "idempotency (st_db s1) = idempotency (st_db (s\<lparr>st_db := d1\<rparr>))"
      obtain f where f: "approvals (st_db s1) = update_by ap_id (ap_id ap) f (approvals d1)"
        "\<And>x. ap_id (f x) = ap_id x \<and> ap_tenant_id (f x) = ap_tenant_id x \<and> ap_ticket_id (f x) = ap_ticket_id x"
        using *(3) unfolding decided_def by auto
      have d1: "approvals d1 = approvals (st_db s)" by (subst accept_Inr(1) [OF 3(3)]) simp
      have d2: "approvals d2 = approvals (st_db s1)" by (subst store_decision_response_Inr [OF 3(6)]) simp
      have sel: "select_first (\<lambda>x. ap_id x = dq_approval_id q \<and> ap_tenant_id x = dq_tenant_id q) (approvals d2) = Some (f ap)"
        unfolding d2 f(1) d1 using select_first_update_by [OF 3(1), of f ap_id "ap_id ap"] f(2) by simp
      have "assert_active_approver_scope s1 (ap_tenant_id (f ap)) (dq_actor_id q) = Inr ()"
        using 3(2) *(3) f(2) by (simp add: assert_active_approver_scope_def decided_def)
      moreover have "accept w (st_db s) (ap_tenant_id (f ap)) (dq_actor_id q) (decision_route q) (dq_idempotency_key q)
          (decision_payload q) [] [] None = Inr (c, d1)" using 3(3) f(2) by simp
      moreover have "idempotency (st_db s1) = idempotency d1" using *(4) by simp
      moreover have "dt_offset (dc_accepted_at a) = Some 0" "ap_ticket_id (f ap) = dc_ticket_id a"
        using *(2) f(2) validate_binding_Inr(2) [OF *(1)] by (simp_all add: new_accepted_def)
      ultimately show ?thesis
        using decide_replays [OF sel _ _ 3(6) _ assms(2) _ _ m w] 3(7) by blast
    qed
  qed
qed

interpretation decisions: repeatable_command "\<lambda>(w, w2). decide w w2"
    "\<lambda>(w, w2) (w', w2'). w_digest w' = w_digest w" "\<lambda>a. a\<lparr>dc_reused := True\<rparr>"
    "\<lambda>a. valid_datetime (dc_accepted_at a)"
  by unfold_locales (auto simp: decide_repeats)

text \<open>A withdrawal finds its ticket again: no step of it changes whose ticket it is.\<close>

definition ticket_owner :: "support_ticket \<Rightarrow> string \<times> string \<times> string" where
  "ticket_owner t = (tk_id t, tk_tenant_id t, tk_customer_id t)"

lemma upd_ticket_owner:
  assumes "\<And>t. ticket_owner (f t) = ticket_owner t"
  shows "map ticket_owner (tickets (upd_ticket i f d)) = map ticket_owner (tickets d)"
  using assms by (simp add: upd_ticket_def update_by_def)

lemma upd_other_tickets [simp]:
  "tickets (upd_run i f d) = tickets d" "tickets (upd_turn i g d) = tickets d"
  "tickets (upd_approval i h d) = tickets d" "tickets (upd_job i k d) = tickets d"
  by (simp_all add: upd_defs)

lemma append_event_owner:
  assumes "append_event H redact worker eid clock d rid rq = Inr (e, d')"
  shows "map ticket_owner (tickets d') = map ticket_owner (tickets d)"
  using assms unfolding append_event_def Let_def
  by (auto simp: guard_simps upd_ticket_owner ticket_owner_def split: option.splits if_splits sum.splits)

lemma create_run_owner:
  assumes "create_run H redact worker prov rid eid clock d q = Inr (r, d')"
  shows "map ticket_owner (tickets d') = map ticket_owner (tickets d)"
  using assms append_event_owner
  by (fastforce simp: create_run_def Let_def insert_row_Inr split: option.splits if_splits sum.splits)

lemma activate_next_turn_owner:
  assumes "activate_next_turn w d tk trace = Inr (x, d')"
  shows "map ticket_owner (tickets d') = map ticket_owner (tickets d)"
  using assms create_run_owner
  by (fastforce simp: activate_next_turn_def Let_def bind_turn_def upd_ticket_owner ticket_owner_def
      split: option.splits if_splits sum.splits)

lemma converge_ticket_owner:
  assumes "converge_ticket d tk s = (st, d')"
  shows "map ticket_owner (tickets d') = map ticket_owner (tickets d)"
  using assms by (auto simp: converge_ticket_def Let_def upd_ticket_owner ticket_owner_def split: if_splits)

lemma next_turn_owner:
  assumes "next_turn w d tk trace def = Inr d'"
  shows "map ticket_owner (tickets d') = map ticket_owner (tickets d)"
proof -
  obtain tk1 x d1 tk2 st where a: "activate_next_turn w d tk1 (trace @ '':next-turn'') = Inr (x, d1)"
    and c: "converge_ticket d1 tk2 def = (st, d')"
    using assms unfolding next_turn_def activate_next_turn_and_converge_ticket_def guard_simps
    by (auto simp: guard_simps)
  from activate_next_turn_owner [OF a] converge_ticket_owner [OF c] show ?thesis by simp
qed

lemma advance_owner [simp]: "ticket_owner (advance_conversation_activity t tk) = ticket_owner tk"
  by (simp add: advance_conversation_activity_def ticket_owner_def split: option.split)

lemma ticket_owner_upd [simp]:
  "ticket_owner (t\<lparr>tk_status := a, tk_version := b\<rparr>) = ticket_owner t"
  "ticket_owner (t\<lparr>tk_next_message_sequence := n\<rparr>) = ticket_owner t"
  "ticket_owner (t\<lparr>tk_lifecycle := l, tk_version := b\<rparr>) = ticket_owner t"
  by (simp_all add: ticket_owner_def)

lemma close_withdrawn_owner:
  assumes "close_withdrawn w d ap tk p = Inr d'"
  shows "map ticket_owner (tickets d') = map ticket_owner (tickets d)"
proof -
  have "tickets (finish_run_and_turn t st r x) = tickets x" for t st r x
    by (simp add: finish_run_and_turn_def Let_def)
  with assms show ?thesis
    by (auto simp: close_withdrawn_def Let_def publish_update_def upd_ticket_owner stale_proposals_def
        split: sum.splits option.splits)
qed

lemma select_first_keyed:
  assumes "map k xs = map k ys" "\<And>x. P x = Q (k x)"
  shows "map_option k (select_first P xs) = map_option k (select_first P ys)"
proof -
  have "map_option k (select_first P zs) = find Q (map k zs)" for zs
    by (induction zs) (auto simp: select_first_def assms(2))
  then show ?thesis using assms(1) by simp
qed

lemma ticket_found_again:
  assumes "map ticket_owner (tickets d') = map ticket_owner (tickets d)"
    and "select_first (\<lambda>t. tk_id t = i \<and> tk_tenant_id t = tenant \<and> tk_customer_id t = cust) (tickets d) = Some tk"
  obtains tk' where "tk_id tk' = tk_id tk"
    "select_first (\<lambda>t. tk_id t = i \<and> tk_tenant_id t = tenant \<and> tk_customer_id t = cust) (tickets d') = Some tk'"
  using select_first_keyed [OF assms(1), of "\<lambda>t. tk_id t = i \<and> tk_tenant_id t = tenant \<and> tk_customer_id t = cust"
      "\<lambda>(a, b, c). a = i \<and> b = tenant \<and> c = cust"] assms(2)
  by (auto simp: ticket_owner_def)

lemma fresh_withdrawal_owner:
  assumes "fresh_withdrawal w w2 s q rid ap tk = Inr (a, s')"
  shows "map ticket_owner (tickets (st_db s')) = map ticket_owner (tickets (st_db s))"
proof -
  obtain p d2 d3 tr d1 dd where
    t: "transition_approval (st_db s) ap ''withdrawn'' ''pending'' (Some (ap_status_version ap))
        (Some (instant (w_clock w))) = Inr (tr, d1)" and cl: "close_withdrawn w d1 ap tk p = Inr dd"
    and st: "store_withdrawal_response rid (new_withdrawal_accepted w ap tk) dd = Inr d2"
    and n: "next_turn w2 d2 tk (wq_trace_id q) ''open'' = Inr d3" and r: "st_db s' = d3"
    using assms unfolding fresh_withdrawal_def commit_withdrawal_def guard_simps by (auto simp: guard_simps add_audit_Inr)
  have "tickets d1 = tickets (st_db s)" using transition_frame(2) [OF t] .
  moreover have "tickets d2 = tickets dd" using st by (auto simp: store_withdrawal_response_def split: sum.splits)
  ultimately show ?thesis using next_turn_owner [OF n] close_withdrawn_owner [OF cl] r by simp
qed

lemma stored_withdrawal_response:
  assumes "store_withdrawal_response i a d = Inr d'"
  obtains at f where "format_canonical_utc_timestamp (wa_accepted_at a) = Inr at"
    "d' = d\<lparr>idempotency := update_by idm_id i f (idempotency d)\<rparr>"
    "\<And>r. idm_tenant_id (f r) = idm_tenant_id r \<and> idm_principal_id (f r) = idm_principal_id r \<and>
       idm_route (f r) = idm_route r \<and> idm_key (f r) = idm_key r \<and> idm_request_hash (f r) = idm_request_hash r"
    "\<And>r. idm_response_snapshot (f r) = dset (withdrawal_fields a at (wa_reused a)) ''reused'' (PBool False)"
proof -
  obtain at where at: "format_canonical_utc_timestamp (wa_accepted_at a) = Inr at"
    using assms by (cases "format_canonical_utc_timestamp (wa_accepted_at a)")
      (auto simp: store_withdrawal_response_def withdrawal_response_def)
  let ?f = "\<lambda>r. r\<lparr>idm_resource_ids := [(''approval_id'', PStr (wa_approval_id a)),
        (''ticket_id'', PStr (wa_ticket_id a)), (''withdrawal_id'', PStr (wa_withdrawal_id a))],
      idm_response_snapshot := dset (withdrawal_fields a at (wa_reused a)) ''reused'' (PBool False),
      idm_completed_at := Some (instant (wa_accepted_at a)), idm_retention_class := ''protected_action''\<rparr>"
  show ?thesis
    by (rule that [OF at, of ?f]) (use assms at in \<open>auto simp: store_withdrawal_response_def withdrawal_response_def\<close>)
qed

lemma withdraw_repeats:
  assumes "withdraw w w2 s q = Inr (a, s')"
    and ok: "valid_datetime (wa_accepted_at a)" "dt_offset (wa_accepted_at a) = Some 0"
    and w: "w_digest w' = w_digest w"
  shows "withdraw w' w2' s' q = Inr (a\<lparr>wa_reused := True\<rparr>, s')"
  using assms(1)
proof (cases rule: withdraw_cases)
  case (1 ap tk c d1)
  note same = accept_reused_same [OF 1(4,5) w]
  have "a\<lparr>wa_reused := True\<rparr> = a" using 1(7) by (auto simp: replayed_withdrawal_def split: sum.splits)
  then show ?thesis using 1 same by (simp add: withdraw_def)
next
  case (2 ap tk c d1)
  from 2(6) show ?thesis
  proof (rule fresh_withdrawal_Inr)
    fix p x s1 d2
    assume n: "withdrawn_now (s\<lparr>st_db := d1\<rparr>) ap x s'" and a: "a = new_withdrawal_accepted w ap tk"
      and c: "commit_withdrawal w (s\<lparr>st_db := d1\<rparr>) q ap tk p = Inr s1"
      and i1: "idempotency (st_db s1) = idempotency (st_db (s\<lparr>st_db := d1\<rparr>))"
      and st: "store_withdrawal_response (idm_id (ac_record c)) a (st_db s1) = Inr d2"
      and i2: "idempotency (st_db s') = idempotency d2"
    obtain f where f: "approvals (st_db s') = update_by ap_id (ap_id ap) f (approvals d1)"
      "\<And>a. ap_id (f a) = ap_id a \<and> ap_tenant_id (f a) = ap_tenant_id a \<and> ap_ticket_id (f a) = ap_ticket_id a \<and>
         ap_customer_id (f a) = ap_customer_id a"
      using n unfolding withdrawn_now_def by auto
    have d1: "approvals d1 = approvals (st_db s)" "tickets d1 = tickets (st_db s)"
      by (subst accept_Inr(1) [OF 2(4)], simp)+
    have ap': "select_first (\<lambda>x. ap_id x = wq_approval_id q \<and> ap_tenant_id x = wq_tenant_id q) (approvals (st_db s')) = Some (f ap)"
      unfolding f(1) d1 using select_first_update_by [OF 2(1), of f ap_id "ap_id ap"] f(2) by simp
    have own: "map ticket_owner (tickets (st_db s')) = map ticket_owner (tickets (st_db s))"
      using fresh_withdrawal_owner [OF 2(6)] d1(2) by simp
    obtain tk' where tk': "tk_id tk' = tk_id tk"
      "select_first (\<lambda>t. tk_id t = ap_ticket_id ap \<and> tk_tenant_id t = wq_tenant_id q \<and> tk_customer_id t = wq_customer_id q)
         (tickets (st_db s')) = Some tk'" using ticket_found_again [OF own 2(3)] .
    from st show ?thesis
    proof (rule stored_withdrawal_response)
      fix at g
      assume at: "format_canonical_utc_timestamp (wa_accepted_at a) = Inr at"
        and d2: "d2 = (st_db s1)\<lparr>idempotency := update_by idm_id (idm_id (ac_record c)) g (idempotency (st_db s1))\<rparr>"
        and g: "\<And>r. idm_tenant_id (g r) = idm_tenant_id r \<and> idm_principal_id (g r) = idm_principal_id r \<and>
           idm_route (g r) = idm_route r \<and> idm_key (g r) = idm_key r \<and> idm_request_hash (g r) = idm_request_hash r"
        and snap: "\<And>r. idm_response_snapshot (g r) = dset (withdrawal_fields a at (wa_reused a)) ''reused'' (PBool False)"
      have "idempotency (st_db s') = update_by idm_id (idm_id (ac_record c)) g (idempotency d1)"
        using i1 i2 d2 by simp
      note again = accept_again [OF 2(4) this g w]
      have rp: "replayed_withdrawal (f ap) tk' (idm_response_snapshot (g (ac_record c))) = Inr (a\<lparr>wa_reused := True\<rparr>)"
        using parse_of_format [OF at ok] tk'(1) f(2) a
        by (simp add: snap replayed_withdrawal_def dset_def dhas_def withdrawal_fields_def new_withdrawal_accepted_def)
      have "idm_response_snapshot (g (ac_record c)) \<noteq> []"
        by (simp add: snap dset_def withdrawal_fields_def)
      with ap' tk' again rp f(2) 2(2) show ?thesis by (simp add: withdraw_def withdrawal_route_def)
    qed
  qed
qed

lemma stored_lifecycle_response:
  assumes "store_lifecycle_response i a d = Inr d'"
  obtains at f where "format_canonical_utc_timestamp (la_accepted_at a) = Inr at"
    "d' = d\<lparr>idempotency := update_by idm_id i f (idempotency d)\<rparr>"
    "\<And>r. idm_tenant_id (f r) = idm_tenant_id r \<and> idm_principal_id (f r) = idm_principal_id r \<and>
       idm_route (f r) = idm_route r \<and> idm_key (f r) = idm_key r \<and> idm_request_hash (f r) = idm_request_hash r"
    "\<And>r. \<exists>x. idm_response_snapshot (f r) = [(''schema_version'', PStr ''conversation-lifecycle.v1''),
       (''conversation_id'', PStr (la_conversation_id a)), (''lifecycle'', PStr (la_lifecycle a)),
       (''accepted_at'', PStr at), (''reused'', x)]"
proof -
  obtain at where at: "format_canonical_utc_timestamp (la_accepted_at a) = Inr at"
    using assms by (cases "format_canonical_utc_timestamp (la_accepted_at a)")
      (auto simp: store_lifecycle_response_def lifecycle_response_def)
  let ?f = "\<lambda>r. r\<lparr>idm_resource_ids := [(''conversation_id'', PStr (la_conversation_id a))],
      idm_response_snapshot := [(''schema_version'', PStr ''conversation-lifecycle.v1''),
       (''conversation_id'', PStr (la_conversation_id a)), (''lifecycle'', PStr (la_lifecycle a)),
       (''accepted_at'', PStr at), (''reused'', PBool False)],
      idm_completed_at := Some (instant (la_accepted_at a)), idm_retention_class := ''low_risk_non_action''\<rparr>"
  show ?thesis
    by (rule that [OF at, of ?f])
      (use assms at in \<open>auto simp: store_lifecycle_response_def lifecycle_response_def dset_def dhas_def\<close>)
qed

lemma lifecycle_repeats:
  assumes "transition_conversation w t s q = Inr (a, s')"
    and ok: "valid_datetime (la_accepted_at a)" "dt_offset (la_accepted_at a) = Some 0"
    and w: "w_digest w' = w_digest w"
  shows "transition_conversation w' t' s' q = Inr (a\<lparr>la_reused := True\<rparr>, s')"
proof -
  let ?route = "''POST /api/conversations/'' @ lq_conversation_id q @ ''/'' @ lifecycle_action (lq_lifecycle q)"
  let ?P = "\<lambda>t. tk_id t = lq_conversation_id q \<and> tk_tenant_id t = lq_tenant_id q \<and> tk_customer_id t = lq_customer_id q"
  have v: "lq_lifecycle q \<in> {''active'', ''archived''}"
    using assms(1) unfolding transition_conversation_def guard_simps by blast
  obtain tk c d1 where tk: "select_first ?P (tickets (st_db s)) = Some tk"
    and ac: "accept w (st_db s) (lq_tenant_id q) (lq_principal_id q) ?route (lq_idempotency_key q)
        [(''lifecycle'', PStr (lq_lifecycle q))] [] [] None = Inr (c, d1)"
    using assms(1) v unfolding transition_conversation_def by (auto split: option.splits sum.splits)
  show ?thesis
  proof (cases "ac_reused c \<and> idm_response_snapshot (ac_record c) \<noteq> []")
    case True
    then have r: "replayed_lifecycle q (idm_response_snapshot (ac_record c)) = Inr a" "s' = s\<lparr>st_db := d1\<rparr>"
      using assms(1) v tk ac by (auto simp: transition_conversation_def split: sum.splits)
    note same = accept_reused_same [OF ac conjunct1 [OF True] w]
    have "a\<lparr>la_reused := True\<rparr> = a" using r(1) by (auto simp: replayed_lifecycle_def split: sum.splits)
    then show ?thesis using r tk True v same by (simp add: transition_conversation_def)
  next
    case False
    obtain s1 d2 where ch: "change_lifecycle w t (s\<lparr>st_db := d1\<rparr>) q tk = Inr (la_accepted_at a, s1)"
      and a: "la_conversation_id a = tk_id tk" "la_lifecycle a = lq_lifecycle q" "la_reused a = False"
      and st: "store_lifecycle_response (idm_id (ac_record c)) a (st_db s1) = Inr d2" and s': "s' = s1\<lparr>st_db := d2\<rparr>"
      using assms(1) v tk ac False by (auto simp: transition_conversation_def Let_def split: sum.splits)
    have own: "map ticket_owner (tickets (st_db s1)) = map ticket_owner (tickets d1)" "idempotency (st_db s1) = idempotency d1"
      using ch by (auto simp: change_lifecycle_def add_audit_Inr upd_ticket_def update_by_def
          split: if_splits sum.splits)
    have d1: "tickets d1 = tickets (st_db s)" by (subst accept_Inr(1) [OF ac]) simp
    from st show ?thesis
    proof (rule stored_lifecycle_response)
      fix at g
      assume at: "format_canonical_utc_timestamp (la_accepted_at a) = Inr at"
        and d2: "d2 = (st_db s1)\<lparr>idempotency := update_by idm_id (idm_id (ac_record c)) g (idempotency (st_db s1))\<rparr>"
        and g: "\<And>r. idm_tenant_id (g r) = idm_tenant_id r \<and> idm_principal_id (g r) = idm_principal_id r \<and>
           idm_route (g r) = idm_route r \<and> idm_key (g r) = idm_key r \<and> idm_request_hash (g r) = idm_request_hash r"
        and snap: "\<And>r. \<exists>x. idm_response_snapshot (g r) = [(''schema_version'', PStr ''conversation-lifecycle.v1''),
           (''conversation_id'', PStr (la_conversation_id a)), (''lifecycle'', PStr (la_lifecycle a)),
           (''accepted_at'', PStr at), (''reused'', x)]"
      have own': "map ticket_owner (tickets d2) = map ticket_owner (tickets (st_db s))" using d2 own(1) d1 by simp
      obtain tk' where tk': "tk_id tk' = tk_id tk" "select_first ?P (tickets d2) = Some tk'"
        using ticket_found_again [OF own' tk] .
      have "idempotency d2 = update_by idm_id (idm_id (ac_record c)) g (idempotency d1)" using d2 own(2) by simp
      note again = accept_again [OF ac this g w]
      obtain x where x: "idm_response_snapshot (g (ac_record c)) = [(''schema_version'', PStr ''conversation-lifecycle.v1''),
           (''conversation_id'', PStr (la_conversation_id a)), (''lifecycle'', PStr (la_lifecycle a)),
           (''accepted_at'', PStr at), (''reused'', x)]" using snap by blast
      have "tk_id tk = lq_conversation_id q" using select_first_Some [OF tk] by simp
      then have "replayed_lifecycle q (idm_response_snapshot (g (ac_record c))) = Inr (a\<lparr>la_reused := True\<rparr>)"
        using parse_of_format [OF at ok] a by (simp add: x replayed_lifecycle_def)
      with v tk'(2) again x show ?thesis by (simp add: transition_conversation_def s')
    qed
  qed
qed

interpretation withdrawals: repeatable_command "\<lambda>(w, w2). withdraw w w2"
    "\<lambda>(w, w2) (w', w2'). w_digest w' = w_digest w" "\<lambda>a. a\<lparr>wa_reused := True\<rparr>"
    "\<lambda>a. valid_datetime (wa_accepted_at a) \<and> dt_offset (wa_accepted_at a) = Some 0"
  by unfold_locales (auto simp: withdraw_repeats)

interpretation lifecycles: repeatable_command "\<lambda>(w, t). transition_conversation w t"
    "\<lambda>(w, t) (w', t'). w_digest w' = w_digest w" "\<lambda>a. a\<lparr>la_reused := True\<rparr>"
    "\<lambda>a. valid_datetime (la_accepted_at a) \<and> dt_offset (la_accepted_at a) = Some 0"
  by unfold_locales (auto simp: lifecycle_repeats)

end
