(* ===== verification/Action_Guarantees.thy ===== *)
theory Action_Guarantees
  imports Action_Effects Tool_Turns
begin

text \<open>
  The guarantees of the action executor: a stale execution has no effect, an effect is always authorised,
  executing again reuses the effect, an effect consumes exactly one version of its resource, and a quota
  stays within the catalogue.
\<close>

section \<open>Properties\<close>

lemma stale_not_succeeded [simp]: "(''succeeded'' = ''stale'') = False" "(''stale'' = ''succeeded'') = False"
  by simp_all

lemma succeeded_result_sel [simp]:
  "ar_status (succeeded_result a b c d) = ''succeeded''" "ar_reused (succeeded_result a b c d) = d"
  "ar_business_action_id (succeeded_result a b c d) = Some a"
  by (simp_all add: succeeded_result_def)

lemma stale_result_sel [simp]:
  "ar_status (stale_result a b c) = ''stale''" "ar_business_action_id (stale_result a b c) = None"
  "ar_reused (stale_result a b c) = False"
  by (simp_all add: stale_result_def)

text \<open>C7. an execution that finds its approval out of date changes no business data: no action is
  recorded, no charge, key or subscription changes, no action identifier is returned, and the approval is
  closed as stale.\<close>

theorem stale_execution_has_no_effect:
  assumes "execute_action w s l i tr = Inr (r, s')" "ar_status r = ''stale''"
  shows "same_effects s s' \<and> ar_business_action_id r = None \<and>
    (\<exists>a. approval_row (st_db s') i = Some a \<and> ap_status a = ''stale'')"
  using assms(1)
proof (cases rule: execute_outcomes)
  case (reused ap ex)
  then show ?thesis using assms(2) by simp
next
  case (stale ap reason)
  then have "lookup_by ap_id (ap_id ap) (approvals (st_db s)) = Some ap" by simp
  from mark_stale_Inr [OF stale(3) this] stale(2) show ?thesis by (auto simp: approval_row_def)
next
  case (effect ap dec rvn act act' s1)
  then show ?thesis using assms(2) by (simp add: recorded_effect_def)
qed


lemma existing_effect_snoc:
  assumes "existing_effect s ap rid v = None" "st_actions s' = st_actions s @ [act]"
    and "ba_tenant_id act = ap_tenant_id ap" "ba_action_type act = ap_action_type ap"
    and "ba_resource_id act = Some rid" "ba_resource_version act = Some v"
  shows "existing_effect s' ap rid v = Some act"
proof -
  have "find P (xs @ [x]) = Some x" if "find P xs = None" "P x" for P xs and x :: business_action
    using that by (induction xs) (auto split: if_splits)
  then show ?thesis using assms unfolding existing_effect_def select_first_def by simp
qed

text \<open>C5. execution is idempotent: once an approval has produced its effect, executing it again under
  any valid lease of the same run reports the same action as reused, and changes no business data.\<close>

theorem execute_again_reuses:
  assumes "execute_action w s l i tr = Inr (r, s1)" "ar_status r = ''succeeded''" "\<not> ar_reused r"
    and "assert_fence (w_now w') (st_db s1) l' = Inr j" "jl_run_id l' = jl_run_id l"
    and "w_digest w' = w_digest w" "\<And>x. w_digest w x \<noteq> []" "w_new_id w ''event'' \<noteq> []"
  shows "\<exists>s2. execute_action w' s1 l' i tr' = Inr (r\<lparr>ar_reused := True\<rparr>, s2) \<and> same_effects s1 s2"
  using assms(1)
proof (cases rule: execute_outcomes)
  case (reused ap ex)
  then show ?thesis using assms(3) by simp
next
  case (stale ap reason)
  then have "lookup_by ap_id (ap_id ap) (approvals (st_db s)) = Some ap" by simp
  from mark_stale_Inr(1) [OF stale(3) this] show ?thesis using assms(2) by simp
next
  case (effect ap dec rvn act act' s0)
  let ?rid = "ap_resource_id ap"
  let ?ap = "ap\<lparr>ap_status := ''executed'', ap_status_version := ap_status_version ap + 2,
    ap_consumed_at := Some (w_clock w)\<rparr>"
  have look: "lookup_by ap_id (ap_id ap) (approvals (st_db s)) = Some ap" using effect(1,2) by simp
  have "ap_status ap = ''approved''" using effect(6) by (simp add: authorised_def)
  note ce = commit_effect_Inr [OF effect(11,9) look this]
  obtain x where x: "new_action w ap rvn ?rid x = Inr act" using effect(9) unfolding recorded_effect_def by blast
  note na = new_action_Inr [OF x]
  have act': "ba_id act' = ba_id act" "ba_action_type act' = ap_action_type ap"
    "existing_effect s1 ?ap ?rid (rv_resource_version rvn) = Some act'"
    "effect_bound (w_digest w') ?ap dec rvn ?rid act'"
    using effect(12) na assms(6,7,8) existing_effect_snoc [OF effect(8,13)]
    by (auto simp: committed_def effect_bound_def falsy_ref_def existing_effect_def effect_identity_def)
  have "resource_id_of ?ap rvn = resource_id_of ap rvn"
    by (cases "get_action_spec_or_none (ap_action_type ap)") (simp_all add: resource_id_of_def)
  then have rid: "resource_id_of ?ap rvn = Inr ?rid" using effect(7) by simp
  have same: "decision_of s1 ?ap = Some dec" "revision_of s1 ?ap = Some rvn"
    "lookup_by ap_id i (approvals (st_db s1)) = Some ?ap" "decision_binds dec rvn"
    using effect(2,4,5,6) ce(6,7)
    by (auto simp: decision_of_def revision_of_def same_authority_def authorised_def)
  have r: "r = succeeded_result (ba_id act) (ap_action_type ap) ?rid False"
    using effect(9) by (simp add: recorded_effect_def)
  have "reuse_effect w' s1 ?ap dec rvn ?rid act' =
      Inr (r\<lparr>ar_reused := True\<rparr>, s1\<lparr>st_db := (if falsy_ref (ap_proposal_id ap) then st_db s1
           else stale_proposals (\<lambda>p. Some (pr_id p) = ap_proposal_id ap) (st_db s1))\<rparr>)"
    using act' by (simp add: reuse_effect_def r succeeded_result_def)
  then show ?thesis
    using same rid act'(3) effect(3) assms(4,5) by (simp add: execute_action_def)
qed

text \<open>The version of a business resource: the counter that approvals are bound to.\<close>

definition resource_version :: "store \<Rightarrow> string \<Rightarrow> string \<Rightarrow> string \<Rightarrow> int option" where
  "resource_version s action_type tenant rid =
     (if action_type = ''refund'' then
        map_option rc_version (find (\<lambda>b. (rc_billing_record_id b, rc_tenant_id b) = (rid, tenant)) (st_billing s))
      else if action_type = ''api_key_revocation'' then
        map_option km_version (find (\<lambda>k. (km_key_id k, km_tenant_id k) = (rid, tenant)) (st_keys s))
      else if action_type = ''entitlement_change'' then
        map_option sb_version (find (\<lambda>u. (sb_id u, sb_tenant_id u) = (rid, tenant)) (st_subscriptions s))
      else None)"

definition resources_keyed :: "store \<Rightarrow> bool" where
  "resources_keyed s \<longleftrightarrow> distinct (map rc_billing_record_id (st_billing s)) \<and>
     distinct (map km_id (st_keys s)) \<and> distinct (map (\<lambda>k. (km_key_id k, km_tenant_id k)) (st_keys s)) \<and>
     distinct (map sb_id (st_subscriptions s))"

text \<open>Raising the version of one row in a keyed table raises what a lookup of that row finds.\<close>

lemma find_update_version:
  assumes "distinct (map key rows)" "distinct (map uq rows)" "x \<in> set rows"
    and "\<And>r. r \<in> set rows \<Longrightarrow> key r = key x \<Longrightarrow> uq (f r) = uq r \<and> ver (f r) = ver r + (1::int)"
  shows "map_option ver (find (\<lambda>r. uq r = uq x) rows) = Some (ver x)"
    "map_option ver (find (\<lambda>r. uq r = u) (update_by key (key x) f rows)) =
      (if u = uq x then Some (ver x + 1) else map_option ver (find (\<lambda>r. uq r = u) rows))"
proof -
  have only: "r = x" if "r \<in> set rows" "key r = key x" for r
    using assms(1,3) that by (metis distinct_map inj_onD)
  let ?rows = "update_by key (key x) f rows"
  have uqs: "map uq ?rows = map uq rows" using assms(4) by (auto simp: update_by_def)
  have "find (\<lambda>r. uq r = uq x) rows = Some x"
    using assms(2,3) by (subst find_unique_iff [of uq _ _ "uq x"]) auto
  then show "map_option ver (find (\<lambda>r. uq r = uq x) rows) = Some (ver x)" by simp
  have fx: "uq (f x) = uq x" "ver (f x) = ver x + 1" using assms(3,4) by simp_all
  have "f x \<in> set ?rows" using assms(3) by (auto simp: in_update_by)
  then have new: "find (\<lambda>r. uq r = uq x) ?rows = Some (f x)"
    using assms(2) uqs fx by (subst find_unique_iff [of uq _ _ "uq x"]) auto
  have "find (\<lambda>r. uq r = u) ?rows = find (\<lambda>r. uq r = u) rows" if "u \<noteq> uq x"
  proof (rule find_eqI_unique [of uq _ _ _ u])
    fix r show "r \<in> set ?rows \<and> uq r = u \<longleftrightarrow> r \<in> set rows \<and> uq r = u"
      using that only fx(1) unfolding in_update_by by metis
  qed (use assms(2) uqs in auto)
  with new fx(2) show "map_option ver (find (\<lambda>r. uq r = u) ?rows) =
      (if u = uq x then Some (ver x + 1) else map_option ver (find (\<lambda>r. uq r = u) rows))" by auto
qed

lemma distinct_pair: "distinct (map f xs) \<Longrightarrow> distinct (map (\<lambda>x. (f x, g x)) xs)"
  by (auto simp: distinct_map inj_on_def)

lemma effect_version:
  assumes "effect_on_resource s ap rvn rid s1" "resources_keyed s"
  shows "resource_version s (ap_action_type ap) (ap_tenant_id ap) rid = Some (rv_resource_version rvn) \<and>
    resource_version s1 (ap_action_type ap) (ap_tenant_id ap) rid = Some (rv_resource_version rvn + 1) \<and>
    (\<forall>ty tenant rid'. (ty, tenant, rid') \<noteq> (ap_action_type ap, ap_tenant_id ap, rid) \<longrightarrow>
       resource_version s1 ty tenant rid' = resource_version s ty tenant rid')"
proof -
  note keyed = assms(2) [unfolded resources_keyed_def]
  from assms(1) consider
      (refund) b where "ap_action_type ap = ''refund''" "b \<in> set (st_billing s)" "rc_billing_record_id b = rid"
        "rc_tenant_id b = ap_tenant_id ap" "rc_version b = rv_resource_version rvn"
        "st_billing s1 = refund_billing (rc_billing_record_id b) (st_billing s)" "st_keys s1 = st_keys s"
        "st_subscriptions s1 = st_subscriptions s"
    | (key) k where "ap_action_type ap = ''api_key_revocation''" "k \<in> set (st_keys s)" "km_key_id k = rid"
        "km_tenant_id k = ap_tenant_id ap" "km_version k = rv_resource_version rvn"
        "st_keys s1 = update_by km_id (km_id k)
           (\<lambda>k. k\<lparr>km_status := ''revoked'', km_version := km_version k + 1\<rparr>) (st_keys s)"
        "st_billing s1 = st_billing s" "st_subscriptions s1 = st_subscriptions s"
    | (sub) u u' where "ap_action_type ap = ''entitlement_change''" "changed_entitlement s ap rvn rid u u'"
        "st_subscriptions s1 = update_by sb_id rid (\<lambda>_. u') (st_subscriptions s)"
        "st_billing s1 = st_billing s" "st_keys s1 = st_keys s"
    unfolding effect_on_resource_def by (elim disjE conjE bexE exE) blast+
  then show ?thesis
  proof cases
    case refund
    have "distinct (map (\<lambda>b. (rc_billing_record_id b, rc_tenant_id b)) (st_billing s))"
      using keyed by (simp add: distinct_pair)
    note f = find_update_version(1) [where key = rc_billing_record_id and ver = rc_version and
        f = "\<lambda>b. b\<lparr>rc_status := ''refunded'', rc_version := rc_version b + 1\<rparr>",
        OF keyed [THEN conjunct1] this refund(2), folded refund_billing_def, folded refund(6), unfolded refund(3,4,5), simplified]
      find_update_version(2) [where key = rc_billing_record_id and ver = rc_version and
        f = "\<lambda>b. b\<lparr>rc_status := ''refunded'', rc_version := rc_version b + 1\<rparr>" and u = "(p, q)" for p q,
        OF keyed [THEN conjunct1] this refund(2), folded refund_billing_def, folded refund(6), unfolded refund(3,4,5), simplified]
    show ?thesis by (simp add: resource_version_def refund(1,7,8) f)
  next
    case key
    note f = find_update_version(1) [where uq = "\<lambda>k. (km_key_id k, km_tenant_id k)"
        and ver = km_version and f = "\<lambda>k. k\<lparr>km_status := ''revoked'', km_version := km_version k + 1\<rparr>",
        OF keyed [THEN conjunct2, THEN conjunct1] keyed [THEN conjunct2, THEN conjunct2, THEN conjunct1] key(2),
        folded key(6), unfolded key(3,4,5), simplified]
      find_update_version(2) [where uq = "\<lambda>k. (km_key_id k, km_tenant_id k)"
        and ver = km_version and f = "\<lambda>k. k\<lparr>km_status := ''revoked'', km_version := km_version k + 1\<rparr>" and u = "(p, q)" for p q,
        OF keyed [THEN conjunct2, THEN conjunct1] keyed [THEN conjunct2, THEN conjunct2, THEN conjunct1] key(2),
        folded key(6), unfolded key(3,4,5), simplified]
    show ?thesis by (simp add: resource_version_def key(1,7,8) f)
  next
    case sub
    note c = sub(2) [unfolded changed_entitlement_def]
    then have u': "sb_id u' = sb_id u" "sb_tenant_id u' = sb_tenant_id u" "sb_version u' = sb_version u + 1"
      using apply_target_Inr by blast+
    from c have u: "u \<in> set (st_subscriptions s)" "sb_id u = rid" "sb_tenant_id u = ap_tenant_id ap"
      "sb_version u = rv_resource_version rvn" by simp_all
    have ds: "distinct (map (\<lambda>b. (sb_id b, sb_tenant_id b)) (st_subscriptions s))" and k: "distinct (map sb_id (st_subscriptions s))"
      using keyed by (simp_all add: distinct_pair)
    have "r = u" if "r \<in> set (st_subscriptions s)" "sb_id r = sb_id u" for r
      using u(1) k that by (metis distinct_map inj_onD)
    then have up: "(sb_id u', sb_tenant_id u') = (sb_id r, sb_tenant_id r) \<and> sb_version u' = sb_version r + 1"
      if "r \<in> set (st_subscriptions s)" "sb_id r = sb_id u" for r using that u' by auto
    note f = find_update_version(1) [where f = "\<lambda>_. u'" and ver = sb_version, OF k ds u(1) up,
        unfolded u(2,3,4), folded sub(3), simplified]
      find_update_version(2) [where f = "\<lambda>_. u'" and ver = sb_version and u = "(p, q)" for p q, OF k ds u(1) up,
        unfolded u(2,3,4), folded sub(3), simplified]
    show ?thesis by (simp add: resource_version_def sub(1,4,5) f)
  qed
qed

text \<open>C6. an effect consumes exactly one resource version: before it the approval's resource is at the
  approved version, after it at the next one, and the version of every other charge, key and subscription
  is what it was.\<close>

theorem effect_consumes_resource_version:
  assumes "execute_action w s l i tr = Inr (r, s')" "ar_status r = ''succeeded''" "\<not> ar_reused r"
    and "approval_row (st_db s) i = Some ap" "resources_keyed s"
  shows "\<exists>v. resource_version s (ap_action_type ap) (ap_tenant_id ap) (ap_resource_id ap) = Some v \<and>
    v = ap_business_version ap \<and>
    resource_version s' (ap_action_type ap) (ap_tenant_id ap) (ap_resource_id ap) = Some (v + 1) \<and>
    (\<forall>ty tenant rid. (ty, tenant, rid) \<noteq> (ap_action_type ap, ap_tenant_id ap, ap_resource_id ap) \<longrightarrow>
       resource_version s' ty tenant rid = resource_version s ty tenant rid)"
  using assms(1)
proof (cases rule: execute_outcomes)
  case (reused ap ex)
  then show ?thesis using assms(3) by simp
next
  case (stale ap reason)
  then have "lookup_by ap_id (ap_id ap) (approvals (st_db s)) = Some ap" by simp
  from mark_stale_Inr(1) [OF stale(3) this] show ?thesis using assms(2) by simp
next
  case (effect ap1 dec rvn act act' s1)
  have ap: "ap1 = ap" using effect(1) assms(4) by (simp add: approval_row_def)
  have "rv_resource_version rvn = ap_business_version ap"
    using effect(7) ap by (auto simp: resource_id_of_def split: option.splits if_splits)
  with effect_version [OF effect(14) assms(5)] ap show ?thesis by simp
qed

lemma quota_valid_bounds:
  assumes "quota_valid c target = Inr True" "apply_target target sub = Inr sub'"
  shows "\<exists>p. c = Some p \<and> sb_plan sub' = sb_plan sub \<and>
    ((pc_min_rpm p \<le> sb_rpm_limit sub' \<and> sb_rpm_limit sub' \<le> pc_max_rpm p \<and>
        sb_concurrency_limit sub' = sb_concurrency_limit sub) \<or>
     (pc_min_concurrency p \<le> sb_concurrency_limit sub' \<and> sb_concurrency_limit sub' \<le> pc_max_concurrency p \<and>
        sb_rpm_limit sub' = sb_rpm_limit sub))"
proof -
  obtain p where c: "c = Some p" using assms(1) by (cases c) (auto simp: quota_valid_def)
  have dhas: "dhas target k \<longleftrightarrow> k \<in> set (map fst target)" for k
    by (simp add: dhas_def map_of_eq_None_iff)
  note a = apply_target_Inr [OF assms(2), unfolded opt_int_def]
  consider "set (map fst target) = {''rpm_limit''}"
      "int_between (pc_min_rpm p) (dget target ''rpm_limit'') (pc_max_rpm p) = Inr True"
    | "set (map fst target) = {''concurrency_limit''}"
      "int_between (pc_min_concurrency p) (dget target ''concurrency_limit'') (pc_max_concurrency p) = Inr True"
    using assms(1) unfolding quota_valid_def c by (simp split: if_splits)
  then show ?thesis
  proof cases
    case 1
    then have "dhas target ''rpm_limit''" "\<not> dhas target ''concurrency_limit''" "\<not> dhas target ''plan''"
      by (simp_all only: dhas) simp_all
    with a 1(2) show ?thesis by (auto simp: c int_between_def split: sum.splits)
  next
    case 2
    then have "dhas target ''concurrency_limit''" "\<not> dhas target ''rpm_limit''" "\<not> dhas target ''plan''"
      by (simp_all only: dhas) simp_all
    with a 2(2) show ?thesis by (auto simp: c int_between_def split: sum.splits)
  qed
qed

text \<open>C8. a quota change stays within policy at the moment it takes effect: the new limit lies in the
  range of the newest catalogue row of the customer's plan, and the plan and the other limit are
  untouched.\<close>

theorem quota_change_within_catalog:
  assumes "execute_action w s l i tr = Inr (r, s')" "ar_status r = ''succeeded''" "\<not> ar_reused r"
    and "approval_row (st_db s) i = Some ap" "ap_action_type ap = ''entitlement_change''"
    and "revision_of s ap = Some rvn" "dget (rv_action_payload rvn) ''change_type'' = PStr ''quota_change''"
  shows "\<exists>u u' p. u \<in> set (st_subscriptions s) \<and> sb_id u = ap_resource_id ap \<and>
    st_subscriptions s' = update_by sb_id (sb_id u) (\<lambda>_. u') (st_subscriptions s) \<and>
    newest_catalog s (sb_plan u) = Some p \<and> sb_plan u' = sb_plan u \<and>
    ((pc_min_rpm p \<le> sb_rpm_limit u' \<and> sb_rpm_limit u' \<le> pc_max_rpm p \<and>
        sb_concurrency_limit u' = sb_concurrency_limit u) \<or>
     (pc_min_concurrency p \<le> sb_concurrency_limit u' \<and> sb_concurrency_limit u' \<le> pc_max_concurrency p \<and>
        sb_rpm_limit u' = sb_rpm_limit u))"
  using assms(1)
proof (cases rule: execute_outcomes)
  case (reused ap ex)
  then show ?thesis using assms(3) by simp
next
  case (stale ap reason)
  then have "lookup_by ap_id (ap_id ap) (approvals (st_db s)) = Some ap" by simp
  from mark_stale_Inr(1) [OF stale(3) this] show ?thesis using assms(2) by simp
next
  case (effect ap1 dec rvn1 act act' s1)
  have ap: "ap1 = ap" "rvn1 = rvn" using effect(1,5) assms(4,6) by (simp_all add: approval_row_def)
  have ct: "dget_default (rv_action_payload rvn) ''change_type'' (PStr []) = PStr ''quota_change''"
    using assms(7) by (auto simp: dget_def dget_default_def split: option.splits)
  from effect(14) ap assms(5) obtain u u' where c: "changed_entitlement s ap rvn (ap_resource_id ap) u u'"
    and s': "st_subscriptions s' = update_by sb_id (ap_resource_id ap) (\<lambda>_. u') (st_subscriptions s)"
    by (auto simp: effect_on_resource_def)
  from c [unfolded changed_entitlement_def ct] obtain target where
    t: "entitlement_stale_reason s u ''quota_change'' target = Inr None" "apply_target target u = Inr u'"
    and u: "u \<in> set (st_subscriptions s)" "sb_id u = ap_resource_id ap" by auto
  have "quota_valid (newest_catalog s (sb_plan u)) target = Inr True"
    using t(1) by (auto simp: entitlement_stale_reason_def split: sum.splits if_splits)
  from quota_valid_bounds [OF this t(2)] obtain p where
    "newest_catalog s (sb_plan u) = Some p \<and> sb_plan u' = sb_plan u \<and>
    ((pc_min_rpm p \<le> sb_rpm_limit u' \<and> sb_rpm_limit u' \<le> pc_max_rpm p \<and>
        sb_concurrency_limit u' = sb_concurrency_limit u) \<or>
     (pc_min_concurrency p \<le> sb_concurrency_limit u' \<and> sb_concurrency_limit u' \<le> pc_max_concurrency p \<and>
        sb_rpm_limit u' = sb_rpm_limit u))" ..
  with u s' show ?thesis by (intro exI [of _ u] exI [of _ u'] exI [of _ p]) simp
qed

section \<open>Evaluated examples\<close>

text \<open>An approved change of a rate limit from 100 to 200 requests per minute.\<close>

definition sample_target :: pydict where
  "sample_target = [(''rpm_limit'', PInt 200)]"

definition quota_payload :: pydict where
  "quota_payload = [(''subscription_id'', PStr ''sub1''), (''change_type'', PStr ''quota_change''),
     (''target'', PDict sample_target)]"

definition quota_binding :: "pydict list" where
  "quota_binding =
     [[(''tool_name'', PStr ''query_subscription''), (''status'', PStr ''ok''), (''resource_id'', PStr ''sub1''),
       (''resource_version'', PInt 3), (''observation_id'', PStr ''o1''), (''invocation_id'', PStr ''i1''),
       (''observation_content_hash'', PStr ''c1''), (''turn_group_id'', PStr ''g1'')],
      [(''tool_name'', PStr ''search_knowledge''), (''status'', PStr ''ok''), (''source_refs'', PList [PStr ''doc'']),
       (''observation_id'', PStr ''o2''), (''invocation_id'', PStr ''i2''),
       (''observation_content_hash'', PStr ''c2''), (''turn_group_id'', PStr ''g1'')]]"

definition bound_row :: "string \<Rightarrow> string \<Rightarrow> string \<Rightarrow> pydict \<Rightarrow> tool_observation" where
  "bound_row i iid c payload =
     \<lparr>obs_id = i, obs_tenant_id = ''acme'', obs_run_id = ''r1'', obs_job_id = ''j1'', obs_invocation_id = iid,
      obs_segment_id = ''s1'', obs_fencing_token = 1, obs_status = ''ok'', obs_attempt_index = 1,
      obs_content_hash = c, obs_payload = payload\<rparr>"

definition bound_invocation :: "string \<Rightarrow> string \<Rightarrow> tool_invocation" where
  "bound_invocation i tool = sample_invocation\<lparr>iv_id := i, iv_tool_name := tool, iv_lifecycle := ''terminal'',
     iv_outcome := Some ''succeeded''\<rparr>"

definition quota_proposal :: proposal_record where
  "quota_proposal =
     \<lparr>pr_id = ''p1'', pr_tenant_id = ''acme'', pr_run_id = ''r1'', pr_action_type = ''entitlement_change'',
      pr_resource_id = ''sub1'', pr_resource_version = 3, pr_status = ''bound'', pr_status_version = 2,
      pr_action_payload = quota_payload, pr_observation_binding = quota_binding,
      pr_action_hash = replicate 64 (CHR ''a''), pr_refund_original_resource_id = None,
      pr_refund_original_version = None, pr_refund_pair_hash = None\<rparr>"

definition quota_approval :: approval_request where
  "quota_approval = sample_approval\<lparr>ap_action_type := ''entitlement_change'', ap_resource_type := ''subscription_id'',
     ap_resource_id := ''sub1'', ap_status := ''approved'', ap_status_version := 2, ap_action_payload := quota_payload,
     ap_business_version := 3, ap_selected_revision_id := Some ''v1''\<rparr>"

definition decision_event :: agent_event where
  "decision_event = new_event sample_digest (\<lambda>s. s) sample_run sample_ticket None None sample_request
     ''e1'' sample_clock"

definition quota_run :: "nat \<Rightarrow> agent_run" where
  "quota_run n = sample_run\<lparr>run_active_job_id := Some ''j1'', run_active_fencing_token := Some 1,
     run_next_run_sequence := n\<rparr>"

definition quota_db :: db where
  "quota_db = empty_db\<lparr>jobs := [sample_leased 1], tickets := [sample_ticket\<lparr>tk_next_event_sequence := 1\<rparr>],
     runs := [quota_run 1],
     events := [decision_event], approvals := [quota_approval], proposals := [quota_proposal],
     turn_groups := [sample_group\<lparr>tg_status := ''closed''\<rparr>],
     invocations := [bound_invocation ''i1'' ''query_subscription'', bound_invocation ''i2'' ''search_knowledge''],
     observations :=
       [bound_row ''o1'' ''i1'' ''c1'' [(''data'', PDict [(''subscription_id'', PStr ''sub1''), (''version'', PInt 3)])],
        bound_row ''o2'' ''i2'' ''c2'' [(''source_refs'', PList [PStr ''doc''])]]\<rparr>"

definition quota_decision :: human_decision where
  "quota_decision =
     \<lparr>hd_id = ''h1'', hd_tenant_id = ''acme'', hd_approval_id = ''a1'', hd_action_revision_id = Some ''v1'',
      hd_actor_id = ''boss'', hd_decision = ''approve'', hd_reason = ''ok'', hd_action_hash = Some (replicate 64 (CHR ''a'')),
      hd_decision_hash = Some ''dh'', hd_canonical_event_id = Some ''e1'',
      hd_canonical_event_hash = Some (replicate 64 (CHR ''a'')), hd_audit_metadata = [], hd_created_at = 0\<rparr>"

definition quota_revision :: approval_action_revision where
  "quota_revision =
     \<lparr>rv_id = ''v1'', rv_tenant_id = ''acme'', rv_approval_id = ''a1'', rv_proposal_id = ''p1'',
      rv_snapshot_id = ''n1'', rv_revision_number = 0,
      rv_action_payload = quota_payload, rv_action_hash = replicate 64 (CHR ''a''), rv_resource_version = 3,
      rv_created_by_ref = ''system'', rv_revision_reason = ''initial''\<rparr>"

definition sample_subscription :: subscription where
  "sample_subscription =
     \<lparr>sb_id = ''sub1'', sb_tenant_id = ''acme'', sb_customer_id = ''c1'', sb_plan = ''pro'', sb_rpm_limit = 100,
      sb_concurrency_limit = 5, sb_version = 3\<rparr>"

definition pro_plan :: plan_catalog where
  "pro_plan = \<lparr>pc_id = ''cat1'', pc_plan = ''pro'', pc_min_rpm = 1, pc_max_rpm = 1000, pc_min_concurrency = 1,
     pc_max_concurrency = 50, pc_version = 1\<rparr>"

definition quota_store :: store where
  "quota_store =
     \<lparr>st_db = quota_db, st_actions = [], st_decisions = [quota_decision], st_revisions = [quota_revision],
      st_billing = [], st_keys = [], st_subscriptions = [sample_subscription], st_catalog = [pro_plan],
      st_memberships = [\<lparr>mb_tenant_id = ''acme'', mb_user_id = ''boss'', mb_role = ''support_approver'',
        mb_status = ''active''\<rparr>],
      st_scopes = [\<lparr>as_user_id = ''boss'', as_tenant_id = ''acme''\<rparr>],
      st_switches = [\<lparr>ks_tenant_id = ''acme'', ks_action_type = ''entitlement_change'', ks_enabled = True\<rparr>],
      st_audit = [], st_withdrawals = []\<rparr>"

lemma quota_spec:
  "\<exists>sp. get_action_spec_or_none ''entitlement_change'' = Some sp \<and> resource_field sp = Some ''subscription_id'' \<and>
     primary_read_capability sp = Some ''query_subscription''"
  by (simp add: get_action_spec_or_none_def index_by_def lookup_by_def ACTION_SPECS_def entitlement_change_spec_def
      resource_field_def primary_read_capability_def resource_obligation_def is_resource_obligation_def
      subscription_current_def)

lemma quota_fence:
  assumes "jobs d = [sample_leased 1]" "runs d = [quota_run n]" "tickets d = [sample_ticket\<lparr>tk_next_event_sequence := m\<rparr>]"
  shows "\<exists>j. assert_fence 0 d (sample_lease 1) = Inr j"
  using assms
  by (simp add: assert_fence_def lease_ticket_def quota_run_def sample_lease_def lease_of_def sample_leased_def
      select_first_def Runtime_Store.sample_defs)

lemmas quota_rows = quota_approval_def sample_approval_def quota_proposal_def quota_decision_def quota_revision_def
  sample_subscription_def pro_plan_def

lemma decision_event_fields:
  "ev_ticket_id decision_event = ''t1''" "ev_run_id decision_event = ''r1''" "ev_id decision_event = ''e1''"
  "ev_ticket_sequence decision_event = 1" "ev_run_sequence decision_event = 1"
  "ev_event_hash decision_event = replicate 64 (CHR ''a'')"
  by (simp_all add: decision_event_def new_event_def Let_def event_hash_def sample_digest_def sample_run_def
      sample_ticket_def)

lemma quota_scope: "assert_active_approver_scope quota_store ''acme'' ''boss'' = Inr ()"
  by (simp add: assert_active_approver_scope_def quota_store_def select_first_def)

lemma quota_switch: "\<exists>k. assert_mutation_enabled quota_store ''acme'' ''entitlement_change'' = Inr k"
  by (simp add: assert_mutation_enabled_def quota_store_def select_first_def)

lemma quota_hash: "action_hash sample_digest quota_payload = Inr (replicate 64 (CHR ''a''))"
  by (simp add: action_hash_def canonical_json_hash_def canonical_json_bytes_def quota_payload_def
      sample_target_def sample_digest_def)

lemma quota_resource: "resource_id_of quota_approval quota_revision = Inr ''sub1''"
  using quota_spec by (auto simp: resource_id_of_def quota_rows)

lemma quota_validates: "validate_execution_binding sample_digest quota_store quota_approval quota_revision = Inr quota_proposal"
proof -
  obtain sp where sp: "get_action_spec_or_none ''entitlement_change'' = Some sp" "resource_field sp = Some ''subscription_id''"
     "primary_read_capability sp = Some ''query_subscription''" using quota_spec by blast
  have c: "check_proposal_binding sample_digest quota_approval quota_revision quota_proposal = Inr ()"
    by (simp add: check_proposal_binding_def quota_rows quota_payload_def sample_target_def)
  have p: "proposal_of quota_store quota_approval = Some quota_proposal"
    by (simp add: proposal_of_def quota_store_def quota_db_def lookup_by_def quota_rows)
  have b: "filterE (business_item (Some ''query_subscription'') ''sub1'' 3) quota_binding = Inr [hd quota_binding]"
    by (simp add: quota_binding_def business_item_def dget_def dget_default_def py_int_def)
  have l: "filter policy_item quota_binding = [last quota_binding]"
    by (simp add: quota_binding_def policy_item_def dget_def)
  have i: "check_bound_item quota_store quota_approval (Some ''query_subscription'') (Some ''subscription_id'') ''sub1'' 3 x = Inr ()"
    if "x \<in> {hd quota_binding, last quota_binding}" for x
    using that
    by (auto simp: check_bound_item_def bound_observation_def quota_binding_def quota_store_def quota_db_def dget_def
        dget_default_def dget_field_def select_first_def bound_row_def bound_invocation_def sample_invocation_def
        sample_group_def quota_approval_def sample_approval_def py_dict_def py_int_def)
  have r: "py_str (dget_field (rv_action_payload quota_revision) (Some ''subscription_id'') (PStr [])) = ''sub1''"
    "rv_resource_version quota_revision = 3" "ap_action_type quota_approval = ''entitlement_change''"
    "pr_observation_binding quota_proposal = quota_binding"
    by (simp_all add: quota_rows quota_payload_def dget_field_def dget_default_def)
  show ?thesis by (simp add: validate_execution_binding_def p c sp r b l i)
qed

text \<open>The effect of the sample and its commit.\<close>

definition quota_action :: business_action where
  "quota_action =
     \<lparr>ba_id = ''action_1'', ba_tenant_id = ''acme'', ba_ticket_id = ''t1'', ba_customer_id = ''c1'',
      ba_action_type = ''entitlement_change'', ba_resource_id = Some ''sub1'', ba_resource_version = Some 3,
      ba_action_hash = Some (replicate 64 (CHR ''a'')), ba_approval_id = Some ''a1'', ba_human_decision_id = None,
      ba_action_revision_id = Some ''v1'', ba_decision_hash = None,
      ba_effect_identity = Some (replicate 64 (CHR ''a'')), ba_canonical_event_id = None,
      ba_canonical_event_hash = None, ba_status = ''succeeded'',
      ba_idempotency_key = ''effect:acme:entitlement_change:sub1:3'',
      ba_result = (''approval_id'', PStr ''a1'') # entitlement_result sample_subscription sample_target\<rparr>"

definition quota_changed :: store where
  "quota_changed = quota_store\<lparr>st_subscriptions := [sample_subscription\<lparr>sb_rpm_limit := 200, sb_version := 4\<rparr>],
     st_actions := [quota_action]\<rparr>"

lemma char_of_three: "char_of (51 :: nat) = CHR ''3''"
  by code_simp

lemma quota_new_action:
  "new_action sample_world quota_approval quota_revision ''sub1'' (entitlement_result sample_subscription sample_target) =
     Inr quota_action"
  by (simp add: new_action_def effect_identity_Inr quota_action_def quota_rows sample_world_def sample_digest_def
      action_idempotency_key_def show_int_def show_nat.simps digit_char_def char_of_three)

lemma quota_effect:
  "run_effect sample_world quota_store quota_approval quota_revision ''sub1'' tr =
     Inr (succeeded_result ''action_1'' ''entitlement_change'' ''sub1'' False, quota_changed)"
proof -
  have sub: "select_first (\<lambda>u. sb_tenant_id u = ap_tenant_id quota_approval \<and> sb_customer_id u = ap_customer_id quota_approval \<and>
             sb_id u = ''sub1'') (st_subscriptions quota_store) = Some sample_subscription"
    by (simp add: select_first_def quota_store_def quota_rows)
  have t: "py_dict (dget_default (rv_action_payload quota_revision) ''target'' (PDict [])) = Inr sample_target"
    "py_str (dget_default (rv_action_payload quota_revision) ''change_type'' (PStr [])) = ''quota_change''"
    by (simp_all add: quota_revision_def quota_payload_def dget_default_def py_dict_def)
  have "newest_catalog quota_store ''pro'' = Some pro_plan"
    by (simp add: newest_catalog_def quota_store_def pro_plan_def sort_desc_def)
  then have r: "entitlement_stale_reason quota_store sample_subscription ''quota_change'' sample_target = Inr None"
    by (simp add: entitlement_stale_reason_def quota_valid_def sample_target_def int_between_def dget_def py_int_def
        sample_subscription_def pro_plan_def)
  have a: "apply_target sample_target sample_subscription = Inr (sample_subscription\<lparr>sb_rpm_limit := 200, sb_version := 4\<rparr>)"
    by (simp add: apply_target_def opt_int_def sample_target_def dhas_def dget_def py_int_def sample_subscription_def)
  have i: "insert_action quota_action (quota_store\<lparr>st_subscriptions :=
      [sample_subscription\<lparr>sb_rpm_limit := 200, sb_version := 4\<rparr>]\<rparr>) = Inr quota_changed"
    by (simp add: insert_action_Inr quota_changed_def quota_store_def)
  show ?thesis
    using i by (simp add: run_effect_def change_entitlement_def sub t r a quota_new_action)
      (simp add: quota_rows quota_action_def quota_store_def update_by_def)
qed

lemma quota_append:
  assumes "runs d = [quota_run 1]" "tickets d = [sample_ticket\<lparr>tk_next_event_sequence := 1\<rparr>]" "events d = [decision_event]"
  shows "\<exists>ev d1. append_executor_event sample_world d ''r1'' (executor_event ty payload quota_decision) = Inr (ev, d1) \<and>
     jobs d1 = jobs d \<and> runs d1 = [quota_run 2] \<and>
     tickets d1 = [sample_ticket\<lparr>tk_next_event_sequence := 2\<rparr>] \<and> approvals d1 = approvals d"
  using assms
  by (simp add: append_executor_event_Inr append_event_def executor_event_def lookup_by_def head_event_def
      ticket_events_def head_conflict_def insert_row_def Let_def max_of_def decision_event_fields quota_run_def
      sample_world_def quota_decision_def sample_run_def sample_ticket_def upd_defs update_by_def new_event_def)

lemma quota_tables:
  "jobs quota_db = [sample_leased 1]" "runs quota_db = [quota_run 1]" "events quota_db = [decision_event]"
  "tickets quota_db = [sample_ticket\<lparr>tk_next_event_sequence := 1\<rparr>]" "approvals quota_db = [quota_approval]"
  by (simp_all add: quota_db_def)

lemma quota_execution:
  obtains s1 where "execute_action sample_world quota_store (sample_lease 1) ''a1'' None =
      Inr (succeeded_result ''action_1'' ''entitlement_change'' ''sub1'' False, s1)"
    "\<exists>j. assert_fence 0 (st_db s1) (sample_lease 1) = Inr j"
proof -
  obtain j where j: "assert_fence 0 quota_db (sample_lease 1) = Inr j"
    using quota_fence [of quota_db 1 1] by (auto simp: quota_db_def)
  have look: "lookup_by ap_id ''a1'' (approvals quota_db) = Some quota_approval" "ap_run_id quota_approval = Some ''r1''"
    "decision_of quota_store quota_approval = Some quota_decision"
    "revision_of quota_store quota_approval = Some quota_revision" "decision_binds quota_decision quota_revision"
    "existing_effect quota_store quota_approval ''sub1'' (rv_resource_version quota_revision) = None"
    by (simp_all add: quota_db_def quota_rows lookup_by_def decision_of_def revision_of_def quota_store_def
        select_first_def decision_binds_def existing_effect_def)
  have ap: "ap_tenant_id quota_approval = ''acme''" "hd_actor_id quota_decision = ''boss''"
    "ap_action_type quota_approval = ''entitlement_change''" "ap_status quota_approval = ''approved''"
    "ap_consumed_at quota_approval = None" "rv_action_payload quota_revision = quota_payload"
    "rv_action_hash quota_revision = replicate 64 (CHR ''a'')" "ap_id quota_approval = ''a1''"
    by (simp_all add: quota_rows)
  have st: "st_db quota_store = quota_db" "st_db quota_changed = quota_db" "st_actions quota_changed = [quota_action]"
    "w_digest sample_world = sample_digest" "w_now sample_world = 0"
    by (simp_all add: quota_store_def quota_changed_def sample_world_def)
  have res: "ar_status (succeeded_result a b c e) \<noteq> ''stale''" for a b c e by simp
  obtain k where k: "assert_mutation_enabled quota_store ''acme'' ''entitlement_change'' = Inr k"
    using quota_switch by blast
  define pl where "pl = [(''approval_id'', PStr (ap_id quota_approval)), (''human_decision_id'', PStr (hd_id quota_decision)),
                        (''decision_hash'', opt_str (hd_decision_hash quota_decision)),
                        (''business_action_id'', PStr (ba_id quota_action)),
                        (''effect_identity'', opt_str (ba_effect_identity quota_action)),
                        (''action_hash'', opt_str (ba_action_hash quota_action))]"
  obtain ev d1 where ev: "append_executor_event sample_world quota_db ''r1'' (executor_event ''runtime_action_committed'' pl quota_decision) = Inr (ev, d1)"
    and d1: "jobs d1 = [sample_leased 1]" "runs d1 = [quota_run 2]"
      "tickets d1 = [sample_ticket\<lparr>tk_next_event_sequence := 2\<rparr>]" "approvals d1 = [quota_approval]"
    using quota_append [OF quota_tables(2,4,3)] unfolding quota_tables(1,5) by blast
  have "lookup_by run_id ''r1'' (runs quota_db) = Some (quota_run 1)" "run_id (quota_run 1) = ''r1''"
    "\<not> falsy_ref (hd_decision_hash quota_decision)"
    by (simp_all add: lookup_by_def quota_db_def quota_run_def sample_run_def falsy_ref_def quota_decision_def)
  then obtain s2 where b: "bind_action_event sample_world quota_changed quota_approval quota_decision quota_action = Inr s2"
    and s2: "st_db s2 = d1"
    using ev by (auto simp: bind_action_event_def st look(2) pl_def)
  have tr: "\<exists>tr d2. transition_approval d1 quota_approval ''executed'' ''approved'' (Some (ap_status_version quota_approval)) None
      = Inr (tr, d2) \<and> jobs d2 = jobs d1 \<and> runs d2 = runs d1 \<and> tickets d2 = tickets d1"
    using d1(4) by (simp add: transition_approval_def ap lookup_by_def NEW_APPROVAL_STATUSES_def
        ACTIVE_APPROVAL_STATUSES_def TERMINAL_APPROVAL_STATUSES_def APPROVAL_TRANSITIONS_def upd_approval_def)
  then obtain tr d2 where t: "transition_approval d1 quota_approval ''executed'' ''approved'' (Some (ap_status_version quota_approval)) None
      = Inr (tr, d2)" "jobs d2 = jobs d1" "runs d2 = runs d1" "tickets d2 = tickets d1" by blast
  have l: "lookup_by ba_id ''action_1'' [quota_action] = Some quota_action"
    by (simp add: lookup_by_def quota_action_def)
  let ?d3 = "stale_proposals (\<lambda>p. pr_tenant_id p = ap_tenant_id quota_approval \<and> pr_action_type p = ap_action_type quota_approval \<and>
      pr_resource_id p = ''sub1'' \<and> pr_status p \<in> {''draft'', ''bound''}) (consume_approval (w_clock sample_world) (ap_id quota_approval) d2)"
  have c: "commit_effect sample_world quota_changed quota_approval quota_decision ''sub1''
      (succeeded_result ''action_1'' ''entitlement_change'' ''sub1'' False) =
      Inr (succeeded_result ''action_1'' ''entitlement_change'' ''sub1'' False, s2\<lparr>st_db := ?d3\<rparr>)"
    by (simp add: commit_effect_def st l b s2 t(1))
  have x: "execute_new sample_world quota_store quota_approval quota_decision quota_revision ''sub1'' tr' =
      Inr (succeeded_result ''action_1'' ''entitlement_change'' ''sub1'' False, s2\<lparr>st_db := ?d3\<rparr>)" for tr'
    by (simp add: execute_new_def ap quota_scope quota_validates st k quota_hash quota_effect res c)
  have "execute_action sample_world quota_store (sample_lease 1) ''a1'' None =
      Inr (succeeded_result ''action_1'' ''entitlement_change'' ''sub1'' False, s2\<lparr>st_db := ?d3\<rparr>)"
    by (simp add: execute_action_def st j look quota_resource x del: One_nat_def)
  moreover have "\<exists>j. assert_fence 0 ?d3 (sample_lease 1) = Inr j"
    by (rule quota_fence [of _ 2 2]) (simp_all add: consume_approval_def upd_approval_def t d1)
  ultimately show ?thesis using that [of "s2\<lparr>st_db := ?d3\<rparr>"] by simp
qed

lemma quota_keyed: "resources_keyed quota_store"
  by (simp add: resources_keyed_def quota_store_def)

lemma quota_row: "approval_row (st_db quota_store) ''a1'' = Some quota_approval"
  by (simp add: approval_row_def quota_store_def quota_db_def lookup_by_def quota_rows)


theorem execute_again_reuses_witness:
  "\<exists>s1 s2. execute_action sample_world quota_store (sample_lease 1) ''a1'' None =
      Inr (succeeded_result ''action_1'' ''entitlement_change'' ''sub1'' False, s1) \<and>
    execute_action sample_world s1 (sample_lease 1) ''a1'' None =
      Inr (succeeded_result ''action_1'' ''entitlement_change'' ''sub1'' True, s2) \<and> same_effects s1 s2"
proof -
  obtain s1 where e: "execute_action sample_world quota_store (sample_lease 1) ''a1'' None =
      Inr (succeeded_result ''action_1'' ''entitlement_change'' ''sub1'' False, s1)"
    "\<exists>j. assert_fence 0 (st_db s1) (sample_lease 1) = Inr j" by (rule quota_execution)
  then obtain j where j: "assert_fence (w_now sample_world) (st_db s1) (sample_lease 1) = Inr j"
    by (auto simp: sample_world_def)
  have "\<exists>s2. execute_action sample_world s1 (sample_lease 1) ''a1'' None =
      Inr (succeeded_result ''action_1'' ''entitlement_change'' ''sub1'' False\<lparr>ar_reused := True\<rparr>, s2) \<and> same_effects s1 s2"
    by (rule execute_again_reuses [OF e(1) _ _ j])
      (simp_all add: sample_world_def sample_digest_def del: One_nat_def)
  moreover have "succeeded_result ''action_1'' ''entitlement_change'' ''sub1'' False\<lparr>ar_reused := True\<rparr> =
      succeeded_result ''action_1'' ''entitlement_change'' ''sub1'' True"
    by (simp add: succeeded_result_def)
  ultimately show ?thesis using e(1) by auto
qed

theorem effect_consumes_resource_version_witness:
  "\<exists>s1. execute_action sample_world quota_store (sample_lease 1) ''a1'' None =
      Inr (succeeded_result ''action_1'' ''entitlement_change'' ''sub1'' False, s1) \<and>
    resource_version quota_store ''entitlement_change'' ''acme'' ''sub1'' = Some 3 \<and>
    resource_version s1 ''entitlement_change'' ''acme'' ''sub1'' = Some 4"
proof -
  obtain s1 where e: "execute_action sample_world quota_store (sample_lease 1) ''a1'' None =
      Inr (succeeded_result ''action_1'' ''entitlement_change'' ''sub1'' False, s1)" by (rule quota_execution)
  have "ap_business_version quota_approval = 3" "ap_action_type quota_approval = ''entitlement_change''"
    "ap_tenant_id quota_approval = ''acme''" "ap_resource_id quota_approval = ''sub1''"
    by (simp_all add: quota_rows)
  with effect_consumes_resource_version [OF e _ _ quota_row quota_keyed] e show ?thesis by auto
qed

theorem quota_change_within_catalog_witness:
  "\<exists>s1 u' p. execute_action sample_world quota_store (sample_lease 1) ''a1'' None =
      Inr (succeeded_result ''action_1'' ''entitlement_change'' ''sub1'' False, s1) \<and>
    st_subscriptions s1 = [u'] \<and> newest_catalog quota_store ''pro'' = Some p \<and> sb_plan u' = ''pro''"
proof -
  obtain s1 where e: "execute_action sample_world quota_store (sample_lease 1) ''a1'' None =
      Inr (succeeded_result ''action_1'' ''entitlement_change'' ''sub1'' False, s1)" by (rule quota_execution)
  have a: "ap_action_type quota_approval = ''entitlement_change''" "revision_of quota_store quota_approval = Some quota_revision"
    "dget (rv_action_payload quota_revision) ''change_type'' = PStr ''quota_change''"
    by (simp_all add: quota_rows revision_of_def quota_store_def lookup_by_def quota_payload_def dget_def)
  have s: "st_subscriptions quota_store = [sample_subscription]" by (simp add: quota_store_def)
  have "\<exists>u u' p. u \<in> set (st_subscriptions quota_store) \<and> sb_id u = ap_resource_id quota_approval \<and>
    st_subscriptions s1 = update_by sb_id (sb_id u) (\<lambda>_. u') (st_subscriptions quota_store) \<and>
    newest_catalog quota_store (sb_plan u) = Some p \<and> sb_plan u' = sb_plan u"
    using quota_change_within_catalog [OF e _ _ quota_row a] by (auto simp del: One_nat_def)
  then show ?thesis using e unfolding s by (auto simp: update_by_def sample_subscription_def)
qed

text \<open>Without an approver in scope the same approval goes stale.\<close>

theorem stale_execution_has_no_effect_witness:
  "\<exists>r s1. execute_action sample_world (quota_store\<lparr>st_scopes := []\<rparr>) (sample_lease 1) ''a1'' None = Inr (r, s1) \<and>
    ar_status r = ''stale'' \<and> st_subscriptions s1 = [sample_subscription]"
proof -
  let ?s = "quota_store\<lparr>st_scopes := []\<rparr>"
  obtain j where j: "assert_fence 0 quota_db (sample_lease 1) = Inr j"
    using quota_fence [of quota_db 1 1] by (auto simp: quota_db_def)
  have look: "lookup_by ap_id ''a1'' (approvals quota_db) = Some quota_approval" "ap_run_id quota_approval = Some ''r1''"
    "decision_of ?s quota_approval = Some quota_decision"
    "revision_of ?s quota_approval = Some quota_revision" "decision_binds quota_decision quota_revision"
    "existing_effect ?s quota_approval ''sub1'' (rv_resource_version quota_revision) = None"
    "st_db quota_store = quota_db" "w_now sample_world = 0"
    by (simp_all add: quota_db_def quota_rows lookup_by_def decision_of_def revision_of_def quota_store_def
        select_first_def decision_binds_def existing_effect_def sample_world_def)
  have scope: "assert_active_approver_scope ?s t a = Inl (RuntimeConflict ''approver_scope_invalid'')" for t a
    by (simp add: assert_active_approver_scope_def select_first_def)
  have "\<exists>tr d1. transition_approval quota_db quota_approval ''stale'' (ap_status quota_approval)
      (Some (ap_status_version quota_approval)) None = Inr (tr, d1)"
    by (simp add: transition_approval_def Let_def quota_rows quota_db_def lookup_by_def NEW_APPROVAL_STATUSES_def
        ACTIVE_APPROVAL_STATUSES_def TERMINAL_APPROVAL_STATUSES_def APPROVAL_TRANSITIONS_def)
  then obtain tr d1 where t: "transition_approval quota_db quota_approval ''stale'' (ap_status quota_approval)
      (Some (ap_status_version quota_approval)) None = Inr (tr, d1)" by blast
  let ?d2 = "stale_proposals (\<lambda>p. Some (pr_id p) = ap_proposal_id quota_approval) d1"
  have d2: "runs ?d2 = [quota_run 1]" "tickets ?d2 = [sample_ticket\<lparr>tk_next_event_sequence := 1\<rparr>]"
    "events ?d2 = [decision_event]"
    using transition_frame [OF t] by (simp_all add: quota_tables)
  have f: "\<not> falsy_ref (ap_proposal_id quota_approval)" "\<not> falsy_ref (hd_canonical_event_id quota_decision)"
    "\<not> falsy_ref (hd_canonical_event_hash quota_decision)" "run_id (quota_run 1) = ''r1''"
    by (simp_all add: falsy_ref_def quota_rows quota_run_def sample_run_def)
  have l: "lookup_by run_id ''r1'' (runs d1) = Some (quota_run 1)" using d2(1) f(4) by (simp add: lookup_by_def)
  let ?pl = "[(''approval_id'', PStr (ap_id quota_approval)), (''status'', PStr ''stale''),
    (''reason'', PStr ''action_snapshot_stale'')]"
  obtain ev d3 where ev: "append_executor_event sample_world ?d2 ''r1''
      (executor_event ''runtime_action_reconciliation'' ?pl quota_decision) = Inr (ev, d3)"
    using quota_append [OF d2] by blast
  have "\<exists>r s1. mark_stale sample_world ?s quota_approval ''sub1'' ''action_snapshot_stale'' = Inr (r, s1)"
    using ev by (simp add: mark_stale_def look(2,3,7) t f l del: One_nat_def)
  then obtain r s1 where m: "mark_stale sample_world ?s quota_approval ''sub1'' ''action_snapshot_stale'' = Inr (r, s1)" by blast
  have e: "execute_action sample_world ?s (sample_lease 1) ''a1'' None = Inr (r, s1)"
    by (simp add: execute_action_def j look quota_resource execute_new_def scope m del: One_nat_def)
  have "ar_status r = ''stale''"
    using mark_stale_Inr(1) [OF m] look(1,7) by (simp add: quota_rows)
  with stale_execution_has_no_effect [OF e] e show ?thesis
    by (auto simp: same_effects_def quota_store_def)
qed

end
