(* ===== verification/Approval_Properties.thy ===== *)
theory Approval_Properties
  imports Command_Guarantees Command_Repeats Action_Guarantees
begin

text \<open>
  The guarantees of the approval commands, with an evaluated pending approval that is approved, rejected and
  decided again.
\<close>

section \<open>Properties\<close>

text \<open>C3. an approving decision leaves exactly what the executor asks for: the approval is approved, its only
  decision is the one just made and binds the selected revision, a new job of the run is queued to resume it,
  and the decision carries the identifier and digest of the event appended for it.  Nothing of the business
  changes.\<close>

theorem approve_prepares_execution:
  assumes "decide w w2 s q = Inr (a, s')" "\<not> dc_reused a" "dq_decision q \<noteq> ''reject''"
    and "distinct (map ap_id (approvals (st_db s)))"
  shows "\<exists>ap h rvn j e. approval_row (st_db s') (dq_approval_id q) = Some ap \<and> ap_status ap = ''approved'' \<and>
    decision_of s' ap = Some h \<and> hd_actor_id h = dq_actor_id q \<and> hd_decision h = dq_decision q \<and>
    revision_of s' ap = Some rvn \<and> decision_binds h rvn \<and>
    jobs (st_db s') = jobs (st_db s) @ [j] \<and> dc_job_id a = Some (job_id j) \<and> job_kind j = ''approval_resume'' \<and>
    job_status j = ''queued'' \<and> job_approval_id j = Some (ap_id ap) \<and> Some (job_run_id j) = ap_run_id ap \<and>
    events (st_db s') = events (st_db s) @ [e] \<and> hd_canonical_event_id h = Some (ev_id e) \<and>
    hd_canonical_event_hash h = Some (ev_event_hash e) \<and> same_effects s s'"
  using assms(1,2)
proof (rule fresh_decision)
  fix ap ap1 rvn h b c d1
  assume ap: "select_first (\<lambda>x. ap_id x = dq_approval_id q \<and> ap_tenant_id x = dq_tenant_id q) (approvals (st_db s)) = Some ap"
    and v: "validate_binding (w_digest w) d1 ap = Inr b" and d: "decided w s q ap ap1 rvn h s'"
    and a: "a = new_accepted w q ap1 b" and dq: "dq_decision q \<in> {''approve'', ''edit_and_approve'', ''reject''}"
    and n: "dq_decision q \<noteq> ''reject'' \<Longrightarrow> jobs (st_db s') = jobs (st_db s) @ [resume_job w ap1 b] \<and>
       (\<exists>e. events (st_db s') = events (st_db s) @ [e] \<and> ev_event_type e = ''human_decision_accepted'' \<and>
         hd_canonical_event_id h = Some (ev_id e) \<and> hd_canonical_event_hash h = Some (ev_event_hash e))"
  have in_ap: "ap \<in> set (approvals (st_db s))" "ap_id ap = dq_approval_id q" using select_first_Some [OF ap] by auto
  obtain f where f: "approvals (st_db s') = update_by ap_id (ap_id ap) f (approvals (st_db s))"
    "f ap = ap1\<lparr>ap_status := decided_status (dq_decision q), ap_status_version := Suc (ap_status_version ap1),
        ap_decided_at := Some (instant (w_clock w))\<rparr>" "\<And>x. ap_id (f x) = ap_id x"
    using d unfolding decided_def by blast
  have row: "approval_row (st_db s') (dq_approval_id q) = Some (f ap)"
    using lookup_by_distinct [OF assms(4) in_ap(1)] in_ap(2) f(1,3) by (simp add: approval_row_def lookup_by_update_by)
  have sel: "ap_id ap1 = ap_id ap" "ap_run_id ap1 = ap_run_id ap" "ap_ticket_id ap1 = ap_ticket_id ap"
    using d by (auto simp: decided_def)
  have dec: "decision_of s' (f ap) = Some h"
    using d select_first_snoc [of "\<lambda>x. hd_approval_id x = ap_id ap" "st_decisions s" h] sel(1) f(2)
    by (auto simp: decided_def decision_of_def new_human_decision_def)
  have rev: "revision_of s' (f ap) = Some rvn" using d f(2) by (simp add: decided_def revision_of_def)
  have h: "hd_actor_id h = dq_actor_id q" "hd_decision h = dq_decision q" "decision_binds h rvn"
    using d dq assms(3) by (auto simp: decided_def new_human_decision_def decision_binds_def)
  have j: "dc_job_id a = Some (job_id (resume_job w ap1 b))" "job_kind (resume_job w ap1 b) = ''approval_resume''"
    "job_status (resume_job w ap1 b) = ''queued''" "job_approval_id (resume_job w ap1 b) = Some (ap_id (f ap))"
    "Some (job_run_id (resume_job w ap1 b)) = ap_run_id (f ap)"
    using a assms(3) f(2) validate_binding_Inr(1) [OF v] sel
    by (simp_all add: new_accepted_def resumed_job_id_def resume_job_def new_runtime_job_def)
  have st: "ap_status (f ap) = ''approved''" using f(2) assms(3) by (simp add: decided_status_def)
  have "same_effects s s'" using d by (simp add: decided_def)
  with n [OF assms(3)] row dec rev h j st show ?thesis by blast
qed

text \<open>C4. an approval that was rejected by an approver or withdrawn by its customer never has a business effect:
  whatever decisions, withdrawals, executions and legacy refunds follow, no recorded action belongs to it and
  every recorded action belongs to an approval with an approving decision.\<close>

theorem refused_approval_has_no_effect:
  assumes "consent_step\<^sup>*\<^sup>* s s'" "consent_ok s" "refused s i"
  shows "(\<forall>a \<in> set (st_actions s'). ba_approval_id a \<noteq> Some i) \<and> \<not> approves s' i"
proof -
  have ok: "consent_ok s'" by (rule consent.steps_inv [OF assms(1,2)])
  have "refused s' i" using consent.steps_keep [OF assms(1,2), of "\<lambda>s. refused s i"] assms(3) refused_step by blast
  with refused_approves [OF ok] ok show ?thesis unfolding consent_ok_def by blast
qed


text \<open>C22. on a database that returns timestamps without a time zone, a customer who withdraws a withdrawn proposal
  again under a new key is not told that it is withdrawn already: the command always raises.\<close>

theorem second_withdrawal_raises:
  assumes "select_first (\<lambda>x. ap_id x = wq_approval_id q \<and> ap_tenant_id x = wq_tenant_id q) (approvals (st_db s)) = Some ap"
    and "ap_customer_id ap = wq_customer_id q"
    and "select_first (\<lambda>t. tk_id t = ap_ticket_id ap \<and> tk_tenant_id t = wq_tenant_id q \<and> tk_customer_id t = wq_customer_id q)
       (tickets (st_db s)) = Some tk"
    and "withdrawal_of s q ap = Some x"
    and "\<forall>r \<in> set (idempotency (st_db s)). idm_key r \<noteq> wq_idempotency_key q"
    and "w_new_id w ''idem'' \<notin> idm_id ` set (idempotency (st_db s))"
  shows "withdraw w w2 s q = Inl (ValueError ''canonical_timestamp_requires_aware_datetime'')"
proof -
  have "select_first (\<lambda>r. idm_tenant_id r = t \<and> idm_principal_id r = p \<and> idm_route r = u \<and>
      idm_key r = wq_idempotency_key q) (idempotency (st_db s)) = None" for t p u
    using assms(5) by (auto simp: select_first_None)
  then obtain c d1 where "accept w (st_db s) (wq_tenant_id q) (wq_principal_id q) (withdrawal_route tk ap)
      (wq_idempotency_key q) [(''reason'', PStr (wq_reason q))] [] [] None = Inr (c, d1)" "\<not> ac_reused c"
    using assms(6) by (auto simp: accept_def Let_def insert_row_def)
  with assms(1-4) show ?thesis
    by (simp add: withdraw_def Let_def store_withdrawal_response_def withdrawal_response_def
        format_canonical_utc_timestamp_def read_timestamp_def)
qed

section \<open>Evaluated examples\<close>

definition pending_approval :: approval_request where
  "pending_approval = quota_approval\<lparr>ap_status := ''pending'', ap_status_version := 1,
     ap_action_hash := replicate 64 (CHR ''a''), ap_selected_revision_number := Some 0, ap_marker_id := Some ''k1'',
     ap_checkpoint_id := Some ''cp'', ap_canonical_checkpoint_ns := Some ''ns'', ap_canonical_checkpoint_hash := Some ''ch'',
     ap_checkpoint_version := 1, ap_expected_ticket_head_event_id := Some ''e1'', ap_expected_ticket_sequence := Some 1,
     ap_expected_ticket_event_hash := Some (replicate 64 (CHR ''a''))\<rparr>"

definition pending_run :: agent_run where
  "pending_run = sample_run\<lparr>run_status := ''interrupted'', run_canonical_checkpoint_ns := Some ''ns'',
     run_canonical_checkpoint_id := Some ''cp'', run_canonical_checkpoint_hash := Some ''ch'',
     run_canonical_checkpoint_version := 1, run_next_run_sequence := 1\<rparr>"

definition pending_marker :: checkpoint_commit_marker where
  "pending_marker = \<lparr>mk_id = ''k1'', mk_tenant_id = ''acme'', mk_job_id = ''j1'', mk_status = ''finalized'',
     mk_status_version = 2, mk_final_checkpoint_id = Some ''cp'', mk_final_checkpoint_hash = Some ''ch'',
     mk_final_checkpoint_version = Some 1\<rparr>"

definition pending_ticket :: support_ticket where
  "pending_ticket = sample_ticket\<lparr>tk_next_event_sequence := 1\<rparr>"

definition pending_db :: db where
  "pending_db = quota_db\<lparr>approvals := [pending_approval], runs := [pending_run],
     markers := [pending_marker], jobs := [], tickets := [pending_ticket]\<rparr>"

definition pending_store :: store where
  "pending_store = quota_store\<lparr>st_db := pending_db, st_decisions := []\<rparr>"

definition approve_request :: decision_request where
  "approve_request =
     \<lparr>dq_tenant_id = ''acme'', dq_approval_id = ''a1'', dq_decision = ''approve'', dq_actor_id = ''boss'',
      dq_idempotency_key = ''key1'', dq_reason = ''ok'', dq_trace_id = ''tr'', dq_approver_note = None,
      dq_edited_payload = None\<rparr>"

definition reject_request :: decision_request where
  "reject_request = approve_request\<lparr>dq_decision := ''reject''\<rparr>"

definition sample_decision :: "decision_request \<Rightarrow> bool" where
  "sample_decision q = (q \<in> {approve_request, reject_request})"

lemma sample_decision_fields:
  assumes "sample_decision q"
  shows "dq_actor_id q = ''boss''" "dq_idempotency_key q = ''key1''" "dq_approval_id q = ''a1''"
    "dq_tenant_id q = ''acme''" "dq_edited_payload q = None" "dq_decision q \<in> {''approve'', ''reject''}"
  using assms by (auto simp: sample_decision_def approve_request_def reject_request_def)

lemmas pending_rows = pending_approval_def pending_run_def pending_marker_def pending_ticket_def
  quota_approval_def sample_approval_def sample_run_def sample_ticket_def

lemma pending_tables:
  "approvals pending_db = [pending_approval]" "runs pending_db = [pending_run]" "markers pending_db = [pending_marker]"
  "jobs pending_db = []" "tickets pending_db = [pending_ticket]" "proposals pending_db = [quota_proposal]"
  "events pending_db = [decision_event]" "idempotency pending_db = []" "outbox pending_db = []"
  by (simp_all add: pending_db_def quota_db_def empty_db_def)

lemma pending_accepts:
  "\<exists>c. accept sample_world pending_db ''acme'' ''boss'' route ''key1'' payload [] [] None =
     Inr (c, pending_db\<lparr>idempotency := [ac_record c]\<rparr>) \<and> \<not> ac_reused c"
  by (simp add: accept_def pending_tables select_first_def insert_row_def Let_def)

lemma decision_event_link: "link_ok sample_digest 1 GENESIS_EVENT_HASH None decision_event"
  unfolding decision_event_def
  using new_event_link [of sample_ticket None sample_request sample_digest "\<lambda>s. s" sample_run None "''e1''" sample_clock]
  by (simp add: head_conflict_def sample_ticket_def sample_request_def)

definition pending_binding :: decision_binding where
  "pending_binding = \<lparr>db_run = pending_run, db_ticket = pending_ticket, db_proposal = quota_proposal, db_marker = pending_marker\<rparr>"

lemma pending_binds: "validate_binding sample_digest (pending_db\<lparr>idempotency := x\<rparr>) pending_approval = Inr pending_binding"
  using decision_event_link
  by (simp add: validate_binding_def Let_def pending_tables select_first_def falsy_ref_def pending_rows
      checkpoint_bound_def quota_proposal_def verify_ticket_event_chain_def ticket_events_def decision_event_fields
      frozen_head_def pending_binding_def)

lemma pending_revision:
  assumes "sample_decision q"
  shows "choose_revision sample_world (pending_store\<lparr>st_db := d\<rparr>) q pending_approval quota_proposal =
    Inr (pending_approval, quota_revision, pending_store\<lparr>st_db := d\<rparr>)"
  using sample_decision_fields [OF assms]
  by (auto simp: choose_revision_def revision_of_def pending_store_def quota_store_def pending_approval_def quota_rows
     lookup_by_def revision_bound_def edited_or_empty_def quota_payload_def sample_target_def)

lemma pending_digest:
  "decision_digest sample_digest q pending_approval quota_revision = Inr (replicate 64 (CHR ''a''))"
  by (simp add: decision_digest_def canonical_json_hash_def canonical_json_bytes_def sample_digest_def)

lemma pending_scope: "assert_active_approver_scope pending_store ''acme'' ''boss'' = Inr ()"
  by (simp add: assert_active_approver_scope_def pending_store_def quota_store_def select_first_def)

lemma pending_world:
  "w_digest sample_world = sample_digest" "w_clock sample_world = sample_clock" "ap_status_version pending_approval = 1"
  "st_decisions pending_store = []" "st_audit pending_store = []" "st_db pending_store = pending_db"
  by (simp_all add: sample_world_def pending_approval_def pending_store_def quota_store_def)

text \<open>A decision that commits is accepted.\<close>

lemma epoch_valid: "valid_datetime (of_wall_utc 0)"
  by (simp add: of_wall_utc_def ord2ymd_def month_of_day_def Let_def valid_datetime_def valid_date_def valid_time_def
      days_in_month_def is_leap_def days_before_month_def)

lemma pending_decides:
  assumes q: "sample_decision q"
    and commits: "\<And>rs. \<exists>s'. commit_decision sample_world sample_world
      (pending_store\<lparr>st_db := pending_db\<lparr>idempotency := rs\<rparr>\<rparr>) q pending_approval quota_revision pending_binding = Inr s'"
  obtains a s' where "decide sample_world sample_world pending_store q = Inr (a, s')" "\<not> dc_reused a"
    "valid_datetime (dc_accepted_at a)"
proof -
  note f = sample_decision_fields [OF q]
  obtain c where c: "accept sample_world pending_db ''acme'' ''boss'' (decision_route q) ''key1''
     (decision_payload q) [] [] None = Inr (c, pending_db\<lparr>idempotency := [ac_record c]\<rparr>)" "\<not> ac_reused c"
    using pending_accepts by blast
  obtain s3 where s3: "commit_decision sample_world sample_world (pending_store\<lparr>st_db := pending_db\<lparr>idempotency := [ac_record c]\<rparr>\<rparr>)
     q pending_approval quota_revision pending_binding = Inr s3" using commits by blast
  let ?a = "new_accepted sample_world q pending_approval pending_binding"
  have ap: "ap_tenant_id pending_approval = ''acme''" "ap_id pending_approval = ''a1''" "ap_action_type pending_approval = ''entitlement_change''"
    by (simp_all add: pending_rows)
  have pb: "db_proposal pending_binding = quota_proposal" by (simp add: pending_binding_def)
  have nd: "new_decision sample_world sample_world (pending_store\<lparr>st_db := pending_db\<lparr>idempotency := [ac_record c]\<rparr>\<rparr>)
      q pending_approval = Inr (?a, s3)"
    using s3 f(6) by (auto simp: new_decision_def pending_world pending_binds pb pending_revision [OF q] ap)
  have none: "decision_of pending_store pending_approval = None"
    by (simp add: decision_of_def pending_world select_first_def)
  have off: "dt_offset (dc_accepted_at ?a) = Some 0" by (simp add: new_accepted_def)
  have "\<exists>s'. decide sample_world sample_world pending_store q = Inr (?a, s')"
    using pending_scope c nd off f(6)
    by (auto simp: decide_def f pending_world pending_tables select_first_def ap none store_decision_response_def)
  moreover have "dc_accepted_at ?a = of_wall_utc 0" "\<not> dc_reused ?a"
    by (simp_all add: new_accepted_def read_timestamp_def replace_utc_def sample_world_def of_wall_utc_def Let_def)
  ultimately show ?thesis using that epoch_valid by metis
qed

definition resumed_db :: "idempotency_request list \<Rightarrow> db" where
  "resumed_db rs = pending_db\<lparr>idempotency := rs,
     approvals := [pending_approval\<lparr>ap_status := ''approved'', ap_status_version := 2, ap_decided_at := Some (instant sample_clock)\<rparr>],
     jobs := [resume_job sample_world pending_approval pending_binding],
     tickets := [pending_ticket\<lparr>tk_next_dispatch_sequence := 2\<rparr>]\<rparr>"

lemma pending_transition:
  "transition_approval (pending_db\<lparr>idempotency := rs\<rparr>) pending_approval ''approved'' ''pending'' (Some 1) (Some t) =
     Inr (\<lparr>previous_status = ''pending'', at_new_status = ''approved'', changed = True\<rparr>,
       pending_db\<lparr>idempotency := rs, approvals :=
         [pending_approval\<lparr>ap_status := ''approved'', ap_status_version := 2, ap_decided_at := Some t\<rparr>]\<rparr>)"
  by (simp add: transition_approval_def Let_def pending_tables lookup_by_def upd_approval_def update_by_def
      NEW_APPROVAL_STATUSES_def ACTIVE_APPROVAL_STATUSES_def TERMINAL_APPROVAL_STATUSES_def APPROVAL_TRANSITIONS_def
      pending_rows)

lemma pending_queue:
  "queue_resume sample_world (pending_db\<lparr>idempotency := rs, approvals :=
      [pending_approval\<lparr>ap_status := ''approved'', ap_status_version := 2, ap_decided_at := Some (instant sample_clock)\<rparr>]\<rparr>)
     pending_approval pending_binding = Inr (resumed_db rs)"
  by (simp add: queue_resume_def pending_tables insert_row_def upd_ticket_def update_by_def pending_binding_def
      resumed_db_def pending_ticket_def sample_ticket_def)

lemma pending_append:
  "\<exists>e d'. append_decision_event sample_world (resumed_db rs) approve_request pending_approval quota_revision h pending_binding = Inr (e, d') \<and> outbox d' = []"
  by (simp add: append_decision_event_def append_event_def Let_def resumed_db_def pending_tables pending_binding_def
     lookup_by_def head_event_def ticket_events_def decision_event_fields head_conflict_def max_of_def insert_row_def
     decision_event_request_def sample_world_def pending_rows upd_defs new_event_fields)

lemma approve_commits:
  "\<exists>s'. commit_decision sample_world sample_world (pending_store\<lparr>st_db := pending_db\<lparr>idempotency := rs\<rparr>\<rparr>)
     approve_request pending_approval quota_revision pending_binding = Inr s'"
proof -
  obtain e d' where e: "append_decision_event sample_world (resumed_db rs) approve_request pending_approval quota_revision
      (replicate 64 (CHR ''a'')) pending_binding = Inr (e, d')" "outbox d' = []" using pending_append by blast
  have q: "dq_decision approve_request = ''approve''" by (simp add: approve_request_def)
  show ?thesis
    by (simp add: commit_decision_def decided_status_def q pending_world pending_transition pending_digest pending_queue e
        insert_decision_def insert_row_def announce_resume_def add_audit_def del: One_nat_def)
qed

definition rejected_db :: "idempotency_request list \<Rightarrow> db" where
  "rejected_db rs = pending_db\<lparr>idempotency := rs, approvals := [pending_approval\<lparr>ap_status := ''rejected'',
     ap_status_version := 2, ap_decided_at := Some (instant sample_clock)\<rparr>]\<rparr>"

lemma rejected_transition:
  "\<exists>tr. transition_approval (pending_db\<lparr>idempotency := rs\<rparr>) pending_approval ''rejected'' ''pending'' (Some 1)
     (Some (instant sample_clock)) = Inr (tr, rejected_db rs)"
  by (simp add: transition_approval_def Let_def pending_tables lookup_by_def upd_approval_def update_by_def
      NEW_APPROVAL_STATUSES_def ACTIVE_APPROVAL_STATUSES_def TERMINAL_APPROVAL_STATUSES_def APPROVAL_TRANSITIONS_def
      pending_rows rejected_db_def)

lemma rejected_append:
  "\<exists>e d'. append_decision_event sample_world (rejected_db rs) reject_request pending_approval quota_revision h pending_binding =
     Inr (e, d') \<and> messages d' = [] \<and> turns d' = [] \<and> (\<exists>tk. tickets d' = [tk] \<and> tk_id tk = ''t1'' \<and>
       tk_lifecycle tk = ''active'' \<and> tk_automation_mode tk = ''agent'')"
  by (simp add: append_decision_event_def append_event_def Let_def rejected_db_def pending_tables pending_binding_def
     lookup_by_def head_event_def ticket_events_def decision_event_fields head_conflict_def max_of_def insert_row_def
     decision_event_request_def sample_world_def pending_rows upd_defs update_by_def new_event_fields)
    (simp add: pending_db_def quota_db_def empty_db_def)

lemma advance_sel [simp]:
  "tk_lifecycle (advance_conversation_activity t tk) = tk_lifecycle tk"
  "tk_automation_mode (advance_conversation_activity t tk) = tk_automation_mode tk"
  "tk_id (advance_conversation_activity t tk) = tk_id tk"
  by (simp_all add: advance_conversation_activity_def split: option.split)

lemma rejected_converges:
  assumes "messages d = []" "turns d = []" "tickets d = [tk]" "tk_id tk = ''t1''" "tk_lifecycle tk = ''active''"
    "tk_automation_mode tk = ''agent''"
  shows "\<exists>d'. converge_rejected_decision sample_world sample_world d pending_approval pending_binding tr = Inr d'"
  using assms
  by (simp add: converge_rejected_decision_def Let_def close_rejected_def finish_run_and_turn_def stale_proposals_def
      publish_update_def insert_row_def select_first_def upd_defs update_by_def pending_binding_def pending_ticket_def
      sample_ticket_def pending_run_def sample_run_def falsy_ref_def next_turn_def lookup_by_def
      activate_next_turn_and_converge_ticket_def activate_next_turn_def accepted_turn_def split: prod.split)

lemma reject_commits:
  "\<exists>s'. commit_decision sample_world sample_world (pending_store\<lparr>st_db := pending_db\<lparr>idempotency := rs\<rparr>\<rparr>)
     reject_request pending_approval quota_revision pending_binding = Inr s'"
proof -
  obtain e d' tk where e: "append_decision_event sample_world (rejected_db rs) reject_request pending_approval quota_revision
      (replicate 64 (CHR ''a'')) pending_binding = Inr (e, d')" and tk: "messages d' = []" "turns d' = []" "tickets d' = [tk]"
      "tk_id tk = ''t1''" "tk_lifecycle tk = ''active''" "tk_automation_mode tk = ''agent''"
    using rejected_append by blast
  obtain tr where tr: "transition_approval (pending_db\<lparr>idempotency := rs\<rparr>) pending_approval ''rejected'' ''pending''
      (Some 1) (Some (instant sample_clock)) = Inr (tr, rejected_db rs)" using rejected_transition by blast
  obtain d2 where d2: "converge_rejected_decision sample_world sample_world d' pending_approval pending_binding
      (dq_trace_id reject_request) = Inr d2" using rejected_converges [OF tk] by blast
  have q: "dq_decision reject_request = ''reject''" by (simp add: reject_request_def)
  show ?thesis
    by (simp add: commit_decision_def decided_status_def q pending_world tr pending_digest e d2
        insert_decision_def insert_row_def add_audit_def del: One_nat_def)
qed

lemma approved_once:
  obtains a s' where "decide sample_world sample_world pending_store approve_request = Inr (a, s')" "\<not> dc_reused a"
    "valid_datetime (dc_accepted_at a)"
  using pending_decides [of approve_request] approve_commits unfolding sample_decision_def by blast

lemma rejected_once:
  obtains a s' where "decide sample_world sample_world pending_store reject_request = Inr (a, s')" "\<not> dc_reused a"
    "valid_datetime (dc_accepted_at a)"
  using pending_decides [of reject_request] reject_commits unfolding sample_decision_def by blast

theorem approve_prepares_execution_witness:
  "\<exists>a s' ap h. decide sample_world sample_world pending_store approve_request = Inr (a, s') \<and>
     approval_row (st_db s') ''a1'' = Some ap \<and> ap_status ap = ''approved'' \<and> decision_of s' ap = Some h \<and>
     hd_actor_id h = ''boss''"
proof -
  obtain a s' where d: "decide sample_world sample_world pending_store approve_request = Inr (a, s')" "\<not> dc_reused a"
    by (rule approved_once)
  have "dq_decision approve_request \<noteq> ''reject''" "distinct (map ap_id (approvals (st_db pending_store)))"
    by (simp_all add: approve_request_def pending_world pending_tables)
  from approve_prepares_execution [OF d this] d(1) show ?thesis by (auto simp: approve_request_def)
qed

definition later_world :: world where
  "later_world = sample_world\<lparr>w_now := 3000000, w_new_id := (\<lambda>k. k @ ''2'')\<rparr>"


lemma pending_consent: "consent_ok pending_store"
  by (simp add: consent_ok_def pending_store_def quota_store_def)

theorem refused_approval_has_no_effect_witness:
  "\<exists>a s' s''. decide sample_world sample_world pending_store reject_request = Inr (a, s') \<and>
     decide sample_world sample_world s' reject_request = Inr (a\<lparr>dc_reused := True\<rparr>, s'') \<and>
     (\<forall>x \<in> set (st_actions s''). ba_approval_id x \<noteq> Some ''a1'') \<and> \<not> approves s'' ''a1''"
proof -
  obtain a s' where d: "decide sample_world sample_world pending_store reject_request = Inr (a, s')" "\<not> dc_reused a"
    "valid_datetime (dc_accepted_at a)" by (rule rejected_once)
  have again: "decide sample_world sample_world s' reject_request = Inr (a\<lparr>dc_reused := True\<rparr>, s')"
    by (rule decide_repeats [OF d(1,3) refl])
  have ok: "consent_ok s'" by (rule consent_step_ok [OF consent_step.decision [OF d(1)] pending_consent])
  have "refused s' ''a1''"
    using d(1,2)
  proof (rule fresh_decision)
    fix ap ap1 rvn h
    assume "select_first (\<lambda>x. ap_id x = dq_approval_id reject_request \<and> ap_tenant_id x = dq_tenant_id reject_request)
        (approvals (st_db pending_store)) = Some ap" and "decided sample_world pending_store reject_request ap ap1 rvn h s'"
    then show ?thesis
      by (auto simp: refused_def decided_def new_human_decision_def reject_request_def approve_request_def
          dest!: select_first_Some)
  qed
  moreover have "consent_step\<^sup>*\<^sup>* s' s'" using consent_step.decision [OF again] by blast
  ultimately show ?thesis using refused_approval_has_no_effect [OF _ ok] d(1) again by blast
qed

definition withdrawn_store :: store where
  "withdrawn_store = pending_store\<lparr>st_withdrawals := [\<lparr>pw_id = ''wd1'', pw_tenant_id = ''acme'', pw_ticket_id = ''t1'',
     pw_customer_id = ''c1'', pw_approval_id = ''a1'', pw_proposal_id = ''p1'', pw_actor_id = ''u'', pw_reason = ''no'',
     pw_idempotency_key = ''k0'', pw_created_at = 0\<rparr>]\<rparr>"

definition withdraw_again :: withdrawal_request where
  "withdraw_again = \<lparr>wq_tenant_id = ''acme'', wq_customer_id = ''c1'', wq_principal_id = ''u'', wq_approval_id = ''a1'',
     wq_idempotency_key = ''k2'', wq_reason = ''no'', wq_trace_id = ''tr''\<rparr>"

theorem second_withdrawal_raises_witness:
  "withdraw sample_world sample_world withdrawn_store withdraw_again =
     Inl (ValueError ''canonical_timestamp_requires_aware_datetime'')"
  by (rule second_withdrawal_raises [where ap = pending_approval and tk = pending_ticket and x = "hd (st_withdrawals withdrawn_store)"])
    (simp_all add: withdrawn_store_def withdraw_again_def pending_world pending_tables select_first_def withdrawal_of_def
      pending_rows)

end
