(* ===== verification/Spec2Isabelle.thy ===== *)
theory Spec2Isabelle
  imports Refund_Policy Action_Specs Obligations Publication_Policy Failure_Convergence Capability_Effects
    Delivery_Guarantees Approval_Properties
begin

text \<open>
  SupportGuard is a customer-support runtime: a ticket is a queue of customer turns; a worker leases a
  durable job for the current turn, lets a language model plan over read-only tools, and turns a
  high-risk request (refund, API key revocation, entitlement change) into a proposal that a human must
  approve before a second job executes it as a business effect.  This library models the deterministic
  Python core under \<^verbatim>\<open>src/backend/src/supportguard/\<close> that makes this safe and proves what each part promises.

  \<^bold>\<open>Parts, theories and sources.\<close>

  \<^item> \<open>SG_Prelude\<close> holds the collections of rewrite rules, the lemmas on lists, options and keyed rows, the
    error-passing fold \<open>foldE\<close> and three interfaces as locales: \<open>fenced_operation\<close> (an operation that fails
    whenever its lease is refused), \<open>budget_counter\<close> (a counter with a limit) and \<open>invariant_steps\<close> (a step
    relation with an invariant).  A fourth, \<open>repeatable_command\<close>, stands in \<open>Command_Repeats\<close>.  Every locale is
    interpreted on the operations of the model.
  \<^item> \<open>Py_Time\<close>, \<open>Py_Values\<close>, \<open>Canonical_Json\<close>: \<^verbatim>\<open>contracts/timestamps.py\<close>, \<^verbatim>\<open>contracts/canonical_json.py\<close> and the
    Python values, comparisons, truth tests and JSON dumps they rest on.  Formatting and parsing a canonical
    timestamp is a round trip.
  \<^item> \<open>Refund_Policy\<close>, \<open>Approval_Edits\<close>, \<open>Action_Specs\<close>, \<open>Obligations\<close>, \<open>Publication_Policy\<close>: the pure policies
    \<^verbatim>\<open>services/refund_policy.py\<close>, \<^verbatim>\<open>services/approval_edits.py\<close>, \<^verbatim>\<open>actions/service.py\<close> with
    \<^verbatim>\<open>contracts/action_preconditions.py\<close>, the evidence ledger of an action, and the publication policy.  Shown:
    eligibility and every raise of a refund evaluation, that the locking evaluation at execution time agrees
    with the one at proposal time, that an approver's edit and the check of a revision agree, consistency of
    the registry, that a candidate is assembled from fresh and scoped observations only, that unsafe decisions
    are inert, and the exact condition for asking a human.
  \<^item> \<open>Runtime_Store\<close>: the rows of \<^verbatim>\<open>db/entities/\<close> as records and the database of the runtime as the record \<open>db\<close>
    of tables (lists of rows in insertion order), the error values, and \<open>world\<close>, the values a transaction draws
    from outside: clock, new identifiers and the digest function.
  \<^item> \<open>Event_Chain\<close>, \<open>Turn_Activation\<close>, \<open>Approval_Lifecycle\<close>: \<^verbatim>\<open>agent/persistence.py\<close> with the hash-chained event
    log, \<^verbatim>\<open>services/turn_activation.py\<close> and \<^verbatim>\<open>services/approval_lifecycle.py\<close>.  Shown: an append extends a
    verifying chain and leaves other tickets alone, equal heads mean equal logs, the life of an approval has at
    most two transitions, a second and different transition conflicts, convergence of a ticket is a fixpoint.
  \<^item> \<open>Runtime_Jobs\<close>, \<open>Job_Fencing\<close>, \<open>Failure_Convergence\<close>: \<^verbatim>\<open>services/runtime_jobs.py\<close>.  Shown over any interleaving of
    the queue operations: one valid lease per ticket, no lease comes back after it was settled or superseded,
    claims follow the lane order, retries are bounded, acceptance is idempotent, and a dead job leaves nothing
    open.
  \<^item> \<open>Delivery\<close>, \<open>Delivery_Guarantees\<close>: \<^verbatim>\<open>runtime/delivery.py\<close> with \<^verbatim>\<open>contracts/queue.py\<close> (the dispatcher that publishes
    the outbox, the worker's acceptance and settlement of a delivery) and the reconciler of
    \<^verbatim>\<open>services/runtime_maintenance.py\<close>.  They are steps of the relation of \<open>Job_Fencing\<close>, so its theorems hold with
    dispatchers, workers and reconcilers interleaved.  Shown: deliveries of a job are bounded, redelivery ends, and
    a finished delivery gives its lease up.
  \<^item> \<open>Attempt_Ledger\<close>, \<open>Tool_Ledger\<close>, \<open>Tool_Turns\<close>, \<open>Tool_Capabilities\<close>, \<open>Capability_Ledger\<close>, \<open>Capability_Effects\<close>:
    \<^verbatim>\<open>services/attempts.py\<close>, \<^verbatim>\<open>services/tool_ledger.py\<close>, \<^verbatim>\<open>services/capability_ledger.py\<close> and
    \<^verbatim>\<open>contracts/tool_capabilities.py\<close>.  Shown: budgets hold over any interleaving, a closed turn is complete, an
    observation is final and is replayed after a takeover, an effect is reserved once, its recorded outcome is
    final, and an effect whose worker died always converges.
  \<^item> \<open>Business_Store\<close>, \<open>Action_Executor\<close>, \<open>Action_Effects\<close>, \<open>Action_Guarantees\<close>, \<open>Legacy_Refund\<close>:
    \<^verbatim>\<open>services/actions.py\<close> with \<^verbatim>\<open>services/approver_scope.py\<close> and \<^verbatim>\<open>services/kill_switches.py\<close> over the business
    tables; the record \<open>store\<close> is \<open>db\<close> with these tables.  Shown: an effect is authorised, consumes one version
    of its resource, is reused when executed again, never happens for a stale approval, stays within the
    catalogue, and no charge is refunded twice by any mix of the two entries.
  \<^item> \<open>Approval_Commands\<close>, \<open>Customer_Commands\<close>, \<open>Approval_Consent\<close>, \<open>Command_Guarantees\<close>, \<open>Command_Repeats\<close>,
    \<open>Approval_Properties\<close>: \<^verbatim>\<open>services/approval_commands.py\<close>, \<^verbatim>\<open>services/proposal_withdrawals.py\<close> and
    \<^verbatim>\<open>services/conversation_lifecycle.py\<close>, the commands of approvers and customers.  Shown: an approval prepares its
    execution, a refused or withdrawn proposal never has an effect, a repeated command answers what the first one
    stored, and a second withdrawal raises.

  \<^bold>\<open>Conventions.\<close>  A transaction is a function from the state to \<open>error + result \<times> state\<close>; an exception is an \<open>Inl\<close>
  and rolls everything back, so the state after it is the state before.  Interleavings of transactions are
  inductive step relations; row locks and serialisation are what makes a transaction one step.  Where the code
  branches on the dialect, the branch for databases other than PostgreSQL is modelled, which holds the logic
  itself; the PostgreSQL branch calls functions written in SQL.  Of the database's constraints the primary keys
  and the unique constraints a definition names are modelled.  Python integers are \<open>int\<close> or \<open>nat\<close>, strings are
  UTF-8 byte strings, instants are microseconds.  All functions are total by structural recursion or with a
  termination proof; no fuel and no bounds are used.

  \<^bold>\<open>Parameters.\<close>  Code outside the repository or outside the model is an argument: the digest \<open>H\<close> (SHA-256), the
  free-text redaction, the runtime provenance, clocks and new identifiers (\<open>world\<close>; a transaction that draws
  identifiers for a second time takes a second world), the answers of Redis (the entry id of an XADD, whether an
  entry still exists), the JSON schemas Pydantic derives, and the codec of an
  observation.  Properties that need something of them say so as a hypothesis and have a witness with a concrete
  function.

  \<^bold>\<open>Not modelled.\<close>  The HTTP API and its projections, the frontend and the MCP servers (request handling and
  shaping of rows), the SQL functions of the migrations (another language), the agent graph, its model providers
  and the segments and finalizer that drive it (checkpoints of a graph library around a language model; their
  deterministic policies are modelled where they are functions of their own), reading, claiming and trimming the
  Redis stream and the retention side of the maintenance service,
  retrieval (floating-point ranking and SQL search), extraction of actions and redaction by regular expressions,
  the read tools over business rows, memory, observability and the evaluation harness.
\<close>

end
